(* ===== verification/GoPrelude.thy ===== *)
theory GoPrelude
  imports Main "HOL-Library.Word" "HOL-Library.Sublist"
begin

text \<open>
  What every other theory of the development shares: the parts of Go and of its standard
  library that the controllers use (errors, panics, nil maps, nil pointers, fixed-width
  integers, a few string functions), the program type in which stateful Go code is
  written, and a weakest-precondition calculus for it whose rules are simplification
  equations collected in \<open>wp_simps\<close>.

  A Go function that returns \<open>(T, error)\<close> and changes state is a \<open>('s, 'a) prog\<close>: it takes
  the state and returns an \<open>outcome\<close> and the state it leaves, also when it fails. A run-time
  panic is an outcome of its own, because no \<open>if err != nil\<close> of the caller sees it.
\<close>

named_theorems wp_simps "execution of programs, one equation per construct"
named_theorems run_simps "one step of a program on a given state"
named_theorems go_simps "Go maps and strings"

subsection \<open>Errors\<close>

text \<open>
  The API machinery's errors carry a machine-readable reason; other errors (built by
  \<open>fmt.Errorf\<close>) have only a message. \<open>Error()\<close> is the message in both cases.
\<close>

datatype status_reason =
    StatusReasonUnknown
  | StatusReasonNotFound
  | StatusReasonAlreadyExists
  | StatusReasonConflict
  | StatusReasonBadRequest
  | StatusReasonOther string

datatype error = StatusError status_reason string | PlainError string

fun Error :: "error \<Rightarrow> string" where
  "Error (StatusError r msg) = msg"
| "Error (PlainError msg) = msg"

fun ReasonForError :: "error \<Rightarrow> status_reason" where
  "ReasonForError (StatusError r msg) = r"
| "ReasonForError (PlainError msg) = StatusReasonUnknown"

definition IsNotFound :: "error \<Rightarrow> bool" where
  "IsNotFound e \<longleftrightarrow> ReasonForError e = StatusReasonNotFound"

lemma IsNotFound_simps [simp]:
  "IsNotFound (StatusError r msg) \<longleftrightarrow> r = StatusReasonNotFound"
  "\<not> IsNotFound (PlainError msg)"
  by (simp_all add: IsNotFound_def)

subsection \<open>Outcomes and programs\<close>

datatype panic = NilMapWrite | NilDereference | IndexOutOfRange

datatype 'a outcome = Ok 'a | Err error | Panic panic

type_synonym ('s, 'a) prog = "'s \<Rightarrow> 'a outcome \<times> 's"

definition retP :: "'a \<Rightarrow> ('s, 'a) prog" where
  "retP x = (\<lambda>s. (Ok x, s))"

definition errP :: "error \<Rightarrow> ('s, 'a) prog" where
  "errP e = (\<lambda>s. (Err e, s))"

text \<open>A pure computation inside a program.\<close>

definition liftP :: "'a outcome \<Rightarrow> ('s, 'a) prog" where
  "liftP r = (\<lambda>s. (r, s))"

definition bindP :: "('s, 'a) prog \<Rightarrow> ('a \<Rightarrow> ('s, 'b) prog) \<Rightarrow> ('s, 'b) prog" where
  "bindP m f = (\<lambda>s. case m s of
      (Ok x, s') \<Rightarrow> f x s'
    | (Err e, s') \<Rightarrow> (Err e, s')
    | (Panic p, s') \<Rightarrow> (Panic p, s'))"

definition thenP :: "('s, 'a) prog \<Rightarrow> ('s, 'b) prog \<Rightarrow> ('s, 'b) prog" where
  "thenP m n = bindP m (\<lambda>_. n)"

definition getsP :: "('s \<Rightarrow> 'a) \<Rightarrow> ('s, 'a) prog" where
  "getsP f = (\<lambda>s. (Ok (f s), s))"

definition modP :: "('s \<Rightarrow> 's) \<Rightarrow> ('s, unit) prog" where
  "modP f = (\<lambda>s. (Ok (), f s))"

definition whenP :: "bool \<Rightarrow> ('s, unit) prog \<Rightarrow> ('s, unit) prog" where
  "whenP b m = (if b then m else retP ())"

text \<open>\<open>x, err := m()\<close> with the error inspected by the caller; a panic still escapes.\<close>

definition tryP :: "('s, 'a) prog \<Rightarrow> ('s, error + 'a) prog" where
  "tryP m = (\<lambda>s. case m s of
      (Ok x, s') \<Rightarrow> (Ok (Inr x), s')
    | (Err e, s') \<Rightarrow> (Ok (Inl e), s')
    | (Panic p, s') \<Rightarrow> (Panic p, s'))"

text \<open>The same constructs as equations on a given state, for running a program.\<close>

lemma run_prog [run_simps]:
  "retP x s = (Ok x, s)"
  "errP e s = (Err e, s)"
  "liftP r s = (r, s)"
  "getsP f s = (Ok (f s), s)"
  "modP f s = (Ok (), f s)"
  "bindP m g s = (case m s of (Ok x, s') \<Rightarrow> g x s' | (Err e, s') \<Rightarrow> (Err e, s')
     | (Panic p, s') \<Rightarrow> (Panic p, s'))"
  "thenP m n s = (case m s of (Ok x, s') \<Rightarrow> n s' | (Err e, s') \<Rightarrow> (Err e, s')
     | (Panic p, s') \<Rightarrow> (Panic p, s'))"
  "tryP m s = (case m s of (Ok x, s') \<Rightarrow> (Ok (Inr x), s') | (Err e, s') \<Rightarrow> (Ok (Inl e), s')
     | (Panic p, s') \<Rightarrow> (Panic p, s'))"
  by (simp_all add: retP_def errP_def liftP_def getsP_def modP_def bindP_def thenP_def tryP_def
      split: prod.splits outcome.splits)

lemma run_control [run_simps]:
  "(if b then m else n) s = (if b then m s else n s)"
  "(let x = t in h x) s = h t s"
  by simp_all

text \<open>
  Sequencing of pure fallible code, and the two lookups of Go that can panic: through a
  pointer and by index.
\<close>

fun bindO :: "'a outcome \<Rightarrow> ('a \<Rightarrow> 'b outcome) \<Rightarrow> 'b outcome" where
  "bindO (Ok x) f = f x"
| "bindO (Err e) f = Err e"
| "bindO (Panic p) f = Panic p"

fun deref :: "'a option \<Rightarrow> 'a outcome" where
  "deref None = Panic NilDereference"
| "deref (Some x) = Ok x"

definition index :: "'a list \<Rightarrow> nat \<Rightarrow> 'a outcome" where
  "index xs i = (if i < length xs then Ok (xs ! i) else Panic IndexOutOfRange)"

lemma bindO_eq_Ok [simp]: "bindO m f = Ok y \<longleftrightarrow> (\<exists>x. m = Ok x \<and> f x = Ok y)"
  by (cases m) auto

lemma bindO_assoc: "bindO (bindO m f) g = bindO m (\<lambda>x. bindO (f x) g)"
  by (cases m) auto

lemma deref_eq_Ok [simp]: "deref p = Ok x \<longleftrightarrow> p = Some x"
  by (cases p) auto

lemma index_Ok [simp]: "i < length xs \<Longrightarrow> index xs i = Ok (xs ! i)"
  by (simp add: index_def)

subsection \<open>Weakest preconditions\<close>

text \<open>
  \<open>wp m Q s\<close>: started in \<open>s\<close>, the program \<open>m\<close> ends with an outcome and a state that
  satisfy \<open>Q\<close>. Programs are total, so there is nothing to say about termination.
\<close>

definition wp :: "('s, 'a) prog \<Rightarrow> ('a outcome \<Rightarrow> 's \<Rightarrow> bool) \<Rightarrow> 's \<Rightarrow> bool" where
  "wp m Q s = (case m s of (r, s') \<Rightarrow> Q r s')"

lemma wp_ret [wp_simps]: "wp (retP x) Q s = Q (Ok x) s"
  by (simp add: wp_def retP_def)

lemma wp_err [wp_simps]: "wp (errP e) Q s = Q (Err e) s"
  by (simp add: wp_def errP_def)

lemma wp_lift [wp_simps]: "wp (liftP r) Q s = Q r s"
  by (simp add: wp_def liftP_def)

lemma wp_gets [wp_simps]: "wp (getsP f) Q s = Q (Ok (f s)) s"
  by (simp add: wp_def getsP_def)

lemma wp_mod [wp_simps]: "wp (modP f) Q s = Q (Ok ()) (f s)"
  by (simp add: wp_def modP_def)

text \<open>What follows a statement, by the way the statement ended.\<close>

fun continue :: "('a \<Rightarrow> 's \<Rightarrow> bool) \<Rightarrow> ('b outcome \<Rightarrow> 's \<Rightarrow> bool) \<Rightarrow> 'a outcome \<Rightarrow> 's \<Rightarrow> bool" where
  "continue k Q (Ok x) s = k x s"
| "continue k Q (Err e) s = Q (Err e) s"
| "continue k Q (Panic p) s = Q (Panic p) s"

lemma wp_bind [wp_simps]: "wp (bindP m f) Q s = wp m (continue (\<lambda>x. wp (f x) Q) Q) s"
  by (auto simp: wp_def bindP_def split: prod.splits outcome.splits)

lemma wp_then [wp_simps]: "wp (thenP m n) Q s = wp m (continue (\<lambda>_. wp n Q) Q) s"
  by (simp add: thenP_def wp_bind)

lemma wp_if [wp_simps]:
  "wp (if b then m else n) Q s = (if b then wp m Q s else wp n Q s)"
  by simp

lemma wp_when [wp_simps]: "wp (whenP b m) Q s = (if b then wp m Q s else Q (Ok ()) s)"
  by (simp add: whenP_def wp_ret)

lemma wp_Let [wp_simps]: "wp (let x = t in m x) Q s = wp (m t) Q s"
  by simp

lemma wp_try [wp_simps]:
  "wp (tryP m) Q s = wp m (\<lambda>r s'. case r of
     Ok x \<Rightarrow> Q (Ok (Inr x)) s' | Err e \<Rightarrow> Q (Ok (Inl e)) s' | Panic p \<Rightarrow> Q (Panic p) s') s"
  by (auto simp: wp_def tryP_def split: prod.splits outcome.splits)

lemma wp_case_sum [wp_simps]:
  "wp (case x of Inl a \<Rightarrow> m a | Inr b \<Rightarrow> n b) Q s
     = (case x of Inl a \<Rightarrow> wp (m a) Q s | Inr b \<Rightarrow> wp (n b) Q s)"
  by (simp split: sum.splits)

lemma wp_case_option [wp_simps]:
  "wp (case x of None \<Rightarrow> m | Some b \<Rightarrow> n b) Q s
     = (case x of None \<Rightarrow> wp m Q s | Some b \<Rightarrow> wp (n b) Q s)"
  by (simp split: option.splits)

lemma wp_case_prod [wp_simps]:
  "wp (case x of (a, b) \<Rightarrow> m a b) Q s = (case x of (a, b) \<Rightarrow> wp (m a b) Q s)"
  by (simp split: prod.splits)

text \<open>The rules that compose facts about the parts of a program.\<close>

lemma wp_mono: "wp m Q s \<Longrightarrow> (\<And>r s'. Q r s' \<Longrightarrow> Q' r s') \<Longrightarrow> wp m Q' s"
  by (auto simp: wp_def split: prod.splits)

lemma wp_conj: "wp m Q s \<Longrightarrow> wp m Q' s \<Longrightarrow> wp m (\<lambda>r s'. Q r s' \<and> Q' r s') s"
  by (auto simp: wp_def split: prod.splits)

lemma wpD: "wp m Q s \<Longrightarrow> m s = (r, s') \<Longrightarrow> Q r s'"
  by (simp add: wp_def)

lemma wpI: "(\<And>r s'. m s = (r, s') \<Longrightarrow> Q r s') \<Longrightarrow> wp m Q s"
  by (auto simp: wp_def split: prod.splits)

lemma wp_eq: "wp m (\<lambda>r s'. r = a \<and> s' = b) s \<longleftrightarrow> m s = (a, b)"
  by (auto simp: wp_def split: prod.splits)

lemma continueI:
  assumes "\<And>x. r = Ok x \<Longrightarrow> k x s"
    and "\<And>e. r = Err e \<Longrightarrow> Q (Err e) s"
    and "\<And>p. r = Panic p \<Longrightarrow> Q (Panic p) s"
  shows "continue k Q r s"
  using assms by (cases r) auto

subsection \<open>Monad laws\<close>

lemma bind_ret [simp]: "bindP (retP x) f = f x"
  by (simp add: bindP_def retP_def)

lemma bind_err [simp]: "bindP (errP e) f = errP e"
  by (simp add: bindP_def errP_def)

lemma bind_ret_right [simp]: "bindP m retP = m"
  by (rule ext) (simp add: bindP_def retP_def split: prod.splits outcome.splits)

lemma bind_assoc: "bindP (bindP m f) g = bindP m (\<lambda>x. bindP (f x) g)"
  by (rule ext) (simp add: bindP_def split: prod.splits outcome.splits)

subsection \<open>Go maps\<close>

text \<open>
  A \<open>map[string]string\<close> may be nil. Reading a nil map gives the zero value, writing to it
  panics; \<open>None\<close> is the nil map.
\<close>

type_synonym gomap = "(string \<rightharpoonup> string) option"

definition map_get :: "gomap \<Rightarrow> string \<Rightarrow> string" where
  "map_get m k = (case m of None \<Rightarrow> [] | Some f \<Rightarrow> (case f k of None \<Rightarrow> [] | Some v \<Rightarrow> v))"

definition map_has :: "gomap \<Rightarrow> string \<Rightarrow> bool" where
  "map_has m k = (case m of None \<Rightarrow> False | Some f \<Rightarrow> f k \<noteq> None)"

definition map_set :: "string \<Rightarrow> string \<Rightarrow> gomap \<Rightarrow> gomap outcome" where
  "map_set k v m = (case m of None \<Rightarrow> Panic NilMapWrite | Some f \<Rightarrow> Ok (Some (f(k \<mapsto> v))))"

lemma map_get_simps [simp, go_simps]:
  "map_get None k = []"
  "map_get (Some (f(j \<mapsto> v))) k = (if k = j then v else map_get (Some f) k)"
  "map_get (Some Map.empty) k = []"
  by (simp_all add: map_get_def)

lemma map_has_simps [simp, go_simps]:
  "\<not> map_has None k"
  "map_has (Some (f(j \<mapsto> v))) k \<longleftrightarrow> k = j \<or> map_has (Some f) k"
  "\<not> map_has (Some Map.empty) k"
  by (simp_all add: map_has_def)

lemma map_set_simps [simp, go_simps]:
  "map_set k v None = Panic NilMapWrite"
  "map_set k v (Some f) = Ok (Some (f(k \<mapsto> v)))"
  by (simp_all add: map_set_def)

lemma map_set_eq_Ok: "map_set k v m = Ok m' \<longleftrightarrow> (\<exists>f. m = Some f \<and> m' = Some (f(k \<mapsto> v)))"
  by (cases m) auto

text \<open>The pairs a map holds: a label selector selects by inclusion of these.\<close>

definition map_pairs :: "gomap \<Rightarrow> (string \<rightharpoonup> string)" where
  "map_pairs m = (case m of None \<Rightarrow> Map.empty | Some f \<Rightarrow> f)"

lemma map_pairs_simps [simp, go_simps]:
  "map_pairs None = Map.empty" "map_pairs (Some f) = f"
  by (simp_all add: map_pairs_def)

lemma map_le_upd_both: "f \<subseteq>\<^sub>m g \<Longrightarrow> f(k \<mapsto> v) \<subseteq>\<^sub>m g(k \<mapsto> v)"
  by (auto simp: map_le_def)

lemma map_le_upd_right: "f \<subseteq>\<^sub>m g \<Longrightarrow> f k = None \<or> f k = Some v \<Longrightarrow> f \<subseteq>\<^sub>m g(k \<mapsto> v)"
  by (fastforce simp: map_le_def dom_def)

subsection \<open>Strings\<close>

definition strings_Contains :: "string \<Rightarrow> string \<Rightarrow> bool" where
  "strings_Contains s sub = sublist sub s"

definition strings_TrimSuffix :: "string \<Rightarrow> string \<Rightarrow> string" where
  "strings_TrimSuffix s suf = (if suffix suf s then take (length s - length suf) s else s)"

lemma TrimSuffix_append [simp]: "strings_TrimSuffix (s @ suf) suf = s"
  by (simp add: strings_TrimSuffix_def suffix_def)

lemma TrimSuffix_other [simp]: "\<not> suffix suf s \<Longrightarrow> strings_TrimSuffix s suf = s"
  by (simp add: strings_TrimSuffix_def)

text \<open>\<open>strconv.Itoa\<close>: signed decimal.\<close>

fun dec_digits :: "nat \<Rightarrow> string" where
  "dec_digits n = (if n < 10 then [char_of (48 + n)]
                   else dec_digits (n div 10) @ [char_of (48 + n mod 10)])"

declare dec_digits.simps [simp del]

definition Itoa :: "int \<Rightarrow> string" where
  "Itoa i = (if i < 0 then CHR ''-'' # dec_digits (nat (- i)) else dec_digits (nat i))"

text \<open>Reading decimal digits back.\<close>

definition is_digit :: "char \<Rightarrow> bool" where
  "is_digit c \<longleftrightarrow> 48 \<le> (of_char c :: nat) \<and> (of_char c :: nat) \<le> 57"

fun read_digits :: "nat \<Rightarrow> string \<Rightarrow> nat option" where
  "read_digits acc [] = Some acc"
| "read_digits acc (c # cs) =
     (if is_digit c then read_digits (10 * acc + (of_char c - 48)) cs else None)"

lemma read_digits_append:
  "read_digits acc (xs @ ys) = (case read_digits acc xs of None \<Rightarrow> None | Some n \<Rightarrow> read_digits n ys)"
  by (induction xs arbitrary: acc) auto

lemma digit_char:
  "n < 10 \<Longrightarrow> is_digit (char_of (48 + n)) \<and> (of_char (char_of (48 + n)) :: nat) = 48 + n"
  by (simp add: is_digit_def of_char_of)

lemma read_dec_digits: "read_digits 0 (dec_digits n) = Some n"
proof (induction n rule: dec_digits.induct)
  case (1 n)
  then show ?case
    using digit_char [of n] digit_char [of "n mod 10"]
    by (subst dec_digits.simps) (auto simp: read_digits_append)
qed

text \<open>
  The value \<open>strconv.Atoi\<close> returns, for callers that ignore its error: 0 for what is not a number,
  the nearest bound for what does not fit. \<open>parse_uint\<close> is \<open>strconv.ParseUint\<close> in base 10, which
  stops with the greatest value at the digit that overflows.
\<close>

fun parse_uint :: "nat \<Rightarrow> string \<Rightarrow> nat option" where
  "parse_uint acc [] = Some acc"
| "parse_uint acc (c # cs) =
     (if \<not> is_digit c then None
      else let n = 10 * acc + (of_char c - 48)
           in if n \<ge> 2 ^ 64 then Some (2 ^ 64 - 1) else parse_uint n cs)"

definition strconv_Atoi :: "string \<Rightarrow> int" where
  "strconv_Atoi s =
     (let neg = (s \<noteq> [] \<and> hd s = CHR ''-'');
          ds = (if s \<noteq> [] \<and> (hd s = CHR ''-'' \<or> hd s = CHR ''+'') then tl s else s)
      in if ds = [] then 0
         else case parse_uint 0 ds of
                None \<Rightarrow> 0
              | Some n \<Rightarrow> if neg then max (- int n) (- (2 ^ 63)) else min (int n) (2 ^ 63 - 1))"

lemma read_digits_ge: "read_digits acc s = Some n \<Longrightarrow> acc \<le> n"
  by (induction s arbitrary: acc) (fastforce split: if_splits)+

lemma parse_uint_read: "read_digits acc s = Some n \<Longrightarrow> n < 2 ^ 64 \<Longrightarrow> parse_uint acc s = Some n"
proof (induction s arbitrary: acc)
  case (Cons c cs)
  then show ?case
    using read_digits_ge [of "10 * acc + (of_char c - 48)" cs n]
    by (simp add: Let_def split: if_splits)
qed simp

lemma dec_digits_head: "dec_digits n \<noteq> [] \<and> is_digit (hd (dec_digits n))"
proof (induction n rule: dec_digits.induct)
  case (1 n)
  then show ?case using digit_char [of n] by (subst (1 2) dec_digits.simps) auto
qed

lemma Atoi_Itoa: "- (2 ^ 63) \<le> i \<Longrightarrow> i < 2 ^ 63 \<Longrightarrow> strconv_Atoi (Itoa i) = i"
proof -
  assume i: "- (2 ^ 63) \<le> i" "i < 2 ^ 63"
  have "nat i < 2 ^ 64" "nat (- i) < 2 ^ 64" using i by simp_all
  with parse_uint_read [OF read_dec_digits] have p: "parse_uint 0 (dec_digits (nat i)) = Some (nat i)"
    "parse_uint 0 (dec_digits (nat (- i))) = Some (nat (- i))" by blast+
  have "hd (dec_digits n) \<noteq> CHR ''-'' \<and> hd (dec_digits n) \<noteq> CHR ''+''" for n
    using dec_digits_head [of n] by (auto simp: is_digit_def)
  then show ?thesis
    using i p dec_digits_head by (simp add: strconv_Atoi_def Itoa_def Let_def)
qed

lemma Atoi_Itoa_sint [simp]: "strconv_Atoi (Itoa (sint w)) = sint (w :: 64 word)"
  using sint_greater_eq [of w] sint_less [of w] by (intro Atoi_Itoa) simp_all

text \<open>A slice that may be nil.\<close>

definition slice_length :: "'a list option \<Rightarrow> nat" where
  "slice_length s = (case s of None \<Rightarrow> 0 | Some xs \<Rightarrow> length xs)"

subsection \<open>Fixed-width integers\<close>

type_synonym int32 = "32 word"
type_synonym int64 = "64 word"
type_synonym uint32 = "32 word"

text \<open>A \<open>float64\<close> as its IEEE-754 bit pattern.\<close>

type_synonym float64 = "64 word"

text \<open>
  Fields of third-party structs that the program copies and never inspects, kept as an
  uninterpreted list of named values.
\<close>

type_synonym opaque = "(string \<times> string) list"

end
