(* ===== verification/KubeTypes.thy ===== *)
theory KubeTypes
  imports GoPrelude
begin

text \<open>
  The Kubernetes API types (\<open>k8s.io/api\<close>, \<open>k8s.io/apimachinery\<close>) as far as Krane reads or
  writes them. A field the program only copies is part of the struct's \<open>rest\<close> component.
  A nil slice and an empty slice are the same list: the wire format omits both and no code
  here tells them apart. Nil pointers are \<open>None\<close>, nil maps are \<open>None\<close>.
\<close>

subsection \<open>Object metadata\<close>

record NamespacedName =
  nn_Namespace :: string
  nn_Name :: string

record OwnerReference =
  or_APIVersion :: string
  or_Kind :: string
  or_Name :: string
  or_UID :: string
  or_Controller :: "bool option"
  or_BlockOwnerDeletion :: "bool option"

record ObjectMeta =
  om_Name :: string
  om_Namespace :: string
  om_UID :: string
  om_ResourceVersion :: string
  om_Labels :: gomap
  om_OwnerReferences :: "OwnerReference list"
  om_rest :: opaque

text \<open>\<open>metav1.ObjectMeta{Name: ..., Namespace: ..., Labels: ...}\<close>: the rest is zero.\<close>

definition mkMeta :: "string \<Rightarrow> string \<Rightarrow> gomap \<Rightarrow> ObjectMeta" where
  "mkMeta name ns lbls =
     \<lparr>om_Name = name, om_Namespace = ns, om_UID = [], om_ResourceVersion = [],
      om_Labels = lbls, om_OwnerReferences = [], om_rest = []\<rparr>"

lemma mkMeta_simps [simp]:
  "om_Name (mkMeta n ns l) = n" "om_Namespace (mkMeta n ns l) = ns" "om_UID (mkMeta n ns l) = []"
  "om_ResourceVersion (mkMeta n ns l) = []" "om_Labels (mkMeta n ns l) = l"
  "om_OwnerReferences (mkMeta n ns l) = []" "om_rest (mkMeta n ns l) = []"
  by (simp_all add: mkMeta_def)

definition metaKey :: "ObjectMeta \<Rightarrow> NamespacedName" where
  "metaKey m = \<lparr>nn_Namespace = om_Namespace m, nn_Name = om_Name m\<rparr>"

lemma metaKey_simps [simp]:
  "nn_Namespace (metaKey m) = om_Namespace m" "nn_Name (metaKey m) = om_Name m"
  by (simp_all add: metaKey_def)

lemma metaKey_upd [simp]:
  "metaKey (m\<lparr>om_OwnerReferences := r\<rparr>) = metaKey m"
  "metaKey (m\<lparr>om_Labels := l\<rparr>) = metaKey m"
  "metaKey (mkMeta n ns l) = \<lparr>nn_Namespace = ns, nn_Name = n\<rparr>"
  by (simp_all add: metaKey_def)

subsection \<open>Pods\<close>

record EnvVar =
  ev_Name :: string
  ev_Value :: string

record Container =
  ct_Name :: string
  ct_Image :: string
  ct_Command :: "string list"
  ct_Env :: "EnvVar list"
  ct_ImagePullPolicy :: string
  ct_rest :: opaque

record PodSpec =
  ps_Containers :: "Container list"
  ps_RestartPolicy :: string
  ps_rest :: opaque

record ContainerStateRunning =
  csr_StartedAt :: string

record ContainerStateTerminated =
  cst_ExitCode :: int32
  cst_rest :: opaque

record ContainerState =
  st_Waiting :: "opaque option"
  st_Running :: "ContainerStateRunning option"
  st_Terminated :: "ContainerStateTerminated option"

record ContainerStatus =
  cs_Name :: string
  cs_State :: ContainerState
  cs_rest :: opaque

record Pod =
  pod_Meta :: ObjectMeta
  pod_Spec :: PodSpec
  pod_ContainerStatuses :: "ContainerStatus list"
  pod_rest :: opaque

text \<open>The documented constraint on container states: at most one member is set.\<close>

definition oneState :: "ContainerState \<Rightarrow> bool" where
  "oneState s \<longleftrightarrow>
     (st_Waiting s = None \<or> st_Running s = None) \<and>
     (st_Waiting s = None \<or> st_Terminated s = None) \<and>
     (st_Running s = None \<or> st_Terminated s = None)"

subsection \<open>Deployments\<close>

record LabelSelector =
  ls_MatchLabels :: gomap
  ls_rest :: opaque

record PodTemplateSpec =
  pt_Meta :: ObjectMeta
  pt_Spec :: PodSpec

record DeploymentSpec =
  ds_Replicas :: "int32 option"
  ds_Selector :: "LabelSelector option"
  ds_Template :: PodTemplateSpec
  ds_rest :: opaque

record Deployment =
  dp_Meta :: ObjectMeta
  dp_Spec :: DeploymentSpec
  dp_AvailableReplicas :: int32
  dp_rest :: opaque

text \<open>The zero value \<open>appsv1.DeploymentSpec{}\<close>.\<close>

definition zeroPodSpec :: PodSpec where
  "zeroPodSpec = \<lparr>ps_Containers = [], ps_RestartPolicy = [], ps_rest = []\<rparr>"

definition zeroDeploymentSpec :: DeploymentSpec where
  "zeroDeploymentSpec =
     \<lparr>ds_Replicas = None, ds_Selector = None,
      ds_Template = \<lparr>pt_Meta = mkMeta [] [] None, pt_Spec = zeroPodSpec\<rparr>, ds_rest = []\<rparr>"

lemma zeroDeploymentSpec_simps [simp]:
  "ds_Selector zeroDeploymentSpec = None"
  "om_Labels (pt_Meta (ds_Template zeroDeploymentSpec)) = None"
  by (simp_all add: zeroDeploymentSpec_def)

subsection \<open>Services\<close>

record ServicePort =
  sp_Name :: string
  sp_Protocol :: string
  sp_Port :: int32
  sp_rest :: opaque

record Service =
  svc_Meta :: ObjectMeta
  svc_Selector :: gomap
  svc_Ports :: "ServicePort list"
  svc_rest :: opaque

subsection \<open>Selection\<close>

text \<open>
  The platform's rule for \<open>matchLabels\<close> and service selectors: every selected pair is
  among the labels.
\<close>

definition selects :: "gomap \<Rightarrow> gomap \<Rightarrow> bool" where
  "selects sel lbls \<longleftrightarrow> map_pairs sel \<subseteq>\<^sub>m map_pairs lbls"

lemma selects_Some [simp]: "selects (Some f) (Some g) \<longleftrightarrow> f \<subseteq>\<^sub>m g"
  by (simp add: selects_def)

subsection \<open>Group, version, kind\<close>

record GroupVersion =
  gv_Group :: string
  gv_Version :: string

record GroupVersionKind =
  gvk_Group :: string
  gvk_Version :: string
  gvk_Kind :: string

definition GroupVersion_String :: "GroupVersion \<Rightarrow> string" where
  "GroupVersion_String gv =
     (if gv_Group gv = [] \<and> gv_Version gv = [] then []
      else if gv_Group gv = [] \<and> gv_Version gv = ''v1'' then gv_Version gv
      else if gv_Group gv \<noteq> [] then gv_Group gv @ ''/'' @ gv_Version gv
      else gv_Version gv)"

definition ParseGroupVersion :: "string \<Rightarrow> error + GroupVersion" where
  "ParseGroupVersion gv =
     (if gv = [] \<or> gv = ''/'' then Inr \<lparr>gv_Group = [], gv_Version = []\<rparr>
      else if count_list gv (CHR 0x2F) = 0 then Inr \<lparr>gv_Group = [], gv_Version = gv\<rparr>
      else if count_list gv (CHR 0x2F) = 1 then
        Inr \<lparr>gv_Group = takeWhile (\<lambda>c. c \<noteq> CHR 0x2F) gv,
             gv_Version = tl (dropWhile (\<lambda>c. c \<noteq> CHR 0x2F) gv)\<rparr>
      else Inl (PlainError (''unexpected GroupVersion string: '' @ gv)))"

lemma ParseGroupVersion_String:
  assumes "CHR 0x2F \<notin> set (gv_Group gv)" and "CHR 0x2F \<notin> set (gv_Version gv)"
  shows "ParseGroupVersion (GroupVersion_String gv) = Inr gv"
proof -
  obtain g v where gv: "gv = \<lparr>gv_Group = g, gv_Version = v\<rparr>" by (cases gv)
  with assms have slash: "CHR 0x2F \<notin> set g" "CHR 0x2F \<notin> set v" by simp_all
  then have [simp]: "count_list g (CHR 0x2F) = 0" "count_list v (CHR 0x2F) = 0"
    by (simp_all add: count_list_0_iff)
  from slash have [simp]: "takeWhile (\<lambda>c. c \<noteq> CHR 0x2F) (g @ CHR 0x2F # v) = g"
    "dropWhile (\<lambda>c. c \<noteq> CHR 0x2F) (g @ CHR 0x2F # v) = CHR 0x2F # v"
    by (auto simp: takeWhile_append dropWhile_append)
  have [simp]: "g \<noteq> [] \<Longrightarrow> g @ CHR 0x2F # v \<noteq> [CHR 0x2F]"
    by (cases g) auto
  from slash(2) have [simp]: "v \<noteq> [CHR 0x2F]" by auto
  show ?thesis
    by (cases "g = []") (auto simp: gv ParseGroupVersion_def GroupVersion_String_def)
qed

end
