(* ===== verification/IstioSpecs.thy ===== *)
theory IstioSpecs
  imports KubeTypes
begin

text \<open>
  \<open>pkg/apis/networking/v1alpha3\<close>: the Istio resources Krane reads and writes, all fields
  included, because an update writes the whole object back and a frame property has to speak
  about what must not change. The order is bottom-up; pointers are options, so that the nil
  elements and nil destinations the Go types allow are there too.
\<close>

record Percent =
  pc_Value :: float64

record PortSelector =
  po_Number :: uint32
  po_Name :: string

record StringMatch =
  sm_Exact :: string
  sm_Prefix :: string
  sm_Regex :: string

record Destination =
  de_Host :: string
  de_Subset :: string
  de_Port :: "PortSelector option"

record HeaderOperations =
  ho_Set :: gomap
  ho_Add :: gomap
  ho_Remove :: "string list"

record Headers =
  he_Request :: "HeaderOperations option"
  he_Response :: "HeaderOperations option"

record HTTPMatchRequest =
  hm_Uri :: "StringMatch option"
  hm_Scheme :: "StringMatch option"
  hm_Method :: "StringMatch option"
  hm_Authority :: "StringMatch option"
  hm_Headers :: "(string \<rightharpoonup> StringMatch option) option"
  hm_Port :: uint32
  hm_SourceLabels :: gomap
  hm_Gateways :: "string list"

record HTTPRouteDestination =
  rd_Destination :: "Destination option"
  rd_Weight :: int32
  rd_RemoveResponseHeaders :: "string list"
  rd_AppendResponseHeaders :: gomap
  rd_RemoveRequestHeaders :: "string list"
  rd_AppendRequestHeaders :: gomap
  rd_Headers :: "Headers option"

record HTTPRedirect =
  hd_Uri :: string
  hd_Authority :: string

record HTTPRewrite =
  hw_Uri :: string
  hw_Authority :: string

record HTTPRetry =
  ht_Attempts :: int32
  ht_PerTryTimeout :: string
  ht_RetryOn :: string

record HTTPFaultInjection_Delay =
  fd_Percent :: int32
  fd_FixedDelay :: string
  fd_ExponentialDelay :: string
  fd_Percentage :: "Percent option"

record HTTPFaultInjection_Abort =
  fa_Percent :: int32
  fa_HttpStatus :: int32
  fa_GrpcStatus :: string
  fa_Http2Error :: string
  fa_Percentage :: "Percent option"

record HTTPFaultInjection =
  fi_Delay :: "HTTPFaultInjection_Delay option"
  fi_Abort :: "HTTPFaultInjection_Abort option"

record CorsPolicy =
  cp_AllowOrigin :: "string list"
  cp_AllowMethods :: "string list"
  cp_AllowHeaders :: "string list"
  cp_ExposeHeaders :: "string list"
  cp_MaxAge :: string
  cp_AllowCredentials :: bool

record HTTPRoute =
  hr_Match :: "HTTPMatchRequest option list"
  hr_Route :: "HTTPRouteDestination option list"
  hr_Redirect :: "HTTPRedirect option"
  hr_Rewrite :: "HTTPRewrite option"
  hr_WebsocketUpgrade :: bool
  hr_Timeout :: string
  hr_Retries :: "HTTPRetry option"
  hr_Fault :: "HTTPFaultInjection option"
  hr_Mirror :: "Destination option"
  hr_CorsPolicy :: "CorsPolicy option"
  hr_AppendHeaders :: gomap
  hr_RemoveResponseHeaders :: "string list"
  hr_AppendResponseHeaders :: gomap
  hr_RemoveRequestHeaders :: "string list"
  hr_AppendRequestHeaders :: gomap
  hr_Headers :: "Headers option"

record RouteDestination =
  rt_Destination :: "Destination option"
  rt_Weight :: int32

record L4MatchAttributes =
  l4_DestinationSubnets :: "string list"
  l4_Port :: uint32
  l4_SourceSubnet :: string
  l4_SourceLabels :: gomap
  l4_Gateways :: "string list"

record TLSMatchAttributes =
  tm_SniHosts :: "string list"
  tm_DestinationSubnets :: "string list"
  tm_Port :: uint32
  tm_SourceSubnet :: string
  tm_SourceLabels :: gomap
  tm_Gateways :: "string list"

record TLSRoute =
  tl_Match :: "TLSMatchAttributes option list"
  tl_Route :: "RouteDestination option list"

record TCPRoute =
  tc_Match :: "L4MatchAttributes option list"
  tc_Route :: "RouteDestination option list"

record VirtualServiceSpec =
  vss_Hosts :: "string list"
  vss_Gateways :: "string list"
  vss_Http :: "HTTPRoute option list"
  vss_Tls :: "TLSRoute option list"
  vss_Tcp :: "TCPRoute option list"
  vss_ExportTo :: "string list"

record VirtualService =
  vs_Meta :: ObjectMeta
  vs_Spec :: VirtualServiceSpec

record Subset =
  su_Name :: string
  su_Labels :: gomap

record DestinationRuleSpec =
  drs_Host :: string
  drs_Subsets :: "Subset option list"

record DestinationRule =
  dr_Meta :: ObjectMeta
  dr_Spec :: DestinationRuleSpec

subsection \<open>The nil-safe getters of \<open>RouteDestination\<close>\<close>

definition GetDestination :: "RouteDestination option \<Rightarrow> Destination option" where
  "GetDestination m = (case m of Some r \<Rightarrow> rt_Destination r | None \<Rightarrow> None)"

definition GetWeight :: "RouteDestination option \<Rightarrow> int32" where
  "GetWeight m = (case m of Some r \<Rightarrow> rt_Weight r | None \<Rightarrow> 0)"

subsection \<open>A destination literal\<close>

text \<open>\<open>&HTTPRouteDestination{Destination: &Destination{Host: h}, Weight: w}\<close>.\<close>

definition mkRoute :: "string \<Rightarrow> int32 \<Rightarrow> HTTPRouteDestination" where
  "mkRoute h w =
     \<lparr>rd_Destination = Some \<lparr>de_Host = h, de_Subset = [], de_Port = None\<rparr>, rd_Weight = w,
      rd_RemoveResponseHeaders = [], rd_AppendResponseHeaders = None,
      rd_RemoveRequestHeaders = [], rd_AppendRequestHeaders = None, rd_Headers = None\<rparr>"

lemma mkRoute_simps [simp]:
  "rd_Weight (mkRoute h w) = w"
  "rd_Destination (mkRoute h w) = Some \<lparr>de_Host = h, de_Subset = [], de_Port = None\<rparr>"
  by (simp_all add: mkRoute_def)

end
