(* ===== verification/KraneTypes.thy ===== *)
theory KraneTypes
  imports IstioSpecs "HOL-Library.Char_ord" "HOL-Library.List_Lexorder" "HOL-Library.Product_Lexorder"
begin

text \<open>
  \<open>pkg/apis/krane/v1\<close>: the \<open>Canary\<close> and \<open>CanaryPolicy\<close> resources. The Go enumerations are
  string types, so next to the declared constants there is the empty string of a fresh object
  and any other string a client may have stored; each has its own constructor, and the wire
  form and back are written out below.
\<close>

subsection \<open>Progress\<close>

datatype CanaryProgress =
    CanaryProgress_Unset
  | CanaryProgress_Initializing
  | CanaryProgress_Testing
  | CanaryProgress_Canary
  | CanaryProgress_Reporting
  | CanaryProgress_Cleanup
  | CanaryProgress_Other string

fun progress_string :: "CanaryProgress \<Rightarrow> string" where
  "progress_string CanaryProgress_Unset = []"
| "progress_string CanaryProgress_Initializing = ''initializing''"
| "progress_string CanaryProgress_Testing = ''testing''"
| "progress_string CanaryProgress_Canary = ''canary''"
| "progress_string CanaryProgress_Reporting = ''reporting''"
| "progress_string CanaryProgress_Cleanup = ''cleanup''"
| "progress_string (CanaryProgress_Other s) = s"

definition progress_of_string :: "string \<Rightarrow> CanaryProgress" where
  "progress_of_string s =
     (if s = [] then CanaryProgress_Unset
      else if s = ''initializing'' then CanaryProgress_Initializing
      else if s = ''testing'' then CanaryProgress_Testing
      else if s = ''canary'' then CanaryProgress_Canary
      else if s = ''reporting'' then CanaryProgress_Reporting
      else if s = ''cleanup'' then CanaryProgress_Cleanup
      else CanaryProgress_Other s)"

lemma progress_string_of_string [simp]: "progress_string (progress_of_string s) = s"
  by (simp add: progress_of_string_def)

text \<open>
  The order in which a canary runs through its phases, as a linear order on the type: the
  phase number first, the string of an unknown phase last.
\<close>

fun progress_rank :: "CanaryProgress \<Rightarrow> nat" where
  "progress_rank CanaryProgress_Unset = 0"
| "progress_rank CanaryProgress_Initializing = 1"
| "progress_rank CanaryProgress_Testing = 2"
| "progress_rank CanaryProgress_Canary = 3"
| "progress_rank CanaryProgress_Reporting = 4"
| "progress_rank CanaryProgress_Cleanup = 5"
| "progress_rank (CanaryProgress_Other s) = 6"

fun progress_key :: "CanaryProgress \<Rightarrow> nat \<times> string" where
  "progress_key (CanaryProgress_Other s) = (6, s)"
| "progress_key p = (progress_rank p, [])"

lemma progress_key_inject: "progress_key p = progress_key q \<longleftrightarrow> p = q"
  by (cases p; cases q) auto

instantiation CanaryProgress :: linorder
begin

definition less_eq_CanaryProgress :: "CanaryProgress \<Rightarrow> CanaryProgress \<Rightarrow> bool" where
  "p \<le> q \<longleftrightarrow> progress_key p \<le> progress_key q"

definition less_CanaryProgress :: "CanaryProgress \<Rightarrow> CanaryProgress \<Rightarrow> bool" where
  "p < q \<longleftrightarrow> progress_key p < progress_key q"

instance
proof
  fix p q r :: CanaryProgress
  show "p < q \<longleftrightarrow> p \<le> q \<and> \<not> q \<le> p" and "p \<le> p" and "p \<le> q \<or> q \<le> p"
    by (auto simp: less_eq_CanaryProgress_def less_CanaryProgress_def)
  show "p \<le> r" if "p \<le> q" "q \<le> r"
    using that by (simp add: less_eq_CanaryProgress_def)
  show "p = q" if "p \<le> q" "q \<le> p"
    using that by (simp add: less_eq_CanaryProgress_def flip: progress_key_inject)
qed

end

lemma progress_le_rank: "p \<le> q \<Longrightarrow> progress_rank p \<le> progress_rank q"
  by (cases p; cases q) (auto simp: less_eq_CanaryProgress_def less_eq_prod_simp)

subsection \<open>Phase status\<close>

datatype CanaryPhaseStatus =
    CanaryPhaseStatus_Unset
  | CanaryPhaseStatus_Queued
  | CanaryPhaseStatus_InProgress
  | CanaryPhaseStatus_Success
  | CanaryPhaseStatus_Failure
  | CanaryPhaseStatus_Other string

fun phase_status_string :: "CanaryPhaseStatus \<Rightarrow> string" where
  "phase_status_string CanaryPhaseStatus_Unset = []"
| "phase_status_string CanaryPhaseStatus_Queued = ''queued''"
| "phase_status_string CanaryPhaseStatus_InProgress = ''in_progress''"
| "phase_status_string CanaryPhaseStatus_Success = ''success''"
| "phase_status_string CanaryPhaseStatus_Failure = ''failure''"
| "phase_status_string (CanaryPhaseStatus_Other s) = s"

definition phase_status_of_string :: "string \<Rightarrow> CanaryPhaseStatus" where
  "phase_status_of_string s =
     (if s = [] then CanaryPhaseStatus_Unset
      else if s = ''queued'' then CanaryPhaseStatus_Queued
      else if s = ''in_progress'' then CanaryPhaseStatus_InProgress
      else if s = ''success'' then CanaryPhaseStatus_Success
      else if s = ''failure'' then CanaryPhaseStatus_Failure
      else CanaryPhaseStatus_Other s)"

lemma phase_status_string_of_string [simp]: "phase_status_string (phase_status_of_string s) = s"
  by (simp add: phase_status_of_string_def)

subsection \<open>Canary\<close>

record CanaryConfigPhase =
  ph_PodName :: string
  ph_Status :: CanaryPhaseStatus
  ph_Message :: string

record CanaryStatus =
  cst_Progress :: CanaryProgress
  cst_Initialization :: CanaryConfigPhase
  cst_Testing :: CanaryConfigPhase
  cst_Canary :: CanaryConfigPhase
  cst_Judging :: CanaryConfigPhase
  cst_Reporting :: CanaryConfigPhase
  cst_Cleanup :: CanaryConfigPhase

record CanarySpecDeployments =
  csd_Canary :: string
  csd_Baseline :: string
  csd_Base :: string

record CanarySpec =
  csp_Policy :: string
  csp_Deployments :: CanarySpecDeployments

record Canary =
  cn_Meta :: ObjectMeta
  cn_Spec :: CanarySpec
  cn_Status :: CanaryStatus

definition zeroPhase :: CanaryConfigPhase where
  "zeroPhase = \<lparr>ph_PodName = [], ph_Status = CanaryPhaseStatus_Unset, ph_Message = []\<rparr>"

definition zeroStatus :: CanaryStatus where
  "zeroStatus = \<lparr>cst_Progress = CanaryProgress_Unset, cst_Initialization = zeroPhase,
     cst_Testing = zeroPhase, cst_Canary = zeroPhase, cst_Judging = zeroPhase,
     cst_Reporting = zeroPhase, cst_Cleanup = zeroPhase\<rparr>"

text \<open>Names for the paths the controllers use all the time.\<close>

abbreviation canary_name :: "Canary \<Rightarrow> string" where
  "canary_name c \<equiv> om_Name (cn_Meta c)"

abbreviation canary_namespace :: "Canary \<Rightarrow> string" where
  "canary_namespace c \<equiv> om_Namespace (cn_Meta c)"

abbreviation progress :: "Canary \<Rightarrow> CanaryProgress" where
  "progress c \<equiv> cst_Progress (cn_Status c)"

text \<open>Setting one phase of the status: \<open>canary.Status.X = ...\<close>.\<close>

definition set_progress :: "CanaryProgress \<Rightarrow> Canary \<Rightarrow> Canary" where
  "set_progress p c = c\<lparr>cn_Status := (cn_Status c)\<lparr>cst_Progress := p\<rparr>\<rparr>"

definition upd_initialization :: "(CanaryConfigPhase \<Rightarrow> CanaryConfigPhase) \<Rightarrow> Canary \<Rightarrow> Canary" where
  "upd_initialization f c = c\<lparr>cn_Status := (cn_Status c)\<lparr>cst_Initialization := f (cst_Initialization (cn_Status c))\<rparr>\<rparr>"

definition upd_testing :: "(CanaryConfigPhase \<Rightarrow> CanaryConfigPhase) \<Rightarrow> Canary \<Rightarrow> Canary" where
  "upd_testing f c = c\<lparr>cn_Status := (cn_Status c)\<lparr>cst_Testing := f (cst_Testing (cn_Status c))\<rparr>\<rparr>"

definition upd_canary :: "(CanaryConfigPhase \<Rightarrow> CanaryConfigPhase) \<Rightarrow> Canary \<Rightarrow> Canary" where
  "upd_canary f c = c\<lparr>cn_Status := (cn_Status c)\<lparr>cst_Canary := f (cst_Canary (cn_Status c))\<rparr>\<rparr>"

definition upd_judging :: "(CanaryConfigPhase \<Rightarrow> CanaryConfigPhase) \<Rightarrow> Canary \<Rightarrow> Canary" where
  "upd_judging f c = c\<lparr>cn_Status := (cn_Status c)\<lparr>cst_Judging := f (cst_Judging (cn_Status c))\<rparr>\<rparr>"

definition upd_reporting :: "(CanaryConfigPhase \<Rightarrow> CanaryConfigPhase) \<Rightarrow> Canary \<Rightarrow> Canary" where
  "upd_reporting f c = c\<lparr>cn_Status := (cn_Status c)\<lparr>cst_Reporting := f (cst_Reporting (cn_Status c))\<rparr>\<rparr>"

definition upd_cleanup :: "(CanaryConfigPhase \<Rightarrow> CanaryConfigPhase) \<Rightarrow> Canary \<Rightarrow> Canary" where
  "upd_cleanup f c = c\<lparr>cn_Status := (cn_Status c)\<lparr>cst_Cleanup := f (cst_Cleanup (cn_Status c))\<rparr>\<rparr>"

lemmas upd_defs = set_progress_def upd_initialization_def upd_testing_def upd_canary_def
  upd_judging_def upd_reporting_def upd_cleanup_def

text \<open>What an update of one phase leaves alone.\<close>

lemma upd_meta_spec [simp]:
  "cn_Meta (set_progress p c) = cn_Meta c" "cn_Spec (set_progress p c) = cn_Spec c"
  "cn_Meta (upd_initialization f c) = cn_Meta c" "cn_Spec (upd_initialization f c) = cn_Spec c"
  "cn_Meta (upd_testing f c) = cn_Meta c" "cn_Spec (upd_testing f c) = cn_Spec c"
  "cn_Meta (upd_canary f c) = cn_Meta c" "cn_Spec (upd_canary f c) = cn_Spec c"
  "cn_Meta (upd_judging f c) = cn_Meta c" "cn_Spec (upd_judging f c) = cn_Spec c"
  "cn_Meta (upd_reporting f c) = cn_Meta c" "cn_Spec (upd_reporting f c) = cn_Spec c"
  "cn_Meta (upd_cleanup f c) = cn_Meta c" "cn_Spec (upd_cleanup f c) = cn_Spec c"
  by (simp_all add: upd_defs)

lemma upd_status [simp]:
  "cn_Status (set_progress p c) = (cn_Status c)\<lparr>cst_Progress := p\<rparr>"
  "cn_Status (upd_initialization f c) = (cn_Status c)\<lparr>cst_Initialization := f (cst_Initialization (cn_Status c))\<rparr>"
  "cn_Status (upd_testing f c) = (cn_Status c)\<lparr>cst_Testing := f (cst_Testing (cn_Status c))\<rparr>"
  "cn_Status (upd_canary f c) = (cn_Status c)\<lparr>cst_Canary := f (cst_Canary (cn_Status c))\<rparr>"
  "cn_Status (upd_judging f c) = (cn_Status c)\<lparr>cst_Judging := f (cst_Judging (cn_Status c))\<rparr>"
  "cn_Status (upd_reporting f c) = (cn_Status c)\<lparr>cst_Reporting := f (cst_Reporting (cn_Status c))\<rparr>"
  "cn_Status (upd_cleanup f c) = (cn_Status c)\<lparr>cst_Cleanup := f (cst_Cleanup (cn_Status c))\<rparr>"
  by (simp_all add: upd_defs)

text \<open>\<open>phase.Status = st; phase.Message = msg\<close>.\<close>

definition set_phase :: "CanaryPhaseStatus \<Rightarrow> string \<Rightarrow> CanaryConfigPhase \<Rightarrow> CanaryConfigPhase" where
  "set_phase st msg p = p\<lparr>ph_Status := st, ph_Message := msg\<rparr>"

lemma set_phase_simps [simp]:
  "ph_Status (set_phase st msg p) = st" "ph_Message (set_phase st msg p) = msg"
  "ph_PodName (set_phase st msg p) = ph_PodName p"
  by (simp_all add: set_phase_def)

subsection \<open>CanaryPolicy\<close>

datatype BaselineMode = BaselineModeUnset | BaselineModeNew | BaselineModeOld | BaselineModeOther string

record TestSpecBoundary =
  tsb_Time :: string
  tsb_Requests :: int64

record TestSpec =
  ts_Image :: string
  ts_Cmd :: "string list"
  ts_Boundary :: TestSpecBoundary

record ThresholdMetric =
  thm_Metric :: string
  thm_Value :: string

record DiffMetric =
  dm_Metric :: string
  dm_Container :: string
  dm_Diff :: float64

record JudgeSpec =
  js_Image :: string
  js_Cmd :: "string list"
  js_DiffMetrics :: "DiffMetric list option"
  js_ThresholdMetrics :: "ThresholdMetric list option"
  js_Boundary_Time :: string

record CanaryPolicySpec =
  cps_Base :: string
  cps_VirtualService :: string
  cps_Service :: string
  cps_BaselineMode :: BaselineMode
  cps_DestinationRule :: DestinationRuleSpec
  cps_Ports :: "ServicePort list"
  cps_TestSpec :: TestSpec
  cps_JudgeSpec :: JudgeSpec

record CanaryPolicy =
  cpo_Meta :: ObjectMeta
  cpo_Spec :: CanaryPolicySpec

end
