(* ===== verification/ClientApi.thy ===== *)
theory ClientApi
  imports KraneTypes
begin

text \<open>
  The interface the controllers program against: the Kubernetes client
  (\<open>client.Client\<close> of controller-runtime) and owner references
  (\<open>controllerutil.SetControllerReference\<close>).

  The API server behind the client is not part of the repository. A client is therefore a
  record of operations on an arbitrary world \<open>'w\<close>, one typed \<open>api\<close> per resource kind, and
  a parameter of every controller definition; a theorem about all clients holds whatever the
  server, its caches and the other actors of the cluster do between two calls. What is
  documented about a well-behaved server is stated in the locales below, and the in-memory
  implementation of theory \<open>Tracker\<close> satisfies it.
\<close>

subsection \<open>Clients\<close>

text \<open>
  \<open>Create\<close>, \<open>Update\<close> and \<open>Status().Update\<close> decode the server's answer into the object they
  were given, so on success they return the object's new value; on failure the caller's object
  is unchanged.
\<close>

record ('o, 'w) api =
  api_get :: "NamespacedName \<Rightarrow> 'w \<Rightarrow> (error + 'o) \<times> 'w"
  api_create :: "'o \<Rightarrow> 'w \<Rightarrow> (error + 'o) \<times> 'w"
  api_update :: "'o \<Rightarrow> 'w \<Rightarrow> (error + 'o) \<times> 'w"
  api_update_status :: "'o \<Rightarrow> 'w \<Rightarrow> (error + 'o) \<times> 'w"
  api_delete :: "'o \<Rightarrow> 'w \<Rightarrow> (error + unit) \<times> 'w"

record 'w Client =
  canaries :: "(Canary, 'w) api"
  policies :: "(CanaryPolicy, 'w) api"
  deployments :: "(Deployment, 'w) api"
  pods :: "(Pod, 'w) api"
  services :: "(Service, 'w) api"
  virtualservices :: "(VirtualService, 'w) api"
  destinationrules :: "(DestinationRule, 'w) api"

text \<open>
  A reconciler function works on what it holds in memory, \<open>'m\<close> (the objects its pointer
  arguments refer to), and on the world. \<open>callP\<close> is a call of the client.
\<close>

definition callP :: "('w \<Rightarrow> (error + 'a) \<times> 'w) \<Rightarrow> ('m \<times> 'w, 'a) prog" where
  "callP f = (\<lambda>(m, w). case f w of
      (Inl e, w') \<Rightarrow> (Err e, (m, w'))
    | (Inr x, w') \<Rightarrow> (Ok x, (m, w')))"

definition memP :: "('m \<times> 'w, 'm) prog" where
  "memP = getsP fst"

definition modmemP :: "('m \<Rightarrow> 'm) \<Rightarrow> ('m \<times> 'w, unit) prog" where
  "modmemP f = modP (\<lambda>(m, w). (f m, w))"

lemma wp_call [wp_simps]:
  "wp (callP f) Q (m, w) =
     (case f w of (Inl e, w') \<Rightarrow> Q (Err e) (m, w') | (Inr x, w') \<Rightarrow> Q (Ok x) (m, w'))"
  by (auto simp: wp_def callP_def split: prod.splits sum.splits)

lemma wp_mem [wp_simps]: "wp memP Q (m, w) = Q (Ok m) (m, w)"
  by (simp add: memP_def wp_simps)

lemma wp_modmem [wp_simps]: "wp (modmemP f) Q (m, w) = Q (Ok ()) (f m, w)"
  by (simp add: modmemP_def wp_simps)

lemma run_call [run_simps]:
  "callP f (m, w) = (case f w of (Inl e, w') \<Rightarrow> (Err e, (m, w')) | (Inr x, w') \<Rightarrow> (Ok x, (m, w')))"
  "memP (m, w) = (Ok m, (m, w))"
  "modmemP h (m, w) = (Ok (), (h m, w))"
  by (simp_all add: callP_def memP_def modmemP_def getsP_def modP_def)

text \<open>
  The reconcilers' common pattern: read the object; if it is missing, build it, create it and
  do what has to follow a creation; any other error of the read is returned.
\<close>

definition get_or_create ::
    "('o, 'w) api \<Rightarrow> NamespacedName \<Rightarrow> ('m \<times> 'w, 'o) prog \<Rightarrow> ('o \<Rightarrow> ('m \<times> 'w, unit) prog)
       \<Rightarrow> ('m \<times> 'w, 'o) prog" where
  "get_or_create A k build created =
     bindP (tryP (callP (api_get A k))) (\<lambda>r. case r of
         Inr x \<Rightarrow> retP x
       | Inl e \<Rightarrow>
           if \<not> IsNotFound e then errP e
           else bindP build (\<lambda>x. bindP (callP (api_create A x)) (\<lambda>x'. thenP (created x') (retP x'))))"

subsection \<open>Owner references\<close>

text \<open>The kinds of objects that own others, and the scheme that names them.\<close>

datatype OwnerKind = OwnerCanary | OwnerDeployment

type_synonym Scheme = "OwnerKind \<Rightarrow> error + GroupVersionKind"

text \<open>
  The scheme the manager builds: \<open>Canary\<close> is registered in \<open>krane.sh/v1\<close>, deployments come
  with client-go in \<open>apps/v1\<close>.
\<close>

fun kraneScheme :: Scheme where
  "kraneScheme OwnerCanary = Inr \<lparr>gvk_Group = ''krane.sh'', gvk_Version = ''v1'', gvk_Kind = ''Canary''\<rparr>"
| "kraneScheme OwnerDeployment = Inr \<lparr>gvk_Group = ''apps'', gvk_Version = ''v1'', gvk_Kind = ''Deployment''\<rparr>"

definition NewControllerRef :: "ObjectMeta \<Rightarrow> GroupVersionKind \<Rightarrow> OwnerReference" where
  "NewControllerRef owner gvk =
     \<lparr>or_APIVersion = GroupVersion_String \<lparr>gv_Group = gvk_Group gvk, gv_Version = gvk_Version gvk\<rparr>,
      or_Kind = gvk_Kind gvk, or_Name = om_Name owner, or_UID = om_UID owner,
      or_Controller = Some True, or_BlockOwnerDeletion = Some True\<rparr>"

definition referSameObject :: "OwnerReference \<Rightarrow> OwnerReference \<Rightarrow> bool" where
  "referSameObject a b =
     (case ParseGroupVersion (or_APIVersion a) of
        Inl e \<Rightarrow> False
      | Inr aGV \<Rightarrow> (case ParseGroupVersion (or_APIVersion b) of
          Inl e \<Rightarrow> False
        | Inr bGV \<Rightarrow> aGV = bGV \<and> or_Kind a = or_Kind b \<and> or_Name a = or_Name b))"

text \<open>
  The loop over the existing references: the index of the last one that refers to the same
  object, or the first other one that is a controller.
\<close>

fun scan_refs :: "OwnerReference \<Rightarrow> nat \<Rightarrow> nat option \<Rightarrow> OwnerReference list \<Rightarrow> OwnerReference + nat option" where
  "scan_refs ref i fi [] = Inr fi"
| "scan_refs ref i fi (r # rs) =
     (if referSameObject ref r then scan_refs ref (Suc i) (Some i) rs
      else if or_Controller r = Some True then Inl r
      else scan_refs ref (Suc i) fi rs)"

definition AlreadyOwnedError :: "ObjectMeta \<Rightarrow> OwnerReference \<Rightarrow> error" where
  "AlreadyOwnedError obj owner =
     PlainError (''Object '' @ om_Namespace obj @ ''/'' @ om_Name obj
       @ '' is already owned by another '' @ or_Kind owner @ '' controller '' @ or_Name owner)"

definition SetControllerReference ::
    "Scheme \<Rightarrow> OwnerKind \<Rightarrow> ObjectMeta \<Rightarrow> ObjectMeta \<Rightarrow> ObjectMeta outcome" where
  "SetControllerReference scheme kind owner obj =
     (case scheme kind of
        Inl e \<Rightarrow> Err e
      | Inr gvk \<Rightarrow>
          let ref = NewControllerRef owner gvk; existing = om_OwnerReferences obj in
          (case scan_refs ref 0 None existing of
             Inl r \<Rightarrow> Err (AlreadyOwnedError obj r)
           | Inr None \<Rightarrow> Ok (obj\<lparr>om_OwnerReferences := existing @ [ref]\<rparr>)
           | Inr (Some fi) \<Rightarrow> Ok (obj\<lparr>om_OwnerReferences := existing[fi := ref]\<rparr>)))"

lemma SetControllerReference_fresh:
  "scheme kind = Inr gvk \<Longrightarrow> om_OwnerReferences obj = [] \<Longrightarrow>
   SetControllerReference scheme kind owner obj
     = Ok (obj\<lparr>om_OwnerReferences := [NewControllerRef owner gvk]\<rparr>)"
  by (simp add: SetControllerReference_def)

text \<open>Setting the reference a second time changes nothing.\<close>

lemma referSameObject_refl:
  "scheme = kraneScheme \<Longrightarrow> scheme kind = Inr gvk \<Longrightarrow>
   referSameObject (NewControllerRef owner gvk) (NewControllerRef owner gvk)"
  by (cases kind)
     (auto simp: referSameObject_def NewControllerRef_def ParseGroupVersion_String split: sum.splits)

lemma SetControllerReference_again:
  "kraneScheme kind = Inr gvk \<Longrightarrow> om_OwnerReferences obj = [NewControllerRef owner gvk] \<Longrightarrow>
   SetControllerReference kraneScheme kind owner obj = Ok obj"
  by (simp add: SetControllerReference_def referSameObject_refl)

lemma SetControllerReference_frame:
  "SetControllerReference scheme kind owner obj = Ok obj' \<Longrightarrow>
   obj'\<lparr>om_OwnerReferences := om_OwnerReferences obj\<rparr> = obj"
  by (auto simp: SetControllerReference_def Let_def split: sum.splits option.splits)

lemma SetControllerReference_fields:
  assumes "SetControllerReference scheme kind owner obj = Ok obj'"
  shows "om_Name obj' = om_Name obj" "om_Namespace obj' = om_Namespace obj"
    "om_Labels obj' = om_Labels obj" "om_UID obj' = om_UID obj"
    "metaKey obj' = metaKey obj"
  using assms
  by (auto simp: SetControllerReference_def Let_def metaKey_def split: sum.splits option.splits)

lemma SetControllerReference_no_panic:
  "SetControllerReference scheme kind owner obj \<noteq> Panic p"
  by (auto simp: SetControllerReference_def Let_def split: sum.splits option.splits)

text \<open>
  A reconciler: the client and the scheme it was built with. \<open>Reconcile\<close> answers with a
  \<open>Result\<close> (whether and when to run again, in nanoseconds) and an error or nil.
\<close>

record 'w Reconciler =
  client :: "'w Client"
  scheme :: Scheme

record Result =
  rs_Requeue :: bool
  rs_RequeueAfter :: int

definition noResult :: Result where
  "noResult = \<lparr>rs_Requeue = False, rs_RequeueAfter = 0\<rparr>"

definition Second :: int where
  "Second = 1000000000"

text \<open>A function with its own local variables, called from code that only sees the world.\<close>

definition runP :: "'m \<Rightarrow> ('m \<times> 'w, 'a) prog \<Rightarrow> ('w, 'a) prog" where
  "runP m p = (\<lambda>w. case p (m, w) of (r, (m', w')) \<Rightarrow> (r, w'))"

lemma run_run [run_simps]: "runP m p w = (case p (m, w) of (r, (m', w')) \<Rightarrow> (r, w'))"
  by (simp add: runP_def)

lemma wp_run [wp_simps]: "wp (runP m p) Q w = wp p (\<lambda>r (m', w'). Q r w') (m, w)"
  by (auto simp: wp_def runP_def split: prod.splits)

subsection \<open>The contract of a store of objects\<close>

text \<open>
  What the documentation of the API promises about one kind of object: \<open>lookup\<close> is the
  object stored under a key, \<open>inv\<close> the server's own consistency. A server may fill in fields
  on creation and update (UID, resource version, defaults), so the stored object is the one
  it returns, and it keeps the key. Objects are read in the form that documents have: \<open>view\<close> is
  what a reader sees of a stored object, and seeing it again changes nothing more.
\<close>

locale object_store =
  fixes A :: "('o, 'w) api"
    and meta :: "'o \<Rightarrow> ObjectMeta"
    and view :: "'o \<Rightarrow> 'o"
    and lookup :: "'w \<Rightarrow> NamespacedName \<Rightarrow> 'o option"
    and legal :: "NamespacedName \<Rightarrow> bool"
    and inv :: "'w \<Rightarrow> bool"
  assumes get_found:
      "\<lbrakk>inv w; legal k; lookup w k = Some x\<rbrakk> \<Longrightarrow> api_get A k w = (Inr (view x), w)"
    and get_missing:
      "\<lbrakk>inv w; legal k; lookup w k = None\<rbrakk> \<Longrightarrow> \<exists>e. api_get A k w = (Inl e, w) \<and> IsNotFound e"
    and create_missing:
      "\<lbrakk>inv w; legal (metaKey (meta x)); lookup w (metaKey (meta x)) = None\<rbrakk> \<Longrightarrow>
         \<exists>x' w'. api_create A x w = (Inr x', w') \<and> metaKey (meta x') = metaKey (meta x) \<and>
           inv w' \<and> lookup w' = (lookup w)(metaKey (meta x) \<mapsto> x')"
    and create_existing:
      "\<lbrakk>inv w; legal (metaKey (meta x)); lookup w (metaKey (meta x)) = Some y\<rbrakk> \<Longrightarrow>
         \<exists>e. api_create A x w = (Inl e, w) \<and> \<not> IsNotFound e"
    and update_existing:
      "\<lbrakk>inv w; legal (metaKey (meta x)); lookup w (metaKey (meta x)) = Some y\<rbrakk> \<Longrightarrow>
         (\<exists>x' w'. api_update A x w = (Inr x', w') \<and> metaKey (meta x') = metaKey (meta x) \<and>
           inv w' \<and> lookup w' = (lookup w)(metaKey (meta x) \<mapsto> x'))
         \<or> (\<exists>e. api_update A x w = (Inl e, w) \<and> ReasonForError e = StatusReasonConflict)"
    and delete_existing:
      "\<lbrakk>inv w; legal (metaKey (meta x)); lookup w (metaKey (meta x)) = Some y\<rbrakk> \<Longrightarrow>
         \<exists>w'. api_delete A x w = (Inr (), w') \<and> inv w' \<and>
           lookup w' = (lookup w)(metaKey (meta x) := None)"
    and lookup_key: "inv w \<Longrightarrow> lookup w k = Some x \<Longrightarrow> metaKey (meta x) = k"
    and view_meta: "meta (view x) = meta x"
    and view_view: "view (view x) = view x"
begin

text \<open>The pattern on an object that is there reads it and touches nothing.\<close>

lemma goc_existing:
  "\<lbrakk>inv w; legal k; lookup w k = Some x\<rbrakk> \<Longrightarrow> get_or_create A k build created (m, w) = (Ok (view x), (m, w))"
  by (simp add: get_or_create_def bindP_def tryP_def callP_def retP_def get_found)

text \<open>On a missing one it stores what \<open>build\<close> built, under its key, and nothing else.\<close>

lemma goc_missing:
  assumes "inv w" "legal k" "lookup w k = None"
    and build: "build (m, w) = (Ok x, (m', w))" and key: "metaKey (meta x) = k"
    and created: "\<And>x' s. created x' s = (Ok (), s)"
  shows "\<exists>x' w'. get_or_create A k build created (m, w) = (Ok x', (m', w')) \<and>
    api_create A x w = (Inr x', w') \<and> metaKey (meta x') = k \<and> inv w' \<and>
    lookup w' = (lookup w)(k \<mapsto> x')"
proof -
  obtain e where "api_get A k w = (Inl e, w)" "IsNotFound e"
    using get_missing assms(1-3) by blast
  moreover obtain x' w' where "api_create A x w = (Inr x', w')" "metaKey (meta x') = k" "inv w'"
    "lookup w' = (lookup w)(k \<mapsto> x')"
    using create_missing [of w x] assms(1-3) key by auto
  ultimately show ?thesis
    by (simp add: get_or_create_def bindP_def thenP_def tryP_def callP_def retP_def build created)
qed

text \<open>
  Either way, a second run of the pattern, with any builder and from any memory, returns the
  same object as a reader sees it and changes nothing. Writing back what was read is read as it was
  written.
\<close>

lemma goc_twice:
  assumes "inv w" "legal k" "lookup w k = None"
    and build: "build (m, w) = (Ok x, (m', w))" and key: "metaKey (meta x) = k"
    and created: "\<And>x' s. created x' s = (Ok (), s)"
  shows "\<exists>x' w'. get_or_create A k build created (m, w) = (Ok x', (m', w')) \<and>
    get_or_create A k build' created' (m'', w') = (Ok (view x'), (m'', w'))"
proof -
  obtain x' w' where first: "get_or_create A k build created (m, w) = (Ok x', (m', w'))"
    and "inv w'" and "lookup w' k = Some x'"
    using goc_missing [where build = build and created = created, OF assms(1-3) build key created]
    by auto
  moreover have "get_or_create A k build' created' (m'', w') = (Ok (view x'), (m'', w'))"
    using \<open>inv w'\<close> assms(2) \<open>lookup w' k = Some x'\<close> by (rule goc_existing)
  ultimately show ?thesis by auto
qed

lemma reread:
  assumes "inv w" "legal (metaKey (meta x))" "lookup w (metaKey (meta x)) = Some x" "x = view y"
  shows "api_get A (metaKey (meta y)) w = (Inr x, w)"
  using get_found [OF assms(1-3)] assms(4) by (simp add: view_meta view_view)

end

text \<open>
  The status subresource of a store: an update of the status of a stored object either fails
  with a conflict or answers with the status it was sent.
\<close>

locale status_store = object_store A meta view lookup legal inv
  for A :: "('o, 'w) api" and meta view lookup legal inv +
  fixes status :: "'o \<Rightarrow> 's"
  assumes status_existing:
      "\<lbrakk>inv w; legal (metaKey (meta x)); lookup w (metaKey (meta x)) = Some y\<rbrakk> \<Longrightarrow>
         (\<exists>x' w'. api_update_status A x w = (Inr x', w') \<and> metaKey (meta x') = metaKey (meta x) \<and>
           status x' = status x \<and> inv w' \<and> lookup w' = (lookup w)(metaKey (meta x) \<mapsto> x'))
         \<or> (\<exists>e. api_update_status A x w = (Inl e, w) \<and> ReasonForError e = StatusReasonConflict)"
begin

lemma status_stored:
  assumes "inv w" "legal (metaKey (meta x))" "lookup w (metaKey (meta x)) = Some y"
    and "api_update_status A x w = (Inr x', w')"
  shows "map_option status (lookup w' (metaKey (meta x))) = Some (status x)"
  using status_existing [OF assms(1-3)] assms(4) by auto

end

subsection \<open>The log of writes\<close>

text \<open>
  \<open>logging C\<close> behaves as \<open>C\<close> and records every attempted write, in order, with the object
  it was called with. A statement about the log of \<open>logging C\<close> for every \<open>C\<close> is a statement
  about all the writes a controller can attempt against any server.
\<close>

datatype verb = VCreate | VUpdate | VUpdateStatus | VDelete

datatype kobject =
    KCanary Canary
  | KPolicy CanaryPolicy
  | KDeployment Deployment
  | KPod Pod
  | KService Service
  | KVirtualService VirtualService
  | KDestinationRule DestinationRule

type_synonym event = "verb \<times> kobject"

definition log_call :: "event \<Rightarrow> ('w \<Rightarrow> 'a \<times> 'w) \<Rightarrow> ('w \<times> event list) \<Rightarrow> 'a \<times> ('w \<times> event list)" where
  "log_call ev f = (\<lambda>(w, l). case f w of (r, w') \<Rightarrow> (r, (w', l @ [ev])))"

definition log_api :: "('o \<Rightarrow> kobject) \<Rightarrow> ('o, 'w) api \<Rightarrow> ('o, 'w \<times> event list) api" where
  "log_api wrap A =
     \<lparr>api_get = (\<lambda>k (w, l). case api_get A k w of (r, w') \<Rightarrow> (r, (w', l))),
      api_create = (\<lambda>x. log_call (VCreate, wrap x) (api_create A x)),
      api_update = (\<lambda>x. log_call (VUpdate, wrap x) (api_update A x)),
      api_update_status = (\<lambda>x. log_call (VUpdateStatus, wrap x) (api_update_status A x)),
      api_delete = (\<lambda>x. log_call (VDelete, wrap x) (api_delete A x))\<rparr>"

definition logging :: "'w Client \<Rightarrow> ('w \<times> event list) Client" where
  "logging C =
     \<lparr>canaries = log_api KCanary (canaries C),
      policies = log_api KPolicy (policies C),
      deployments = log_api KDeployment (deployments C),
      pods = log_api KPod (pods C),
      services = log_api KService (services C),
      virtualservices = log_api KVirtualService (virtualservices C),
      destinationrules = log_api KDestinationRule (destinationrules C)\<rparr>"

lemma logging_simps [simp]:
  "canaries (logging C) = log_api KCanary (canaries C)"
  "policies (logging C) = log_api KPolicy (policies C)"
  "deployments (logging C) = log_api KDeployment (deployments C)"
  "pods (logging C) = log_api KPod (pods C)"
  "services (logging C) = log_api KService (services C)"
  "virtualservices (logging C) = log_api KVirtualService (virtualservices C)"
  "destinationrules (logging C) = log_api KDestinationRule (destinationrules C)"
  by (simp_all add: logging_def)

end
