(* ===== verification/DeployNames.thy ===== *)
theory DeployNames
  imports ClientApi
begin

text \<open>
  The names and labels that tie the objects of one canary together, and the filter that
  decides which deployments the deployment controller sees
  (\<open>pkg/controller/deployment/canary_predicate.go\<close> and the naming functions of
  \<open>deployment_controller.go\<close> and \<open>service_reconciler.go\<close>).
\<close>

subsection \<open>Labels\<close>

definition CanaryPolicyLabel :: string where
  "CanaryPolicyLabel = ''krane.sh/canary-policy''"

definition CanaryConfigLabel :: string where
  "CanaryConfigLabel = ''krane.sh/canary-config''"

definition KraneTierLabel :: string where
  "KraneTierLabel = ''krane.sh/tier''"

definition VersionLabel :: string where
  "VersionLabel = ''version''"

text \<open>The four label keys differ; proofs use this and never look at the strings again.\<close>

lemma labels_distinct [simp, go_simps]:
  "CanaryPolicyLabel \<noteq> CanaryConfigLabel" "CanaryConfigLabel \<noteq> CanaryPolicyLabel"
  "CanaryPolicyLabel \<noteq> KraneTierLabel" "KraneTierLabel \<noteq> CanaryPolicyLabel"
  "CanaryConfigLabel \<noteq> KraneTierLabel" "KraneTierLabel \<noteq> CanaryConfigLabel"
  "CanaryPolicyLabel \<noteq> VersionLabel" "VersionLabel \<noteq> CanaryPolicyLabel"
  "CanaryConfigLabel \<noteq> VersionLabel" "VersionLabel \<noteq> CanaryConfigLabel"
  "KraneTierLabel \<noteq> VersionLabel" "VersionLabel \<noteq> KraneTierLabel"
  by (simp_all add: CanaryPolicyLabel_def CanaryConfigLabel_def KraneTierLabel_def VersionLabel_def)

subsection \<open>The event filter\<close>

definition hasCanaryPolicyLabel :: "gomap \<Rightarrow> bool" where
  "hasCanaryPolicyLabel labels = map_has labels CanaryPolicyLabel"

definition isCanaryTier :: "gomap \<Rightarrow> bool" where
  "isCanaryTier labels \<longleftrightarrow> map_get labels KraneTierLabel = ''canary''"

text \<open>The events of a watch on deployments; each carries the object's metadata.\<close>

datatype WatchEvent =
    CreateEvent ObjectMeta
  | UpdateEvent ObjectMeta ObjectMeta
  | DeleteEvent ObjectMeta
  | GenericEvent ObjectMeta

definition Predicate_Create :: "ObjectMeta \<Rightarrow> bool" where
  "Predicate_Create m =
     (if \<not> hasCanaryPolicyLabel (om_Labels m) \<or> \<not> isCanaryTier (om_Labels m) then False else True)"

definition Predicate_Delete :: "ObjectMeta \<Rightarrow> bool" where
  "Predicate_Delete m = False"

definition Predicate_Update :: "ObjectMeta \<Rightarrow> ObjectMeta \<Rightarrow> bool" where
  "Predicate_Update old new =
     (if \<not> hasCanaryPolicyLabel (om_Labels new) \<or> \<not> isCanaryTier (om_Labels new) then False else True)"

definition Predicate_Generic :: "ObjectMeta \<Rightarrow> bool" where
  "Predicate_Generic m =
     (if \<not> hasCanaryPolicyLabel (om_Labels m) \<or> \<not> isCanaryTier (om_Labels m) then False else True)"

fun CanaryObjectPredicate :: "WatchEvent \<Rightarrow> bool" where
  "CanaryObjectPredicate (CreateEvent m) = Predicate_Create m"
| "CanaryObjectPredicate (UpdateEvent old new) = Predicate_Update old new"
| "CanaryObjectPredicate (DeleteEvent m) = Predicate_Delete m"
| "CanaryObjectPredicate (GenericEvent m) = Predicate_Generic m"

text \<open>What passes the filter: the state after the event is that of a canary with a policy.\<close>

fun event_current :: "WatchEvent \<Rightarrow> ObjectMeta option" where
  "event_current (CreateEvent m) = Some m"
| "event_current (UpdateEvent old new) = Some new"
| "event_current (DeleteEvent m) = None"
| "event_current (GenericEvent m) = Some m"

lemma predicate_iff:
  "CanaryObjectPredicate ev \<longleftrightarrow>
     (\<exists>m. event_current ev = Some m \<and> hasCanaryPolicyLabel (om_Labels m) \<and> isCanaryTier (om_Labels m))"
  by (cases ev) (auto simp: Predicate_Create_def Predicate_Update_def Predicate_Delete_def Predicate_Generic_def)

subsection \<open>Names\<close>

definition GetCanaryConfigName :: "Deployment \<Rightarrow> string" where
  "GetCanaryConfigName d = map_get (om_Labels (dp_Meta d)) CanaryConfigLabel"

definition GetCanaryPolicyName :: "Deployment \<Rightarrow> string" where
  "GetCanaryPolicyName d = map_get (om_Labels (dp_Meta d)) CanaryPolicyLabel"

definition MakeCanaryConfigName :: "CanaryPolicy \<Rightarrow> Deployment \<Rightarrow> string" where
  "MakeCanaryConfigName p c = om_Name (cpo_Meta p) @ ''-'' @ om_Name (dp_Meta c)"

definition MakeBaselineName :: "Deployment \<Rightarrow> string" where
  "MakeBaselineName c = strings_TrimSuffix (om_Name (dp_Meta c)) ''-canary'' @ ''-baseline''"

definition MakeCanaryServiceName :: "CanaryPolicy \<Rightarrow> Deployment \<Rightarrow> string" where
  "MakeCanaryServiceName p c = om_Name (cpo_Meta p) @ ''-'' @ om_Name (dp_Meta c)"

text \<open>The canary service and the canary resource share their name (the code relies on it).\<close>

lemma service_name_is_config_name: "MakeCanaryServiceName p c = MakeCanaryConfigName p c"
  by (simp add: MakeCanaryServiceName_def MakeCanaryConfigName_def)

lemma config_name_nonempty [simp]: "MakeCanaryConfigName p c \<noteq> []"
  by (simp add: MakeCanaryConfigName_def)

lemma baseline_name_nonempty [simp]: "MakeBaselineName c \<noteq> []"
  by (simp add: MakeBaselineName_def)

lemma baseline_name_of_canary:
  "om_Name (dp_Meta c) = stem @ ''-canary'' \<Longrightarrow> MakeBaselineName c = stem @ ''-baseline''"
  by (simp add: MakeBaselineName_def)

text \<open>The baseline never has the canary's own name.\<close>

lemma baseline_name_fresh: "MakeBaselineName c \<noteq> om_Name (dp_Meta c)"
proof
  assume eq: "MakeBaselineName c = om_Name (dp_Meta c)"
  show False
  proof (cases "suffix ''-canary'' (om_Name (dp_Meta c))")
    case True
    then obtain stem where s: "om_Name (dp_Meta c) = stem @ ''-canary''"
      by (auto simp: suffix_def)
    from eq baseline_name_of_canary [OF s] s show False by simp
  next
    case False
    with eq show False
      by (simp add: MakeBaselineName_def)
  qed
qed

end
