(* ===== verification/DeployResources.thy ===== *)
theory DeployResources
  imports DeployNames
begin

text \<open>
  What the deployment controller maintains for one canary deployment: the selection labels of
  its pod template (\<open>canary_reconciler.go\<close>), its service (\<open>service_reconciler.go\<close>), its
  baseline deployment (\<open>baseline_reconciler.go\<close>) and its \<open>Canary\<close> resource
  (\<open>canary_config_reconciler.go\<close>). The pointer arguments \<open>canaryInstance\<close> and \<open>policy\<close>, which
  the functions write through, are the memory of the programs.
\<close>

record DeployMem =
  me_instance :: Deployment
  me_policy :: CanaryPolicy

abbreviation deployment_name :: "Deployment \<Rightarrow> string" where
  "deployment_name d \<equiv> om_Name (dp_Meta d)"

abbreviation deployment_namespace :: "Deployment \<Rightarrow> string" where
  "deployment_namespace d \<equiv> om_Namespace (dp_Meta d)"

abbreviation template_labels :: "DeploymentSpec \<Rightarrow> gomap" where
  "template_labels sp \<equiv> om_Labels (pt_Meta (ds_Template sp))"

abbreviation policy_label :: "Deployment \<Rightarrow> string" where
  "policy_label d \<equiv> map_get (om_Labels (dp_Meta d)) CanaryPolicyLabel"

definition set_template_labels :: "gomap \<Rightarrow> DeploymentSpec \<Rightarrow> DeploymentSpec" where
  "set_template_labels l sp =
     sp\<lparr>ds_Template := (ds_Template sp)\<lparr>pt_Meta := (pt_Meta (ds_Template sp))\<lparr>om_Labels := l\<rparr>\<rparr>\<rparr>"

lemma set_template_labels_simps [simp]:
  "template_labels (set_template_labels l sp) = l"
  "ds_Selector (set_template_labels l sp) = ds_Selector sp"
  "ds_Replicas (set_template_labels l sp) = ds_Replicas sp"
  "ds_rest (set_template_labels l sp) = ds_rest sp"
  "pt_Spec (ds_Template (set_template_labels l sp)) = pt_Spec (ds_Template sp)"
  by (simp_all add: set_template_labels_def)

text \<open>The labels that tie a pod to a canary service, written one after the other.\<close>

definition add_selection_labels :: "string \<Rightarrow> string \<Rightarrow> gomap \<Rightarrow> gomap outcome" where
  "add_selection_labels cfg pol l =
     bindO (map_set CanaryConfigLabel cfg l) (\<lambda>l1. map_set CanaryPolicyLabel pol l1)"

lemma add_selection_labels_simps [simp]:
  "add_selection_labels cfg pol None = Panic NilMapWrite"
  "add_selection_labels cfg pol (Some f)
     = Ok (Some (f(CanaryConfigLabel \<mapsto> cfg, CanaryPolicyLabel \<mapsto> pol)))"
  by (simp_all add: add_selection_labels_def)

subsection \<open>The canary's own template\<close>

definition labelled_template :: "Deployment \<Rightarrow> bool" where
  "labelled_template c \<longleftrightarrow>
     map_get (template_labels (dp_Spec c)) CanaryConfigLabel \<noteq> [] \<and>
     map_get (template_labels (dp_Spec c)) CanaryPolicyLabel \<noteq> []"

definition reconcileCanaryDeployment :: "'w Reconciler \<Rightarrow> (DeployMem \<times> 'w, unit) prog" where
  "reconcileCanaryDeployment R =
     bindP memP (\<lambda>m. let c = me_instance m in
     if labelled_template c then retP ()
     else
       bindP (liftP (add_selection_labels (MakeCanaryConfigName (me_policy m) c) (policy_label c)
                (template_labels (dp_Spec c)))) (\<lambda>l.
       let c1 = c\<lparr>dp_Spec := set_template_labels l (dp_Spec c)\<rparr> in
       thenP (modmemP (me_instance_update (\<lambda>_. c1)))
         (bindP (callP (api_update (deployments (client R)) c1)) (\<lambda>c2.
            modmemP (me_instance_update (\<lambda>_. c2))))))"

subsection \<open>The canary service\<close>

definition defaultPorts :: "ServicePort list" where
  "defaultPorts = [\<lparr>sp_Name = ''http'', sp_Protocol = ''TCP'', sp_Port = 80, sp_rest = []\<rparr>]"

text \<open>The first statement of \<open>createCanaryService\<close>: the policy's ports get a default.\<close>

definition default_ports :: "CanaryPolicy \<Rightarrow> CanaryPolicy" where
  "default_ports p =
     (if cps_Ports (cpo_Spec p) = [] then p\<lparr>cpo_Spec := (cpo_Spec p)\<lparr>cps_Ports := defaultPorts\<rparr>\<rparr> else p)"

text \<open>The labels and the selector the service gets (the same two pairs).\<close>

definition selection_map :: "CanaryPolicy \<Rightarrow> Deployment \<Rightarrow> gomap" where
  "selection_map p c =
     Some [CanaryConfigLabel \<mapsto> MakeCanaryConfigName p c, CanaryPolicyLabel \<mapsto> policy_label c]"

definition newCanaryService :: "CanaryPolicy \<Rightarrow> Deployment \<Rightarrow> Service" where
  "newCanaryService p c =
     \<lparr>svc_Meta = mkMeta (MakeCanaryServiceName p c) (deployment_namespace c) (selection_map p c),
      svc_Selector = selection_map p c, svc_Ports = cps_Ports (cpo_Spec p), svc_rest = []\<rparr>"

definition createCanaryService :: "'w Reconciler \<Rightarrow> (DeployMem \<times> 'w, Service) prog" where
  "createCanaryService R =
     thenP (modmemP (me_policy_update default_ports))
     (bindP memP (\<lambda>m. let c = me_instance m; svc = newCanaryService (me_policy m) c in
      bindP (liftP (SetControllerReference (scheme R) OwnerDeployment (dp_Meta c) (svc_Meta svc)))
        (\<lambda>mt. retP (svc\<lparr>svc_Meta := mt\<rparr>))))"

definition reconcileCanaryService :: "'w Reconciler \<Rightarrow> (DeployMem \<times> 'w, Service) prog" where
  "reconcileCanaryService R =
     bindP memP (\<lambda>m.
     get_or_create (services (client R))
       \<lparr>nn_Namespace = om_Namespace (cpo_Meta (me_policy m)),
        nn_Name = MakeCanaryServiceName (me_policy m) (me_instance m)\<rparr>
       (createCanaryService R) (\<lambda>_. retP ()))"

subsection \<open>The baseline deployment\<close>

text \<open>\<open>if policy.Spec.BaselineMode == "" { ... = BaselineModeNew }\<close>.\<close>

definition default_mode :: "CanaryPolicy \<Rightarrow> CanaryPolicy" where
  "default_mode p =
     (if cps_BaselineMode (cpo_Spec p) = BaselineModeUnset
      then p\<lparr>cpo_Spec := (cpo_Spec p)\<lparr>cps_BaselineMode := BaselineModeNew\<rparr>\<rparr> else p)"

text \<open>
  The switch on the mode: the canary's specification with the containers of the base
  deployment, or the specification of the base deployment; any other mode leaves the zero
  specification.
\<close>

definition with_containers :: "Container list \<Rightarrow> DeploymentSpec \<Rightarrow> DeploymentSpec" where
  "with_containers cs sp =
     sp\<lparr>ds_Template := (ds_Template sp)\<lparr>pt_Spec := (pt_Spec (ds_Template sp))\<lparr>ps_Containers := cs\<rparr>\<rparr>\<rparr>"

fun baseline_spec :: "BaselineMode \<Rightarrow> Deployment \<Rightarrow> Deployment \<Rightarrow> DeploymentSpec" where
  "baseline_spec BaselineModeNew c base =
     with_containers (ps_Containers (pt_Spec (ds_Template (dp_Spec base)))) (dp_Spec c)"
| "baseline_spec BaselineModeOld c base = dp_Spec base"
| "baseline_spec mode c base = zeroDeploymentSpec"

text \<open>One replica, and the labels that make selector and template a baseline's.\<close>

definition connect_selectors :: "string \<Rightarrow> string \<Rightarrow> DeploymentSpec \<Rightarrow> DeploymentSpec outcome" where
  "connect_selectors cfg pol sp0 =
     (let sp = sp0\<lparr>ds_Replicas := Some 1\<rparr> in
      bindO (deref (ds_Selector sp)) (\<lambda>sel.
      bindO (map_set KraneTierLabel ''baseline'' (ls_MatchLabels sel)) (\<lambda>s1.
      bindO (map_set VersionLabel ''baseline'' s1) (\<lambda>s2.
      bindO (map_set KraneTierLabel ''baseline'' (template_labels sp)) (\<lambda>l1.
      bindO (map_set VersionLabel ''baseline'' l1) (\<lambda>l2.
      bindO (add_selection_labels cfg pol l2) (\<lambda>l3.
      Ok (set_template_labels l3 (sp\<lparr>ds_Selector := Some (sel\<lparr>ls_MatchLabels := s2\<rparr>)\<rparr>)))))))))"

definition baseline_meta :: "CanaryPolicy \<Rightarrow> Deployment \<Rightarrow> ObjectMeta" where
  "baseline_meta p c =
     mkMeta (MakeBaselineName c) (deployment_namespace c)
       (Some [KraneTierLabel \<mapsto> ''baseline'', CanaryConfigLabel \<mapsto> MakeCanaryConfigName p c,
              CanaryPolicyLabel \<mapsto> policy_label c])"

definition createBaselineDeployment :: "'w Reconciler \<Rightarrow> (DeployMem \<times> 'w, Deployment) prog" where
  "createBaselineDeployment R =
     bindP memP (\<lambda>m. let c = me_instance m in
     bindP (callP (api_get (deployments (client R))
        \<lparr>nn_Namespace = deployment_namespace c, nn_Name = cps_Base (cpo_Spec (me_policy m))\<rparr>)) (\<lambda>base.
     thenP (modmemP (me_policy_update default_mode))
     (bindP memP (\<lambda>m. let p = me_policy m in
     bindP (liftP (connect_selectors (MakeCanaryConfigName p c) (policy_label c)
        (baseline_spec (cps_BaselineMode (cpo_Spec p)) c base))) (\<lambda>sp.
     bindP (liftP (SetControllerReference (scheme R) OwnerDeployment (dp_Meta c) (baseline_meta p c)))
       (\<lambda>mt. retP \<lparr>dp_Meta = mt, dp_Spec = sp, dp_AvailableReplicas = 0, dp_rest = []\<rparr>))))))"

definition reconcileBaseline :: "'w Reconciler \<Rightarrow> (DeployMem \<times> 'w, Deployment) prog" where
  "reconcileBaseline R =
     bindP memP (\<lambda>m. let c = me_instance m in
     get_or_create (deployments (client R))
       \<lparr>nn_Namespace = deployment_namespace c, nn_Name = MakeBaselineName c\<rparr>
       (createBaselineDeployment R) (\<lambda>_. retP ()))"

subsection \<open>The canary resource\<close>

definition createCanaryConfig :: "CanaryPolicy \<Rightarrow> Deployment \<Rightarrow> Canary" where
  "createCanaryConfig p c =
     \<lparr>cn_Meta = mkMeta (MakeCanaryConfigName p c) (om_Namespace (cpo_Meta p)) None,
      cn_Spec = \<lparr>csp_Policy = om_Name (cpo_Meta p),
        csp_Deployments = \<lparr>csd_Canary = deployment_name c, csd_Baseline = MakeBaselineName c,
          csd_Base = cps_Base (cpo_Spec p)\<rparr>\<rparr>,
      cn_Status = zeroStatus\<rparr>"

definition reconcileCanaryConfig :: "'w Reconciler \<Rightarrow> (DeployMem \<times> 'w, Canary) prog" where
  "reconcileCanaryConfig R =
     bindP memP (\<lambda>m.
     bindP (get_or_create (canaries (client R))
        \<lparr>nn_Namespace = om_Namespace (cpo_Meta (me_policy m)),
         nn_Name = MakeCanaryConfigName (me_policy m) (me_instance m)\<rparr>
        (retP (createCanaryConfig (me_policy m) (me_instance m))) (\<lambda>_. retP ())) (\<lambda>cfg.
     if om_OwnerReferences (cn_Meta cfg) = [] then
       bindP memP (\<lambda>m. let c = me_instance m in
       bindP (liftP (SetControllerReference (scheme R) OwnerCanary (cn_Meta cfg) (dp_Meta c))) (\<lambda>mt.
       let c1 = c\<lparr>dp_Meta := mt\<rparr> in
       thenP (modmemP (me_instance_update (\<lambda>_. c1)))
         (bindP (callP (api_update (deployments (client R)) c1)) (\<lambda>c2.
          thenP (modmemP (me_instance_update (\<lambda>_. c2))) (retP cfg)))))
     else retP cfg))"

subsection \<open>The pure parts\<close>

lemma default_ports_simps [simp]:
  "cpo_Meta (default_ports p) = cpo_Meta p"
  "cps_Base (cpo_Spec (default_ports p)) = cps_Base (cpo_Spec p)"
  "cps_BaselineMode (cpo_Spec (default_ports p)) = cps_BaselineMode (cpo_Spec p)"
  "cps_Ports (cpo_Spec (default_ports p)) \<noteq> []"
  by (simp_all add: default_ports_def defaultPorts_def)

lemma default_mode_simps [simp]:
  "cpo_Meta (default_mode p) = cpo_Meta p"
  "cps_Base (cpo_Spec (default_mode p)) = cps_Base (cpo_Spec p)"
  "cps_BaselineMode (cpo_Spec (default_mode p)) \<noteq> BaselineModeUnset"
  by (simp_all add: default_mode_def)

lemma default_names [simp]:
  "MakeCanaryConfigName (default_ports p) c = MakeCanaryConfigName p c"
  "MakeCanaryConfigName (default_mode p) c = MakeCanaryConfigName p c"
  "MakeCanaryServiceName (default_ports p) c = MakeCanaryServiceName p c"
  "baseline_meta (default_mode p) c = baseline_meta p c"
  by (simp_all add: MakeCanaryConfigName_def MakeCanaryServiceName_def baseline_meta_def)

lemma newCanaryService_simps [simp]:
  "svc_Meta (newCanaryService p c)
     = mkMeta (MakeCanaryServiceName p c) (deployment_namespace c) (selection_map p c)"
  "svc_Selector (newCanaryService p c) = selection_map p c"
  "svc_Ports (newCanaryService p c) = cps_Ports (cpo_Spec p)"
  by (simp_all add: newCanaryService_def)

lemma with_containers_simps [simp]:
  "template_labels (with_containers cs sp) = template_labels sp"
  "ds_Selector (with_containers cs sp) = ds_Selector sp"
  "ds_rest (with_containers cs sp) = ds_rest sp"
  "ps_Containers (pt_Spec (ds_Template (with_containers cs sp))) = cs"
  by (simp_all add: with_containers_def)

text \<open>
  A specification whose selector and template labels are there; every deployment the API
  server accepts is one, with a selector that matches the template.
\<close>

definition selectable :: "DeploymentSpec \<Rightarrow> bool" where
  "selectable sp \<longleftrightarrow>
     (\<exists>sel f g. ds_Selector sp = Some sel \<and> ls_MatchLabels sel = Some f \<and> template_labels sp = Some g)"

definition selector_matches :: "DeploymentSpec \<Rightarrow> bool" where
  "selector_matches sp \<longleftrightarrow>
     (case ds_Selector sp of None \<Rightarrow> False | Some sel \<Rightarrow> selects (ls_MatchLabels sel) (template_labels sp))"

lemma connect_selectors_Ok:
  assumes "ds_Selector sp = Some sel" "ls_MatchLabels sel = Some f" "template_labels sp = Some g"
  shows "connect_selectors cfg pol sp = Ok
    (set_template_labels
      (Some (g(KraneTierLabel \<mapsto> ''baseline'', VersionLabel \<mapsto> ''baseline'',
               CanaryConfigLabel \<mapsto> cfg, CanaryPolicyLabel \<mapsto> pol)))
      (sp\<lparr>ds_Replicas := Some 1,
         ds_Selector := Some (sel\<lparr>ls_MatchLabels :=
           Some (f(KraneTierLabel \<mapsto> ''baseline'', VersionLabel \<mapsto> ''baseline''))\<rparr>)\<rparr>))"
  using assms by (simp add: connect_selectors_def)

lemma connect_selectors_not_Err: "connect_selectors cfg pol sp \<noteq> Err e"
  by (cases "ds_Selector sp"; cases "template_labels sp")
     (auto simp: connect_selectors_def map_set_def split: option.splits)

lemma connect_selectors_Ok_iff:
  "(\<exists>sp'. connect_selectors cfg pol sp = Ok sp') \<longleftrightarrow> selectable sp"
proof
  assume "\<exists>sp'. connect_selectors cfg pol sp = Ok sp'"
  then show "selectable sp"
    by (auto simp: connect_selectors_def selectable_def map_set_eq_Ok)
next
  assume "selectable sp"
  then show "\<exists>sp'. connect_selectors cfg pol sp = Ok sp'"
    by (auto simp: selectable_def connect_selectors_def)
qed

lemma connect_selectors_panics:
  "(\<exists>p. connect_selectors cfg pol sp = Panic p) \<longleftrightarrow> \<not> selectable sp"
  using connect_selectors_Ok_iff [of cfg pol sp] connect_selectors_not_Err [of cfg pol sp]
  by (cases "connect_selectors cfg pol sp") auto

end
