(* ===== verification/DeployController.thy ===== *)
theory DeployController
  imports DeployResources
begin

text \<open>
  The deployment controller (\<open>pkg/controller/deployment/deployment_controller.go\<close>): reading
  the deployment of a request and its policy, and running the four maintenance steps of theory
  \<open>DeployResources\<close> in order, each error turned into a result by \<open>fallbackReconcile\<close>.
\<close>

definition modified_message :: string where
  "modified_message = ''the object has been modified''"

definition deployment_fallbackReconcile :: "error \<Rightarrow> Result \<times> error option" where
  "deployment_fallbackReconcile err =
     (let err' = (if strings_Contains (Error err) modified_message then None else Some err)
      in (\<lparr>rs_Requeue = True, rs_RequeueAfter = Second * 3\<rparr>, err'))"

definition ReconcileDeployment_GetCanaryPolicy :: "'w Reconciler \<Rightarrow> Deployment \<Rightarrow> ('m \<times> 'w, CanaryPolicy) prog" where
  "ReconcileDeployment_GetCanaryPolicy R c =
     callP (api_get (policies (client R))
       \<lparr>nn_Namespace = deployment_namespace c, nn_Name = GetCanaryPolicyName c\<rparr>)"

text \<open>\<open>UpdateCanaryConfigName\<close> writes through its pointer argument; it returns the new value.\<close>

definition UpdateCanaryConfigName ::
    "'w Reconciler \<Rightarrow> CanaryPolicy \<Rightarrow> Deployment \<Rightarrow> ('m \<times> 'w, Deployment) prog" where
  "UpdateCanaryConfigName R pol c =
     bindP (liftP (map_set CanaryConfigLabel (MakeCanaryConfigName pol c) (om_Labels (dp_Meta c)))) (\<lambda>l.
     callP (api_update (deployments (client R)) (c\<lparr>dp_Meta := (dp_Meta c)\<lparr>om_Labels := l\<rparr>\<rparr>)))"

definition ReconcileDeployment_reconcile :: "'w Reconciler \<Rightarrow> NamespacedName \<Rightarrow> ('m \<times> 'w, Deployment) prog" where
  "ReconcileDeployment_reconcile R nn =
     bindP (callP (api_get (deployments (client R)) nn)) (\<lambda>d.
     bindP (ReconcileDeployment_GetCanaryPolicy R d) (\<lambda>canaryPolicy.
     if GetCanaryConfigName d = [] then UpdateCanaryConfigName R canaryPolicy d
     else retP d))"

text \<open>\<open>if err != nil { return fallbackReconcile(err) }\<close> after a step.\<close>

definition orFallback :: "('s, 'a) prog \<Rightarrow> ('s, Result \<times> error option) prog \<Rightarrow> ('s, Result \<times> error option) prog" where
  "orFallback m k = bindP (tryP m) (\<lambda>r. case r of Inl e \<Rightarrow> retP (deployment_fallbackReconcile e) | Inr _ \<Rightarrow> k)"

lemma wp_orFallback [wp_simps]:
  "wp (orFallback m k) Q s = wp m (\<lambda>r s'. case r of
      Ok x \<Rightarrow> wp k Q s' | Err e \<Rightarrow> Q (Ok (deployment_fallbackReconcile e)) s' | Panic p \<Rightarrow> Q (Panic p) s') s"
  by (auto simp: wp_def orFallback_def bindP_def tryP_def retP_def split: prod.splits outcome.splits)

definition reconcileSteps :: "'w Reconciler \<Rightarrow> (DeployMem \<times> 'w, Result \<times> error option) prog" where
  "reconcileSteps R =
     orFallback (reconcileCanaryDeployment R)
     (orFallback (reconcileCanaryService R)
     (orFallback (reconcileBaseline R)
     (orFallback (reconcileCanaryConfig R)
     (retP (noResult, None)))))"

definition ReconcileDeployment_Reconcile :: "'w Reconciler \<Rightarrow> NamespacedName \<Rightarrow> ('w, Result \<times> error option) prog" where
  "ReconcileDeployment_Reconcile R request =
     bindP (tryP (runP () (ReconcileDeployment_reconcile R request))) (\<lambda>r. case r of
       Inl err \<Rightarrow>
         if IsNotFound err then retP (noResult, None) else retP (deployment_fallbackReconcile err)
     | Inr canaryInstance \<Rightarrow>
         bindP (tryP (runP () (ReconcileDeployment_GetCanaryPolicy R canaryInstance))) (\<lambda>r. case r of
           Inl err \<Rightarrow> retP (deployment_fallbackReconcile err)
         | Inr canaryPolicy \<Rightarrow>
             runP \<lparr>me_instance = canaryInstance, me_policy = canaryPolicy\<rparr> (reconcileSteps R)))"

end
