(* ===== verification/JsonTags.thy ===== *)
theory JsonTags
  imports GoPrelude "HOL-Library.Char_ord" "HOL-Library.List_Lexorder"
begin

text \<open>
  How structs with JSON tags pass through the API server: written by \<open>encoding/json\<close>, read by
  the case-sensitive json-iterator, as \<open>runtime/serializer/json\<close> does it. A document is a tree of
  values; numbers keep their text, so that their conversions are explicit. Objects have each key
  once, strings are valid UTF-8, and the messages of errors are dropped (None is an error).

  A codec is a type's pair of conversions with its zero value and what \<open>omitempty\<close> takes for empty;
  structs are codecs built from the list of their fields. The laws of a codec are a locale, and the
  lemmas here give a struct's from its fields'.
\<close>

named_theorems json_fill "what a round trip does to one field of a struct"

datatype json = JNull | JBool bool | JNumber string | JString string | JArray "json list"
  | JObject "(string \<times> json) list"

record 'a codec =
  co_encode :: "'a \<Rightarrow> json option"
  co_decode :: "json \<Rightarrow> 'a option"
  co_isEmpty :: "'a \<Rightarrow> bool"
  co_zero :: 'a

text \<open>
  \<open>norm\<close> is what a value becomes on its way out and back, for the values that can be written;
  the second law makes \<open>omitempty\<close> harmless, and the third says that what was read is not
  changed any more.
\<close>

locale codec =
  fixes c :: "'a codec" and ok :: "'a \<Rightarrow> bool" and norm :: "'a \<Rightarrow> 'a"
  assumes round_trip: "ok x \<Longrightarrow> \<exists>j. co_encode c x = Some j \<and> co_decode c j = Some (norm x)"
    and empty: "ok x \<Longrightarrow> co_isEmpty c x \<Longrightarrow> norm x = co_zero c"
    and stable: "co_decode c j = Some x \<Longrightarrow> norm x = x"

text \<open>Codecs that never write \<open>null\<close>, which a pointer would read as nil.\<close>

locale value_codec = codec +
  assumes not_null: "co_encode c x \<noteq> Some JNull"

subsection \<open>Basic types\<close>

definition string_codec :: "string codec" where
  "string_codec =
     \<lparr>co_encode = (\<lambda>s. Some (JString s)),
      co_decode = (\<lambda>j. case j of JNull \<Rightarrow> Some [] | JString s \<Rightarrow> Some s | _ \<Rightarrow> None),
      co_isEmpty = (\<lambda>s. s = []), co_zero = []\<rparr>"

definition bool_codec :: "bool codec" where
  "bool_codec =
     \<lparr>co_encode = (\<lambda>b. Some (JBool b)),
      co_decode = (\<lambda>j. case j of JNull \<Rightarrow> Some False | JBool b \<Rightarrow> Some b | _ \<Rightarrow> None),
      co_isEmpty = (\<lambda>b. \<not> b), co_zero = False\<rparr>"

definition read_unsigned :: "string \<Rightarrow> int option" where
  "read_unsigned s = (if s = [] then None else map_option int (read_digits 0 s))"

definition read_signed :: "string \<Rightarrow> int option" where
  "read_signed s =
     (if s \<noteq> [] \<and> hd s = CHR ''-'' then map_option uminus (read_unsigned (tl s)) else read_unsigned s)"

definition int32_codec :: "int32 codec" where
  "int32_codec =
     \<lparr>co_encode = (\<lambda>w. Some (JNumber (Itoa (sint w)))),
      co_decode = (\<lambda>j. case j of
          JNull \<Rightarrow> Some 0
        | JNumber s \<Rightarrow> (case read_signed s of
              None \<Rightarrow> None
            | Some i \<Rightarrow> if - (2 ^ 31) \<le> i \<and> i < 2 ^ 31 then Some (word_of_int i) else None)
        | _ \<Rightarrow> None),
      co_isEmpty = (\<lambda>w. w = 0), co_zero = 0\<rparr>"

definition uint32_codec :: "uint32 codec" where
  "uint32_codec =
     \<lparr>co_encode = (\<lambda>w. Some (JNumber (Itoa (uint w)))),
      co_decode = (\<lambda>j. case j of
          JNull \<Rightarrow> Some 0
        | JNumber s \<Rightarrow> (case read_unsigned s of
              None \<Rightarrow> None | Some i \<Rightarrow> if i < 2 ^ 32 then Some (word_of_int i) else None)
        | _ \<Rightarrow> None),
      co_isEmpty = (\<lambda>w. w = 0), co_zero = 0\<rparr>"

text \<open>The text of a float, and its reading, are parameters.\<close>

definition float_codec :: "(float64 \<Rightarrow> string option) \<Rightarrow> (string \<Rightarrow> float64 option) \<Rightarrow> float64 codec" where
  "float_codec jf pf =
     \<lparr>co_encode = (\<lambda>x. map_option JNumber (jf x)),
      co_decode = (\<lambda>j. case j of JNull \<Rightarrow> Some 0 | JNumber s \<Rightarrow> pf s | _ \<Rightarrow> None),
      co_isEmpty = (\<lambda>x. x = 0 \<or> x = 0x8000000000000000), co_zero = 0\<rparr>"

subsection \<open>Pointers, slices and maps\<close>

definition ptr_codec :: "'a codec \<Rightarrow> 'a option codec" where
  "ptr_codec c =
     \<lparr>co_encode = (\<lambda>p. case p of None \<Rightarrow> Some JNull | Some x \<Rightarrow> co_encode c x),
      co_decode = (\<lambda>j. if j = JNull then Some None else map_option Some (co_decode c j)),
      co_isEmpty = (\<lambda>p. p = None), co_zero = None\<rparr>"

fun all_of :: "'a option list \<Rightarrow> 'a list option" where
  "all_of [] = Some []"
| "all_of (None # xs) = None"
| "all_of (Some x # xs) = map_option (Cons x) (all_of xs)"

definition slice_codec :: "'a codec \<Rightarrow> 'a list codec" where
  "slice_codec c =
     \<lparr>co_encode = (\<lambda>xs. if xs = [] then Some JNull else map_option JArray (all_of (map (co_encode c) xs))),
      co_decode = (\<lambda>j. case j of JNull \<Rightarrow> Some [] | JArray js \<Rightarrow> all_of (map (co_decode c) js) | _ \<Rightarrow> None),
      co_isEmpty = (\<lambda>xs. xs = []), co_zero = []\<rparr>"

text \<open>Keys are written in their order; a later value for a key would replace an earlier one.\<close>

definition encode_map :: "'a codec \<Rightarrow> (string \<rightharpoonup> 'a) \<Rightarrow> json option" where
  "encode_map c f =
     map_option JObject (all_of (map (\<lambda>k. map_option (Pair k) (co_encode c (the (f k)))) (sorted_list_of_set (dom f))))"

fun decode_entries :: "'a codec \<Rightarrow> (string \<times> json) list \<Rightarrow> (string \<rightharpoonup> 'a) \<Rightarrow> (string \<rightharpoonup> 'a) option" where
  "decode_entries c [] f = Some f"
| "decode_entries c ((k, j) # es) f =
     (case co_decode c j of None \<Rightarrow> None | Some x \<Rightarrow> decode_entries c es (f(k \<mapsto> x)))"

definition map_codec :: "'a codec \<Rightarrow> (string \<rightharpoonup> 'a) option codec" where
  "map_codec c =
     \<lparr>co_encode = (\<lambda>m. case m of None \<Rightarrow> Some JNull | Some f \<Rightarrow> encode_map c f),
      co_decode = (\<lambda>j. case j of
          JNull \<Rightarrow> Some None | JObject es \<Rightarrow> map_option Some (decode_entries c es Map.empty) | _ \<Rightarrow> None),
      co_isEmpty = (\<lambda>m. case m of None \<Rightarrow> True | Some f \<Rightarrow> dom f = {}), co_zero = None\<rparr>"

subsection \<open>Structs\<close>

record 's field =
  fd_name :: string
  fd_tagged :: bool
  fd_omitempty :: bool
  fd_encode :: "'s \<Rightarrow> json option"
  fd_isEmpty :: "'s \<Rightarrow> bool"
  fd_decode :: "json \<Rightarrow> 's \<Rightarrow> 's option"

text \<open>A field with the tag \<open>json:"name,omitempty"\<close>, and one without a tag, named as in Go.\<close>

definition field :: "string \<Rightarrow> 'a codec \<Rightarrow> ('s \<Rightarrow> 'a) \<Rightarrow> ('a \<Rightarrow> 's \<Rightarrow> 's) \<Rightarrow> 's field" where
  "field name c get upd =
     \<lparr>fd_name = name, fd_tagged = True, fd_omitempty = True, fd_encode = co_encode c \<circ> get,
      fd_isEmpty = co_isEmpty c \<circ> get, fd_decode = (\<lambda>j s. map_option (\<lambda>x. upd x s) (co_decode c j))\<rparr>"

definition untagged :: "string \<Rightarrow> 'a codec \<Rightarrow> ('s \<Rightarrow> 'a) \<Rightarrow> ('a \<Rightarrow> 's \<Rightarrow> 's) \<Rightarrow> 's field" where
  "untagged name c get upd = (field name c get upd)\<lparr>fd_tagged := False, fd_omitempty := False\<rparr>"

text \<open>
  \<open>dominantField\<close> of \<open>encoding/json\<close>, for fields at one level: of several with the same name the
  only tagged one is written, and none when that does not decide.
\<close>

definition written :: "'s field list \<Rightarrow> 's field list" where
  "written fs = filter (\<lambda>f.
     let same = filter (\<lambda>g. fd_name g = fd_name f) fs; tagged = filter fd_tagged same
     in length tagged = 1 \<and> fd_tagged f \<or> tagged = [] \<and> length same = 1) fs"

text \<open>
  The loop over the bindings in \<open>decoderOfStruct\<close>, with \<open>resolveConflictBinding\<close> at one level.
\<close>

fun resolveConflictBinding :: "bool \<Rightarrow> bool \<Rightarrow> bool \<times> bool" where
  "resolveConflictBinding oldTagged newTagged =
     (if newTagged then (if oldTagged then (True, True) else (True, False))
      else if oldTagged then (True, False) else (True, True))"

definition bind_field :: "(string \<rightharpoonup> 's field) \<Rightarrow> 's field \<Rightarrow> (string \<rightharpoonup> 's field)" where
  "bind_field bindings f =
     (case bindings (fd_name f) of
        None \<Rightarrow> bindings(fd_name f \<mapsto> f)
      | Some old \<Rightarrow>
          let (ignoreOld, ignoreNew) = resolveConflictBinding (fd_tagged old) (fd_tagged f);
              b = (if ignoreOld then bindings(fd_name f := None) else bindings)
          in if \<not> ignoreNew then b(fd_name f \<mapsto> f) else b)"

definition bound :: "'s field list \<Rightarrow> (string \<rightharpoonup> 's field)" where
  "bound fs = foldl bind_field Map.empty fs"

fun encode_fields :: "'s field list \<Rightarrow> 's \<Rightarrow> (string \<times> json) list option" where
  "encode_fields [] s = Some []"
| "encode_fields (f # fs) s =
     (if fd_omitempty f \<and> fd_isEmpty f s then encode_fields fs s
      else case fd_encode f s of None \<Rightarrow> None | Some j \<Rightarrow> map_option (Cons (fd_name f, j)) (encode_fields fs s))"

text \<open>Keys that no field is bound to are skipped.\<close>

fun decode_fields :: "(string \<rightharpoonup> 's field) \<Rightarrow> (string \<times> json) list \<Rightarrow> 's \<Rightarrow> 's option" where
  "decode_fields b [] s = Some s"
| "decode_fields b ((k, j) # ms) s =
     (case b k of
        None \<Rightarrow> decode_fields b ms s
      | Some f \<Rightarrow> (case fd_decode f j s of None \<Rightarrow> None | Some s' \<Rightarrow> decode_fields b ms s'))"

definition struct_codec :: "'s field list \<Rightarrow> 's \<Rightarrow> 's codec" where
  "struct_codec fs zero =
     \<lparr>co_encode = (\<lambda>s. map_option JObject (encode_fields (written fs) s)),
      co_decode = (\<lambda>j. case j of JNull \<Rightarrow> Some zero | JObject ms \<Rightarrow> decode_fields (bound fs) ms zero | _ \<Rightarrow> None),
      co_isEmpty = (\<lambda>s. False), co_zero = zero\<rparr>"

lemma co_zero_simps [simp]:
  "co_zero string_codec = []" "co_zero bool_codec = False" "co_zero int32_codec = 0" "co_zero uint32_codec = 0"
  "co_zero (float_codec jf pf) = 0" "co_zero (ptr_codec c) = None" "co_zero (slice_codec c') = []"
  "co_zero (map_codec c'') = None" "co_zero (struct_codec fs zero) = zero"
  by (simp_all add: string_codec_def bool_codec_def int32_codec_def uint32_codec_def float_codec_def
      ptr_codec_def slice_codec_def map_codec_def struct_codec_def)

subsection \<open>Laws of the basic codecs\<close>

lemma read_Itoa_unsigned: "0 \<le> i \<Longrightarrow> read_unsigned (Itoa i) = Some i"
  using dec_digits_head [of "nat i"] by (simp add: read_unsigned_def Itoa_def read_dec_digits)

lemma read_Itoa_signed: "read_signed (Itoa i) = Some i"
proof (cases "i < 0")
  case True
  then show ?thesis
    using dec_digits_head [of "nat (- i)"] by (simp add: read_signed_def Itoa_def read_unsigned_def read_dec_digits)
next
  case False
  then have "hd (Itoa i) \<noteq> CHR ''-''"
    using dec_digits_head [of "nat i"] by (auto simp: Itoa_def is_digit_def)
  with False read_Itoa_unsigned [of i] show ?thesis by (simp add: read_signed_def)
qed

interpretation string_json: value_codec string_codec "\<lambda>_. True" "\<lambda>s. s"
  by unfold_locales (simp_all add: string_codec_def)

interpretation bool_json: value_codec bool_codec "\<lambda>_. True" "\<lambda>b. b"
  by unfold_locales (simp_all add: bool_codec_def)

interpretation int32_json: value_codec int32_codec "\<lambda>_. True" "\<lambda>w. w"
proof unfold_locales
  fix w :: int32
  show "\<exists>j. co_encode int32_codec w = Some j \<and> co_decode int32_codec j = Some w"
    using sint_greater_eq [of w] sint_less [of w] by (simp add: int32_codec_def read_Itoa_signed)
qed (simp_all add: int32_codec_def)

interpretation uint32_json: value_codec uint32_codec "\<lambda>_. True" "\<lambda>w. w"
proof unfold_locales
  fix w :: uint32
  show "\<exists>j. co_encode uint32_codec w = Some j \<and> co_decode uint32_codec j = Some w"
    using uint_lt2p [of w] by (simp add: uint32_codec_def read_Itoa_unsigned)
qed (simp_all add: uint32_codec_def)

text \<open>What is documented of the text of floats: it reads back, except for the sign of zero.\<close>

definition float_text :: "(float64 \<Rightarrow> string option) \<Rightarrow> (string \<Rightarrow> float64 option) \<Rightarrow> bool" where
  "float_text jf pf \<longleftrightarrow> (\<forall>x s. jf x = Some s \<longrightarrow> pf s = Some x)"

lemma float_value_codec:
  assumes "float_text jf pf"
  shows "value_codec (float_codec jf pf) (\<lambda>x. jf x \<noteq> None \<and> x \<noteq> 0x8000000000000000) (\<lambda>x. x)"
  by unfold_locales (use assms in \<open>auto simp: float_codec_def float_text_def\<close>)

text \<open>Pointers to values, slices and maps of what has the laws.\<close>

sublocale value_codec \<subseteq> pointer: codec "ptr_codec c" "\<lambda>p. case p of None \<Rightarrow> True | Some x \<Rightarrow> ok x" "map_option norm"
proof unfold_locales
  fix p assume "case p of None \<Rightarrow> True | Some x \<Rightarrow> ok x"
  then show "\<exists>j. co_encode (ptr_codec c) p = Some j \<and> co_decode (ptr_codec c) j = Some (map_option norm p)"
    using not_null round_trip by (cases p) (auto simp: ptr_codec_def, metis not_null option.inject)
qed (auto simp: ptr_codec_def stable split: if_splits)

context value_codec begin

lemma pointer_codec: "codec (ptr_codec c) (\<lambda>p. case p of None \<Rightarrow> True | Some x \<Rightarrow> ok x) (map_option norm)"
  by (rule pointer.codec_axioms)

lemma value_is_codec: "codec c ok norm"
  by (rule codec_axioms)

end

context codec begin

lemma all_of_round:
  "list_all ok xs \<Longrightarrow> \<exists>js. all_of (map (co_encode c) xs) = Some js \<and> all_of (map (co_decode c) js) = Some (map norm xs)"
proof (induction xs)
  case (Cons x xs)
  with round_trip [of x] show ?case by fastforce
qed simp

lemma all_of_stable: "all_of (map (co_decode c) js) = Some xs \<Longrightarrow> map norm xs = xs"
proof (induction js arbitrary: xs)
  case (Cons j js)
  then show ?case by (cases "co_decode c j") (auto simp: stable)
qed simp

lemma slice: "codec (slice_codec c) (list_all ok) (map norm)"
proof unfold_locales
  fix xs assume "list_all ok xs"
  then show "\<exists>j. co_encode (slice_codec c) xs = Some j \<and> co_decode (slice_codec c) j = Some (map norm xs)"
    using all_of_round [of xs] by (auto simp: slice_codec_def)
qed (auto simp: slice_codec_def all_of_stable split: json.splits)

definition map_ok :: "(string \<rightharpoonup> 'a) option \<Rightarrow> bool" where
  "map_ok m = (case m of None \<Rightarrow> True | Some f \<Rightarrow> finite (dom f) \<and> dom f \<noteq> {} \<and> (\<forall>x\<in>ran f. ok x))"

lemma entries_round:
  assumes "set ks \<subseteq> dom f" "\<forall>x\<in>ran f. ok x"
  shows "\<exists>es. all_of (map (\<lambda>k. map_option (Pair k) (co_encode c (the (f k)))) ks) = Some es \<and>
    (\<forall>g. decode_entries c es g = Some (\<lambda>k. if k \<in> set ks then map_option norm (f k) else g k))"
  using assms(1)
proof (induction ks)
  case (Cons k ks)
  then obtain es where es: "all_of (map (\<lambda>k. map_option (Pair k) (co_encode c (the (f k)))) ks) = Some es"
    "\<And>g. decode_entries c es g = Some (\<lambda>k. if k \<in> set ks then map_option norm (f k) else g k)" by auto
  obtain x where x: "f k = Some x" "ok x" using Cons.prems assms(2) by (auto simp: ran_def)
  with round_trip obtain j where j: "co_encode c x = Some j" "co_decode c j = Some (norm x)" by blast
  show ?case
    by (intro exI [of _ "(k, j) # es"]) (use es j x in \<open>auto simp: fun_eq_iff\<close>)
qed auto

lemma entries_stable:
  "decode_entries c es f = Some g \<Longrightarrow> \<forall>k. map_option norm (f k) = f k \<Longrightarrow> map_option norm (g k) = g k"
proof (induction es arbitrary: f)
  case (Cons e es)
  obtain k' j where e: "e = (k', j)" by (cases e)
  with Cons.prems(1) obtain x where x: "co_decode c j = Some x" "decode_entries c es (f(k' \<mapsto> x)) = Some g"
    by (auto split: option.splits)
  show ?case by (rule Cons.IH [OF x(2)]) (use Cons.prems(2) stable [OF x(1)] in simp)
qed simp

lemma map_value: "codec (map_codec c) map_ok (map_option (\<lambda>f k. map_option norm (f k)))"
proof unfold_locales
  fix m assume m: "map_ok m"
  show "\<exists>j. co_encode (map_codec c) m = Some j \<and> co_decode (map_codec c) j = Some (map_option (\<lambda>f k. map_option norm (f k)) m)"
  proof (cases m)
    case (Some f)
    with m have f: "finite (dom f)" "\<forall>x\<in>ran f. ok x" by (auto simp: map_ok_def)
    then obtain es where "all_of (map (\<lambda>k. map_option (Pair k) (co_encode c (the (f k)))) (sorted_list_of_set (dom f))) = Some es"
      "decode_entries c es Map.empty = Some (\<lambda>k. if k \<in> dom f then map_option norm (f k) else None)"
      using entries_round [of "sorted_list_of_set (dom f)" f] by auto
    moreover have "(\<lambda>k. if k \<in> dom f then map_option norm (f k) else None) = (\<lambda>k. map_option norm (f k))"
      by (auto simp: fun_eq_iff)
    ultimately show ?thesis by (simp add: Some map_codec_def encode_map_def)
  qed (simp add: map_codec_def)
qed (auto simp: map_codec_def map_ok_def entries_stable split: option.splits json.splits)

end

text \<open>Strings in slices and maps.\<close>

definition writable_map :: "gomap \<Rightarrow> bool" where
  "writable_map m = (case m of None \<Rightarrow> True | Some f \<Rightarrow> finite (dom f) \<and> dom f \<noteq> {})"

lemma ident_simps [simp]:
  "map_option (\<lambda>x. x) = (\<lambda>p. p)" "case_option True (\<lambda>x. True) = (\<lambda>p. True)"
  "list_all (\<lambda>x. True) = (\<lambda>xs. True)"
  by (auto simp: fun_eq_iff option.map_ident list_all_iff split: option.splits)

interpretation strings_json: codec "slice_codec string_codec" "\<lambda>_. True" "\<lambda>xs. xs"
  using string_json.slice by simp

interpretation labels_json: codec "map_codec string_codec" writable_map "\<lambda>m. m"
proof -
  have "string_json.map_ok = writable_map" by (simp add: fun_eq_iff string_json.map_ok_def writable_map_def split: option.splits)
  with string_json.map_value show "codec (map_codec string_codec) writable_map (\<lambda>m. m)" by simp
qed

subsection \<open>Laws of structs\<close>

text \<open>The fields of a struct, written from \<open>s\<close> and read into \<open>t\<close> one after the other.\<close>

fun fill :: "'s field list \<Rightarrow> 's \<Rightarrow> 's \<Rightarrow> 's option" where
  "fill [] s t = Some t"
| "fill (f # fs) s t =
     (if fd_omitempty f \<and> fd_isEmpty f s then fill fs s t
      else case fd_encode f s of None \<Rightarrow> None
         | Some j \<Rightarrow> (case fd_decode f j t of None \<Rightarrow> None | Some t' \<Rightarrow> fill fs s t'))"

declare fill.simps(2) [simp del]

lemma fill_written:
  assumes "fill vs s t = Some u" "\<forall>f\<in>set vs. b (fd_name f) = Some f"
  shows "\<exists>ms. encode_fields vs s = Some ms \<and> decode_fields b ms t = Some u"
  using assms by (induction vs arbitrary: t) (fastforce simp: fill.simps(2) split: if_splits option.splits)+

text \<open>Reading a field does not undo what the reading of the other fields has established.\<close>

definition keeps :: "('s \<Rightarrow> 's) \<Rightarrow> 's field \<Rightarrow> bool" where
  "keeps norm f \<longleftrightarrow> (\<forall>j s s'. fd_decode f j s = Some s' \<longrightarrow> norm s = s \<longrightarrow> norm s' = s')"

lemma keeps_ident [simp]: "keeps (\<lambda>s. s) = (\<lambda>f. True)"
  by (simp add: fun_eq_iff keeps_def)

lemma keeps_field:
  "keeps norm (field name c get upd) \<longleftrightarrow>
     (\<forall>j x s. co_decode c j = Some x \<longrightarrow> norm s = s \<longrightarrow> norm (upd x s) = upd x s)"
  by (auto simp: keeps_def field_def)

lemma decode_fields_stable:
  "decode_fields b ms s = Some s' \<Longrightarrow> \<forall>k f. b k = Some f \<longrightarrow> keeps norm f \<Longrightarrow> norm s = s \<Longrightarrow> norm s' = s'"
proof (induction ms arbitrary: s)
  case (Cons m ms)
  obtain k j where m: "m = (k, j)" by (cases m)
  show ?case
  proof (cases "b k")
    case None
    with Cons m show ?thesis by (metis decode_fields.simps(2) option.simps(4))
  next
    case (Some f)
    with Cons.prems(1) m obtain t where t: "fd_decode f j s = Some t" "decode_fields b ms t = Some s'"
      by (auto split: option.splits)
    have "norm t = t" using Cons.prems(2,3) Some t(1) unfolding keeps_def by metis
    with Cons.IH [OF t(2) Cons.prems(2)] show ?thesis .
  qed
qed simp

lemma struct_value_codec:
  assumes "\<And>s. ok s \<Longrightarrow> fill (written fs) s zero = Some (norm s)" "\<forall>f\<in>set (written fs). bound fs (fd_name f) = Some f"
    and "norm zero = zero" "\<forall>k f. bound fs k = Some f \<longrightarrow> keeps norm f"
  shows "value_codec (struct_codec fs zero) ok norm"
proof unfold_locales
  fix s assume "ok s"
  then show "\<exists>j. co_encode (struct_codec fs zero) s = Some j \<and> co_decode (struct_codec fs zero) j = Some (norm s)"
    using fill_written [OF assms(1) assms(2)] by (fastforce simp: struct_codec_def)
qed (use assms(3) decode_fields_stable [OF _ assms(4,3)] in \<open>auto simp: struct_codec_def split: json.splits\<close>)

lemma written_distinct:
  assumes "distinct (map fd_name fs)"
  shows "written fs = fs"
proof -
  have "filter (\<lambda>g. fd_name g = fd_name f) fs = [f]" if "f \<in> set fs" for f
    using assms that
  proof (induction fs)
    case (Cons g gs)
    then have "filter (\<lambda>h. fd_name h = fd_name g) gs = []" by (auto simp: filter_empty_conv image_iff)
    with Cons show ?case by auto
  qed simp
  then show ?thesis unfolding written_def by (intro filter_True) (auto simp: Let_def)
qed

lemma bound_distinct:
  assumes "distinct (map fd_name fs)" "f \<in> set fs"
  shows "bound fs (fd_name f) = Some f"
proof -
  have "foldl bind_field b fs (fd_name f) = Some f"
    if "\<forall>g\<in>set fs. b (fd_name g) = None" "distinct (map fd_name fs)" "f \<in> set fs" for b and fs :: "'a field list"
    using that
  proof (induction fs arbitrary: b)
    case (Cons g fs)
    have keep: "foldl bind_field b' gs n = b' n" if "n \<notin> fd_name ` set gs" for b' gs n
      using that by (induction gs arbitrary: b') (auto simp: bind_field_def Let_def split: option.splits prod.splits)
    have "bind_field b g = b(fd_name g \<mapsto> g)" using Cons.prems(1) by (simp add: bind_field_def)
    have "\<forall>h\<in>set fs. (b(fd_name g \<mapsto> g)) (fd_name h) = None" using Cons.prems(1,2) by (auto simp: image_iff)
    note IH = Cons.IH [where b = "b(fd_name g \<mapsto> g)", OF this]
    show ?case
    proof (cases "f = g")
      case False
      then have "foldl bind_field (b(fd_name g \<mapsto> g)) fs (fd_name f) = Some f"
        by (intro IH) (use Cons.prems in auto)
      then show ?thesis by (simp only: foldl.simps \<open>bind_field b g = _\<close>)
    qed (use keep [of "fd_name g" fs] Cons.prems in \<open>simp add: \<open>bind_field b g = _\<close>\<close>)
  qed simp
  from this [of fs Map.empty] assms show ?thesis by (simp add: bound_def)
qed

lemma bind_field_in: "bind_field b g k = Some f \<Longrightarrow> f = g \<and> fd_name f = k \<or> b k = Some f"
  by (auto simp: bind_field_def Let_def split: option.splits if_splits prod.splits)

lemma bound_in:
  assumes "bound fs k = Some f"
  shows "f \<in> set fs \<and> fd_name f = k"
proof -
  have "foldl bind_field b fs k = Some f \<Longrightarrow> f \<in> set fs \<and> fd_name f = k \<or> b k = Some f" for b
  proof (induction fs arbitrary: b)
    case (Cons g fs)
    then have "f \<in> set fs \<and> fd_name f = k \<or> bind_field b g k = Some f" by simp
    with bind_field_in [of b g k f] show ?case by auto
  qed simp
  from this [of Map.empty] assms show ?thesis by (simp add: bound_def)
qed

text \<open>A struct with distinct keys, from its fields.\<close>

lemma bound_map_of:
  assumes "distinct (map fd_name fs)"
  shows "bound fs = map_of (map (\<lambda>f. (fd_name f, f)) fs)"
proof
  fix k
  show "bound fs k = map_of (map (\<lambda>f. (fd_name f, f)) fs) k"
  proof (cases "k \<in> fd_name ` set fs")
    case True
    then obtain f where f: "f \<in> set fs" "k = fd_name f" by blast
    moreover have "distinct (map fst (map (\<lambda>f. (fd_name f, f)) fs))" using assms by (simp add: comp_def)
    ultimately show ?thesis using bound_distinct [OF assms f(1)] by (simp add: map_of_is_SomeI)
  next
    case False
    then have "bound fs k = None" using bound_in [of fs k] by (cases "bound fs k") auto
    moreover have "map_of (map (\<lambda>f. (fd_name f, f)) fs) k = None"
      using False by (force simp: map_of_eq_None_iff)
    ultimately show ?thesis by simp
  qed
qed

lemma decode_struct:
  "distinct (map fd_name fs) \<Longrightarrow>
   co_decode (struct_codec fs zero) (JObject ms) = decode_fields (map_of (map (\<lambda>f. (fd_name f, f)) fs)) ms zero"
  by (simp add: struct_codec_def bound_map_of)

lemma struct_distinct:
  assumes "distinct (map fd_name fs)" "\<And>s. ok s \<Longrightarrow> fill fs s zero = Some (norm s)"
    and "norm zero = zero" "list_all (keeps norm) fs"
  shows "value_codec (struct_codec fs zero) ok norm"
  by (rule struct_value_codec)
    (use assms bound_in [of fs] in \<open>auto simp: written_distinct bound_distinct list_all_iff\<close>)

context codec begin

lemma fill_field:
  "ok (get s) \<Longrightarrow> upd (co_zero c) t = t \<Longrightarrow>
   fill (field name c get upd # fs) s t = fill fs s (upd (norm (get s)) t)"
  using round_trip [of "get s"] empty [of "get s"] by (auto simp: field_def fill.simps(2))

lemma fill_untagged:
  "ok (get s) \<Longrightarrow> fill (untagged name c get upd # fs) s t = fill fs s (upd (norm (get s)) t)"
  using round_trip [of "get s"] by (auto simp: field_def untagged_def fill.simps(2))

end

lemma field_simps [simp]:
  "fd_name (field name c get upd) = name" "fd_tagged (field name c get upd)"
  "fd_name (untagged name c get upd) = name" "\<not> fd_tagged (untagged name c get upd)"
  by (simp_all add: field_def untagged_def)

lemma encode_fields_field:
  "encode_fields (field n c get upd # fs) s =
     (if co_isEmpty c (get s) then encode_fields fs s
      else case co_encode c (get s) of None \<Rightarrow> None | Some j \<Rightarrow> map_option (Cons (n, j)) (encode_fields fs s))"
  by (auto simp: field_def split: option.splits)

lemma encode_struct:
  "distinct (map fd_name fs) \<Longrightarrow> co_encode (struct_codec fs zero) s = map_option JObject (encode_fields fs s)"
  by (simp add: struct_codec_def written_distinct)

lemmas basic_fills [json_fill] =
  string_json.fill_field bool_json.fill_field int32_json.fill_field uint32_json.fill_field
  strings_json.fill_field labels_json.fill_field fill.simps(1)
  codec.fill_field [OF value_codec.value_is_codec [OF float_value_codec]]

end
