(* ===== verification/IstioJson.thy ===== *)
theory IstioJson
  imports JsonTags IstioSpecs
begin

text \<open>
  The JSON tags of \<open>pkg/apis/networking/v1alpha3/istio_specs.go\<close>, one codec per struct, and what
  a \<open>VirtualService\<close> becomes on its way to the server and back. \<open>X_writable\<close> says of a struct \<open>X\<close>
  that its maps are nil or not empty and its floats have a text; \<open>X_kept\<close> is what is left of it.
  Structs without such fields are written and read without a change.
\<close>

definition Percent_codec :: "(float64 \<Rightarrow> string option) \<Rightarrow> (string \<Rightarrow> float64 option) \<Rightarrow> Percent codec" where
  "Percent_codec jf pf = struct_codec
     [field ''value'' (float_codec jf pf) pc_Value (\<lambda>x s. s\<lparr>pc_Value := x\<rparr>)]
     \<lparr>pc_Value = 0\<rparr>"

definition Percent_writable :: "(float64 \<Rightarrow> string option) \<Rightarrow> Percent \<Rightarrow> bool" where
  "Percent_writable jf s \<longleftrightarrow> jf (pc_Value s) \<noteq> None \<and> pc_Value s \<noteq> 0x8000000000000000"

lemma Percent_json:
  "float_text jf pf \<Longrightarrow> value_codec (Percent_codec jf pf) (Percent_writable jf) (\<lambda>s. s)"
  unfolding Percent_codec_def
  by (rule struct_distinct) (simp_all add: json_fill Percent_writable_def)

lemmas Percent_fills [json_fill] = codec.fill_field [OF value_codec.pointer_codec [OF Percent_json]]

definition PortSelector_codec :: "PortSelector codec" where
  "PortSelector_codec = struct_codec
     [field ''number'' uint32_codec po_Number (\<lambda>x s. s\<lparr>po_Number := x\<rparr>),
      field ''name'' string_codec po_Name (\<lambda>x s. s\<lparr>po_Name := x\<rparr>)]
     \<lparr>po_Number = 0, po_Name = []\<rparr>"

interpretation PortSelector_json: value_codec PortSelector_codec "\<lambda>_. True" "\<lambda>s. s"
  unfolding PortSelector_codec_def
  by (rule struct_distinct) (simp_all add: json_fill)

lemmas PortSelector_fills [json_fill] = PortSelector_json.pointer.fill_field

definition StringMatch_codec :: "StringMatch codec" where
  "StringMatch_codec = struct_codec
     [field ''exact'' string_codec sm_Exact (\<lambda>x s. s\<lparr>sm_Exact := x\<rparr>),
      field ''regex'' string_codec sm_Prefix (\<lambda>x s. s\<lparr>sm_Prefix := x\<rparr>),
      field ''regex'' string_codec sm_Regex (\<lambda>x s. s\<lparr>sm_Regex := x\<rparr>)]
     \<lparr>sm_Exact = [], sm_Prefix = [], sm_Regex = []\<rparr>"

definition StringMatch_kept :: "StringMatch \<Rightarrow> StringMatch" where
  "StringMatch_kept s = s\<lparr>sm_Prefix := [], sm_Regex := []\<rparr>"

lemma StringMatch_kept_iff: "StringMatch_kept s = s \<longleftrightarrow> sm_Prefix s = [] \<and> sm_Regex s = []"
  by (cases s) (auto simp: StringMatch_kept_def)

interpretation StringMatch_json: value_codec StringMatch_codec "\<lambda>_. True" StringMatch_kept
  unfolding StringMatch_codec_def
  by (rule struct_value_codec, simp add: written_def json_fill StringMatch_kept_def)
    (auto simp: written_def bound_def bind_field_def StringMatch_kept_iff keeps_field)

lemmas StringMatch_fills [json_fill] = codec.fill_field [OF StringMatch_json.pointer.map_value] StringMatch_json.pointer.fill_field codec.stable [OF StringMatch_json.pointer.map_value] StringMatch_json.pointer.stable

definition Destination_codec :: "Destination codec" where
  "Destination_codec = struct_codec
     [field ''host'' string_codec de_Host (\<lambda>x s. s\<lparr>de_Host := x\<rparr>),
      field ''subset'' string_codec de_Subset (\<lambda>x s. s\<lparr>de_Subset := x\<rparr>),
      field ''port'' (ptr_codec PortSelector_codec) de_Port (\<lambda>x s. s\<lparr>de_Port := x\<rparr>)]
     \<lparr>de_Host = [], de_Subset = [], de_Port = None\<rparr>"

interpretation Destination_json: value_codec Destination_codec "\<lambda>_. True" "\<lambda>s. s"
  unfolding Destination_codec_def
  by (rule struct_distinct) (simp_all add: json_fill)

lemmas Destination_fills [json_fill] = Destination_json.pointer.fill_field

definition HeaderOperations_codec :: "HeaderOperations codec" where
  "HeaderOperations_codec = struct_codec
     [field ''set'' (map_codec string_codec) ho_Set (\<lambda>x s. s\<lparr>ho_Set := x\<rparr>),
      field ''add'' (map_codec string_codec) ho_Add (\<lambda>x s. s\<lparr>ho_Add := x\<rparr>),
      field ''remove'' (slice_codec string_codec) ho_Remove (\<lambda>x s. s\<lparr>ho_Remove := x\<rparr>)]
     \<lparr>ho_Set = None, ho_Add = None, ho_Remove = []\<rparr>"

definition HeaderOperations_writable :: "HeaderOperations \<Rightarrow> bool" where
  "HeaderOperations_writable s \<longleftrightarrow> writable_map (ho_Set s) \<and>
     writable_map (ho_Add s)"

interpretation HeaderOperations_json: value_codec HeaderOperations_codec "HeaderOperations_writable" "\<lambda>s. s"
  unfolding HeaderOperations_codec_def
  by (rule struct_distinct) (simp_all add: json_fill HeaderOperations_writable_def)

lemmas HeaderOperations_fills [json_fill] = HeaderOperations_json.pointer.fill_field

definition Headers_codec :: "Headers codec" where
  "Headers_codec = struct_codec
     [field ''request'' (ptr_codec HeaderOperations_codec) he_Request (\<lambda>x s. s\<lparr>he_Request := x\<rparr>),
      field ''response'' (ptr_codec HeaderOperations_codec) he_Response (\<lambda>x s. s\<lparr>he_Response := x\<rparr>)]
     \<lparr>he_Request = None, he_Response = None\<rparr>"

definition Headers_writable :: "Headers \<Rightarrow> bool" where
  "Headers_writable s \<longleftrightarrow> case_option True (HeaderOperations_writable) (he_Request s) \<and>
     case_option True (HeaderOperations_writable) (he_Response s)"

interpretation Headers_json: value_codec Headers_codec "Headers_writable" "\<lambda>s. s"
  unfolding Headers_codec_def
  by (rule struct_distinct) (simp_all add: json_fill Headers_writable_def)

lemmas Headers_fills [json_fill] = Headers_json.pointer.fill_field

definition HTTPMatchRequest_codec :: "HTTPMatchRequest codec" where
  "HTTPMatchRequest_codec = struct_codec
     [field ''uri'' (ptr_codec StringMatch_codec) hm_Uri (\<lambda>x s. s\<lparr>hm_Uri := x\<rparr>),
      field ''scheme'' (ptr_codec StringMatch_codec) hm_Scheme (\<lambda>x s. s\<lparr>hm_Scheme := x\<rparr>),
      field ''method'' (ptr_codec StringMatch_codec) hm_Method (\<lambda>x s. s\<lparr>hm_Method := x\<rparr>),
      field ''authority'' (ptr_codec StringMatch_codec) hm_Authority (\<lambda>x s. s\<lparr>hm_Authority := x\<rparr>),
      field ''headers'' (map_codec (ptr_codec StringMatch_codec)) hm_Headers (\<lambda>x s. s\<lparr>hm_Headers := x\<rparr>),
      field ''port'' uint32_codec hm_Port (\<lambda>x s. s\<lparr>hm_Port := x\<rparr>),
      field ''source_labels'' (map_codec string_codec) hm_SourceLabels (\<lambda>x s. s\<lparr>hm_SourceLabels := x\<rparr>),
      field ''gateways'' (slice_codec string_codec) hm_Gateways (\<lambda>x s. s\<lparr>hm_Gateways := x\<rparr>)]
     \<lparr>hm_Uri = None, hm_Scheme = None, hm_Method = None, hm_Authority = None, hm_Headers = None, hm_Port = 0, hm_SourceLabels = None, hm_Gateways = []\<rparr>"

definition HTTPMatchRequest_writable :: "HTTPMatchRequest \<Rightarrow> bool" where
  "HTTPMatchRequest_writable s \<longleftrightarrow> StringMatch_json.pointer.map_ok (hm_Headers s) \<and>
     writable_map (hm_SourceLabels s)"

definition HTTPMatchRequest_kept :: "HTTPMatchRequest \<Rightarrow> HTTPMatchRequest" where
  "HTTPMatchRequest_kept s = s\<lparr>hm_Uri := map_option StringMatch_kept (hm_Uri s),
     hm_Scheme := map_option StringMatch_kept (hm_Scheme s),
     hm_Method := map_option StringMatch_kept (hm_Method s),
     hm_Authority := map_option StringMatch_kept (hm_Authority s),
     hm_Headers := map_option (\<lambda>f k. map_option (map_option StringMatch_kept) (f k)) (hm_Headers s)\<rparr>"

lemma HTTPMatchRequest_kept_iff:
  "HTTPMatchRequest_kept s = s \<longleftrightarrow> map_option StringMatch_kept (hm_Uri s) = hm_Uri s \<and>
     map_option StringMatch_kept (hm_Scheme s) = hm_Scheme s \<and>
     map_option StringMatch_kept (hm_Method s) = hm_Method s \<and>
     map_option StringMatch_kept (hm_Authority s) = hm_Authority s \<and>
     map_option (\<lambda>f k. map_option (map_option StringMatch_kept) (f k)) (hm_Headers s) = hm_Headers s"
  by (cases s) (auto simp: HTTPMatchRequest_kept_def)

interpretation HTTPMatchRequest_json: value_codec HTTPMatchRequest_codec "HTTPMatchRequest_writable" "HTTPMatchRequest_kept"
  unfolding HTTPMatchRequest_codec_def
  by (rule struct_distinct, simp, simp add: json_fill HTTPMatchRequest_writable_def HTTPMatchRequest_kept_def)
    (simp_all add: keeps_field HTTPMatchRequest_kept_iff json_fill)

lemmas HTTPMatchRequest_fills [json_fill] = codec.fill_field [OF HTTPMatchRequest_json.pointer.slice] codec.stable [OF HTTPMatchRequest_json.pointer.slice]

definition HTTPRouteDestination_codec :: "HTTPRouteDestination codec" where
  "HTTPRouteDestination_codec = struct_codec
     [field ''destination'' (ptr_codec Destination_codec) rd_Destination (\<lambda>x s. s\<lparr>rd_Destination := x\<rparr>),
      field ''weight'' int32_codec rd_Weight (\<lambda>x s. s\<lparr>rd_Weight := x\<rparr>),
      field ''remove_response_headers'' (slice_codec string_codec) rd_RemoveResponseHeaders (\<lambda>x s. s\<lparr>rd_RemoveResponseHeaders := x\<rparr>),
      field ''append_response_headers'' (map_codec string_codec) rd_AppendResponseHeaders (\<lambda>x s. s\<lparr>rd_AppendResponseHeaders := x\<rparr>),
      field ''remove_request_headers'' (slice_codec string_codec) rd_RemoveRequestHeaders (\<lambda>x s. s\<lparr>rd_RemoveRequestHeaders := x\<rparr>),
      field ''append_request_headers'' (map_codec string_codec) rd_AppendRequestHeaders (\<lambda>x s. s\<lparr>rd_AppendRequestHeaders := x\<rparr>),
      field ''headers'' (ptr_codec Headers_codec) rd_Headers (\<lambda>x s. s\<lparr>rd_Headers := x\<rparr>)]
     \<lparr>rd_Destination = None, rd_Weight = 0, rd_RemoveResponseHeaders = [], rd_AppendResponseHeaders = None, rd_RemoveRequestHeaders = [], rd_AppendRequestHeaders = None, rd_Headers = None\<rparr>"

definition HTTPRouteDestination_writable :: "HTTPRouteDestination \<Rightarrow> bool" where
  "HTTPRouteDestination_writable s \<longleftrightarrow> writable_map (rd_AppendResponseHeaders s) \<and>
     writable_map (rd_AppendRequestHeaders s) \<and>
     case_option True (Headers_writable) (rd_Headers s)"

interpretation HTTPRouteDestination_json: value_codec HTTPRouteDestination_codec "HTTPRouteDestination_writable" "\<lambda>s. s"
  unfolding HTTPRouteDestination_codec_def
  by (rule struct_distinct) (simp_all add: json_fill HTTPRouteDestination_writable_def)

lemmas HTTPRouteDestination_fills [json_fill] = codec.fill_field [OF HTTPRouteDestination_json.pointer.slice]

definition HTTPRedirect_codec :: "HTTPRedirect codec" where
  "HTTPRedirect_codec = struct_codec
     [field ''uri'' string_codec hd_Uri (\<lambda>x s. s\<lparr>hd_Uri := x\<rparr>),
      field ''authority'' string_codec hd_Authority (\<lambda>x s. s\<lparr>hd_Authority := x\<rparr>)]
     \<lparr>hd_Uri = [], hd_Authority = []\<rparr>"

interpretation HTTPRedirect_json: value_codec HTTPRedirect_codec "\<lambda>_. True" "\<lambda>s. s"
  unfolding HTTPRedirect_codec_def
  by (rule struct_distinct) (simp_all add: json_fill)

lemmas HTTPRedirect_fills [json_fill] = HTTPRedirect_json.pointer.fill_field

definition HTTPRewrite_codec :: "HTTPRewrite codec" where
  "HTTPRewrite_codec = struct_codec
     [field ''uri'' string_codec hw_Uri (\<lambda>x s. s\<lparr>hw_Uri := x\<rparr>),
      field ''authority'' string_codec hw_Authority (\<lambda>x s. s\<lparr>hw_Authority := x\<rparr>)]
     \<lparr>hw_Uri = [], hw_Authority = []\<rparr>"

interpretation HTTPRewrite_json: value_codec HTTPRewrite_codec "\<lambda>_. True" "\<lambda>s. s"
  unfolding HTTPRewrite_codec_def
  by (rule struct_distinct) (simp_all add: json_fill)

lemmas HTTPRewrite_fills [json_fill] = HTTPRewrite_json.pointer.fill_field

definition HTTPRetry_codec :: "HTTPRetry codec" where
  "HTTPRetry_codec = struct_codec
     [field ''attempts'' int32_codec ht_Attempts (\<lambda>x s. s\<lparr>ht_Attempts := x\<rparr>),
      field ''per_try_timeout'' string_codec ht_PerTryTimeout (\<lambda>x s. s\<lparr>ht_PerTryTimeout := x\<rparr>),
      field ''retry_on'' string_codec ht_RetryOn (\<lambda>x s. s\<lparr>ht_RetryOn := x\<rparr>)]
     \<lparr>ht_Attempts = 0, ht_PerTryTimeout = [], ht_RetryOn = []\<rparr>"

interpretation HTTPRetry_json: value_codec HTTPRetry_codec "\<lambda>_. True" "\<lambda>s. s"
  unfolding HTTPRetry_codec_def
  by (rule struct_distinct) (simp_all add: json_fill)

lemmas HTTPRetry_fills [json_fill] = HTTPRetry_json.pointer.fill_field

definition HTTPFaultInjection_Delay_codec :: "(float64 \<Rightarrow> string option) \<Rightarrow> (string \<Rightarrow> float64 option) \<Rightarrow> HTTPFaultInjection_Delay codec" where
  "HTTPFaultInjection_Delay_codec jf pf = struct_codec
     [field ''percent'' int32_codec fd_Percent (\<lambda>x s. s\<lparr>fd_Percent := x\<rparr>),
      field ''fixedDelay'' string_codec fd_FixedDelay (\<lambda>x s. s\<lparr>fd_FixedDelay := x\<rparr>),
      field ''exponentialDelay'' string_codec fd_ExponentialDelay (\<lambda>x s. s\<lparr>fd_ExponentialDelay := x\<rparr>),
      field ''percentage'' (ptr_codec (Percent_codec jf pf)) fd_Percentage (\<lambda>x s. s\<lparr>fd_Percentage := x\<rparr>)]
     \<lparr>fd_Percent = 0, fd_FixedDelay = [], fd_ExponentialDelay = [], fd_Percentage = None\<rparr>"

definition HTTPFaultInjection_Delay_writable :: "(float64 \<Rightarrow> string option) \<Rightarrow> HTTPFaultInjection_Delay \<Rightarrow> bool" where
  "HTTPFaultInjection_Delay_writable jf s \<longleftrightarrow> case_option True (Percent_writable jf) (fd_Percentage s)"

lemma HTTPFaultInjection_Delay_json:
  "float_text jf pf \<Longrightarrow> value_codec (HTTPFaultInjection_Delay_codec jf pf) (HTTPFaultInjection_Delay_writable jf) (\<lambda>s. s)"
  unfolding HTTPFaultInjection_Delay_codec_def
  by (rule struct_distinct) (simp_all add: json_fill HTTPFaultInjection_Delay_writable_def)

lemmas HTTPFaultInjection_Delay_fills [json_fill] = codec.fill_field [OF value_codec.pointer_codec [OF HTTPFaultInjection_Delay_json]]

definition HTTPFaultInjection_Abort_codec :: "(float64 \<Rightarrow> string option) \<Rightarrow> (string \<Rightarrow> float64 option) \<Rightarrow> HTTPFaultInjection_Abort codec" where
  "HTTPFaultInjection_Abort_codec jf pf = struct_codec
     [field ''percent'' int32_codec fa_Percent (\<lambda>x s. s\<lparr>fa_Percent := x\<rparr>),
      field ''httpStatus'' int32_codec fa_HttpStatus (\<lambda>x s. s\<lparr>fa_HttpStatus := x\<rparr>),
      field ''grpcStatus'' string_codec fa_GrpcStatus (\<lambda>x s. s\<lparr>fa_GrpcStatus := x\<rparr>),
      field ''http2Error'' string_codec fa_Http2Error (\<lambda>x s. s\<lparr>fa_Http2Error := x\<rparr>),
      field ''percentage'' (ptr_codec (Percent_codec jf pf)) fa_Percentage (\<lambda>x s. s\<lparr>fa_Percentage := x\<rparr>)]
     \<lparr>fa_Percent = 0, fa_HttpStatus = 0, fa_GrpcStatus = [], fa_Http2Error = [], fa_Percentage = None\<rparr>"

definition HTTPFaultInjection_Abort_writable :: "(float64 \<Rightarrow> string option) \<Rightarrow> HTTPFaultInjection_Abort \<Rightarrow> bool" where
  "HTTPFaultInjection_Abort_writable jf s \<longleftrightarrow> case_option True (Percent_writable jf) (fa_Percentage s)"

lemma HTTPFaultInjection_Abort_json:
  "float_text jf pf \<Longrightarrow> value_codec (HTTPFaultInjection_Abort_codec jf pf) (HTTPFaultInjection_Abort_writable jf) (\<lambda>s. s)"
  unfolding HTTPFaultInjection_Abort_codec_def
  by (rule struct_distinct) (simp_all add: json_fill HTTPFaultInjection_Abort_writable_def)

lemmas HTTPFaultInjection_Abort_fills [json_fill] = codec.fill_field [OF value_codec.pointer_codec [OF HTTPFaultInjection_Abort_json]]

definition HTTPFaultInjection_codec :: "(float64 \<Rightarrow> string option) \<Rightarrow> (string \<Rightarrow> float64 option) \<Rightarrow> HTTPFaultInjection codec" where
  "HTTPFaultInjection_codec jf pf = struct_codec
     [field ''delay'' (ptr_codec (HTTPFaultInjection_Delay_codec jf pf)) fi_Delay (\<lambda>x s. s\<lparr>fi_Delay := x\<rparr>),
      field ''abort'' (ptr_codec (HTTPFaultInjection_Abort_codec jf pf)) fi_Abort (\<lambda>x s. s\<lparr>fi_Abort := x\<rparr>)]
     \<lparr>fi_Delay = None, fi_Abort = None\<rparr>"

definition HTTPFaultInjection_writable :: "(float64 \<Rightarrow> string option) \<Rightarrow> HTTPFaultInjection \<Rightarrow> bool" where
  "HTTPFaultInjection_writable jf s \<longleftrightarrow> case_option True (HTTPFaultInjection_Delay_writable jf) (fi_Delay s) \<and>
     case_option True (HTTPFaultInjection_Abort_writable jf) (fi_Abort s)"

lemma HTTPFaultInjection_json:
  "float_text jf pf \<Longrightarrow> value_codec (HTTPFaultInjection_codec jf pf) (HTTPFaultInjection_writable jf) (\<lambda>s. s)"
  unfolding HTTPFaultInjection_codec_def
  by (rule struct_distinct) (simp_all add: json_fill HTTPFaultInjection_writable_def)

lemmas HTTPFaultInjection_fills [json_fill] = codec.fill_field [OF value_codec.pointer_codec [OF HTTPFaultInjection_json]]

definition CorsPolicy_codec :: "CorsPolicy codec" where
  "CorsPolicy_codec = struct_codec
     [field ''allow_origin'' (slice_codec string_codec) cp_AllowOrigin (\<lambda>x s. s\<lparr>cp_AllowOrigin := x\<rparr>),
      field ''allow_methods'' (slice_codec string_codec) cp_AllowMethods (\<lambda>x s. s\<lparr>cp_AllowMethods := x\<rparr>),
      field ''allow_headers'' (slice_codec string_codec) cp_AllowHeaders (\<lambda>x s. s\<lparr>cp_AllowHeaders := x\<rparr>),
      field ''expose_headers'' (slice_codec string_codec) cp_ExposeHeaders (\<lambda>x s. s\<lparr>cp_ExposeHeaders := x\<rparr>),
      field ''max_age'' string_codec cp_MaxAge (\<lambda>x s. s\<lparr>cp_MaxAge := x\<rparr>),
      field ''allow_credentials'' bool_codec cp_AllowCredentials (\<lambda>x s. s\<lparr>cp_AllowCredentials := x\<rparr>)]
     \<lparr>cp_AllowOrigin = [], cp_AllowMethods = [], cp_AllowHeaders = [], cp_ExposeHeaders = [], cp_MaxAge = [], cp_AllowCredentials = False\<rparr>"

interpretation CorsPolicy_json: value_codec CorsPolicy_codec "\<lambda>_. True" "\<lambda>s. s"
  unfolding CorsPolicy_codec_def
  by (rule struct_distinct) (simp_all add: json_fill)

lemmas CorsPolicy_fills [json_fill] = CorsPolicy_json.pointer.fill_field

definition HTTPRoute_codec :: "(float64 \<Rightarrow> string option) \<Rightarrow> (string \<Rightarrow> float64 option) \<Rightarrow> HTTPRoute codec" where
  "HTTPRoute_codec jf pf = struct_codec
     [field ''match'' (slice_codec (ptr_codec HTTPMatchRequest_codec)) hr_Match (\<lambda>x s. s\<lparr>hr_Match := x\<rparr>),
      field ''route'' (slice_codec (ptr_codec HTTPRouteDestination_codec)) hr_Route (\<lambda>x s. s\<lparr>hr_Route := x\<rparr>),
      field ''redirect'' (ptr_codec HTTPRedirect_codec) hr_Redirect (\<lambda>x s. s\<lparr>hr_Redirect := x\<rparr>),
      field ''rewrite'' (ptr_codec HTTPRewrite_codec) hr_Rewrite (\<lambda>x s. s\<lparr>hr_Rewrite := x\<rparr>),
      field ''websocket_upgrade'' bool_codec hr_WebsocketUpgrade (\<lambda>x s. s\<lparr>hr_WebsocketUpgrade := x\<rparr>),
      field ''timeout'' string_codec hr_Timeout (\<lambda>x s. s\<lparr>hr_Timeout := x\<rparr>),
      field ''retries'' (ptr_codec HTTPRetry_codec) hr_Retries (\<lambda>x s. s\<lparr>hr_Retries := x\<rparr>),
      field ''fault'' (ptr_codec (HTTPFaultInjection_codec jf pf)) hr_Fault (\<lambda>x s. s\<lparr>hr_Fault := x\<rparr>),
      field ''mirror'' (ptr_codec Destination_codec) hr_Mirror (\<lambda>x s. s\<lparr>hr_Mirror := x\<rparr>),
      field ''cors_policy'' (ptr_codec CorsPolicy_codec) hr_CorsPolicy (\<lambda>x s. s\<lparr>hr_CorsPolicy := x\<rparr>),
      field ''append_headers'' (map_codec string_codec) hr_AppendHeaders (\<lambda>x s. s\<lparr>hr_AppendHeaders := x\<rparr>),
      field ''remove_response_headers'' (slice_codec string_codec) hr_RemoveResponseHeaders (\<lambda>x s. s\<lparr>hr_RemoveResponseHeaders := x\<rparr>),
      field ''append_response_headers'' (map_codec string_codec) hr_AppendResponseHeaders (\<lambda>x s. s\<lparr>hr_AppendResponseHeaders := x\<rparr>),
      field ''remove_request_headers'' (slice_codec string_codec) hr_RemoveRequestHeaders (\<lambda>x s. s\<lparr>hr_RemoveRequestHeaders := x\<rparr>),
      field ''append_request_headers'' (map_codec string_codec) hr_AppendRequestHeaders (\<lambda>x s. s\<lparr>hr_AppendRequestHeaders := x\<rparr>),
      field ''headers'' (ptr_codec Headers_codec) hr_Headers (\<lambda>x s. s\<lparr>hr_Headers := x\<rparr>)]
     \<lparr>hr_Match = [], hr_Route = [], hr_Redirect = None, hr_Rewrite = None, hr_WebsocketUpgrade = False, hr_Timeout = [], hr_Retries = None, hr_Fault = None, hr_Mirror = None, hr_CorsPolicy = None, hr_AppendHeaders = None, hr_RemoveResponseHeaders = [], hr_AppendResponseHeaders = None, hr_RemoveRequestHeaders = [], hr_AppendRequestHeaders = None, hr_Headers = None\<rparr>"

definition HTTPRoute_writable :: "(float64 \<Rightarrow> string option) \<Rightarrow> HTTPRoute \<Rightarrow> bool" where
  "HTTPRoute_writable jf s \<longleftrightarrow> list_all (case_option True (HTTPMatchRequest_writable)) (hr_Match s) \<and>
     list_all (case_option True (HTTPRouteDestination_writable)) (hr_Route s) \<and>
     case_option True (HTTPFaultInjection_writable jf) (hr_Fault s) \<and>
     writable_map (hr_AppendHeaders s) \<and>
     writable_map (hr_AppendResponseHeaders s) \<and>
     writable_map (hr_AppendRequestHeaders s) \<and>
     case_option True (Headers_writable) (hr_Headers s)"

definition HTTPRoute_kept :: "HTTPRoute \<Rightarrow> HTTPRoute" where
  "HTTPRoute_kept s = s\<lparr>hr_Match := map (map_option HTTPMatchRequest_kept) (hr_Match s)\<rparr>"

lemma HTTPRoute_kept_iff:
  "HTTPRoute_kept s = s \<longleftrightarrow> map (map_option HTTPMatchRequest_kept) (hr_Match s) = hr_Match s"
  by (cases s) (auto simp: HTTPRoute_kept_def)

lemma HTTPRoute_json:
  "float_text jf pf \<Longrightarrow> value_codec (HTTPRoute_codec jf pf) (HTTPRoute_writable jf) HTTPRoute_kept"
  unfolding HTTPRoute_codec_def
  by (rule struct_distinct, simp, simp add: json_fill HTTPRoute_writable_def HTTPRoute_kept_def)
    (simp_all add: keeps_field HTTPRoute_kept_iff json_fill)

lemmas HTTPRoute_fills [json_fill] = codec.fill_field [OF codec.slice [OF value_codec.pointer_codec [OF HTTPRoute_json]]] codec.stable [OF codec.slice [OF value_codec.pointer_codec [OF HTTPRoute_json]]]

definition RouteDestination_codec :: "RouteDestination codec" where
  "RouteDestination_codec = struct_codec
     [field ''destination'' (ptr_codec Destination_codec) rt_Destination (\<lambda>x s. s\<lparr>rt_Destination := x\<rparr>),
      field ''weight'' int32_codec rt_Weight (\<lambda>x s. s\<lparr>rt_Weight := x\<rparr>)]
     \<lparr>rt_Destination = None, rt_Weight = 0\<rparr>"

interpretation RouteDestination_json: value_codec RouteDestination_codec "\<lambda>_. True" "\<lambda>s. s"
  unfolding RouteDestination_codec_def
  by (rule struct_distinct) (simp_all add: json_fill)

lemmas RouteDestination_fills [json_fill] = codec.fill_field [OF RouteDestination_json.pointer.slice]

definition L4MatchAttributes_codec :: "L4MatchAttributes codec" where
  "L4MatchAttributes_codec = struct_codec
     [field ''destination_subnets'' (slice_codec string_codec) l4_DestinationSubnets (\<lambda>x s. s\<lparr>l4_DestinationSubnets := x\<rparr>),
      field ''port'' uint32_codec l4_Port (\<lambda>x s. s\<lparr>l4_Port := x\<rparr>),
      field ''source_subnet'' string_codec l4_SourceSubnet (\<lambda>x s. s\<lparr>l4_SourceSubnet := x\<rparr>),
      field ''source_labels'' (map_codec string_codec) l4_SourceLabels (\<lambda>x s. s\<lparr>l4_SourceLabels := x\<rparr>),
      field ''gateways'' (slice_codec string_codec) l4_Gateways (\<lambda>x s. s\<lparr>l4_Gateways := x\<rparr>)]
     \<lparr>l4_DestinationSubnets = [], l4_Port = 0, l4_SourceSubnet = [], l4_SourceLabels = None, l4_Gateways = []\<rparr>"

definition L4MatchAttributes_writable :: "L4MatchAttributes \<Rightarrow> bool" where
  "L4MatchAttributes_writable s \<longleftrightarrow> writable_map (l4_SourceLabels s)"

interpretation L4MatchAttributes_json: value_codec L4MatchAttributes_codec "L4MatchAttributes_writable" "\<lambda>s. s"
  unfolding L4MatchAttributes_codec_def
  by (rule struct_distinct) (simp_all add: json_fill L4MatchAttributes_writable_def)

lemmas L4MatchAttributes_fills [json_fill] = codec.fill_field [OF L4MatchAttributes_json.pointer.slice]

definition TLSMatchAttributes_codec :: "TLSMatchAttributes codec" where
  "TLSMatchAttributes_codec = struct_codec
     [field ''sni_hosts'' (slice_codec string_codec) tm_SniHosts (\<lambda>x s. s\<lparr>tm_SniHosts := x\<rparr>),
      field ''destination_subnets'' (slice_codec string_codec) tm_DestinationSubnets (\<lambda>x s. s\<lparr>tm_DestinationSubnets := x\<rparr>),
      field ''port'' uint32_codec tm_Port (\<lambda>x s. s\<lparr>tm_Port := x\<rparr>),
      field ''source_subnet'' string_codec tm_SourceSubnet (\<lambda>x s. s\<lparr>tm_SourceSubnet := x\<rparr>),
      field ''source_labels'' (map_codec string_codec) tm_SourceLabels (\<lambda>x s. s\<lparr>tm_SourceLabels := x\<rparr>),
      field ''gateways'' (slice_codec string_codec) tm_Gateways (\<lambda>x s. s\<lparr>tm_Gateways := x\<rparr>)]
     \<lparr>tm_SniHosts = [], tm_DestinationSubnets = [], tm_Port = 0, tm_SourceSubnet = [], tm_SourceLabels = None, tm_Gateways = []\<rparr>"

definition TLSMatchAttributes_writable :: "TLSMatchAttributes \<Rightarrow> bool" where
  "TLSMatchAttributes_writable s \<longleftrightarrow> writable_map (tm_SourceLabels s)"

interpretation TLSMatchAttributes_json: value_codec TLSMatchAttributes_codec "TLSMatchAttributes_writable" "\<lambda>s. s"
  unfolding TLSMatchAttributes_codec_def
  by (rule struct_distinct) (simp_all add: json_fill TLSMatchAttributes_writable_def)

lemmas TLSMatchAttributes_fills [json_fill] = codec.fill_field [OF TLSMatchAttributes_json.pointer.slice]

definition TLSRoute_codec :: "TLSRoute codec" where
  "TLSRoute_codec = struct_codec
     [field ''match'' (slice_codec (ptr_codec TLSMatchAttributes_codec)) tl_Match (\<lambda>x s. s\<lparr>tl_Match := x\<rparr>),
      field ''route'' (slice_codec (ptr_codec RouteDestination_codec)) tl_Route (\<lambda>x s. s\<lparr>tl_Route := x\<rparr>)]
     \<lparr>tl_Match = [], tl_Route = []\<rparr>"

definition TLSRoute_writable :: "TLSRoute \<Rightarrow> bool" where
  "TLSRoute_writable s \<longleftrightarrow> list_all (case_option True (TLSMatchAttributes_writable)) (tl_Match s)"

interpretation TLSRoute_json: value_codec TLSRoute_codec "TLSRoute_writable" "\<lambda>s. s"
  unfolding TLSRoute_codec_def
  by (rule struct_distinct) (simp_all add: json_fill TLSRoute_writable_def)

lemmas TLSRoute_fills [json_fill] = codec.fill_field [OF TLSRoute_json.pointer.slice]

definition TCPRoute_codec :: "TCPRoute codec" where
  "TCPRoute_codec = struct_codec
     [field ''match'' (slice_codec (ptr_codec L4MatchAttributes_codec)) tc_Match (\<lambda>x s. s\<lparr>tc_Match := x\<rparr>),
      field ''route'' (slice_codec (ptr_codec RouteDestination_codec)) tc_Route (\<lambda>x s. s\<lparr>tc_Route := x\<rparr>)]
     \<lparr>tc_Match = [], tc_Route = []\<rparr>"

definition TCPRoute_writable :: "TCPRoute \<Rightarrow> bool" where
  "TCPRoute_writable s \<longleftrightarrow> list_all (case_option True (L4MatchAttributes_writable)) (tc_Match s)"

interpretation TCPRoute_json: value_codec TCPRoute_codec "TCPRoute_writable" "\<lambda>s. s"
  unfolding TCPRoute_codec_def
  by (rule struct_distinct) (simp_all add: json_fill TCPRoute_writable_def)

lemmas TCPRoute_fills [json_fill] = codec.fill_field [OF TCPRoute_json.pointer.slice]

definition VirtualServiceSpec_codec :: "(float64 \<Rightarrow> string option) \<Rightarrow> (string \<Rightarrow> float64 option) \<Rightarrow> VirtualServiceSpec codec" where
  "VirtualServiceSpec_codec jf pf = struct_codec
     [field ''hosts'' (slice_codec string_codec) vss_Hosts (\<lambda>x s. s\<lparr>vss_Hosts := x\<rparr>),
      field ''gateways'' (slice_codec string_codec) vss_Gateways (\<lambda>x s. s\<lparr>vss_Gateways := x\<rparr>),
      field ''http'' (slice_codec (ptr_codec (HTTPRoute_codec jf pf))) vss_Http (\<lambda>x s. s\<lparr>vss_Http := x\<rparr>),
      field ''tls'' (slice_codec (ptr_codec TLSRoute_codec)) vss_Tls (\<lambda>x s. s\<lparr>vss_Tls := x\<rparr>),
      field ''tcp'' (slice_codec (ptr_codec TCPRoute_codec)) vss_Tcp (\<lambda>x s. s\<lparr>vss_Tcp := x\<rparr>),
      field ''export_to'' (slice_codec string_codec) vss_ExportTo (\<lambda>x s. s\<lparr>vss_ExportTo := x\<rparr>)]
     \<lparr>vss_Hosts = [], vss_Gateways = [], vss_Http = [], vss_Tls = [], vss_Tcp = [], vss_ExportTo = []\<rparr>"

definition VirtualServiceSpec_writable :: "(float64 \<Rightarrow> string option) \<Rightarrow> VirtualServiceSpec \<Rightarrow> bool" where
  "VirtualServiceSpec_writable jf s \<longleftrightarrow> list_all (case_option True (HTTPRoute_writable jf)) (vss_Http s) \<and>
     list_all (case_option True (TLSRoute_writable)) (vss_Tls s) \<and>
     list_all (case_option True (TCPRoute_writable)) (vss_Tcp s)"

definition VirtualServiceSpec_kept :: "VirtualServiceSpec \<Rightarrow> VirtualServiceSpec" where
  "VirtualServiceSpec_kept s = s\<lparr>vss_Http := map (map_option HTTPRoute_kept) (vss_Http s)\<rparr>"

lemma VirtualServiceSpec_kept_iff:
  "VirtualServiceSpec_kept s = s \<longleftrightarrow> map (map_option HTTPRoute_kept) (vss_Http s) = vss_Http s"
  by (cases s) (auto simp: VirtualServiceSpec_kept_def)

lemma VirtualServiceSpec_json:
  "float_text jf pf \<Longrightarrow> value_codec (VirtualServiceSpec_codec jf pf) (VirtualServiceSpec_writable jf) VirtualServiceSpec_kept"
  unfolding VirtualServiceSpec_codec_def
  by (rule struct_distinct, simp, simp add: json_fill VirtualServiceSpec_writable_def VirtualServiceSpec_kept_def)
    (simp_all add: keeps_field VirtualServiceSpec_kept_iff json_fill)

subsection \<open>Reading a virtual service\<close>

text \<open>
  What a reader sees of a stored virtual service: its specification has been written as JSON and
  decoded. For a specification that can be written this is what the two codecs do
  (\<open>VirtualService_read_spec\<close>); the metadata comes back as it is.
\<close>

definition VirtualService_read :: "VirtualService \<Rightarrow> VirtualService" where
  "VirtualService_read vs = vs\<lparr>vs_Spec := VirtualServiceSpec_kept (vs_Spec vs)\<rparr>"

lemma VirtualService_read_spec:
  assumes "float_text jf pf" "VirtualServiceSpec_writable jf (vs_Spec vs)"
  shows "\<exists>j. co_encode (VirtualServiceSpec_codec jf pf) (vs_Spec vs) = Some j \<and>
    co_decode (VirtualServiceSpec_codec jf pf) j = Some (vs_Spec (VirtualService_read vs))"
  using codec.round_trip [OF value_codec.value_is_codec [OF VirtualServiceSpec_json [OF assms(1)]] assms(2)]
  by (simp add: VirtualService_read_def)

lemma VirtualService_read_meta [simp]: "vs_Meta (VirtualService_read vs) = vs_Meta vs"
  by (simp add: VirtualService_read_def)

lemma kept_kept [simp]:
  "StringMatch_kept (StringMatch_kept s) = StringMatch_kept s"
  "HTTPMatchRequest_kept (HTTPMatchRequest_kept m) = HTTPMatchRequest_kept m"
  "HTTPRoute_kept (HTTPRoute_kept r) = HTTPRoute_kept r"
proof -
  show s: "StringMatch_kept (StringMatch_kept s) = StringMatch_kept s" for s
    by (simp add: StringMatch_kept_def)
  show m: "HTTPMatchRequest_kept (HTTPMatchRequest_kept m) = HTTPMatchRequest_kept m" for m
    by (simp add: HTTPMatchRequest_kept_def option.map_comp comp_def s)
  show "HTTPRoute_kept (HTTPRoute_kept r) = HTTPRoute_kept r"
    by (simp add: HTTPRoute_kept_def option.map_comp comp_def m)
qed

lemma VirtualService_read_read [simp]: "VirtualService_read (VirtualService_read vs) = VirtualService_read vs"
  by (simp add: VirtualService_read_def VirtualServiceSpec_kept_def option.map_comp comp_def)

lemma VirtualService_read_iff:
  "VirtualService_read vs = vs \<longleftrightarrow> map (map_option HTTPRoute_kept) (vss_Http (vs_Spec vs)) = vss_Http (vs_Spec vs)"
  by (cases vs) (simp add: VirtualService_read_def VirtualServiceSpec_kept_iff)

end
