(* ===== verification/Tracker.thy ===== *)
theory Tracker
  imports ClientApi IstioJson
begin

text \<open>
  The in-memory client of the vendored controller-runtime (\<open>client/fake/client.go\<close>) over the
  object tracker of client-go (\<open>testing/fixture.go\<close>): the one implementation of
  \<open>client.Client\<close> whose server side is in the repository. Objects are kept in one list per
  resource. The tracker's watches have no observers under the fake client and are left out.

  \<open>Get\<close> marshals the object it finds and decodes the text into the caller's object. What that makes
  of an object is a parameter of the client of a kind, \<open>wire\<close>. For virtual services it is
  \<open>VirtualService_read\<close>: the prefixes and regular expressions of HTTP matches are lost. For the six
  other kinds it is the identity, which for the types of Krane is what their tags say (C22), and for
  the types of Kubernetes is the documented behaviour of their codecs. The clusters considered are
  those whose objects can be written without a further loss: maps are nil or not empty
  (\<open>omitempty\<close> drops an empty map), floats are numbers, and enumerations are built from their strings.

  The theory ends with the interpretation of \<open>object_store\<close> and \<open>status_store\<close> on it, for
  every kind of object the controllers use.
\<close>

subsection \<open>The object tracker\<close>

text \<open>Names here are DNS labels, for which \<open>%q\<close> only adds the quotes.\<close>

definition quoted :: "string \<Rightarrow> string" where
  "quoted s = CHR 0x22 # s @ [CHR 0x22]"

definition NewNotFound :: "string \<Rightarrow> string \<Rightarrow> error" where
  "NewNotFound gr name = StatusError StatusReasonNotFound (gr @ '' '' @ quoted name @ '' not found'')"

definition NewAlreadyExists :: "string \<Rightarrow> string \<Rightarrow> error" where
  "NewAlreadyExists gr name =
     StatusError StatusReasonAlreadyExists (gr @ '' '' @ quoted name @ '' already exists'')"

definition NewBadRequest :: "string \<Rightarrow> error" where
  "NewBadRequest msg = StatusError StatusReasonBadRequest msg"

text \<open>\<open>filterByNamespaceAndName\<close>: an empty namespace or name matches everything.\<close>

definition filterByNamespaceAndName :: "('o \<Rightarrow> ObjectMeta) \<Rightarrow> 'o list \<Rightarrow> string \<Rightarrow> string \<Rightarrow> 'o list" where
  "filterByNamespaceAndName meta objs ns name =
     filter (\<lambda>obj. \<not> (ns \<noteq> [] \<and> om_Namespace (meta obj) \<noteq> ns) \<and>
                   \<not> (name \<noteq> [] \<and> om_Name (meta obj) \<noteq> name)) objs"

definition tracker_Get :: "('o \<Rightarrow> ObjectMeta) \<Rightarrow> string \<Rightarrow> string \<Rightarrow> string \<Rightarrow> 'o list \<Rightarrow> error + 'o" where
  "tracker_Get meta gr ns name objs =
     (case filterByNamespaceAndName meta objs ns name of
        [] \<Rightarrow> Inl (NewNotFound gr name)
      | [x] \<Rightarrow> Inr x
      | _ \<Rightarrow> Inl (PlainError (''more than one object matched gvr '' @ gr @ '', ns: '' @ quoted ns
                 @ '' name: '' @ quoted name)))"

text \<open>\<open>tracker.add\<close>: the scan for an object with the same namespace and name.\<close>

fun tracker_put ::
    "('o \<Rightarrow> ObjectMeta) \<Rightarrow> string \<Rightarrow> 'o \<Rightarrow> bool \<Rightarrow> 'o list \<Rightarrow> error + 'o list" where
  "tracker_put meta gr obj replaceExisting [] =
     (if replaceExisting then Inl (NewNotFound gr (om_Name (meta obj))) else Inr [obj])"
| "tracker_put meta gr obj replaceExisting (x # xs) =
     (if om_Namespace (meta x) = om_Namespace (meta obj) \<and> om_Name (meta x) = om_Name (meta obj)
      then (if replaceExisting then Inr (obj # xs)
            else Inl (NewAlreadyExists gr (om_Name (meta obj))))
      else (case tracker_put meta gr obj replaceExisting xs of
              Inl e \<Rightarrow> Inl e | Inr ys \<Rightarrow> Inr (x # ys)))"

definition tracker_add ::
    "('o \<Rightarrow> ObjectMeta) \<Rightarrow> ((ObjectMeta \<Rightarrow> ObjectMeta) \<Rightarrow> 'o \<Rightarrow> 'o) \<Rightarrow> string \<Rightarrow> 'o \<Rightarrow> string \<Rightarrow> bool
       \<Rightarrow> 'o list \<Rightarrow> error + 'o list" where
  "tracker_add meta upd gr obj ns replaceExisting objs =
     (let obj = (if om_Namespace (meta obj) = [] then upd (om_Namespace_update (\<lambda>_. ns)) obj else obj)
      in if ns \<noteq> om_Namespace (meta obj)
         then Inl (NewBadRequest (''request namespace does not match object namespace, request: ''
                @ quoted ns @ '' object: '' @ quoted (om_Namespace (meta obj))))
         else tracker_put meta gr obj replaceExisting objs)"

fun tracker_Delete ::
    "('o \<Rightarrow> ObjectMeta) \<Rightarrow> string \<Rightarrow> string \<Rightarrow> string \<Rightarrow> 'o list \<Rightarrow> error + 'o list" where
  "tracker_Delete meta gr ns name [] = Inl (NewNotFound gr name)"
| "tracker_Delete meta gr ns name (x # xs) =
     (if om_Namespace (meta x) = ns \<and> om_Name (meta x) = name then Inr xs
      else (case tracker_Delete meta gr ns name xs of Inl e \<Rightarrow> Inl e | Inr ys \<Rightarrow> Inr (x # ys)))"

subsection \<open>The fake client\<close>

text \<open>
  \<open>get\<close> and \<open>put\<close> are the list of a resource in the cluster and its replacement, \<open>wire\<close> is what
  \<open>json.Marshal\<close> and \<open>Decode\<close> make of an object. Writes store the object they are given. The fake
  client's status writer updates the whole object, and no write changes the caller's object.
\<close>

definition fake_write :: "('w \<Rightarrow> 'o list) \<Rightarrow> ('o list \<Rightarrow> 'w \<Rightarrow> 'w) \<Rightarrow> ('o list \<Rightarrow> error + 'o list) \<Rightarrow> 'a
    \<Rightarrow> 'w \<Rightarrow> (error + 'a) \<times> 'w" where
  "fake_write get put f answer w =
     (case f (get w) of Inl e \<Rightarrow> (Inl e, w) | Inr objs \<Rightarrow> (Inr answer, put objs w))"

definition fake_api :: "('o \<Rightarrow> ObjectMeta) \<Rightarrow> ((ObjectMeta \<Rightarrow> ObjectMeta) \<Rightarrow> 'o \<Rightarrow> 'o) \<Rightarrow> string
    \<Rightarrow> ('o \<Rightarrow> 'o) \<Rightarrow> ('w \<Rightarrow> 'o list) \<Rightarrow> ('o list \<Rightarrow> 'w \<Rightarrow> 'w) \<Rightarrow> ('o, 'w) api" where
  "fake_api meta upd gr wire get put =
     \<lparr>api_get = (\<lambda>k w. (case tracker_Get meta gr (nn_Namespace k) (nn_Name k) (get w) of
          Inl e \<Rightarrow> Inl e | Inr x \<Rightarrow> Inr (wire x), w)),
      api_create = (\<lambda>x. fake_write get put (tracker_add meta upd gr x (om_Namespace (meta x)) False) x),
      api_update = (\<lambda>x. fake_write get put (tracker_add meta upd gr x (om_Namespace (meta x)) True) x),
      api_update_status = (\<lambda>x. fake_write get put (tracker_add meta upd gr x (om_Namespace (meta x)) True) x),
      api_delete = (\<lambda>x. fake_write get put (tracker_Delete meta gr (om_Namespace (meta x)) (om_Name (meta x))) ())\<rparr>"

record Cluster =
  cl_canaries :: "Canary list"
  cl_policies :: "CanaryPolicy list"
  cl_deployments :: "Deployment list"
  cl_pods :: "Pod list"
  cl_services :: "Service list"
  cl_virtualservices :: "VirtualService list"
  cl_destinationrules :: "DestinationRule list"

definition fakeClient :: "Cluster Client" where
  "fakeClient =
     \<lparr>canaries = fake_api cn_Meta cn_Meta_update ''canaries.krane.sh'' (\<lambda>x. x)
        cl_canaries (\<lambda>l. cl_canaries_update (\<lambda>_. l)),
      policies = fake_api cpo_Meta cpo_Meta_update ''canarypolicies.krane.sh'' (\<lambda>x. x)
        cl_policies (\<lambda>l. cl_policies_update (\<lambda>_. l)),
      deployments = fake_api dp_Meta dp_Meta_update ''deployments.apps'' (\<lambda>x. x)
        cl_deployments (\<lambda>l. cl_deployments_update (\<lambda>_. l)),
      pods = fake_api pod_Meta pod_Meta_update ''pods'' (\<lambda>x. x) cl_pods (\<lambda>l. cl_pods_update (\<lambda>_. l)),
      services = fake_api svc_Meta svc_Meta_update ''services'' (\<lambda>x. x)
        cl_services (\<lambda>l. cl_services_update (\<lambda>_. l)),
      virtualservices = fake_api vs_Meta vs_Meta_update ''virtualservices.networking.istio.io'' VirtualService_read
        cl_virtualservices (\<lambda>l. cl_virtualservices_update (\<lambda>_. l)),
      destinationrules = fake_api dr_Meta dr_Meta_update ''destinationrules.networking.istio.io'' (\<lambda>x. x)
        cl_destinationrules (\<lambda>l. cl_destinationrules_update (\<lambda>_. l))\<rparr>"

subsection \<open>The tracker as a map\<close>

text \<open>
  A key is legal when neither part is empty (an empty part is a wildcard of the tracker). The
  tracker is consistent when no two objects of a resource have the same key.
\<close>

definition legal_key :: "NamespacedName \<Rightarrow> bool" where
  "legal_key k \<longleftrightarrow> nn_Namespace k \<noteq> [] \<and> nn_Name k \<noteq> []"

definition keys :: "('o \<Rightarrow> ObjectMeta) \<Rightarrow> 'o list \<Rightarrow> NamespacedName list" where
  "keys meta objs = map (\<lambda>x. metaKey (meta x)) objs"

definition find_key :: "('o \<Rightarrow> ObjectMeta) \<Rightarrow> 'o list \<Rightarrow> NamespacedName \<Rightarrow> 'o option" where
  "find_key meta objs k = map_of (map (\<lambda>x. (metaKey (meta x), x)) objs) k"

lemma find_key_simps [simp]:
  "find_key meta [] k = None"
  "find_key meta (x # xs) k = (if metaKey (meta x) = k then Some x else find_key meta xs k)"
  by (auto simp: find_key_def)

lemma find_key_in: "find_key meta objs k = Some x \<Longrightarrow> metaKey (meta x) = k \<and> x \<in> set objs"
  by (induction objs) (auto split: if_splits)

lemma keys_simps [simp]:
  "keys meta [] = []" "keys meta (x # xs) = metaKey (meta x) # keys meta xs"
  by (simp_all add: keys_def)

lemma in_keys: "k \<in> set (keys meta objs) \<longleftrightarrow> (\<exists>x\<in>set objs. metaKey (meta x) = k)"
  by (auto simp: keys_def)

lemma find_key_None: "find_key meta objs k = None \<longleftrightarrow> k \<notin> set (keys meta objs)"
  by (induction objs) (auto simp: keys_def)

lemma same_key:
  "(om_Namespace m = om_Namespace n \<and> om_Name m = om_Name n) \<longleftrightarrow> metaKey m = metaKey n"
  by (simp add: metaKey_def)

lemma same_key_iff:
  "(om_Namespace m = ns \<and> om_Name m = name) \<longleftrightarrow> metaKey m = \<lparr>nn_Namespace = ns, nn_Name = name\<rparr>"
  by (simp add: metaKey_def)

lemma read_same [simp]: "(case r of Inl e \<Rightarrow> Inl e | Inr x \<Rightarrow> Inr x) = r"
  by (cases r) simp_all

lemma filter_legal:
  "legal_key k \<Longrightarrow> filterByNamespaceAndName meta objs (nn_Namespace k) (nn_Name k)
     = filter (\<lambda>x. metaKey (meta x) = k) objs"
  by (cases k) (auto simp: filterByNamespaceAndName_def legal_key_def metaKey_def intro: filter_cong)

lemma filter_find_key:
  "distinct (keys meta objs) \<Longrightarrow> filter (\<lambda>x. metaKey (meta x) = k) objs
     = (case find_key meta objs k of None \<Rightarrow> [] | Some x \<Rightarrow> [x])"
proof (induction objs)
  case (Cons x xs)
  then show ?case
    by (auto simp: keys_def filter_empty_conv image_iff split: option.splits dest!: find_key_in)
qed simp

lemma tracker_Get_legal:
  "legal_key k \<Longrightarrow> distinct (keys meta objs) \<Longrightarrow>
   tracker_Get meta gr (nn_Namespace k) (nn_Name k) objs
     = (case find_key meta objs k of None \<Rightarrow> Inl (NewNotFound gr (nn_Name k)) | Some x \<Rightarrow> Inr x)"
  by (simp add: tracker_Get_def filter_legal filter_find_key split: option.splits)

lemma tracker_put_existing:
  "find_key meta objs (metaKey (meta x)) = Some y \<Longrightarrow>
   \<exists>objs'. tracker_put meta gr x True objs = Inr objs' \<and> keys meta objs' = keys meta objs \<and>
     find_key meta objs' = (find_key meta objs)(metaKey (meta x) \<mapsto> x)"
  by (induction objs) (auto simp: keys_def same_key fun_eq_iff)

lemma tracker_put_missing:
  "find_key meta objs (metaKey (meta x)) = None \<Longrightarrow> tracker_put meta gr x False objs = Inr (objs @ [x])"
  by (induction objs) (auto simp: same_key split: if_splits)

lemma tracker_put_conflict:
  "find_key meta objs (metaKey (meta x)) = Some y \<Longrightarrow>
   tracker_put meta gr x False objs = Inl (NewAlreadyExists gr (om_Name (meta x)))"
  by (induction objs) (auto simp: same_key split: if_splits)

lemma find_key_snoc:
  "find_key meta objs (metaKey (meta x)) = None \<Longrightarrow>
   find_key meta (objs @ [x]) = (find_key meta objs)(metaKey (meta x) \<mapsto> x)"
  by (induction objs) (auto simp: fun_eq_iff split: if_splits)

lemma tracker_Delete_existing:
  "find_key meta objs k = Some y \<Longrightarrow> distinct (keys meta objs) \<Longrightarrow>
   \<exists>objs'. tracker_Delete meta gr (nn_Namespace k) (nn_Name k) objs = Inr objs' \<and>
     set (keys meta objs') \<subseteq> set (keys meta objs) \<and> distinct (keys meta objs') \<and>
     find_key meta objs' = (find_key meta objs)(k := None)"
proof (induction objs)
  case (Cons x xs)
  show ?case
  proof (cases "metaKey (meta x) = k")
    case True
    with Cons.prems have "find_key meta xs k = None"
      by (simp add: find_key_None keys_def)
    with True Cons.prems show ?thesis
      by (auto simp: same_key_iff keys_def fun_eq_iff)
  next
    case False
    with Cons.prems have "find_key meta xs k = Some y" "distinct (keys meta xs)"
      by (simp_all add: keys_def)
    from Cons.IH [OF this] obtain objs' where "tracker_Delete meta gr (nn_Namespace k) (nn_Name k) xs = Inr objs'"
      "set (keys meta objs') \<subseteq> set (keys meta xs)" "distinct (keys meta objs')"
      "find_key meta objs' = (find_key meta xs)(k := None)"
      by blast
    with False Cons.prems show ?thesis
      by (auto simp: same_key_iff keys_def fun_eq_iff subset_iff)
  qed
qed simp

lemma tracker_add_legal:
  "legal_key (metaKey (meta x)) \<Longrightarrow>
   tracker_add meta upd gr x (om_Namespace (meta x)) rep objs = tracker_put meta gr x rep objs"
  by (simp add: tracker_add_def legal_key_def)

subsection \<open>The writes as list functions\<close>

text \<open>
  On a consistent tracker an update replaces the object with its key, a deletion filters it
  out: the equations by which runs of the controllers on the tracker are computed.
\<close>

definition put_at :: "('o \<Rightarrow> ObjectMeta) \<Rightarrow> 'o \<Rightarrow> 'o list \<Rightarrow> 'o list" where
  "put_at meta x objs = map (\<lambda>y. if metaKey (meta y) = metaKey (meta x) then x else y) objs"

definition remove_key :: "('o \<Rightarrow> ObjectMeta) \<Rightarrow> NamespacedName \<Rightarrow> 'o list \<Rightarrow> 'o list" where
  "remove_key meta k objs = filter (\<lambda>y. metaKey (meta y) \<noteq> k) objs"

named_theorems tracker_simps "keys and lookups after tracker operations"

lemma keys_put_at [tracker_simps]: "keys meta (put_at meta x objs) = keys meta objs"
  by (simp add: keys_def put_at_def)

lemma find_key_put_at [tracker_simps]:
  "find_key meta (put_at meta x objs) k =
     (if k = metaKey (meta x) then map_option (\<lambda>_. x) (find_key meta objs k) else find_key meta objs k)"
  by (induction objs) (auto simp: put_at_def)

lemma find_key_append [tracker_simps]:
  "find_key meta (objs @ [x]) k =
     (case find_key meta objs k of Some y \<Rightarrow> Some y | None \<Rightarrow> if k = metaKey (meta x) then Some x else None)"
  by (induction objs) auto

lemma distinct_keys_append [tracker_simps]:
  "distinct (keys meta (objs @ [x])) \<longleftrightarrow>
     distinct (keys meta objs) \<and> find_key meta objs (metaKey (meta x)) = None"
  by (auto simp: find_key_None) (auto simp: keys_def)

lemma find_key_remove [tracker_simps]:
  "find_key meta (remove_key meta j objs) k = (if k = j then None else find_key meta objs k)"
  by (induction objs) (auto simp: remove_key_def)

lemma distinct_keys_remove [tracker_simps]:
  "distinct (keys meta objs) \<Longrightarrow> distinct (keys meta (remove_key meta k objs))"
  by (simp add: keys_def remove_key_def distinct_map_filter)

lemma put_at_same [tracker_simps]:
  "find_key meta objs (metaKey (meta x)) = Some x \<Longrightarrow> distinct (keys meta objs) \<Longrightarrow> put_at meta x objs = objs"
proof (induction objs)
  case (Cons y ys)
  then have *: "\<forall>z\<in>set ys. metaKey (meta z) \<noteq> metaKey (meta y)"
    by (auto simp: in_keys)
  show ?case
  proof (cases "metaKey (meta y) = metaKey (meta x)")
    case True
    with * Cons.prems show ?thesis
      by (auto simp: put_at_def intro: map_idI)
  next
    case False
    with Cons show ?thesis by (simp add: put_at_def)
  qed
qed (simp add: put_at_def)

lemma put_at_absent:
  "metaKey (meta x) \<notin> set (keys meta objs) \<Longrightarrow> put_at meta x objs = objs"
  by (auto simp: put_at_def in_keys intro!: map_idI)

lemma put_at_put_at:
  "metaKey (meta x) = metaKey (meta y) \<Longrightarrow> put_at meta y (put_at meta x objs) = put_at meta y objs"
  by (simp add: put_at_def)

lemma put_at_append:
  "put_at meta y (objs @ [x]) = put_at meta y objs @ [if metaKey (meta x) = metaKey (meta y) then y else x]"
  by (simp add: put_at_def)

lemma tracker_put_eq:
  "find_key meta objs (metaKey (meta x)) \<noteq> None \<Longrightarrow> distinct (keys meta objs) \<Longrightarrow>
   tracker_put meta gr x True objs = Inr (put_at meta x objs)"
proof (induction objs)
  case (Cons y ys)
  show ?case
  proof (cases "metaKey (meta y) = metaKey (meta x)")
    case True
    with Cons.prems have "put_at meta x ys = ys"
      by (intro put_at_absent) simp
    with True show ?thesis by (simp add: same_key put_at_def)
  next
    case False
    with Cons show ?thesis by (simp add: same_key put_at_def)
  qed
qed simp

lemma tracker_Delete_eq:
  "find_key meta objs k \<noteq> None \<Longrightarrow> distinct (keys meta objs) \<Longrightarrow>
   tracker_Delete meta gr (nn_Namespace k) (nn_Name k) objs = Inr (remove_key meta k objs)"
proof (induction objs)
  case (Cons y ys)
  show ?case
  proof (cases "metaKey (meta y) = k")
    case True
    with Cons.prems have "remove_key meta k ys = ys"
      by (auto simp: remove_key_def in_keys filter_id_conv)
    with True show ?thesis by (simp add: same_key_iff remove_key_def)
  next
    case False
    with Cons show ?thesis by (cases k) (simp add: same_key_iff remove_key_def)
  qed
qed simp

subsection \<open>The tracker is a store\<close>

text \<open>
  One resource of the tracker, given by the way its list is read from and written to the
  cluster, is an \<open>object_store\<close>; so is each of the seven resources.
\<close>

locale tracked_kind =
  fixes meta :: "'o \<Rightarrow> ObjectMeta"
    and upd :: "(ObjectMeta \<Rightarrow> ObjectMeta) \<Rightarrow> 'o \<Rightarrow> 'o"
    and gr :: string
    and wire :: "'o \<Rightarrow> 'o"
    and get :: "'w \<Rightarrow> 'o list"
    and put :: "'o list \<Rightarrow> 'w \<Rightarrow> 'w"
  assumes get_put: "get (put l w) = l"
    and wire_meta: "meta (wire x) = meta x"
    and wire_wire: "wire (wire x) = wire x"
begin

lemma fake_get:
  assumes "legal_key k" "distinct (keys meta (get w))"
  shows "api_get (fake_api meta upd gr wire get put) k w =
    (case find_key meta (get w) k of
       None \<Rightarrow> (Inl (NewNotFound gr (nn_Name k)), w) | Some x \<Rightarrow> (Inr (wire x), w))"
  using assms by (simp add: fake_api_def tracker_Get_legal split: option.splits)

lemma fake_put:
  assumes "legal_key (metaKey (meta x))" "distinct (keys meta (get w))"
    "find_key meta (get w) (metaKey (meta x)) = Some y"
  shows "api_update (fake_api meta upd gr wire get put) x w = (Inr x, put (put_at meta x (get w)) w)"
    and "api_update_status (fake_api meta upd gr wire get put) x w = (Inr x, put (put_at meta x (get w)) w)"
  using assms by (simp_all add: fake_api_def fake_write_def tracker_add_legal tracker_put_eq)

lemma fake_remove:
  assumes "distinct (keys meta (get w))" "find_key meta (get w) (metaKey (meta x)) = Some y"
  shows "api_delete (fake_api meta upd gr wire get put) x w =
    (Inr (), put (remove_key meta (metaKey (meta x)) (get w)) w)"
  using assms tracker_Delete_eq [of meta "get w" "metaKey (meta x)" gr]
  by (simp add: fake_api_def fake_write_def)

lemma fake_create:
  assumes "legal_key (metaKey (meta x))" "find_key meta (get w) (metaKey (meta x)) = None"
  shows "api_create (fake_api meta upd gr wire get put) x w = (Inr x, put (get w @ [x]) w)"
  using assms by (simp add: fake_api_def fake_write_def tracker_add_legal tracker_put_missing)

lemma fake_update:
  assumes "legal_key (metaKey (meta x))" "find_key meta (get w) (metaKey (meta x)) = Some y"
  shows "\<exists>w'. api_update (fake_api meta upd gr wire get put) x w = (Inr x, w') \<and>
    api_update_status (fake_api meta upd gr wire get put) x w = (Inr x, w') \<and>
    w' = put (get w') w \<and> keys meta (get w') = keys meta (get w) \<and>
    find_key meta (get w') = (find_key meta (get w))(metaKey (meta x) \<mapsto> x)"
  using tracker_put_existing [OF assms(2), of gr] assms(1)
  by (auto simp: fake_api_def fake_write_def tracker_add_legal get_put)

lemma fake_delete:
  assumes "distinct (keys meta (get w))" "find_key meta (get w) (metaKey (meta x)) = Some y"
  shows "\<exists>w'. api_delete (fake_api meta upd gr wire get put) x w = (Inr (), w') \<and>
    w' = put (get w') w \<and> distinct (keys meta (get w')) \<and>
    find_key meta (get w') = (find_key meta (get w))(metaKey (meta x) := None)"
  using tracker_Delete_existing [OF assms(2,1), of gr]
  by (auto simp: fake_api_def fake_write_def get_put)

end

sublocale tracked_kind \<subseteq> st: object_store "fake_api meta upd gr wire get put" meta wire
    "\<lambda>w. find_key meta (get w)" legal_key "\<lambda>w. distinct (keys meta (get w))"
proof unfold_locales
  fix w k x
  assume "distinct (keys meta (get w))" "legal_key k" "find_key meta (get w) k = Some x"
  then show "api_get (fake_api meta upd gr wire get put) k w = (Inr (wire x), w)"
    by (simp add: fake_api_def tracker_Get_legal)
next
  fix w k
  assume "distinct (keys meta (get w))" "legal_key k" "find_key meta (get w) k = None"
  then show "\<exists>e. api_get (fake_api meta upd gr wire get put) k w = (Inl e, w) \<and> IsNotFound e"
    by (simp add: fake_api_def tracker_Get_legal NewNotFound_def)
next
  fix w x
  assume *: "distinct (keys meta (get w))" "legal_key (metaKey (meta x))"
    "find_key meta (get w) (metaKey (meta x)) = None"
  then have "distinct (keys meta (get w @ [x]))"
    by (simp add: find_key_None) (simp add: keys_def)
  then show "\<exists>x' w'. api_create (fake_api meta upd gr wire get put) x w = (Inr x', w') \<and>
      metaKey (meta x') = metaKey (meta x) \<and> distinct (keys meta (get w')) \<and>
      find_key meta (get w') = (find_key meta (get w))(metaKey (meta x) \<mapsto> x')"
    using fake_create [OF *(2,3)] *(3) by (simp add: get_put find_key_snoc)
next
  fix w x y
  assume "distinct (keys meta (get w))" "legal_key (metaKey (meta x))"
    "find_key meta (get w) (metaKey (meta x)) = Some y"
  then show "\<exists>e. api_create (fake_api meta upd gr wire get put) x w = (Inl e, w) \<and> \<not> IsNotFound e"
    by (simp add: fake_api_def fake_write_def tracker_add_legal tracker_put_conflict NewAlreadyExists_def)
next
  fix w x y
  assume "distinct (keys meta (get w))" "legal_key (metaKey (meta x))"
    "find_key meta (get w) (metaKey (meta x)) = Some y"
  then show "(\<exists>x' w'. api_update (fake_api meta upd gr wire get put) x w = (Inr x', w') \<and>
        metaKey (meta x') = metaKey (meta x) \<and> distinct (keys meta (get w')) \<and>
        find_key meta (get w') = (find_key meta (get w))(metaKey (meta x) \<mapsto> x'))
      \<or> (\<exists>e. api_update (fake_api meta upd gr wire get put) x w = (Inl e, w)
        \<and> ReasonForError e = StatusReasonConflict)"
    using fake_update by metis
next
  fix w x y
  assume "distinct (keys meta (get w))" "legal_key (metaKey (meta x))"
    "find_key meta (get w) (metaKey (meta x)) = Some y"
  then show "\<exists>w'. api_delete (fake_api meta upd gr wire get put) x w = (Inr (), w') \<and>
      distinct (keys meta (get w')) \<and>
      find_key meta (get w') = (find_key meta (get w))(metaKey (meta x) := None)"
    using fake_delete by metis
next
  fix w k x
  assume "find_key meta (get w) k = Some x"
  then show "metaKey (meta x) = k" by (simp add: find_key_in)
qed (rule wire_meta wire_wire)+

sublocale tracked_kind \<subseteq> sst: status_store "fake_api meta upd gr wire get put" meta wire
    "\<lambda>w. find_key meta (get w)" legal_key "\<lambda>w. distinct (keys meta (get w))" "\<lambda>x. x"
  by unfold_locales (metis fake_update)

interpretation canary_store: tracked_kind cn_Meta cn_Meta_update "''canaries.krane.sh''" "\<lambda>x. x"
    cl_canaries "\<lambda>l. cl_canaries_update (\<lambda>_. l)"
  by unfold_locales simp_all

interpretation policy_store: tracked_kind cpo_Meta cpo_Meta_update "''canarypolicies.krane.sh''" "\<lambda>x. x"
    cl_policies "\<lambda>l. cl_policies_update (\<lambda>_. l)"
  by unfold_locales simp_all

interpretation deployment_store: tracked_kind dp_Meta dp_Meta_update "''deployments.apps''" "\<lambda>x. x"
    cl_deployments "\<lambda>l. cl_deployments_update (\<lambda>_. l)"
  by unfold_locales simp_all

interpretation pod_store: tracked_kind pod_Meta pod_Meta_update "''pods''" "\<lambda>x. x"
    cl_pods "\<lambda>l. cl_pods_update (\<lambda>_. l)"
  by unfold_locales simp_all

interpretation service_store: tracked_kind svc_Meta svc_Meta_update "''services''" "\<lambda>x. x"
    cl_services "\<lambda>l. cl_services_update (\<lambda>_. l)"
  by unfold_locales simp_all

interpretation virtualservice_store: tracked_kind vs_Meta vs_Meta_update
    "''virtualservices.networking.istio.io''" VirtualService_read
    cl_virtualservices "\<lambda>l. cl_virtualservices_update (\<lambda>_. l)"
  by unfold_locales simp_all

interpretation destinationrule_store: tracked_kind dr_Meta dr_Meta_update
    "''destinationrules.networking.istio.io''" "\<lambda>x. x"
    cl_destinationrules "\<lambda>l. cl_destinationrules_update (\<lambda>_. l)"
  by unfold_locales simp_all

lemma fakeClient_simps [simp]:
  "canaries fakeClient = fake_api cn_Meta cn_Meta_update ''canaries.krane.sh'' (\<lambda>x. x)
     cl_canaries (\<lambda>l. cl_canaries_update (\<lambda>_. l))"
  "policies fakeClient = fake_api cpo_Meta cpo_Meta_update ''canarypolicies.krane.sh'' (\<lambda>x. x)
     cl_policies (\<lambda>l. cl_policies_update (\<lambda>_. l))"
  "deployments fakeClient = fake_api dp_Meta dp_Meta_update ''deployments.apps'' (\<lambda>x. x)
     cl_deployments (\<lambda>l. cl_deployments_update (\<lambda>_. l))"
  "pods fakeClient = fake_api pod_Meta pod_Meta_update ''pods'' (\<lambda>x. x)
     cl_pods (\<lambda>l. cl_pods_update (\<lambda>_. l))"
  "services fakeClient = fake_api svc_Meta svc_Meta_update ''services'' (\<lambda>x. x)
     cl_services (\<lambda>l. cl_services_update (\<lambda>_. l))"
  "virtualservices fakeClient = fake_api vs_Meta vs_Meta_update ''virtualservices.networking.istio.io'' VirtualService_read
     cl_virtualservices (\<lambda>l. cl_virtualservices_update (\<lambda>_. l))"
  "destinationrules fakeClient = fake_api dr_Meta dr_Meta_update ''destinationrules.networking.istio.io'' (\<lambda>x. x)
     cl_destinationrules (\<lambda>l. cl_destinationrules_update (\<lambda>_. l))"
  by (simp_all add: fakeClient_def)

text \<open>A cluster is consistent when each of its resources is.\<close>

definition consistent :: "Cluster \<Rightarrow> bool" where
  "consistent w \<longleftrightarrow> distinct (keys cn_Meta (cl_canaries w)) \<and> distinct (keys cpo_Meta (cl_policies w))
     \<and> distinct (keys dp_Meta (cl_deployments w)) \<and> distinct (keys pod_Meta (cl_pods w))
     \<and> distinct (keys svc_Meta (cl_services w)) \<and> distinct (keys vs_Meta (cl_virtualservices w))
     \<and> distinct (keys dr_Meta (cl_destinationrules w))"

lemma consistent_keys [tracker_simps]:
  "consistent w \<Longrightarrow> distinct (keys cn_Meta (cl_canaries w))"
  "consistent w \<Longrightarrow> distinct (keys cpo_Meta (cl_policies w))"
  "consistent w \<Longrightarrow> distinct (keys dp_Meta (cl_deployments w))"
  "consistent w \<Longrightarrow> distinct (keys pod_Meta (cl_pods w))"
  "consistent w \<Longrightarrow> distinct (keys svc_Meta (cl_services w))"
  "consistent w \<Longrightarrow> distinct (keys vs_Meta (cl_virtualservices w))"
  "consistent w \<Longrightarrow> distinct (keys dr_Meta (cl_destinationrules w))"
  by (simp_all add: consistent_def)

lemma consistent_update [tracker_simps]:
  "consistent w \<Longrightarrow> consistent (w\<lparr>cl_canaries := l1\<rparr>) \<longleftrightarrow> distinct (keys cn_Meta l1)"
  "consistent w \<Longrightarrow> consistent (w\<lparr>cl_deployments := l2\<rparr>) \<longleftrightarrow> distinct (keys dp_Meta l2)"
  "consistent w \<Longrightarrow> consistent (w\<lparr>cl_pods := l3\<rparr>) \<longleftrightarrow> distinct (keys pod_Meta l3)"
  "consistent w \<Longrightarrow> consistent (w\<lparr>cl_services := l4\<rparr>) \<longleftrightarrow> distinct (keys svc_Meta l4)"
  "consistent w \<Longrightarrow> consistent (w\<lparr>cl_virtualservices := l5\<rparr>) \<longleftrightarrow> distinct (keys vs_Meta l5)"
  "consistent w \<Longrightarrow> consistent (w\<lparr>cl_destinationrules := l6\<rparr>) \<longleftrightarrow> distinct (keys dr_Meta l6)"
  by (simp_all add: consistent_def)

lemma legal_key_simps [simp]:
  "legal_key \<lparr>nn_Namespace = a, nn_Name = b\<rparr> \<longleftrightarrow> a \<noteq> [] \<and> b \<noteq> []"
  "legal_key (metaKey m) \<longleftrightarrow> om_Namespace m \<noteq> [] \<and> om_Name m \<noteq> []"
  by (simp_all add: legal_key_def)

lemma IsNotFound_NewNotFound [simp]: "IsNotFound (NewNotFound gr name)"
  by (simp add: NewNotFound_def)

text \<open>The calls of the fake client, as equations.\<close>

lemmas fake_calls =
  canary_store.fake_get canary_store.fake_put canary_store.fake_create canary_store.fake_remove
  policy_store.fake_get
  deployment_store.fake_get deployment_store.fake_put deployment_store.fake_create
  deployment_store.fake_remove
  pod_store.fake_get pod_store.fake_put pod_store.fake_create pod_store.fake_remove
  service_store.fake_get service_store.fake_put service_store.fake_create
  virtualservice_store.fake_get virtualservice_store.fake_put
  destinationrule_store.fake_get destinationrule_store.fake_create

end
