(* ===== verification/DeployProps.thy ===== *)
theory DeployProps
  imports DeployController Tracker
begin

text \<open>
  Facts about the deployment controller: how the labels it writes tie service, canary and
  baseline together, and its complete run on the tracker, from a fresh canary deployment to
  the fixed point.
\<close>

subsection \<open>Wiring\<close>

text \<open>Whatever the source specification, a baseline that is built is selected by the service.\<close>

lemma baseline_selected:
  assumes "connect_selectors (MakeCanaryConfigName p c) (policy_label c) src = Ok sp"
  shows "selects (selection_map p c) (template_labels sp)"
    and "ds_Replicas sp = Some 1"
    and "map_get (template_labels sp) KraneTierLabel = ''baseline''"
proof -
  obtain sel f g where src: "ds_Selector src = Some sel" "ls_MatchLabels sel = Some f"
      "template_labels src = Some g"
    using assms connect_selectors_Ok_iff unfolding selectable_def by blast
  then show "selects (selection_map p c) (template_labels sp)" "ds_Replicas sp = Some 1"
    "map_get (template_labels sp) KraneTierLabel = ''baseline''"
    using assms connect_selectors_Ok [OF src]
    by (auto simp: selection_map_def map_le_def set_template_labels_def)
qed

lemma baseline_selector_matches:
  assumes "connect_selectors cfg pol src = Ok sp" and "selector_matches src"
    and "ds_Selector src = Some sel" "\<forall>k\<in>{CanaryConfigLabel, CanaryPolicyLabel}. \<not> map_has (ls_MatchLabels sel) k"
  shows "selector_matches sp"
proof -
  obtain f g where src: "ds_Selector src = Some sel" "ls_MatchLabels sel = Some f"
      "template_labels src = Some g"
    using assms(1,3) connect_selectors_Ok_iff [of cfg pol src] unfolding selectable_def by auto
  have "f \<subseteq>\<^sub>m g" "f CanaryConfigLabel = None" "f CanaryPolicyLabel = None"
    using assms(2-4) src by (auto simp: selector_matches_def map_has_def)
  then show ?thesis
    using assms(1) connect_selectors_Ok [OF src]
    by (auto simp: selector_matches_def set_template_labels_def
        intro!: map_le_upd_right map_le_upd_both)
qed

text \<open>
  Selectors of the baseline and of the canary are disjoint, provided the canary's own
  template and selector carry the tier label the event filter asks for.
\<close>

lemma baseline_canary_disjoint:
  assumes "connect_selectors cfg pol src = Ok sp" and "ds_Selector sp = Some bsel"
    and "map_get (template_labels csp) KraneTierLabel = ''canary''"
    and "map_get csel KraneTierLabel = ''canary''"
  shows "\<not> selects (ls_MatchLabels bsel) (template_labels csp)"
    and "\<not> selects csel (template_labels sp)"
proof -
  obtain sel f g where src: "ds_Selector src = Some sel" "ls_MatchLabels sel = Some f"
      "template_labels src = Some g"
    using assms connect_selectors_Ok_iff unfolding selectable_def by blast
  then have "ls_MatchLabels bsel = Some (f(KraneTierLabel \<mapsto> ''baseline'', VersionLabel \<mapsto> ''baseline''))"
    and "map_pairs (template_labels sp) KraneTierLabel = Some ''baseline''"
    using assms(1,2) connect_selectors_Ok [OF src] by (auto simp: set_template_labels_def)
  then show "\<not> selects (ls_MatchLabels bsel) (template_labels csp)"
    and "\<not> selects csel (template_labels sp)"
    using assms(3,4)
    by (auto simp: selects_def map_le_def map_get_def map_pairs_def split: option.splits
        dest!: bspec [where x = KraneTierLabel] intro!: bexI [where x = KraneTierLabel])
qed

subsection \<open>The in-memory deployment after each step\<close>

definition set_labels :: "gomap \<Rightarrow> Deployment \<Rightarrow> Deployment" where
  "set_labels l d = d\<lparr>dp_Meta := (dp_Meta d)\<lparr>om_Labels := l\<rparr>\<rparr>"

text \<open>With the config label of its metadata set (by \<open>reconcile\<close>)...\<close>

definition named_instance :: "CanaryPolicy \<Rightarrow> Deployment \<Rightarrow> Deployment" where
  "named_instance p c =
     (if GetCanaryConfigName c = []
      then set_labels (Some ((map_pairs (om_Labels (dp_Meta c)))(CanaryConfigLabel \<mapsto> MakeCanaryConfigName p c))) c
      else c)"

text \<open>... its template labelled (by \<open>reconcileCanaryDeployment\<close>)...\<close>

definition labelled_instance :: "CanaryPolicy \<Rightarrow> Deployment \<Rightarrow> Deployment" where
  "labelled_instance p c =
     (if labelled_template c then c
      else c\<lparr>dp_Spec := set_template_labels
        (Some ((map_pairs (template_labels (dp_Spec c)))
          (CanaryConfigLabel \<mapsto> MakeCanaryConfigName p c, CanaryPolicyLabel \<mapsto> policy_label c)))
        (dp_Spec c)\<rparr>)"

text \<open>... and owned by its \<open>Canary\<close> resource (by \<open>reconcileCanaryConfig\<close>).\<close>

definition owned_instance :: "GroupVersionKind \<Rightarrow> Canary \<Rightarrow> Deployment \<Rightarrow> Deployment" where
  "owned_instance gvk cfg c =
     c\<lparr>dp_Meta := (dp_Meta c)\<lparr>om_OwnerReferences := [NewControllerRef (cn_Meta cfg) gvk]\<rparr>\<rparr>"

lemma set_labels_simps [simp]:
  "om_Name (dp_Meta (set_labels l d)) = om_Name (dp_Meta d)"
  "om_Namespace (dp_Meta (set_labels l d)) = om_Namespace (dp_Meta d)"
  "om_OwnerReferences (dp_Meta (set_labels l d)) = om_OwnerReferences (dp_Meta d)"
  "om_Labels (dp_Meta (set_labels l d)) = l"
  "dp_Spec (set_labels l d) = dp_Spec d"
  by (simp_all add: set_labels_def)

lemma named_instance_simps [simp]:
  "om_Name (dp_Meta (named_instance p c)) = om_Name (dp_Meta c)"
  "om_Namespace (dp_Meta (named_instance p c)) = om_Namespace (dp_Meta c)"
  "om_OwnerReferences (dp_Meta (named_instance p c)) = om_OwnerReferences (dp_Meta c)"
  "policy_label (named_instance p c) = policy_label c"
  "dp_Spec (named_instance p c) = dp_Spec c"
  "GetCanaryConfigName (named_instance p c) \<noteq> []"
  by (auto simp: named_instance_def GetCanaryConfigName_def map_get_def map_pairs_def split: option.splits)

lemma labelled_instance_simps [simp]:
  "dp_Meta (labelled_instance p c) = dp_Meta c"
  "ds_Selector (dp_Spec (labelled_instance p c)) = ds_Selector (dp_Spec c)"
  by (simp_all add: labelled_instance_def)

lemma labelled_instance_labelled:
  "policy_label c \<noteq> [] \<Longrightarrow> labelled_template (labelled_instance p c)"
  by (auto simp: labelled_instance_def labelled_template_def)

lemma owned_instance_simps [simp]:
  "om_Name (dp_Meta (owned_instance g cfg c)) = om_Name (dp_Meta c)"
  "om_Namespace (dp_Meta (owned_instance g cfg c)) = om_Namespace (dp_Meta c)"
  "om_Labels (dp_Meta (owned_instance g cfg c)) = om_Labels (dp_Meta c)"
  "om_OwnerReferences (dp_Meta (owned_instance g cfg c)) = [NewControllerRef (cn_Meta cfg) g]"
  "dp_Spec (owned_instance g cfg c) = dp_Spec c"
  by (simp_all add: owned_instance_def)

lemma instance_keys [simp]:
  "metaKey (dp_Meta (set_labels l c)) = metaKey (dp_Meta c)"
  "metaKey (dp_Meta (named_instance p c)) = metaKey (dp_Meta c)"
  "metaKey (dp_Meta (owned_instance g cfg c)) = metaKey (dp_Meta c)"
  by (simp_all add: metaKey_def)

text \<open>The names depend on the deployment's name only.\<close>

lemma names_cong:
  assumes "om_Name (dp_Meta d) = om_Name (dp_Meta c)"
  shows "MakeCanaryConfigName p d = MakeCanaryConfigName p c"
    "MakeCanaryServiceName p d = MakeCanaryServiceName p c"
    "MakeBaselineName d = MakeBaselineName c"
  using assms by (simp_all add: MakeCanaryConfigName_def MakeCanaryServiceName_def MakeBaselineName_def)

lemma instance_names [simp]:
  "MakeCanaryConfigName p (named_instance q c) = MakeCanaryConfigName p c"
  "MakeCanaryConfigName p (labelled_instance q c) = MakeCanaryConfigName p c"
  "MakeCanaryConfigName p (owned_instance g cfg c) = MakeCanaryConfigName p c"
  "MakeCanaryServiceName p (named_instance q c) = MakeCanaryServiceName p c"
  "MakeCanaryServiceName p (labelled_instance q c) = MakeCanaryServiceName p c"
  "MakeCanaryServiceName p (owned_instance g cfg c) = MakeCanaryServiceName p c"
  "MakeBaselineName (named_instance q c) = MakeBaselineName c"
  "MakeBaselineName (labelled_instance q c) = MakeBaselineName c"
  "MakeBaselineName (owned_instance g cfg c) = MakeBaselineName c"
  by (rule names_cong; simp)+

subsection \<open>A run from a fresh canary deployment\<close>

text \<open>
  The situation in which a user has just created a canary deployment \<open>c\<close>: its policy \<open>p\<close> and
  the base deployment exist, the specifications are complete, and none of the objects Krane
  creates is there.
\<close>

definition provisionable :: "Cluster \<Rightarrow> Deployment \<Rightarrow> CanaryPolicy \<Rightarrow> Deployment \<Rightarrow> bool" where
  "provisionable w c p base \<longleftrightarrow>
     consistent w \<and> deployment_name c \<noteq> [] \<and> deployment_namespace c \<noteq> [] \<and>
     find_key dp_Meta (cl_deployments w) (metaKey (dp_Meta c)) = Some c \<and>
     policy_label c \<noteq> [] \<and>
     find_key cpo_Meta (cl_policies w)
       \<lparr>nn_Namespace = deployment_namespace c, nn_Name = policy_label c\<rparr> = Some p \<and>
     cps_Base (cpo_Spec p) \<noteq> [] \<and> cps_Base (cpo_Spec p) \<noteq> deployment_name c \<and>
     find_key dp_Meta (cl_deployments w)
       \<lparr>nn_Namespace = deployment_namespace c, nn_Name = cps_Base (cpo_Spec p)\<rparr> = Some base \<and>
     cps_BaselineMode (cpo_Spec p) \<in> {BaselineModeUnset, BaselineModeNew, BaselineModeOld} \<and>
     selectable (dp_Spec c) \<and> selectable (dp_Spec base) \<and>
     om_OwnerReferences (dp_Meta c) = [] \<and>
     find_key svc_Meta (cl_services w)
       \<lparr>nn_Namespace = deployment_namespace c, nn_Name = MakeCanaryServiceName p c\<rparr> = None \<and>
     find_key dp_Meta (cl_deployments w)
       \<lparr>nn_Namespace = deployment_namespace c, nn_Name = MakeBaselineName c\<rparr> = None \<and>
     find_key cn_Meta (cl_canaries w)
       \<lparr>nn_Namespace = deployment_namespace c, nn_Name = MakeCanaryConfigName p c\<rparr> = None"

text \<open>The source of the baseline's specification, by mode.\<close>

definition baseline_source :: "CanaryPolicy \<Rightarrow> Deployment \<Rightarrow> Deployment \<Rightarrow> DeploymentSpec" where
  "baseline_source p c base =
     baseline_spec (cps_BaselineMode (cpo_Spec (default_mode (default_ports p))))  c base"

lemma policy_key:
  "provisionable w c p base \<Longrightarrow> om_Namespace (cpo_Meta p) = deployment_namespace c \<and> om_Name (cpo_Meta p) = policy_label c"
  by (auto simp: provisionable_def metaKey_def dest!: find_key_in)

text \<open>The three objects a run creates.\<close>

definition provisioned_service :: "GroupVersionKind \<Rightarrow> CanaryPolicy \<Rightarrow> Deployment \<Rightarrow> Service" where
  "provisioned_service g p c =
     \<lparr>svc_Meta = (mkMeta (MakeCanaryServiceName p c) (deployment_namespace c) (selection_map p c))
        \<lparr>om_OwnerReferences := [NewControllerRef (dp_Meta c) g]\<rparr>,
      svc_Selector = selection_map p c, svc_Ports = cps_Ports (cpo_Spec (default_ports p)), svc_rest = []\<rparr>"

definition provisioned_baseline :: "GroupVersionKind \<Rightarrow> CanaryPolicy \<Rightarrow> Deployment \<Rightarrow> DeploymentSpec \<Rightarrow> Deployment" where
  "provisioned_baseline g p c sp =
     \<lparr>dp_Meta = (baseline_meta p c)\<lparr>om_OwnerReferences := [NewControllerRef (dp_Meta c) g]\<rparr>,
      dp_Spec = sp, dp_AvailableReplicas = 0, dp_rest = []\<rparr>"

text \<open>The steps of the run, each as an equation.\<close>

lemma cluster_put_same:
  "find_key dp_Meta (cl_deployments w) (metaKey (dp_Meta c)) = Some c \<Longrightarrow> consistent w \<Longrightarrow>
   w\<lparr>cl_deployments := put_at dp_Meta c (cl_deployments w)\<rparr> = w"
  by (simp add: tracker_simps)

lemma run_reconcile:
  assumes R: "client R = fakeClient" and w: "consistent w"
    and c: "find_key dp_Meta (cl_deployments w) (metaKey (dp_Meta c)) = Some c" "legal_key (metaKey (dp_Meta c))"
    and p: "find_key cpo_Meta (cl_policies w)
       \<lparr>nn_Namespace = deployment_namespace c, nn_Name = policy_label c\<rparr> = Some p" "policy_label c \<noteq> []"
  shows "ReconcileDeployment_reconcile R (metaKey (dp_Meta c)) (m, w) =
    (Ok (named_instance p c), (m, w\<lparr>cl_deployments := put_at dp_Meta (named_instance p c) (cl_deployments w)\<rparr>))"
proof -
  obtain lab where lab: "om_Labels (dp_Meta c) = Some lab"
    using p(2) by (cases "om_Labels (dp_Meta c)") auto
  show ?thesis
    using assms lab
    by (simp add: ReconcileDeployment_reconcile_def ReconcileDeployment_GetCanaryPolicy_def GetCanaryPolicyName_def
        UpdateCanaryConfigName_def run_simps fake_calls tracker_simps named_instance_def cluster_put_same
        flip: set_labels_def)
qed

lemma run_deployment:
  assumes R: "client R = fakeClient" and w: "consistent w"
    and c: "find_key dp_Meta (cl_deployments w) (metaKey (dp_Meta (me_instance m))) = Some (me_instance m)"
       "legal_key (metaKey (dp_Meta (me_instance m)))"
    and t: "template_labels (dp_Spec (me_instance m)) = Some g"
  shows "reconcileCanaryDeployment R (m, w) =
    (Ok (), (m\<lparr>me_instance := labelled_instance (me_policy m) (me_instance m)\<rparr>,
       w\<lparr>cl_deployments := put_at dp_Meta (labelled_instance (me_policy m) (me_instance m)) (cl_deployments w)\<rparr>))"
    using assms
    by (simp add: reconcileCanaryDeployment_def labelled_instance_def run_simps fake_calls tracker_simps cluster_put_same)

lemma run_service:
  assumes R: "client R = fakeClient" and w: "consistent w"
    and k: "deployment_namespace (me_instance m) \<noteq> []"
    and p: "om_Namespace (cpo_Meta (me_policy m)) = deployment_namespace (me_instance m)"
    and g: "scheme R OwnerDeployment = Inr g"
    and none: "find_key svc_Meta (cl_services w)
       \<lparr>nn_Namespace = deployment_namespace (me_instance m), nn_Name = MakeCanaryServiceName (me_policy m) (me_instance m)\<rparr> = None"
  shows "reconcileCanaryService R (m, w) =
    (Ok (provisioned_service g (me_policy m) (me_instance m)), (m\<lparr>me_policy := default_ports (me_policy m)\<rparr>,
       w\<lparr>cl_services := cl_services w @ [provisioned_service g (me_policy m) (me_instance m)]\<rparr>))"
proof -
  have ne: "MakeCanaryServiceName (me_policy m) (me_instance m) \<noteq> []"
    by (simp add: MakeCanaryServiceName_def)
  show ?thesis
    using assms ne
    by (simp add: reconcileCanaryService_def get_or_create_def createCanaryService_def run_simps fake_calls tracker_simps
       SetControllerReference_fresh provisioned_service_def newCanaryService_def selection_map_def)
qed

lemma run_baseline:
  assumes R: "client R = fakeClient" and w: "consistent w"
    and k: "deployment_namespace (me_instance m) \<noteq> []"
    and base: "find_key dp_Meta (cl_deployments w) \<lparr>nn_Namespace = deployment_namespace (me_instance m),
        nn_Name = cps_Base (cpo_Spec (me_policy m))\<rparr> = Some base" "cps_Base (cpo_Spec (me_policy m)) \<noteq> []"
    and g: "scheme R OwnerDeployment = Inr g"
    and none: "find_key dp_Meta (cl_deployments w)
       \<lparr>nn_Namespace = deployment_namespace (me_instance m), nn_Name = MakeBaselineName (me_instance m)\<rparr> = None"
    and sp: "connect_selectors (MakeCanaryConfigName (me_policy m) (me_instance m)) (policy_label (me_instance m))
        (baseline_spec (cps_BaselineMode (cpo_Spec (default_mode (me_policy m)))) (me_instance m) base) = Ok sp"
  shows "reconcileBaseline R (m, w) =
    (Ok (provisioned_baseline g (me_policy m) (me_instance m) sp), (m\<lparr>me_policy := default_mode (me_policy m)\<rparr>,
       w\<lparr>cl_deployments := cl_deployments w @ [provisioned_baseline g (me_policy m) (me_instance m) sp]\<rparr>))"
proof -
  have mt: "om_OwnerReferences (baseline_meta p c) = []" for p c by (simp add: baseline_meta_def)
  have key: "metaKey (dp_Meta (provisioned_baseline g (me_policy m) (me_instance m) sp)) =
    \<lparr>nn_Namespace = deployment_namespace (me_instance m), nn_Name = MakeBaselineName (me_instance m)\<rparr>"
    by (simp add: provisioned_baseline_def metaKey_def baseline_meta_def)
  show ?thesis
    using assms key mt
    by (simp add: reconcileBaseline_def get_or_create_def createBaselineDeployment_def run_simps fake_calls tracker_simps
       SetControllerReference_fresh flip: provisioned_baseline_def)
qed

lemma run_config:
  assumes R: "client R = fakeClient" and w: "consistent w"
    and k: "deployment_namespace (me_instance m) \<noteq> []" "deployment_name (me_instance m) \<noteq> []"
    and p: "om_Namespace (cpo_Meta (me_policy m)) = deployment_namespace (me_instance m)"
    and g: "scheme R OwnerCanary = Inr g"
    and own: "om_OwnerReferences (dp_Meta (me_instance m)) = []"
    and inst: "find_key dp_Meta (cl_deployments w) (metaKey (dp_Meta (me_instance m))) = Some (me_instance m)"
    and none: "find_key cn_Meta (cl_canaries w)
       \<lparr>nn_Namespace = deployment_namespace (me_instance m), nn_Name = MakeCanaryConfigName (me_policy m) (me_instance m)\<rparr> = None"
  shows "reconcileCanaryConfig R (m, w) =
    (let cfg = createCanaryConfig (me_policy m) (me_instance m);
         c = owned_instance g cfg (me_instance m)
     in (Ok cfg, (m\<lparr>me_instance := c\<rparr>, w\<lparr>cl_canaries := cl_canaries w @ [cfg],
            cl_deployments := put_at dp_Meta c (cl_deployments w)\<rparr>)))"
proof -
  have mt: "om_OwnerReferences (cn_Meta (createCanaryConfig p c)) = []" for p c by (simp add: createCanaryConfig_def)
  have key: "metaKey (cn_Meta (createCanaryConfig (me_policy m) (me_instance m))) =
    \<lparr>nn_Namespace = deployment_namespace (me_instance m), nn_Name = MakeCanaryConfigName (me_policy m) (me_instance m)\<rparr>"
    by (simp add: createCanaryConfig_def metaKey_def p)
  show ?thesis
    using assms key mt
    by (simp add: reconcileCanaryConfig_def get_or_create_def run_simps fake_calls tracker_simps Let_def
       SetControllerReference_fresh flip: owned_instance_def)
qed

text \<open>
  The cluster after the run: the deployment carries its labels and its owner, and the service,
  the baseline and the \<open>Canary\<close> resource are new. Nothing else differs.
\<close>

definition prepared_instance :: "CanaryPolicy \<Rightarrow> Deployment \<Rightarrow> Deployment" where
  "prepared_instance p c = labelled_instance p (named_instance p c)"

definition provisioned ::
    "GroupVersionKind \<Rightarrow> GroupVersionKind \<Rightarrow> CanaryPolicy \<Rightarrow> Deployment \<Rightarrow> DeploymentSpec \<Rightarrow> Cluster \<Rightarrow> Cluster" where
  "provisioned gd gc p c sp w =
     (let c1 = prepared_instance p c; cfg = createCanaryConfig p c in
      w\<lparr>cl_deployments := put_at dp_Meta (owned_instance gc cfg c1) (cl_deployments w)
           @ [provisioned_baseline gd p c1 sp],
        cl_services := cl_services w @ [provisioned_service gd p c1],
        cl_canaries := cl_canaries w @ [cfg]\<rparr>)"

lemma prepared_instance_simps [simp]:
  "om_Name (dp_Meta (prepared_instance p c)) = om_Name (dp_Meta c)"
  "om_Namespace (dp_Meta (prepared_instance p c)) = om_Namespace (dp_Meta c)"
  "om_OwnerReferences (dp_Meta (prepared_instance p c)) = om_OwnerReferences (dp_Meta c)"
  "metaKey (dp_Meta (prepared_instance p c)) = metaKey (dp_Meta c)"
  "policy_label (prepared_instance p c) = policy_label c"
  "MakeCanaryConfigName q (prepared_instance p c) = MakeCanaryConfigName q c"
  "MakeCanaryServiceName q (prepared_instance p c) = MakeCanaryServiceName q c"
  "MakeBaselineName (prepared_instance p c) = MakeBaselineName c"
  by (simp_all add: prepared_instance_def)

lemma default_modes [simp]:
  "cps_BaselineMode (cpo_Spec (default_mode (default_ports p))) = cps_BaselineMode (cpo_Spec (default_mode p))"
  by (simp add: default_mode_def default_ports_def)

lemma created_keys [simp]:
  "metaKey (dp_Meta (provisioned_baseline g p c sp))
     = \<lparr>nn_Namespace = deployment_namespace c, nn_Name = MakeBaselineName c\<rparr>"
  "metaKey (svc_Meta (provisioned_service g p c))
     = \<lparr>nn_Namespace = deployment_namespace c, nn_Name = MakeCanaryServiceName p c\<rparr>"
  "metaKey (cn_Meta (createCanaryConfig p c))
     = \<lparr>nn_Namespace = om_Namespace (cpo_Meta p), nn_Name = MakeCanaryConfigName p c\<rparr>"
  by (simp_all add: metaKey_def provisioned_baseline_def provisioned_service_def baseline_meta_def createCanaryConfig_def)

lemma createCanaryConfig_cong:
  "om_Name (dp_Meta d) = om_Name (dp_Meta c) \<Longrightarrow> createCanaryConfig p d = createCanaryConfig p c"
  by (simp add: createCanaryConfig_def MakeCanaryConfigName_def MakeBaselineName_def)

lemma default_policy_objects [simp]:
  "createCanaryConfig (default_ports p) c = createCanaryConfig p c"
  "createCanaryConfig (default_mode p) c = createCanaryConfig p c"
  "provisioned_baseline g (default_ports p) c sp = provisioned_baseline g p c sp"
  "MakeCanaryConfigName (default_mode p) c = MakeCanaryConfigName p c"
  by (simp_all add: createCanaryConfig_def provisioned_baseline_def baseline_meta_def MakeCanaryConfigName_def)

text \<open>The steps in sequence.\<close>

lemma run_steps:
  assumes R: "client R = fakeClient" and g: "scheme R OwnerDeployment = Inr gd" "scheme R OwnerCanary = Inr gc"
    and pr: "provisionable w c p base"
    and sp: "connect_selectors (MakeCanaryConfigName p c) (policy_label c)
       (baseline_spec (cps_BaselineMode (cpo_Spec (default_mode p))) (prepared_instance p c) base) = Ok sp"
    and w1: "w1 = w\<lparr>cl_deployments := put_at dp_Meta (named_instance p c) (cl_deployments w)\<rparr>"
  shows "\<exists>m. reconcileSteps R (\<lparr>me_instance = named_instance p c, me_policy = p\<rparr>, w1)
     = (Ok (noResult, None), (m, provisioned gd gc p c sp w))"
proof -
  note pr' = pr [unfolded provisionable_def]
  obtain t where t: "template_labels (dp_Spec c) = Some t"
    using pr' by (auto simp: selectable_def)
  let ?c1 = "prepared_instance p c" and ?cfg = "createCanaryConfig p c"
  let ?w2 = "w\<lparr>cl_deployments := put_at dp_Meta ?c1 (cl_deployments w)\<rparr>"
  let ?w3 = "?w2\<lparr>cl_services := cl_services w @ [provisioned_service gd p ?c1]\<rparr>"
  let ?w4 = "?w3\<lparr>cl_deployments := put_at dp_Meta ?c1 (cl_deployments w) @ [provisioned_baseline gd p ?c1 sp]\<rparr>"
  have keys: "metaKey (dp_Meta c) \<noteq> \<lparr>nn_Namespace = deployment_namespace c, nn_Name = MakeBaselineName c\<rparr>"
    "metaKey (dp_Meta c) \<noteq> \<lparr>nn_Namespace = deployment_namespace c, nn_Name = cps_Base (cpo_Spec p)\<rparr>"
    using pr' baseline_name_fresh [of c] by (auto simp: metaKey_def)
  have cons: "consistent w1" "consistent ?w2" "consistent ?w3" "consistent ?w4"
    using pr' keys by (simp_all add: w1 tracker_simps)
  have "reconcileCanaryDeployment R (\<lparr>me_instance = named_instance p c, me_policy = p\<rparr>, w1)
    = (Ok (), (\<lparr>me_instance = ?c1, me_policy = p\<rparr>, ?w2))"
    using run_deployment [OF R cons(1), of "\<lparr>me_instance = named_instance p c, me_policy = p\<rparr>" t] pr' t
    by (simp add: w1 tracker_simps put_at_put_at prepared_instance_def)
  moreover have "reconcileCanaryService R (\<lparr>me_instance = ?c1, me_policy = p\<rparr>, ?w2)
    = (Ok (provisioned_service gd p ?c1), (\<lparr>me_instance = ?c1, me_policy = default_ports p\<rparr>, ?w3))"
    using run_service [OF R cons(2), of "\<lparr>me_instance = ?c1, me_policy = p\<rparr>" gd] pr' policy_key [OF pr] g
    by simp
  moreover have "reconcileBaseline R (\<lparr>me_instance = ?c1, me_policy = default_ports p\<rparr>, ?w3)
    = (Ok (provisioned_baseline gd p ?c1 sp),
       (\<lparr>me_instance = ?c1, me_policy = default_mode (default_ports p)\<rparr>, ?w4))"
    using run_baseline [OF R cons(3), of "\<lparr>me_instance = ?c1, me_policy = default_ports p\<rparr>" base gd sp] pr' g sp keys
    by (simp add: tracker_simps)
  moreover have "reconcileCanaryConfig R (\<lparr>me_instance = ?c1, me_policy = default_mode (default_ports p)\<rparr>, ?w4)
    = (Ok ?cfg, (\<lparr>me_instance = owned_instance gc ?cfg ?c1, me_policy = default_mode (default_ports p)\<rparr>,
        provisioned gd gc p c sp w))"
    using run_config [OF R cons(4), of "\<lparr>me_instance = ?c1, me_policy = default_mode (default_ports p)\<rparr>" gc]
      pr' policy_key [OF pr] g keys createCanaryConfig_cong [of ?c1 c p]
    by (simp add: tracker_simps Let_def provisioned_def put_at_append put_at_put_at)
  ultimately show ?thesis
    by (simp add: reconcileSteps_def orFallback_def run_simps)
qed

text \<open>The whole run, from the request.\<close>

lemma run_provision:
  assumes R: "client R = fakeClient" and g: "scheme R OwnerDeployment = Inr gd" "scheme R OwnerCanary = Inr gc"
    and pr: "provisionable w c p base"
    and sp: "connect_selectors (MakeCanaryConfigName p c) (policy_label c)
       (baseline_spec (cps_BaselineMode (cpo_Spec (default_mode p))) (prepared_instance p c) base) = Ok sp"
  shows "ReconcileDeployment_Reconcile R (metaKey (dp_Meta c)) w
     = (Ok (noResult, None), provisioned gd gc p c sp w)"
proof -
  note pr' = pr [unfolded provisionable_def]
  let ?w1 = "w\<lparr>cl_deployments := put_at dp_Meta (named_instance p c) (cl_deployments w)\<rparr>"
  have cons: "consistent ?w1"
    using pr' by (simp add: tracker_simps)
  have pol: "ReconcileDeployment_GetCanaryPolicy R (named_instance p c) ((), ?w1) = (Ok p, ((), ?w1))"
    using pr' R cons
    by (simp add: ReconcileDeployment_GetCanaryPolicy_def GetCanaryPolicyName_def run_simps fake_calls tracker_simps)
  have rec: "ReconcileDeployment_reconcile R (metaKey (dp_Meta c)) ((), w) = (Ok (named_instance p c), ((), ?w1))"
    using pr' run_reconcile [OF R, of w c p "()"] by simp
  obtain m where st: "reconcileSteps R (\<lparr>me_instance = named_instance p c, me_policy = p\<rparr>, ?w1)
     = (Ok (noResult, None), (m, provisioned gd gc p c sp w))"
    using run_steps [OF R g pr sp refl] by blast
  show ?thesis
    by (simp add: ReconcileDeployment_Reconcile_def run_simps rec pol st)
qed

text \<open>The specification of the baseline can be built from a complete source.\<close>

lemma baseline_source_selectable:
  assumes "provisionable w c p base"
  shows "selectable (baseline_spec (cps_BaselineMode (cpo_Spec (default_mode p))) (prepared_instance p c) base)"
proof -
  have c: "selectable (dp_Spec (prepared_instance p c))"
    using assms
    by (auto simp: provisionable_def selectable_def prepared_instance_def labelled_instance_def)
  have "cps_BaselineMode (cpo_Spec (default_mode p)) \<in> {BaselineModeNew, BaselineModeOld}"
    using assms by (auto simp: provisionable_def default_mode_def)
  then show ?thesis
    using c assms by (auto simp: provisionable_def selectable_def)
qed

lemma run_provision_ex:
  assumes "provisionable w c p base"
  obtains sp where
    "connect_selectors (MakeCanaryConfigName p c) (policy_label c)
       (baseline_spec (cps_BaselineMode (cpo_Spec (default_mode p))) (prepared_instance p c) base) = Ok sp"
    "ReconcileDeployment_Reconcile \<lparr>client = fakeClient, scheme = kraneScheme\<rparr> (metaKey (dp_Meta c)) w
       = (Ok (noResult, None), provisioned
            \<lparr>gvk_Group = ''apps'', gvk_Version = ''v1'', gvk_Kind = ''Deployment''\<rparr>
            \<lparr>gvk_Group = ''krane.sh'', gvk_Version = ''v1'', gvk_Kind = ''Canary''\<rparr> p c sp w)"
proof -
  obtain sp where sp: "connect_selectors (MakeCanaryConfigName p c) (policy_label c)
       (baseline_spec (cps_BaselineMode (cpo_Spec (default_mode p))) (prepared_instance p c) base) = Ok sp"
    using connect_selectors_Ok_iff baseline_source_selectable [OF assms] by blast
  show thesis
    by (rule that [OF sp]) (rule run_provision [OF _ _ _ assms sp]; simp)
qed

subsection \<open>The fixed point\<close>

text \<open>
  A deployment for which everything is in place. The \<open>Canary\<close> resource has no owner itself,
  so each run sets the deployment's owner reference and updates it again.
\<close>

definition settled :: "Cluster \<Rightarrow> Deployment \<Rightarrow> CanaryPolicy \<Rightarrow> bool" where
  "settled w c p \<longleftrightarrow>
     consistent w \<and> deployment_name c \<noteq> [] \<and> deployment_namespace c \<noteq> [] \<and>
     find_key dp_Meta (cl_deployments w) (metaKey (dp_Meta c)) = Some c \<and>
     GetCanaryConfigName c \<noteq> [] \<and> labelled_template c \<and> policy_label c \<noteq> [] \<and>
     find_key cpo_Meta (cl_policies w)
       \<lparr>nn_Namespace = deployment_namespace c, nn_Name = policy_label c\<rparr> = Some p \<and>
     find_key svc_Meta (cl_services w)
       \<lparr>nn_Namespace = deployment_namespace c, nn_Name = MakeCanaryServiceName p c\<rparr> \<noteq> None \<and>
     find_key dp_Meta (cl_deployments w)
       \<lparr>nn_Namespace = deployment_namespace c, nn_Name = MakeBaselineName c\<rparr> \<noteq> None \<and>
     (\<exists>cfg g. find_key cn_Meta (cl_canaries w)
         \<lparr>nn_Namespace = deployment_namespace c, nn_Name = MakeCanaryConfigName p c\<rparr> = Some cfg \<and>
       kraneScheme OwnerCanary = Inr g \<and>
       (om_OwnerReferences (cn_Meta cfg) = [] \<longrightarrow>
          om_OwnerReferences (dp_Meta c) = [NewControllerRef (cn_Meta cfg) g]))"

lemma settled_policy_key:
  "settled w c p \<Longrightarrow> om_Namespace (cpo_Meta p) = deployment_namespace c"
  by (auto simp: settled_def metaKey_def dest!: find_key_in)

lemma run_settled:
  assumes se: "settled w c p"
  shows "ReconcileDeployment_Reconcile \<lparr>client = fakeClient, scheme = kraneScheme\<rparr> (metaKey (dp_Meta c)) w
     = (Ok (noResult, None), w)"
proof -
  let ?R = "\<lparr>client = fakeClient, scheme = kraneScheme\<rparr>"
  note se' = se [unfolded settled_def] and ns = settled_policy_key [OF se]
  let ?m = "\<lparr>me_instance = c, me_policy = p\<rparr>"
  obtain svc bl where there:
    "find_key svc_Meta (cl_services w)
       \<lparr>nn_Namespace = deployment_namespace c, nn_Name = MakeCanaryServiceName p c\<rparr> = Some svc"
    "find_key dp_Meta (cl_deployments w)
       \<lparr>nn_Namespace = deployment_namespace c, nn_Name = MakeBaselineName c\<rparr> = Some bl"
    using se' by blast
  obtain cfg g where cfg: "find_key cn_Meta (cl_canaries w)
         \<lparr>nn_Namespace = deployment_namespace c, nn_Name = MakeCanaryConfigName p c\<rparr> = Some cfg"
      "kraneScheme OwnerCanary = Inr g"
      "om_OwnerReferences (cn_Meta cfg) = [] \<Longrightarrow> om_OwnerReferences (dp_Meta c) = [NewControllerRef (cn_Meta cfg) g]"
    using se' by blast
  have ne: "MakeCanaryServiceName p c \<noteq> []" by (simp add: MakeCanaryServiceName_def)
  have here: "consistent w" "deployment_name c \<noteq> []" "deployment_namespace c \<noteq> []"
    "find_key dp_Meta (cl_deployments w) (metaKey (dp_Meta c)) = Some c"
    using se' by blast+
  have "reconcileCanaryDeployment ?R (?m, w) = (Ok (), (?m, w))"
    using se' by (simp add: reconcileCanaryDeployment_def run_simps)
  moreover have "reconcileCanaryService ?R (?m, w) = (Ok svc, (?m, w))"
    using se' there ns ne by (simp add: reconcileCanaryService_def get_or_create_def run_simps fake_calls tracker_simps)
  moreover have "reconcileBaseline ?R (?m, w) = (Ok bl, (?m, w))"
    using se' there by (simp add: reconcileBaseline_def get_or_create_def run_simps fake_calls tracker_simps)
  moreover have "reconcileCanaryConfig ?R (?m, w) = (Ok cfg, (?m, w))"
  proof (cases "om_OwnerReferences (cn_Meta cfg) = []")
    case True
    have "SetControllerReference kraneScheme OwnerCanary (cn_Meta cfg) (dp_Meta c) = Ok (dp_Meta c)"
      by (rule SetControllerReference_again [OF cfg(2) cfg(3) [OF True]])
    with True here cfg(1) ns show ?thesis
      by (simp add: reconcileCanaryConfig_def get_or_create_def run_simps fake_calls tracker_simps cluster_put_same)
  next
    case False
    with here cfg(1) ns show ?thesis
      by (simp add: reconcileCanaryConfig_def get_or_create_def run_simps fake_calls tracker_simps)
  qed
  ultimately have st: "reconcileSteps ?R (?m, w) = (Ok (noResult, None), (?m, w))"
    by (simp add: reconcileSteps_def orFallback_def run_simps)
  have rec: "ReconcileDeployment_reconcile ?R (metaKey (dp_Meta c)) ((), w) = (Ok c, ((), w))"
    using se' by (simp add: ReconcileDeployment_reconcile_def ReconcileDeployment_GetCanaryPolicy_def
        GetCanaryPolicyName_def run_simps fake_calls tracker_simps)
  have pol: "ReconcileDeployment_GetCanaryPolicy ?R c ((), w) = (Ok p, ((), w))"
    using se' by (simp add: ReconcileDeployment_GetCanaryPolicy_def GetCanaryPolicyName_def run_simps fake_calls tracker_simps)
  show ?thesis
    by (simp add: ReconcileDeployment_Reconcile_def run_simps rec pol st)
qed

text \<open>One run from a fresh deployment reaches the fixed point.\<close>

lemma provisioned_settled:
  assumes pr: "provisionable w c p base" and g: "kraneScheme OwnerCanary = Inr gc"
  shows "settled (provisioned gd gc p c sp w) (owned_instance gc (createCanaryConfig p c) (prepared_instance p c)) p"
proof -
  note pr' = pr [unfolded provisionable_def]
  have keys: "metaKey (dp_Meta c) \<noteq> \<lparr>nn_Namespace = deployment_namespace c, nn_Name = MakeBaselineName c\<rparr>"
    using baseline_name_fresh [of c] by (auto simp: metaKey_def)
  have lab: "labelled_template (owned_instance gc cfg d) = labelled_template d" 
    "GetCanaryConfigName (owned_instance gc cfg d) = GetCanaryConfigName d" for cfg d
    by (simp_all add: labelled_template_def GetCanaryConfigName_def)
  have "policy_label (named_instance p c) \<noteq> []"
    using pr' by simp
  then have "labelled_template (prepared_instance p c)"
    unfolding prepared_instance_def by (rule labelled_instance_labelled)
  moreover have "GetCanaryConfigName (prepared_instance p c) = GetCanaryConfigName (named_instance p c)"
    by (simp add: prepared_instance_def GetCanaryConfigName_def)
  moreover have "GetCanaryConfigName (prepared_instance p c) \<noteq> []"
    using calculation(2) by (metis named_instance_simps(6))
  moreover have "consistent (provisioned gd gc p c sp w)"
    using pr' policy_key [OF pr] keys by (simp add: provisioned_def Let_def tracker_simps)
  moreover have "find_key dp_Meta (cl_deployments (provisioned gd gc p c sp w)) (metaKey (dp_Meta c))
      = Some (owned_instance gc (createCanaryConfig p c) (prepared_instance p c))"
    and "find_key dp_Meta (cl_deployments (provisioned gd gc p c sp w))
      \<lparr>nn_Namespace = deployment_namespace c, nn_Name = MakeBaselineName c\<rparr> \<noteq> None"
    and "find_key svc_Meta (cl_services (provisioned gd gc p c sp w))
      \<lparr>nn_Namespace = deployment_namespace c, nn_Name = MakeCanaryServiceName p c\<rparr> \<noteq> None"
    using pr' keys by (auto simp: provisioned_def Let_def tracker_simps split: option.splits)
  moreover have "find_key cn_Meta (cl_canaries (provisioned gd gc p c sp w))
      \<lparr>nn_Namespace = deployment_namespace c, nn_Name = MakeCanaryConfigName p c\<rparr> = Some (createCanaryConfig p c)"
    using pr' policy_key [OF pr] by (simp add: provisioned_def Let_def tracker_simps)
  moreover have "cl_policies (provisioned gd gc p c sp w) = cl_policies w"
    by (simp add: provisioned_def Let_def)
  ultimately show ?thesis
    using pr' g by (simp add: settled_def lab)
qed

subsection \<open>What the run leaves, object by object\<close>

lemma provisioned_objects:
  fixes gd gc sp
  assumes pr: "provisionable w c p base" and "\<not> labelled_template c"
  defines "w' \<equiv> provisioned gd gc p c sp w"
  shows "find_key dp_Meta (cl_deployments w') (metaKey (dp_Meta c))
      = Some (owned_instance gc (createCanaryConfig p c) (prepared_instance p c))"
    and "find_key dp_Meta (cl_deployments w') \<lparr>nn_Namespace = deployment_namespace c, nn_Name = MakeBaselineName c\<rparr>
      = Some (provisioned_baseline gd p (prepared_instance p c) sp)"
    and "find_key svc_Meta (cl_services w') \<lparr>nn_Namespace = deployment_namespace c, nn_Name = MakeCanaryServiceName p c\<rparr>
      = Some (provisioned_service gd p (prepared_instance p c))"
    and "find_key cn_Meta (cl_canaries w') \<lparr>nn_Namespace = deployment_namespace c, nn_Name = MakeCanaryConfigName p c\<rparr>
      = Some (createCanaryConfig p c)"
    and "w' = w\<lparr>cl_deployments := put_at dp_Meta (owned_instance gc (createCanaryConfig p c) (prepared_instance p c)) (cl_deployments w)
           @ [provisioned_baseline gd p (prepared_instance p c) sp],
        cl_services := cl_services w @ [provisioned_service gd p (prepared_instance p c)],
        cl_canaries := cl_canaries w @ [createCanaryConfig p c]\<rparr>"
    and "cl_policies w' = cl_policies w" "cl_pods w' = cl_pods w" "cl_virtualservices w' = cl_virtualservices w"
proof -
  note pr' = pr [unfolded provisionable_def]
  have keys: "metaKey (dp_Meta c) \<noteq> \<lparr>nn_Namespace = deployment_namespace c, nn_Name = MakeBaselineName c\<rparr>"
    using baseline_name_fresh [of c] by (auto simp: metaKey_def)
  show "find_key dp_Meta (cl_deployments w') (metaKey (dp_Meta c))
      = Some (owned_instance gc (createCanaryConfig p c) (prepared_instance p c))"
    "find_key dp_Meta (cl_deployments w') \<lparr>nn_Namespace = deployment_namespace c, nn_Name = MakeBaselineName c\<rparr>
      = Some (provisioned_baseline gd p (prepared_instance p c) sp)"
    using pr' keys by (simp_all add: w'_def provisioned_def Let_def tracker_simps)
  show "find_key svc_Meta (cl_services w') \<lparr>nn_Namespace = deployment_namespace c, nn_Name = MakeCanaryServiceName p c\<rparr>
      = Some (provisioned_service gd p (prepared_instance p c))"
    "find_key cn_Meta (cl_canaries w') \<lparr>nn_Namespace = deployment_namespace c, nn_Name = MakeCanaryConfigName p c\<rparr>
      = Some (createCanaryConfig p c)"
    using pr' policy_key [OF pr] by (simp_all add: w'_def provisioned_def Let_def tracker_simps)
qed (simp_all add: w'_def provisioned_def Let_def)

text \<open>The deployment of the canary gets labels and an owner, and stays the same in everything else.\<close>

lemma prepared_frame:
  fixes gc
  assumes pr: "provisionable w c p base" and nl: "\<not> labelled_template c"
  defines "cd \<equiv> owned_instance gc (createCanaryConfig p c) (prepared_instance p c)"
  shows "map_pairs (om_Labels (dp_Meta cd)) = (if GetCanaryConfigName c \<noteq> [] then map_pairs (om_Labels (dp_Meta c))
      else (map_pairs (om_Labels (dp_Meta c)))(CanaryConfigLabel \<mapsto> MakeCanaryConfigName p c))"
    and "template_labels (dp_Spec cd) = Some ((map_pairs (template_labels (dp_Spec c)))
      (CanaryConfigLabel \<mapsto> MakeCanaryConfigName p c, CanaryPolicyLabel \<mapsto> policy_label c))"
    and "cd\<lparr>dp_Meta := (dp_Meta cd)\<lparr>om_Labels := om_Labels (dp_Meta c), om_OwnerReferences := []\<rparr>,
      dp_Spec := set_template_labels (template_labels (dp_Spec c)) (dp_Spec cd)\<rparr> = c"
proof -
  have nl': "\<not> labelled_template (named_instance p c)"
    using nl by (simp add: labelled_template_def)
  have own: "om_OwnerReferences (dp_Meta c) = []"
    using pr by (simp add: provisionable_def)
  have lab: "set_labels (om_Labels (dp_Meta c)) (named_instance p c) = c"
    by (simp add: named_instance_def set_labels_def)
  show "map_pairs (om_Labels (dp_Meta cd)) = (if GetCanaryConfigName c \<noteq> [] then map_pairs (om_Labels (dp_Meta c))
      else (map_pairs (om_Labels (dp_Meta c)))(CanaryConfigLabel \<mapsto> MakeCanaryConfigName p c))"
    using nl' by (simp add: cd_def owned_instance_def prepared_instance_def labelled_instance_def named_instance_def set_labels_def)
  show "template_labels (dp_Spec cd) = Some ((map_pairs (template_labels (dp_Spec c)))
      (CanaryConfigLabel \<mapsto> MakeCanaryConfigName p c, CanaryPolicyLabel \<mapsto> policy_label c))"
    using nl' by (simp add: cd_def owned_instance_def prepared_instance_def labelled_instance_def MakeCanaryConfigName_def)
  show "cd\<lparr>dp_Meta := (dp_Meta cd)\<lparr>om_Labels := om_Labels (dp_Meta c), om_OwnerReferences := []\<rparr>,
      dp_Spec := set_template_labels (template_labels (dp_Spec c)) (dp_Spec cd)\<rparr> = c"
    using nl' own lab by (cases c)
      (auto simp: cd_def owned_instance_def prepared_instance_def labelled_instance_def named_instance_def set_labels_def set_template_labels_def)
qed

text \<open>How they hang together.\<close>

lemma selection_prepared [simp]: "selection_map p (prepared_instance p c) = selection_map p c"
  by (simp add: selection_map_def)

lemma provisioned_wiring:
  fixes gd gc sp
  assumes pr: "provisionable w c p base" and nl: "\<not> labelled_template c"
    and sp: "connect_selectors (MakeCanaryConfigName p c) (policy_label c)
       (baseline_spec (cps_BaselineMode (cpo_Spec (default_mode p))) (prepared_instance p c) base) = Ok sp"
  defines "svc \<equiv> provisioned_service gd p (prepared_instance p c)"
    and "bl \<equiv> provisioned_baseline gd p (prepared_instance p c) sp"
    and "cd \<equiv> owned_instance gc (createCanaryConfig p c) (prepared_instance p c)"
  shows "selects (svc_Selector svc) (template_labels (dp_Spec cd))"
    and "selects (svc_Selector svc) (template_labels (dp_Spec bl))"
    and "svc_Ports svc = cps_Ports (cpo_Spec (default_ports p))"
    and "ds_Replicas (dp_Spec bl) = Some 1" and "ds_Replicas (dp_Spec cd) = ds_Replicas (dp_Spec c)"
    and "map or_Name (om_OwnerReferences (dp_Meta cd)) = [MakeCanaryConfigName p c]"
    and "map or_Name (om_OwnerReferences (dp_Meta bl)) = [deployment_name c]"
    and "map or_Name (om_OwnerReferences (svc_Meta svc)) = [deployment_name c]"
proof -
  have nl': "\<not> labelled_template (named_instance p c)"
    using nl by (simp add: labelled_template_def)
  show "selects (svc_Selector svc) (template_labels (dp_Spec cd))"
    "ds_Replicas (dp_Spec cd) = ds_Replicas (dp_Spec c)"
    using nl' by (auto simp: svc_def cd_def provisioned_service_def prepared_instance_def labelled_instance_def
        selection_map_def map_le_def MakeCanaryConfigName_def)
  show "selects (svc_Selector svc) (template_labels (dp_Spec bl))" "ds_Replicas (dp_Spec bl) = Some 1"
    using baseline_selected [OF sp] by (simp_all add: svc_def bl_def provisioned_service_def provisioned_baseline_def)
qed (simp_all add: svc_def bl_def cd_def provisioned_service_def provisioned_baseline_def NewControllerRef_def
    createCanaryConfig_def)

end
