(* ===== verification/CanaryJobs.thy ===== *)
theory CanaryJobs
  imports DeployNames
begin

text \<open>
  The test job and the judge job of the canary controller
  (\<open>pkg/controller/canary/test_reconciler.go\<close> and \<open>judge_reconciler.go\<close>): the pods they are,
  and the two functions that create them and copy the state of their containers into the
  status of the canary. The \<open>canary\<close> pointer, written through by every function of the
  controller, is the memory of the programs.
\<close>

subsection \<open>Shared by the canary controller\<close>

definition ReconcileCanary_GetCanaryPolicy :: "'w Reconciler \<Rightarrow> (Canary \<times> 'w, CanaryPolicy) prog" where
  "ReconcileCanary_GetCanaryPolicy R =
     bindP memP (\<lambda>c. callP (api_get (policies (client R))
       \<lparr>nn_Namespace = canary_namespace c, nn_Name = csp_Policy (cn_Spec c)\<rparr>))"

text \<open>
  \<open>r.client.Status().Update(ctx, canary)\<close>: on success the server's answer is decoded into the
  canary.
\<close>

definition StatusUpdate :: "'w Reconciler \<Rightarrow> (Canary \<times> 'w, unit) prog" where
  "StatusUpdate R =
     bindP memP (\<lambda>c. bindP (callP (api_update_status (canaries (client R)) c)) (\<lambda>c'. modmemP (\<lambda>_. c')))"

text \<open>Assignments to the status followed by its update.\<close>

definition putStatus :: "'w Reconciler \<Rightarrow> (Canary \<Rightarrow> Canary) \<Rightarrow> (Canary \<times> 'w, unit) prog" where
  "putStatus R f = thenP (modmemP f) (StatusUpdate R)"

lemma wp_putStatus [wp_simps]:
  "wp (putStatus R f) Q (c, w) =
     (case api_update_status (canaries (client R)) (f c) w of
        (Inl e, w') \<Rightarrow> Q (Err e) (f c, w') | (Inr c', w') \<Rightarrow> Q (Ok ()) (c', w'))"
  by (simp add: putStatus_def StatusUpdate_def wp_simps split: prod.splits sum.splits)

lemma run_putStatus [run_simps]:
  "putStatus R f (c, w) =
     (case api_update_status (canaries (client R)) (f c) w of
        (Inl e, w') \<Rightarrow> (Err e, (f c, w')) | (Inr c', w') \<Rightarrow> (Ok (), (c', w')))"
  by (simp add: putStatus_def StatusUpdate_def run_simps split: prod.splits sum.splits)

subsection \<open>JSON\<close>

text \<open>
  \<open>json.Marshal\<close> of the metric lists, with the \<open>omitempty\<close> tags of the types. Characters are
  bytes; those above 127 are copied, as for valid UTF-8 without the two line separators. The
  shortest decimal form of a number is a parameter; \<open>None\<close> stands for a value JSON has no
  form for (NaN and the infinities), for which \<open>Marshal\<close> fails.
\<close>

definition hex_digit :: "nat \<Rightarrow> char" where
  "hex_digit n = char_of (if n < 10 then 48 + n else 87 + n)"

definition json_escape :: "char \<Rightarrow> string" where
  "json_escape c =
     (let n = of_char c :: nat in
      if c = CHR 0x22 \<or> c = CHR 0x5C then [CHR 0x5C, c]
      else if n = 10 then [CHR 0x5C, CHR ''n'']
      else if n = 13 then [CHR 0x5C, CHR ''r'']
      else if n = 9 then [CHR 0x5C, CHR ''t'']
      else if n < 32 \<or> c = CHR ''<'' \<or> c = CHR ''>'' \<or> c = CHR ''&''
        then [CHR 0x5C, CHR ''u'', CHR ''0'', CHR ''0'', hex_digit (n div 16), hex_digit (n mod 16)]
      else [c])"

definition json_string :: "string \<Rightarrow> string" where
  "json_string s = CHR 0x22 # concat (map json_escape s) @ [CHR 0x22]"

fun join :: "string \<Rightarrow> string list \<Rightarrow> string" where
  "join sep [] = []"
| "join sep [x] = x"
| "join sep (x # y # ys) = x @ sep @ join sep (y # ys)"

definition json_object :: "(string \<times> string) list \<Rightarrow> string" where
  "json_object fs = ''{'' @ join '','' (map (\<lambda>(k, v). json_string k @ '':'' @ v) fs) @ ''}''"

definition json_array :: "string list \<Rightarrow> string" where
  "json_array xs = ''['' @ join '','' xs @ '']''"

type_synonym json_float = "float64 \<Rightarrow> string option"

text \<open>Both zeroes of \<open>float64\<close> are empty values.\<close>

definition float_is_zero :: "float64 \<Rightarrow> bool" where
  "float_is_zero x \<longleftrightarrow> x = 0 \<or> x = 0x8000000000000000"

definition DiffMetric_json :: "json_float \<Rightarrow> DiffMetric \<Rightarrow> string option" where
  "DiffMetric_json jf d =
     (let strs = (if dm_Metric d = [] then [] else [(''metric'', json_string (dm_Metric d))]) @
                 (if dm_Container d = [] then [] else [(''container'', json_string (dm_Container d))])
      in if float_is_zero (dm_Diff d) then Some (json_object strs)
         else map_option (\<lambda>n. json_object (strs @ [(''diff'', n)])) (jf (dm_Diff d)))"

fun all_some :: "'a option list \<Rightarrow> 'a list option" where
  "all_some [] = Some []"
| "all_some (None # xs) = None"
| "all_some (Some x # xs) = map_option (\<lambda>ys. x # ys) (all_some xs)"

text \<open>\<open>mm, _ := json.Marshal(...)\<close>; \<open>string(mm)\<close> is empty when marshalling failed and
  \<open>null\<close> for a nil slice.\<close>

definition marshal_DiffMetrics :: "json_float \<Rightarrow> DiffMetric list option \<Rightarrow> string" where
  "marshal_DiffMetrics jf s =
     (case s of
        None \<Rightarrow> ''null''
      | Some ds \<Rightarrow> (case all_some (map (DiffMetric_json jf) ds) of None \<Rightarrow> [] | Some xs \<Rightarrow> json_array xs))"

subsection \<open>The pods\<close>

definition GetTestJobname :: "Canary \<Rightarrow> string" where
  "GetTestJobname c = canary_name c @ ''-testjob''"

definition GetJudgeJobName :: "Canary \<Rightarrow> string" where
  "GetJudgeJobName c = canary_name c @ ''-judge''"

definition job_pod :: "string \<Rightarrow> Canary \<Rightarrow> Container \<Rightarrow> Pod" where
  "job_pod name c ct =
     \<lparr>pod_Meta = mkMeta name (canary_namespace c) (Some [''app'' \<mapsto> name, ''version'' \<mapsto> ''stable'']),
      pod_Spec = \<lparr>ps_Containers = [ct], ps_RestartPolicy = ''Never'', ps_rest = []\<rparr>,
      pod_ContainerStatuses = [], pod_rest = []\<rparr>"

text \<open>\<open>if err := SetControllerReference(canary, pod, r.scheme); err != nil\<close>.\<close>

definition own_pod :: "'w Reconciler \<Rightarrow> Canary \<Rightarrow> Pod \<Rightarrow> Pod outcome" where
  "own_pod R c pod =
     bindO (SetControllerReference (scheme R) OwnerCanary (cn_Meta c) (pod_Meta pod))
       (\<lambda>m. Ok (pod\<lparr>pod_Meta := m\<rparr>))"

text \<open>\<open>strconv.Itoa\<close> reads the 64-bit \<open>int\<close> as signed.\<close>

definition test_envs :: "Canary \<Rightarrow> TestSpec \<Rightarrow> EnvVar list" where
  "test_envs c ts =
     [\<lparr>ev_Name = ''KRANE_TARGET'', ev_Value = canary_name c\<rparr>] @
     (if tsb_Requests (ts_Boundary ts) \<noteq> 0
      then [\<lparr>ev_Name = ''KRANE_BOUNDARY_REQUESTS'', ev_Value = Itoa (sint (tsb_Requests (ts_Boundary ts)))\<rparr>]
      else []) @
     (if tsb_Time (ts_Boundary ts) \<noteq> []
      then [\<lparr>ev_Name = ''KRANE_BOUNDARY_TIME'', ev_Value = tsb_Time (ts_Boundary ts)\<rparr>] else [])"

definition CreateTestJob :: "'w Reconciler \<Rightarrow> Canary \<Rightarrow> CanaryPolicy \<Rightarrow> Pod outcome" where
  "CreateTestJob R c policy =
     (let ts = cps_TestSpec (cpo_Spec policy) in
      own_pod R c (job_pod (GetTestJobname c) c
        \<lparr>ct_Name = ''testjob'', ct_Image = ts_Image ts, ct_Command = ts_Cmd ts, ct_Env = test_envs c ts,
         ct_ImagePullPolicy = ''Always'', ct_rest = []\<rparr>))"

definition judge_envs :: "json_float \<Rightarrow> Canary \<Rightarrow> JudgeSpec \<Rightarrow> EnvVar list" where
  "judge_envs jf c js =
     [\<lparr>ev_Name = ''KRANE_TARGET'', ev_Value = canary_name c\<rparr>,
      \<lparr>ev_Name = ''KRANE_PROMETHEUS'', ev_Value = ''http://prometheus.istio-system.svc.cluster.local:9090''\<rparr>,
      \<lparr>ev_Name = ''KRANE_CANARY'', ev_Value = csd_Canary (csp_Deployments (cn_Spec c))\<rparr>,
      \<lparr>ev_Name = ''KRANE_BASELINE'', ev_Value = csd_Baseline (csp_Deployments (cn_Spec c))\<rparr>,
      \<lparr>ev_Name = ''KRANE_NAMESPACE'', ev_Value = canary_namespace c\<rparr>] @
     (if js_Boundary_Time js \<noteq> []
      then [\<lparr>ev_Name = ''KRANE_BOUNDARY_TIME'', ev_Value = js_Boundary_Time js\<rparr>] else []) @
     (if slice_length (js_DiffMetrics js) > 0
      then [\<lparr>ev_Name = ''KRANE_DIFF_METRICS'', ev_Value = marshal_DiffMetrics jf (js_DiffMetrics js)\<rparr>]
      else []) @
     (if slice_length (js_ThresholdMetrics js) > 0
      then [\<lparr>ev_Name = ''KRANE_THRESHOLD_METRICS'', ev_Value = marshal_DiffMetrics jf (js_DiffMetrics js)\<rparr>]
      else [])"

definition CreateJudgeJob :: "json_float \<Rightarrow> 'w Reconciler \<Rightarrow> Canary \<Rightarrow> CanaryPolicy \<Rightarrow> Pod outcome" where
  "CreateJudgeJob jf R c policy =
     (let js = cps_JudgeSpec (cpo_Spec policy) in
      own_pod R c (job_pod (GetJudgeJobName c) c
        \<lparr>ct_Name = ''judge'', ct_Image = js_Image js, ct_Command = js_Cmd js, ct_Env = judge_envs jf c js,
         ct_ImagePullPolicy = ''Always'', ct_rest = []\<rparr>))"

subsection \<open>Container states\<close>

fun scan_terminated :: "string \<Rightarrow> ContainerStatus list \<Rightarrow> ContainerStateTerminated option" where
  "scan_terminated name [] = None"
| "scan_terminated name (c # cs) =
     (if cs_Name c = name \<and> st_Terminated (cs_State c) \<noteq> None then st_Terminated (cs_State c)
      else scan_terminated name cs)"

fun scan_running :: "string \<Rightarrow> ContainerStatus list \<Rightarrow> ContainerStateRunning option" where
  "scan_running name [] = None"
| "scan_running name (c # cs) =
     (if cs_Name c = name \<and> st_Terminated (cs_State c) \<noteq> None then st_Running (cs_State c)
      else scan_running name cs)"

definition GetContainerTerminalState :: "Pod \<Rightarrow> string \<Rightarrow> ContainerStateTerminated option" where
  "GetContainerTerminalState job name = scan_terminated name (pod_ContainerStatuses job)"

definition GetContainerRunningState :: "Pod \<Rightarrow> string \<Rightarrow> ContainerStateRunning option" where
  "GetContainerRunningState job name = scan_running name (pod_ContainerStatuses job)"

text \<open>The new values of \<open>Status\<close> and \<open>Message\<close>, computed from the pod.\<close>

definition job_report :: "Pod \<Rightarrow> string \<Rightarrow> CanaryPhaseStatus \<times> string" where
  "job_report job name =
     (let r0 = (CanaryPhaseStatus_Unset, []);
          r1 = (if GetContainerRunningState job name \<noteq> None
                then (CanaryPhaseStatus_InProgress, ''Job running'') else r0)
      in case GetContainerTerminalState job name of
           None \<Rightarrow> r1
         | Some t \<Rightarrow> (if cst_ExitCode t = 0 then (CanaryPhaseStatus_Success, ''Job finished successfully'')
                      else (CanaryPhaseStatus_Failure, ''Job failed'')))"

subsection \<open>The two reconcilers\<close>

definition init_job :: "string \<Rightarrow> CanaryConfigPhase \<Rightarrow> CanaryConfigPhase" where
  "init_job name p =
     p\<lparr>ph_Status := CanaryPhaseStatus_InProgress, ph_Message := ''Job initialized'', ph_PodName := name\<rparr>"

definition reconcileTestJob :: "'w Reconciler \<Rightarrow> (Canary \<times> 'w, Pod option) prog" where
  "reconcileTestJob R =
     bindP memP (\<lambda>c.
     if progress c = CanaryProgress_Cleanup then retP None
     else if progress c \<noteq> CanaryProgress_Testing then retP None
     else
       bindP (ReconcileCanary_GetCanaryPolicy R) (\<lambda>policy.
       bindP (get_or_create (pods (client R))
          \<lparr>nn_Namespace = canary_namespace c, nn_Name = GetTestJobname c\<rparr>
          (liftP (CreateTestJob R c policy))
          (\<lambda>job. putStatus R (upd_testing (init_job (om_Name (pod_Meta job)))))) (\<lambda>job.
       let (st, msg) = job_report job ''testjob'' in
       bindP memP (\<lambda>c.
       thenP (whenP (st \<noteq> ph_Status (cst_Testing (cn_Status c)) \<or> ph_Message (cst_Testing (cn_Status c)) \<noteq> msg)
                (putStatus R (upd_testing (set_phase st msg))))
         (retP (Some job))))))"

definition reconcileJudgeJob :: "json_float \<Rightarrow> 'w Reconciler \<Rightarrow> (Canary \<times> 'w, Pod option) prog" where
  "reconcileJudgeJob jf R =
     bindP memP (\<lambda>c.
     if progress c = CanaryProgress_Cleanup then retP None
     else if progress c \<noteq> CanaryProgress_Testing \<and> progress c \<noteq> CanaryProgress_Canary then retP None
     else
       bindP (ReconcileCanary_GetCanaryPolicy R) (\<lambda>policy.
       bindP (get_or_create (pods (client R))
          \<lparr>nn_Namespace = canary_namespace c, nn_Name = GetJudgeJobName c\<rparr>
          (liftP (CreateJudgeJob jf R c policy))
          (\<lambda>job. putStatus R (upd_judging (init_job (om_Name (pod_Meta job)))))) (\<lambda>job.
       let (st, msg) = job_report job ''judge'' in
       bindP memP (\<lambda>c.
       thenP (whenP (st \<noteq> ph_Status (cst_Judging (cn_Status c)) \<or> ph_Message (cst_Judging (cn_Status c)) \<noteq> msg)
                (putStatus R (upd_judging (set_phase st msg))))
         (retP (Some job))))))"

subsection \<open>The pods, as built\<close>

lemma job_names_differ: "GetTestJobname c \<noteq> GetJudgeJobName c"
  by (simp add: GetTestJobname_def GetJudgeJobName_def)

lemma job_names_nonempty [simp]: "GetTestJobname c \<noteq> []" "GetJudgeJobName c \<noteq> []"
  by (simp_all add: GetTestJobname_def GetJudgeJobName_def)

lemma own_pod_Ok:
  "scheme R OwnerCanary = Inr g \<Longrightarrow>
   own_pod R c (job_pod name c ct) = Ok (job_pod name c ct
     \<lparr>pod_Meta := (mkMeta name (canary_namespace c) (Some [''app'' \<mapsto> name, ''version'' \<mapsto> ''stable'']))
        \<lparr>om_OwnerReferences := [NewControllerRef (cn_Meta c) g]\<rparr>\<rparr>)"
  by (simp add: own_pod_def job_pod_def SetControllerReference_fresh)

lemma own_pod_key:
  "own_pod R c pod = Ok pod' \<Longrightarrow> metaKey (pod_Meta pod') = metaKey (pod_Meta pod) \<and>
     pod_Spec pod' = pod_Spec pod \<and> pod_ContainerStatuses pod' = pod_ContainerStatuses pod"
  by (auto simp: own_pod_def SetControllerReference_fields)

lemma created_job_key:
  "CreateTestJob R c p = Ok pod \<Longrightarrow>
     metaKey (pod_Meta pod) = \<lparr>nn_Namespace = canary_namespace c, nn_Name = GetTestJobname c\<rparr>"
  "CreateJudgeJob jf R c p = Ok pod \<Longrightarrow>
     metaKey (pod_Meta pod) = \<lparr>nn_Namespace = canary_namespace c, nn_Name = GetJudgeJobName c\<rparr>"
  by (auto simp: CreateTestJob_def CreateJudgeJob_def Let_def job_pod_def dest!: own_pod_key)

lemma scan_running_terminated:
  "scan_running name cs \<noteq> None \<Longrightarrow> scan_terminated name cs \<noteq> None"
  by (induction cs) auto

text \<open>A running container is only ever seen beside a terminated state.\<close>

lemma job_report_terminal:
  "GetContainerTerminalState job name = Some t \<Longrightarrow>
   job_report job name = (if cst_ExitCode t = 0 then (CanaryPhaseStatus_Success, ''Job finished successfully'')
     else (CanaryPhaseStatus_Failure, ''Job failed''))"
  by (simp add: job_report_def Let_def)

lemma job_report_alive:
  "GetContainerTerminalState job name = None \<Longrightarrow> job_report job name = (CanaryPhaseStatus_Unset, [])"
  using scan_running_terminated [of name "pod_ContainerStatuses job"]
  by (cases "scan_running name (pod_ContainerStatuses job)")
     (simp_all add: job_report_def Let_def GetContainerTerminalState_def GetContainerRunningState_def)

lemma job_report_cases:
  "job_report job name \<in> {(CanaryPhaseStatus_Unset, []),
     (CanaryPhaseStatus_Success, ''Job finished successfully''), (CanaryPhaseStatus_Failure, ''Job failed'')}"
  by (cases "GetContainerTerminalState job name") (auto simp: job_report_alive job_report_terminal)

end
