(* ===== verification/CanaryRouting.thy ===== *)
theory CanaryRouting
  imports CanaryJobs
begin

text \<open>
  Traffic: how the canary controller finds a service in a \<open>VirtualService\<close>, gives the canary a
  tenth of its traffic and takes it back
  (\<open>pkg/controller/canary/vs_reconciler.go\<close> and the routing part of \<open>cleanup_reconciler.go\<close>),
  and the destination rule of a canary (\<open>dr_reconciler.go\<close>).
\<close>

subsection \<open>Finding a route\<close>

text \<open>The loop over the routes of one HTTP route, from index \<open>i\<close>; every dereference can panic.\<close>

fun find_route :: "string \<Rightarrow> nat \<Rightarrow> HTTPRouteDestination option list \<Rightarrow> int outcome" where
  "find_route svc i [] = Ok (- 1)"
| "find_route svc i (r # rs) =
     bindO (deref r) (\<lambda>route. bindO (deref (rd_Destination route)) (\<lambda>d.
       if de_Host d = svc then Ok (int i) else find_route svc (Suc i) rs))"

definition FindMatchingRouteInHttpRoute :: "string \<Rightarrow> HTTPRoute option \<Rightarrow> int outcome" where
  "FindMatchingRouteInHttpRoute svc http = bindO (deref http) (\<lambda>h. find_route svc 0 (hr_Route h))"

fun find_http :: "string \<Rightarrow> nat \<Rightarrow> HTTPRoute option list \<Rightarrow> (int \<times> int) outcome" where
  "find_http svc i [] = Ok (- 1, - 1)"
| "find_http svc i (h # hs) =
     bindO (deref h) (\<lambda>http. bindO (find_route svc 0 (hr_Route http)) (\<lambda>j.
       if j \<noteq> - 1 then Ok (int i, j) else find_http svc (Suc i) hs))"

definition FindMatchingHttpAndRoute :: "string \<Rightarrow> VirtualService \<Rightarrow> (int \<times> int) outcome" where
  "FindMatchingHttpAndRoute svc vs = find_http svc 0 (vss_Http (vs_Spec vs))"

subsection \<open>Changing the weights\<close>

definition upd_routes :: "nat \<Rightarrow> (HTTPRouteDestination option list \<Rightarrow> HTTPRouteDestination option list)
    \<Rightarrow> VirtualService \<Rightarrow> VirtualService" where
  "upd_routes i f vs =
     (let hs = vss_Http (vs_Spec vs) in
      vs\<lparr>vs_Spec := (vs_Spec vs)\<lparr>vss_Http := hs[i := map_option (\<lambda>h. h\<lparr>hr_Route := f (hr_Route h)\<rparr>) (hs ! i)]\<rparr>\<rparr>)"

lemma upd_routes_meta [simp]: "vs_Meta (upd_routes i f vs) = vs_Meta vs"
  by (simp add: upd_routes_def Let_def)

definition route_weight :: "HTTPRouteDestination option \<Rightarrow> int32" where
  "route_weight r = (case r of None \<Rightarrow> 0 | Some d \<Rightarrow> rd_Weight d)"

definition map_weight :: "(int32 \<Rightarrow> int32) \<Rightarrow> HTTPRouteDestination option \<Rightarrow> HTTPRouteDestination option" where
  "map_weight f = map_option (\<lambda>d. d\<lparr>rd_Weight := f (rd_Weight d)\<rparr>)"

text \<open>An unset weight counts as 100; the arithmetic is that of \<open>int32\<close>.\<close>

definition reduced_weight :: "int32 \<Rightarrow> int32" where
  "reduced_weight w = (if w = 0 then 90 else w - 10)"

definition add_canary_route :: "string \<Rightarrow> nat \<Rightarrow> HTTPRouteDestination option list
    \<Rightarrow> HTTPRouteDestination option list" where
  "add_canary_route name j rs = rs[j := map_weight reduced_weight (rs ! j)] @ [Some (mkRoute name 10)]"

text \<open>The base gets the canary's weight first, then the canary's route is cut out.\<close>

definition remove_canary_route :: "nat \<Rightarrow> nat \<Rightarrow> HTTPRouteDestination option list
    \<Rightarrow> HTTPRouteDestination option list" where
  "remove_canary_route j k rs =
     (let rs1 = rs[j := map_weight (\<lambda>w. w + route_weight (rs ! k)) (rs ! j)]
      in take k rs1 @ drop (Suc k) rs1)"

definition http_at :: "VirtualService \<Rightarrow> nat \<Rightarrow> HTTPRoute option" where
  "http_at vs i = vss_Http (vs_Spec vs) ! i"

subsection \<open>Rerouting\<close>

definition rerouting_message :: string where
  "rerouting_message = ''Rerouting Configuration In Progress''"

definition reconcileVirtualService :: "'w Reconciler \<Rightarrow> (Canary \<times> 'w, VirtualService option) prog" where
  "reconcileVirtualService R =
     bindP memP (\<lambda>c.
     if progress c \<noteq> CanaryProgress_Canary then retP None
     else
       thenP (whenP (ph_Status (cst_Canary (cn_Status c)) = CanaryPhaseStatus_Queued)
                (putStatus R (upd_canary (set_phase CanaryPhaseStatus_InProgress rerouting_message))))
       (bindP (ReconcileCanary_GetCanaryPolicy R) (\<lambda>policy.
        bindP memP (\<lambda>c.
        bindP (callP (api_get (virtualservices (client R))
           \<lparr>nn_Namespace = canary_namespace c, nn_Name = cps_VirtualService (cpo_Spec policy)\<rparr>)) (\<lambda>vs.
        bindP (liftP (FindMatchingHttpAndRoute (cps_Service (cpo_Spec policy)) vs)) (\<lambda>(httpIndex, routeIndex).
        if httpIndex = - 1 \<or> routeIndex = - 1 then retP None
        else
          bindP (liftP (FindMatchingRouteInHttpRoute (canary_name c) (http_at vs (nat httpIndex)))) (\<lambda>canaryRoute.
          if canaryRoute \<noteq> - 1 then
            thenP (whenP (ph_Status (cst_Canary (cn_Status c)) = CanaryPhaseStatus_InProgress)
                     (putStatus R (upd_canary (set_phase CanaryPhaseStatus_Success rerouting_message))))
              (retP None)
          else
            bindP (callP (api_update (virtualservices (client R))
              (upd_routes (nat httpIndex) (add_canary_route (canary_name c) (nat routeIndex)) vs)))
              (\<lambda>vs'. retP (Some vs')))))))))"

subsection \<open>Taking the traffic back\<close>

text \<open>The last part of \<open>reconcileCleanup\<close>: the route of the canary, when it is still there.\<close>

definition cleanup_routes :: "'w Reconciler \<Rightarrow> CanaryPolicy \<Rightarrow> (Canary \<times> 'w, unit) prog" where
  "cleanup_routes R policy =
     bindP memP (\<lambda>c.
     bindP (callP (api_get (virtualservices (client R))
        \<lparr>nn_Namespace = canary_namespace c, nn_Name = cps_VirtualService (cpo_Spec policy)\<rparr>)) (\<lambda>vs.
     bindP (liftP (FindMatchingHttpAndRoute (cps_Service (cpo_Spec policy)) vs)) (\<lambda>(httpIndex, routeIndex).
     if httpIndex \<noteq> - 1 \<and> routeIndex \<noteq> - 1 then
       bindP (liftP (FindMatchingRouteInHttpRoute (canary_name c) (http_at vs (nat httpIndex)))) (\<lambda>canaryRoute.
       if canaryRoute \<noteq> - 1 then
         bindP (callP (api_update (virtualservices (client R))
           (upd_routes (nat httpIndex) (remove_canary_route (nat routeIndex) (nat canaryRoute)) vs)))
           (\<lambda>_. retP ())
       else retP ())
     else retP ())))"

subsection \<open>Destination rules\<close>

definition MakeDestinationRuleName :: "Canary \<Rightarrow> string" where
  "MakeDestinationRuleName c = canary_name c"

definition canary_labels :: "Canary \<Rightarrow> gomap" where
  "canary_labels c =
     Some [CanaryConfigLabel \<mapsto> canary_name c, CanaryPolicyLabel \<mapsto> csp_Policy (cn_Spec c)]"

definition createBaselineDestinationRule :: "'w Reconciler \<Rightarrow> Canary \<Rightarrow> CanaryPolicy \<Rightarrow> DestinationRule outcome" where
  "createBaselineDestinationRule R c policy =
     (let defaultDr = (cps_DestinationRule (cpo_Spec policy))
            \<lparr>drs_Subsets := [Some \<lparr>su_Name = canary_name c, su_Labels = canary_labels c\<rparr>],
             drs_Host := om_Name (cpo_Meta policy) @ ''-'' @ csd_Canary (csp_Deployments (cn_Spec c))\<rparr>;
          dr = \<lparr>dr_Meta = mkMeta (MakeDestinationRuleName c) (canary_namespace c) (canary_labels c),
                dr_Spec = defaultDr\<rparr>
      in bindO (SetControllerReference (scheme R) OwnerCanary (cn_Meta c) (dr_Meta dr))
           (\<lambda>m. Ok (dr\<lparr>dr_Meta := m\<rparr>)))"

definition reconcileDestinationRules :: "'w Reconciler \<Rightarrow> (Canary \<times> 'w, DestinationRule) prog" where
  "reconcileDestinationRules R =
     bindP (ReconcileCanary_GetCanaryPolicy R) (\<lambda>policy.
     bindP memP (\<lambda>c.
     get_or_create (destinationrules (client R))
       \<lparr>nn_Namespace = canary_namespace c, nn_Name = MakeDestinationRuleName c\<rparr>
       (liftP (createBaselineDestinationRule R c policy)) (\<lambda>_. retP ())))"

subsection \<open>What a search finds\<close>

text \<open>The hosts of a list of routes without nil pointers.\<close>

definition complete_routes :: "HTTPRouteDestination option list \<Rightarrow> bool" where
  "complete_routes rs \<longleftrightarrow> (\<forall>r\<in>set rs. \<exists>d t. r = Some d \<and> rd_Destination d = Some t)"

definition complete_vs :: "VirtualService \<Rightarrow> bool" where
  "complete_vs vs \<longleftrightarrow> (\<forall>h\<in>set (vss_Http (vs_Spec vs)). \<exists>x. h = Some x \<and> complete_routes (hr_Route x))"

definition route_host :: "HTTPRouteDestination option \<Rightarrow> string option" where
  "route_host r = (case r of None \<Rightarrow> None | Some d \<Rightarrow> map_option de_Host (rd_Destination d))"

lemma route_host_Some:
  "route_host r = Some h \<longleftrightarrow> (\<exists>d t. r = Some d \<and> rd_Destination d = Some t \<and> de_Host t = h)"
  by (auto simp: route_host_def split: option.splits)

lemma route_host_weight [simp]: "route_host (map_weight f r) = route_host r"
  by (simp add: route_host_def map_weight_def split: option.splits)

text \<open>A successful search gives the first route with the host; \<open>-1\<close> means there is none.\<close>

lemma find_route_hit:
  "find_route svc i rs = Ok j \<Longrightarrow> j \<noteq> - 1 \<Longrightarrow>
   \<exists>n. j = int (i + n) \<and> n < length rs \<and> route_host (rs ! n) = Some svc \<and>
     (\<forall>m < n. route_host (rs ! m) \<noteq> Some svc \<and> route_host (rs ! m) \<noteq> None)"
proof (induction rs arbitrary: i)
  case (Cons r rs)
  from Cons.prems obtain d t where r: "r = Some d" "rd_Destination d = Some t"
    by (auto split: if_splits)
  show ?case
  proof (cases "de_Host t = svc")
    case True
    with Cons.prems r show ?thesis by (intro exI [of _ 0]) (auto simp: route_host_def)
  next
    case False
    with Cons.prems r have "find_route svc (Suc i) rs = Ok j" by simp
    from Cons.IH [OF this Cons.prems(2)] obtain n where n: "j = int (Suc i + n)" "n < length rs"
      "route_host (rs ! n) = Some svc"
      "\<forall>m < n. route_host (rs ! m) \<noteq> Some svc \<and> route_host (rs ! m) \<noteq> None" by blast
    have "route_host r \<noteq> Some svc \<and> route_host r \<noteq> None"
      using r False by (simp add: route_host_def)
    with n show ?thesis
      by (intro exI [of _ "Suc n"]) (auto simp: less_Suc_eq_0_disj)
  qed
qed simp

lemma find_route_miss:
  "find_route svc i rs = Ok (- 1) \<Longrightarrow> \<forall>r\<in>set rs. route_host r \<noteq> Some svc \<and> route_host r \<noteq> None"
  by (induction rs arbitrary: i) (auto simp: route_host_def split: if_splits)

lemma find_route_complete:
  "complete_routes rs \<Longrightarrow> \<exists>j. find_route svc i rs = Ok j"
proof (induction rs arbitrary: i)
  case (Cons r rs)
  then obtain d t where "r = Some d" "rd_Destination d = Some t" and rs: "complete_routes rs"
    by (auto simp: complete_routes_def)
  with Cons.IH [OF rs, of "Suc i"] show ?case by (cases "de_Host t = svc") auto
qed simp

lemma find_route_not_Err [simp]: "find_route svc i rs \<noteq> Err e"
proof (induction rs arbitrary: i)
  case (Cons r rs)
  then show ?case
  proof (cases r)
    case (Some d)
    with Cons show ?thesis by (cases "rd_Destination d") auto
  qed simp
qed simp

lemma find_http_hit:
  "find_http svc i hs = Ok (a, b) \<Longrightarrow> b \<noteq> - 1 \<Longrightarrow>
   \<exists>n h. a = int (i + n) \<and> n < length hs \<and> hs ! n = Some h \<and> find_route svc 0 (hr_Route h) = Ok b \<and>
     (\<forall>m < n. \<forall>x. hs ! m = Some x \<longrightarrow> (\<forall>r\<in>set (hr_Route x). route_host r \<noteq> Some svc))"
proof (induction hs arbitrary: i)
  case (Cons y hs)
  from Cons.prems obtain x j where y: "y = Some x" "find_route svc 0 (hr_Route x) = Ok j"
    by (auto split: if_splits)
  show ?case
  proof (cases "j = - 1")
    case False
    with Cons.prems y show ?thesis by (intro exI [of _ 0]) auto
  next
    case True
    with Cons.prems y have "find_http svc (Suc i) hs = Ok (a, b)" by simp
    from Cons.IH [OF this Cons.prems(2)] obtain n h where n: "a = int (Suc i + n)" "n < length hs"
      "hs ! n = Some h" "find_route svc 0 (hr_Route h) = Ok b"
      "\<forall>m < n. \<forall>x. hs ! m = Some x \<longrightarrow> (\<forall>r\<in>set (hr_Route x). route_host r \<noteq> Some svc)" by blast
    moreover have "\<forall>r\<in>set (hr_Route x). route_host r \<noteq> Some svc"
      using find_route_miss y(2) True by blast
    ultimately show ?thesis
      using y by (intro exI [of _ "Suc n"] exI [of _ h]) (auto simp: less_Suc_eq_0_disj)
  qed
qed simp

lemma find_http_complete:
  "\<forall>h\<in>set hs. \<exists>x. h = Some x \<and> complete_routes (hr_Route x) \<Longrightarrow> \<exists>r. find_http svc i hs = Ok r"
proof (induction hs arbitrary: i)
  case (Cons y hs)
  then obtain x where "y = Some x" "complete_routes (hr_Route x)" by auto
  moreover obtain j where "find_route svc 0 (hr_Route x) = Ok j"
    using find_route_complete calculation(2) by blast
  ultimately show ?case using Cons by auto
qed simp

text \<open>Both indices are set, or neither is.\<close>

lemma find_http_both:
  "find_http svc i hs = Ok (a, b) \<Longrightarrow> (a = - 1 \<longleftrightarrow> b = - 1) \<and> (a \<noteq> - 1 \<longrightarrow> 0 \<le> a)"
  by (induction hs arbitrary: i) (auto split: if_splits)

end
