(* ===== verification/CanaryController.thy ===== *)
theory CanaryController
  imports CanaryRouting
begin

text \<open>
  The canary controller (\<open>pkg/controller/canary/canary_controller.go\<close>,
  \<open>reporting_reconciler.go\<close>, \<open>cleanup_reconciler.go\<close>): availability of the two deployments,
  reporting, cleanup, the transition between phases, and \<open>Reconcile\<close>, which runs the steps in
  order. Each step is guarded by the progress it belongs to and does nothing otherwise.
\<close>

text \<open>\<open>fallbackReconcile\<close> accepts a nil error.\<close>

definition canary_fallbackReconcile :: "error option \<Rightarrow> Result \<times> error option" where
  "canary_fallbackReconcile err =
     (let err' = (case err of
          Some e \<Rightarrow> if strings_Contains (Error e) ''the object has been modified'' then None else Some e
        | None \<Rightarrow> None)
      in (\<lparr>rs_Requeue = True, rs_RequeueAfter = Second * 5\<rparr>, err'))"

subsection \<open>Availability\<close>

definition reconcileCanaryAndBaseline :: "'w Reconciler \<Rightarrow> (Canary \<times> 'w, unit) prog" where
  "reconcileCanaryAndBaseline R =
     bindP memP (\<lambda>cfg.
     if progress cfg = CanaryProgress_Cleanup then retP ()
     else
       bindP (callP (api_get (deployments (client R))
          \<lparr>nn_Namespace = canary_namespace cfg, nn_Name = csd_Canary (csp_Deployments (cn_Spec cfg))\<rparr>)) (\<lambda>canaryDeployment.
       bindP (callP (api_get (deployments (client R))
          \<lparr>nn_Namespace = canary_namespace cfg, nn_Name = csd_Baseline (csp_Deployments (cn_Spec cfg))\<rparr>)) (\<lambda>baselineDeployment.
       if sint (dp_AvailableReplicas canaryDeployment) \<le> 0 \<or> sint (dp_AvailableReplicas baselineDeployment) \<le> 0
       then putStatus R (upd_initialization (set_phase CanaryPhaseStatus_InProgress ''Initializing baseline and canary''))
       else putStatus R (upd_initialization (set_phase CanaryPhaseStatus_Success ''Initialized baseline and canary deployments'')))))"

subsection \<open>Reporting\<close>

text \<open>An error of the update is dropped: the function returns nil in either case.\<close>

definition ignoreError :: "('s, unit) prog \<Rightarrow> ('s, unit) prog" where
  "ignoreError p = bindP (tryP p) (\<lambda>_. retP ())"

definition reconcileReporting :: "'w Reconciler \<Rightarrow> (Canary \<times> 'w, unit) prog" where
  "reconcileReporting R =
     bindP memP (\<lambda>c.
     if progress c \<noteq> CanaryProgress_Reporting then retP ()
     else if ph_Status (cst_Reporting (cn_Status c)) = CanaryPhaseStatus_Success then retP ()
     else ignoreError (putStatus R (upd_reporting (set_phase CanaryPhaseStatus_Success ''Reported''))))"

subsection \<open>Cleanup\<close>

definition cleanupPod :: "'w Reconciler \<Rightarrow> string \<Rightarrow> string \<Rightarrow> ('m \<times> 'w, unit) prog" where
  "cleanupPod R name namespace =
     bindP (tryP (callP (api_get (pods (client R)) \<lparr>nn_Namespace = namespace, nn_Name = name\<rparr>))) (\<lambda>r. case r of
       Inl err \<Rightarrow> if IsNotFound err then retP () else errP err
     | Inr pod \<Rightarrow> callP (api_delete (pods (client R)) pod))"

definition cleanupDeployment :: "'w Reconciler \<Rightarrow> string \<Rightarrow> string \<Rightarrow> ('m \<times> 'w, unit) prog" where
  "cleanupDeployment R name namespace =
     bindP (tryP (callP (api_get (deployments (client R)) \<lparr>nn_Namespace = namespace, nn_Name = name\<rparr>))) (\<lambda>r. case r of
       Inl err \<Rightarrow> if IsNotFound err then retP () else errP err
     | Inr app \<Rightarrow> callP (api_delete (deployments (client R)) app))"

definition reconcileCleanup :: "'w Reconciler \<Rightarrow> (Canary \<times> 'w, unit) prog" where
  "reconcileCleanup R =
     bindP memP (\<lambda>c.
     if progress c \<noteq> CanaryProgress_Cleanup then retP ()
     else if ph_Status (cst_Cleanup (cn_Status c)) = CanaryPhaseStatus_Success then retP ()
     else
       bindP (ReconcileCanary_GetCanaryPolicy R) (\<lambda>policy.
       thenP (cleanupPod R (GetTestJobname c) (canary_namespace c))
      (thenP (cleanupPod R (GetJudgeJobName c) (canary_namespace c))
      (thenP (cleanupDeployment R (csd_Canary (csp_Deployments (cn_Spec c))) (canary_namespace c))
      (thenP (cleanup_routes R policy)
        (ignoreError (putStatus R (upd_cleanup (set_phase CanaryPhaseStatus_Success rerouting_message)))))))))"

subsection \<open>Phases\<close>

text \<open>
  The switch of \<open>ReconcilePhaseStatus\<close>: the next stage and the canary with the status of the
  next phase set.
\<close>

definition phase_switch :: "Canary \<Rightarrow> CanaryProgress \<times> Canary" where
  "phase_switch cfg =
     (let st = cn_Status cfg in
      case cst_Progress st of
        CanaryProgress_Initializing \<Rightarrow>
          if ph_Status (cst_Initialization st) = CanaryPhaseStatus_Success
          then (CanaryProgress_Testing, upd_testing (\<lambda>p. p\<lparr>ph_Status := CanaryPhaseStatus_Queued\<rparr>) cfg)
          else (cst_Progress st, cfg)
      | CanaryProgress_Testing \<Rightarrow>
          if ph_Status (cst_Testing st) = CanaryPhaseStatus_Success
          then (CanaryProgress_Canary, upd_canary (\<lambda>p. p\<lparr>ph_Status := CanaryPhaseStatus_Queued\<rparr>) cfg)
          else (cst_Progress st, cfg)
      | CanaryProgress_Canary \<Rightarrow>
          if ph_Status (cst_Canary st) = CanaryPhaseStatus_Success \<and>
             (ph_Status (cst_Judging st) = CanaryPhaseStatus_Success \<or>
              ph_Status (cst_Judging st) = CanaryPhaseStatus_Failure)
          then (CanaryProgress_Reporting, upd_reporting (\<lambda>p. p\<lparr>ph_Status := CanaryPhaseStatus_Queued\<rparr>) cfg)
          else (cst_Progress st, cfg)
      | CanaryProgress_Reporting \<Rightarrow>
          if ph_Status (cst_Reporting st) = CanaryPhaseStatus_Success
          then (CanaryProgress_Cleanup, upd_cleanup (\<lambda>p. p\<lparr>ph_Status := CanaryPhaseStatus_Queued\<rparr>) cfg)
          else (cst_Progress st, cfg)
      | _ \<Rightarrow> (cst_Progress st, cfg))"

definition ReconcilePhaseStatus :: "'w Reconciler \<Rightarrow> (Canary \<times> 'w, unit) prog" where
  "ReconcilePhaseStatus R =
     bindP memP (\<lambda>cfg.
     let (newStage, cfg1) = phase_switch cfg in
     thenP (modmemP (\<lambda>_. cfg1))
       (if progress cfg1 \<noteq> newStage then putStatus R (set_progress newStage)
        else if progress cfg1 = CanaryProgress_Unset then putStatus R (set_progress CanaryProgress_Initializing)
        else retP ()))"

subsection \<open>Reconcile\<close>

text \<open>\<open>if err != nil { return fallbackReconcile(err) }\<close> after a step.\<close>

definition orFallbackCanary :: "('s, 'a) prog \<Rightarrow> ('s, Result \<times> error option) prog \<Rightarrow> ('s, Result \<times> error option) prog" where
  "orFallbackCanary m k =
     bindP (tryP m) (\<lambda>r. case r of Inl e \<Rightarrow> retP (canary_fallbackReconcile (Some e)) | Inr _ \<Rightarrow> k)"

lemma wp_orFallbackCanary [wp_simps]:
  "wp (orFallbackCanary m k) Q s = wp m (\<lambda>r s'. case r of
      Ok x \<Rightarrow> wp k Q s' | Err e \<Rightarrow> Q (Ok (canary_fallbackReconcile (Some e))) s' | Panic p \<Rightarrow> Q (Panic p) s') s"
  by (auto simp: wp_def orFallbackCanary_def bindP_def tryP_def retP_def split: prod.splits outcome.splits)

lemma wp_ignoreError [wp_simps]:
  "wp (ignoreError p) Q s = wp p (\<lambda>r s'. case r of
      Ok x \<Rightarrow> Q (Ok ()) s' | Err e \<Rightarrow> Q (Ok ()) s' | Panic q \<Rightarrow> Q (Panic q) s') s"
  by (auto simp: wp_def ignoreError_def bindP_def tryP_def retP_def split: prod.splits outcome.splits)

definition requeue_after_5s :: Result where
  "requeue_after_5s = \<lparr>rs_Requeue = False, rs_RequeueAfter = 5 * Second\<rparr>"

definition afterInit :: "json_float \<Rightarrow> 'w Reconciler \<Rightarrow> (Canary \<times> 'w, Result \<times> error option) prog" where
  "afterInit jf R =
     orFallbackCanary (reconcileTestJob R)
     (orFallbackCanary (reconcileJudgeJob jf R)
     (orFallbackCanary (reconcileVirtualService R)
     (orFallbackCanary (reconcileReporting R)
     (orFallbackCanary (reconcileCleanup R)
     (orFallbackCanary (ReconcilePhaseStatus R)
     (retP (requeue_after_5s, None)))))))"

definition canarySteps :: "json_float \<Rightarrow> 'w Reconciler \<Rightarrow> (Canary \<times> 'w, Result \<times> error option) prog" where
  "canarySteps jf R =
     orFallbackCanary (reconcileCanaryAndBaseline R)
     (bindP memP (\<lambda>cfg.
      if ph_Status (cst_Initialization (cn_Status cfg)) = CanaryPhaseStatus_InProgress
      then retP (requeue_after_5s, None)
      else afterInit jf R))"

definition ReconcileCanary_Reconcile ::
    "json_float \<Rightarrow> 'w Reconciler \<Rightarrow> NamespacedName \<Rightarrow> ('w, Result \<times> error option) prog" where
  "ReconcileCanary_Reconcile jf R request =
     bindP (tryP (runP () (callP (api_get (canaries (client R)) request)))) (\<lambda>r. case r of
       Inl err \<Rightarrow> if IsNotFound err then retP (noResult, None) else retP (noResult, Some err)
     | Inr canaryCfg \<Rightarrow> runP canaryCfg (canarySteps jf R))"

subsection \<open>The transition as a function of the status\<close>

text \<open>
  The specification of a transition: the phase a canary is in stays until its result is in,
  then the next phase follows.
\<close>

definition phase_done :: "CanaryStatus \<Rightarrow> bool" where
  "phase_done st =
     (case cst_Progress st of
        CanaryProgress_Unset \<Rightarrow> True
      | CanaryProgress_Initializing \<Rightarrow> ph_Status (cst_Initialization st) = CanaryPhaseStatus_Success
      | CanaryProgress_Testing \<Rightarrow> ph_Status (cst_Testing st) = CanaryPhaseStatus_Success
      | CanaryProgress_Canary \<Rightarrow> ph_Status (cst_Canary st) = CanaryPhaseStatus_Success \<and>
          ph_Status (cst_Judging st) \<in> {CanaryPhaseStatus_Success, CanaryPhaseStatus_Failure}
      | CanaryProgress_Reporting \<Rightarrow> ph_Status (cst_Reporting st) = CanaryPhaseStatus_Success
      | _ \<Rightarrow> False)"

fun next_progress :: "CanaryProgress \<Rightarrow> CanaryProgress" where
  "next_progress CanaryProgress_Unset = CanaryProgress_Initializing"
| "next_progress CanaryProgress_Initializing = CanaryProgress_Testing"
| "next_progress CanaryProgress_Testing = CanaryProgress_Canary"
| "next_progress CanaryProgress_Canary = CanaryProgress_Reporting"
| "next_progress CanaryProgress_Reporting = CanaryProgress_Cleanup"
| "next_progress p = p"

text \<open>Entering a phase queues it.\<close>

fun queue_phase :: "CanaryProgress \<Rightarrow> Canary \<Rightarrow> Canary" where
  "queue_phase CanaryProgress_Testing = upd_testing (\<lambda>p. p\<lparr>ph_Status := CanaryPhaseStatus_Queued\<rparr>)"
| "queue_phase CanaryProgress_Canary = upd_canary (\<lambda>p. p\<lparr>ph_Status := CanaryPhaseStatus_Queued\<rparr>)"
| "queue_phase CanaryProgress_Reporting = upd_reporting (\<lambda>p. p\<lparr>ph_Status := CanaryPhaseStatus_Queued\<rparr>)"
| "queue_phase CanaryProgress_Cleanup = upd_cleanup (\<lambda>p. p\<lparr>ph_Status := CanaryPhaseStatus_Queued\<rparr>)"
| "queue_phase _ = (\<lambda>c. c)"

definition advance :: "Canary \<Rightarrow> Canary" where
  "advance c = (let p = next_progress (progress c) in set_progress p (queue_phase p c))"

lemma queue_phase_progress [simp]:
  "progress (queue_phase p c) = progress c"
  "cn_Meta (queue_phase p c) = cn_Meta c" "cn_Spec (queue_phase p c) = cn_Spec c"
  by (cases p; simp)+

lemma advance_simps [simp]:
  "progress (advance c) = next_progress (progress c)"
  "cn_Meta (advance c) = cn_Meta c" "cn_Spec (advance c) = cn_Spec c"
  by (simp_all add: advance_def Let_def)

text \<open>\<open>ReconcilePhaseStatus\<close> writes the advanced canary exactly when the phase is done.\<close>

lemma phase_status_spec:
  "ReconcilePhaseStatus R (c, w) =
     (if phase_done (cn_Status c) then putStatus R advance (c, w) else (Ok (), (c, w)))"
  by (cases "progress c")
     (auto simp: ReconcilePhaseStatus_def phase_switch_def run_simps advance_def Let_def phase_done_def
        split: prod.splits sum.splits)

lemma next_progress_rank: "progress_rank p \<le> progress_rank (next_progress p)"
  "progress_rank (next_progress p) \<le> Suc (progress_rank p)"
  by (cases p; simp)+

end
