(* ===== verification/CanaryTraffic.thy ===== *)
theory CanaryTraffic
  imports CanaryRouting
begin

text \<open>
  The arithmetic of rerouting, on lists of routes and on whole virtual services: adding the
  route of the canary and removing it again are inverse to each other on a weighted base, the
  total weight is kept, and the searches find afterwards what they should.
\<close>

subsection \<open>Searches depend on hosts only\<close>

lemma find_route_host:
  "find_route svc i (r # rs) = (case route_host r of None \<Rightarrow> Panic NilDereference
     | Some h \<Rightarrow> if h = svc then Ok (int i) else find_route svc (Suc i) rs)"
proof (cases r)
  case (Some d)
  then show ?thesis by (cases "rd_Destination d") (simp_all add: route_host_def)
qed (simp add: route_host_def)

lemma find_route_cong: "map route_host rs = map route_host rs' \<Longrightarrow> find_route svc i rs = find_route svc i rs'"
proof (induction rs arbitrary: i rs')
  case (Cons r rs)
  then obtain r' rs'' where "rs' = r' # rs''" "route_host r = route_host r'" "map route_host rs = map route_host rs''"
    by (cases rs') auto
  with Cons.IH [of rs'' "Suc i"] show ?case
    by (simp add: find_route_host del: find_route.simps split: option.split)
qed simp

lemma find_route_append:
  "find_route svc i (rs @ xs) =
     (case find_route svc i rs of Ok j \<Rightarrow> if j = - 1 then find_route svc (i + length rs) xs else Ok j
      | Err e \<Rightarrow> Err e | Panic p \<Rightarrow> Panic p)"
proof (induction rs arbitrary: i)
  case (Cons r rs)
  from Cons [of "Suc i"] show ?case
    by (cases "route_host r"; cases "find_route svc (Suc i) rs")
       (simp_all add: find_route_host del: find_route.simps)
qed simp

lemma hosts_weight_update [simp]:
  "map route_host (rs[j := map_weight f (rs ! j)]) = map route_host rs"
proof (cases "j < length rs")
  case True
  then show ?thesis
    using list_update_id [of "map route_host rs" j] by (simp add: map_update)
qed (simp add: list_update_beyond)

subsection \<open>Adding and removing the canary\<close>

lemma find_route_added:
  assumes "find_route svc 0 rs = Ok j" "j \<noteq> - 1"
  shows "find_route svc 0 (add_canary_route name m rs) = Ok j"
  using assms find_route_cong [OF hosts_weight_update, of svc 0 rs m reduced_weight]
  by (simp add: add_canary_route_def find_route_append)

lemma find_canary_added:
  assumes "find_route name 0 rs = Ok (- 1)"
  shows "find_route name 0 (add_canary_route name m rs) = Ok (int (length rs))"
  using assms find_route_cong [OF hosts_weight_update, of name 0 rs m reduced_weight]
  by (simp add: add_canary_route_def find_route_append)

text \<open>The base gets back what it gave, except that an unset weight has become 100.\<close>

definition restored_weight :: "int32 \<Rightarrow> int32" where
  "restored_weight w = (if w = 0 then 100 else w)"

lemma reduced_restored: "reduced_weight w + 10 = restored_weight w"
  by (simp add: reduced_weight_def restored_weight_def)

lemma remove_added:
  assumes "j < length rs"
  shows "remove_canary_route j (length rs) (add_canary_route name j rs)
    = rs[j := map_weight restored_weight (rs ! j)]"
proof -
  have "map_weight (\<lambda>w. w + 10) (map_weight reduced_weight r) = map_weight restored_weight r" for r
    by (cases r) (simp_all add: map_weight_def reduced_restored)
  then show ?thesis
    using assms
    by (simp add: remove_canary_route_def add_canary_route_def nth_append route_weight_def Let_def
        list_update_append)
qed

lemma map_weight_same: "route_weight r \<noteq> 0 \<Longrightarrow> map_weight restored_weight r = r"
  by (cases r) (simp_all add: map_weight_def route_weight_def restored_weight_def)

lemma remove_added_weighted:
  assumes "j < length rs" "route_weight (rs ! j) \<noteq> 0"
  shows "remove_canary_route j (length rs) (add_canary_route name j rs) = rs"
  using assms by (simp add: remove_added map_weight_same)

text \<open>The total weight: kept on a weighted base, 100 more on an unweighted one.\<close>

definition total_weight :: "HTTPRouteDestination option list \<Rightarrow> int32" where
  "total_weight rs = sum_list (map route_weight rs)"

lemma sum_list_update_word:
  fixes xs :: "'a::len word list"
  assumes "j < length xs"
  shows "sum_list (xs[j := y]) = sum_list xs - xs ! j + y"
  using assms
proof (induction xs arbitrary: j)
  case (Cons x xs)
  then show ?case by (cases j) (simp_all add: algebra_simps)
qed simp

lemma total_weight_added:
  assumes "j < length rs" "rs ! j = Some d"
  shows "total_weight (add_canary_route name j rs)
    = total_weight rs + (if rd_Weight d = 0 then 100 else 0)"
  using assms
  by (simp add: total_weight_def add_canary_route_def map_update sum_list_update_word route_weight_def
      map_weight_def reduced_weight_def)

text \<open>
  Within the range Istio allows, no weight leaves it: the split of a base with at least ten
  percent is a split into non-negative parts.
\<close>

lemma sint_minus10:
  assumes "10 \<le> sint (w :: int32)"
  shows "sint (w - 10) = sint w - 10"
proof -
  have "sint (word_of_int (sint w - 10) :: int32) = sint w - 10"
    using assms sint_less [of w] unfolding sint_sbintrunc'
    by (intro signed_take_bit_int_eq_self) simp_all
  then show ?thesis by simp
qed

lemma reduced_weight_range:
  assumes "sint w = 0 \<or> 10 \<le> sint w" "sint w \<le> 100"
  shows "0 \<le> sint (reduced_weight w) \<and> sint (reduced_weight w) \<le> 90"
proof (cases "w = 0")
  case False
  then have "sint w \<noteq> 0" by (metis signed_0 signed_word_eqI)
  with assms have w: "10 \<le> sint w" by auto
  then have "sint (w - 10) = sint w - 10" by (rule sint_minus10)
  with w assms(2) False show ?thesis by (simp add: reduced_weight_def)
qed (simp add: reduced_weight_def)

subsection \<open>Whole virtual services\<close>

lemma http_at_upd:
  "i < length (vss_Http (vs_Spec vs)) \<Longrightarrow> http_at (upd_routes i f vs) i
     = map_option (\<lambda>h. h\<lparr>hr_Route := f (hr_Route h)\<rparr>) (http_at vs i)"
  by (simp add: http_at_def upd_routes_def Let_def)

lemma upd_routes_length [simp]:
  "length (vss_Http (vs_Spec (upd_routes i f vs))) = length (vss_Http (vs_Spec vs))"
  by (simp add: upd_routes_def Let_def)

lemma upd_routes_twice:
  assumes "i < length (vss_Http (vs_Spec vs))"
  shows "upd_routes i g (upd_routes i f vs) = upd_routes i (\<lambda>rs. g (f rs)) vs"
  using assms by (cases "vss_Http (vs_Spec vs) ! i") (simp_all add: upd_routes_def Let_def)

lemma upd_routes_same:
  assumes "http_at vs i = Some h" "f (hr_Route h) = hr_Route h"
  shows "upd_routes i f vs = vs"
proof -
  have "h\<lparr>hr_Route := hr_Route h\<rparr> = h" by simp
  with assms have "map_option (\<lambda>h. h\<lparr>hr_Route := f (hr_Route h)\<rparr>) (vss_Http (vs_Spec vs) ! i) = vss_Http (vs_Spec vs) ! i"
    by (simp add: http_at_def)
  then show ?thesis by (simp add: upd_routes_def Let_def)
qed

lemma find_http_update:
  "find_http svc k hs = Ok (int (k + i), b) \<Longrightarrow> b \<noteq> - 1 \<Longrightarrow> find_route svc 0 (hr_Route h') = Ok b \<Longrightarrow>
   i < length hs \<Longrightarrow> find_http svc k (hs[i := Some h']) = Ok (int (k + i), b)"
proof (induction hs arbitrary: k i)
  case (Cons y hs)
  from Cons.prems(1) obtain x j where y: "y = Some x" "find_route svc 0 (hr_Route x) = Ok j"
    by (auto split: if_splits)
  show ?case
  proof (cases i)
    case 0
    with Cons.prems y show ?thesis by simp
  next
    case (Suc n)
    have "j = - 1"
      using Cons.prems(1) y Suc by (auto split: if_splits)
    with Cons.prems y Suc have "find_http svc (Suc k) hs = Ok (int (Suc k + n), b)" by simp
    from Cons.IH [OF this] Cons.prems Suc y \<open>j = - 1\<close> show ?thesis by simp
  qed
qed simp

text \<open>
  \<open>routed vs svc i j h\<close>: the search for \<open>svc\<close> ends at route \<open>j\<close> of HTTP route \<open>i\<close>, which is \<open>h\<close>.
\<close>

definition routed :: "VirtualService \<Rightarrow> string \<Rightarrow> nat \<Rightarrow> nat \<Rightarrow> HTTPRoute \<Rightarrow> bool" where
  "routed vs svc i j h \<longleftrightarrow>
     FindMatchingHttpAndRoute svc vs = Ok (int i, int j) \<and> i < length (vss_Http (vs_Spec vs)) \<and>
     http_at vs i = Some h \<and> find_route svc 0 (hr_Route h) = Ok (int j) \<and> j < length (hr_Route h)"

text \<open>A successful search is always such a place.\<close>

lemma routed_iff:
  assumes "FindMatchingHttpAndRoute svc vs = Ok (a, b)" "b \<noteq> - 1"
  shows "\<exists>i j h. a = int i \<and> b = int j \<and> routed vs svc i j h \<and> route_host (hr_Route h ! j) = Some svc"
proof -
  obtain i h where i: "a = int i" "i < length (vss_Http (vs_Spec vs))" "http_at vs i = Some h"
    "find_route svc 0 (hr_Route h) = Ok b"
    using find_http_hit [of svc 0 "vss_Http (vs_Spec vs)" a b] assms
    by (auto simp: FindMatchingHttpAndRoute_def http_at_def)
  moreover obtain j where "b = int j" "j < length (hr_Route h)" "route_host (hr_Route h ! j) = Some svc"
    using find_route_hit [OF i(4) assms(2)] by auto
  ultimately show ?thesis
    using assms by (auto simp: routed_def)
qed

lemma routed_added:
  assumes "routed vs svc i j h"
  shows "routed (upd_routes i (add_canary_route name m) vs) svc i j
    (h\<lparr>hr_Route := add_canary_route name m (hr_Route h)\<rparr>)"
proof -
  let ?h' = "h\<lparr>hr_Route := add_canary_route name m (hr_Route h)\<rparr>"
  have f: "find_route svc 0 (hr_Route ?h') = Ok (int j)"
    using assms by (simp add: routed_def find_route_added)
  have "find_http svc 0 ((vss_Http (vs_Spec vs))[i := Some ?h']) = Ok (int (0 + i), int j)"
    using assms f by (intro find_http_update) (simp_all add: routed_def FindMatchingHttpAndRoute_def)
  moreover have "vss_Http (vs_Spec (upd_routes i (add_canary_route name m) vs)) = (vss_Http (vs_Spec vs))[i := Some ?h']"
    using assms by (simp add: upd_routes_def routed_def http_at_def Let_def)
  ultimately show ?thesis
    using assms f by (simp add: routed_def FindMatchingHttpAndRoute_def http_at_def add_canary_route_def)
qed

lemma cleanup_restores:
  assumes "routed vs svc i j h"
  shows "upd_routes i (remove_canary_route j (length (hr_Route h))) (upd_routes i (add_canary_route name j) vs)
    = upd_routes i (\<lambda>rs. rs[j := map_weight restored_weight (rs ! j)]) vs"
proof -
  have "i < length (vss_Http (vs_Spec vs))" "http_at vs i = Some h" "j < length (hr_Route h)"
    using assms by (auto simp: routed_def)
  then show ?thesis
    by (simp add: upd_routes_twice) (simp add: upd_routes_def http_at_def Let_def remove_added)
qed

text \<open>A search that ends without a hit has seen every route.\<close>

lemma find_http_miss:
  "find_http svc i hs = Ok (a, - 1) \<Longrightarrow>
   \<forall>h\<in>set hs. \<exists>x. h = Some x \<and> (\<forall>r\<in>set (hr_Route x). route_host r \<noteq> Some svc \<and> route_host r \<noteq> None)"
proof (induction hs arbitrary: i)
  case (Cons y hs)
  from Cons.prems obtain x j where y: "y = Some x" "find_route svc 0 (hr_Route x) = Ok j"
    by (auto split: if_splits)
  with Cons.prems have "j = - 1" by (auto split: if_splits)
  with Cons.prems y Cons.IH [of "Suc i"] find_route_miss [of svc 0 "hr_Route x"] show ?case by auto
qed simp

lemma find_http_not_Err [simp]: "find_http svc i hs \<noteq> Err e"
proof (induction hs arbitrary: i)
  case (Cons y hs)
  show ?case
  proof (cases y)
    case (Some x)
    with Cons show ?thesis by (cases "find_route svc 0 (hr_Route x)") auto
  qed simp
qed simp

lemma find_route_panic: "find_route svc i rs = Panic q \<Longrightarrow> q = NilDereference \<and> \<not> complete_routes rs"
proof (induction rs arbitrary: i)
  case (Cons r rs)
  show ?case
  proof (cases "route_host r")
    case None
    then have "\<not> complete_routes (r # rs)"
      by (auto simp: complete_routes_def route_host_def split: option.splits)
    with None Cons.prems show ?thesis by (simp add: find_route_host del: find_route.simps)
  next
    case (Some hst)
    with Cons.prems have "find_route svc (Suc i) rs = Panic q"
      by (simp add: find_route_host del: find_route.simps split: if_splits)
    from Cons.IH [OF this] show ?thesis by (auto simp: complete_routes_def)
  qed
qed simp

lemma find_http_panic:
  "find_http svc i hs = Panic q \<Longrightarrow>
   q = NilDereference \<and> \<not> (\<forall>h\<in>set hs. \<exists>x. h = Some x \<and> complete_routes (hr_Route x))"
proof (induction hs arbitrary: i)
  case (Cons y hs)
  show ?case
  proof (cases y)
    case None
    with Cons.prems show ?thesis by simp
  next
    case (Some x)
    show ?thesis
    proof (cases "find_route svc 0 (hr_Route x)")
      case (Ok j)
      with Some Cons show ?thesis by (auto split: if_splits)
    next
      case (Panic r)
      with Some Cons.prems find_route_panic [OF Panic] show ?thesis by auto
    qed simp
  qed
qed simp

text \<open>What an added route does to the list: one weight changes, one route is new.\<close>

lemma added_routes:
  assumes "j < length rs" "rs ! j = Some d"
  shows "length (add_canary_route name j rs) = Suc (length rs)"
    "add_canary_route name j rs ! j = Some (d\<lparr>rd_Weight := reduced_weight (rd_Weight d)\<rparr>)"
    "add_canary_route name j rs ! length rs = Some (mkRoute name 10)"
    "m < length rs \<Longrightarrow> m \<noteq> j \<Longrightarrow> add_canary_route name j rs ! m = rs ! m"
  using assms by (simp_all add: add_canary_route_def nth_append map_weight_def)

lemma negative_split:
  assumes "0 < sint w" "sint w < 10"
  shows "sint (reduced_weight w) < 0"
proof -
  have w: "w \<noteq> 0" using assms by auto
  have "sint (word_of_int (sint w - 10) :: int32) = sint w - 10"
    using assms unfolding sint_sbintrunc' by (intro signed_take_bit_int_eq_self) simp_all
  then have "sint (w - 10) = sint w - 10" by simp
  with assms w show ?thesis by (simp add: reduced_weight_def)
qed

end
