(* ===== verification/CanaryRuns.thy ===== *)
theory CanaryRuns
  imports CanaryController CanaryTraffic Tracker
begin

text \<open>
  The steps of the canary controller on the in-memory cluster, each as an equation that gives
  the canary in memory and the cluster it leaves. From these come the whole life of a canary
  and the situations in which a run changes nothing.
\<close>

subsection \<open>The canary in the cluster\<close>

definition save :: "Canary \<Rightarrow> Cluster \<Rightarrow> Cluster" where
  "save c w = w\<lparr>cl_canaries := put_at cn_Meta c (cl_canaries w)\<rparr>"

lemma save_simps [simp]:
  "cl_policies (save c w) = cl_policies w" "cl_deployments (save c w) = cl_deployments w"
  "cl_pods (save c w) = cl_pods w" "cl_services (save c w) = cl_services w"
  "cl_virtualservices (save c w) = cl_virtualservices w"
  "cl_destinationrules (save c w) = cl_destinationrules w"
  "cl_canaries (save c w) = put_at cn_Meta c (cl_canaries w)"
  by (simp_all add: save_def)

text \<open>
  The canary is stored in the cluster as it is in memory, its policy is there, and keys have no
  empty part.
\<close>

definition tracked :: "Cluster \<Rightarrow> Canary \<Rightarrow> CanaryPolicy \<Rightarrow> bool" where
  "tracked w c p \<longleftrightarrow>
     consistent w \<and> canary_namespace c \<noteq> [] \<and> canary_name c \<noteq> [] \<and> csp_Policy (cn_Spec c) \<noteq> [] \<and>
     find_key cn_Meta (cl_canaries w) (metaKey (cn_Meta c)) = Some c \<and>
     find_key cpo_Meta (cl_policies w)
       \<lparr>nn_Namespace = canary_namespace c, nn_Name = csp_Policy (cn_Spec c)\<rparr> = Some p"

lemma save_save: "metaKey (cn_Meta c) = metaKey (cn_Meta d) \<Longrightarrow> save d (save c w) = save d w"
  by (simp add: save_def put_at_put_at)

lemma save_same: "tracked w c p \<Longrightarrow> save c w = w"
  by (simp add: save_def tracked_def tracker_simps)

lemma tracked_save:
  assumes "tracked w c p" "cn_Meta d = cn_Meta c" "cn_Spec d = cn_Spec c"
  shows "tracked (save d w) d p"
  using assms by (simp add: tracked_def save_def tracker_simps)

text \<open>Other resources may change under it.\<close>

lemma tracked_frame:
  assumes "tracked w c p"
  shows "distinct (keys pod_Meta ps) \<Longrightarrow> tracked (w\<lparr>cl_pods := ps\<rparr>) c p"
    and "distinct (keys dp_Meta ds) \<Longrightarrow> tracked (w\<lparr>cl_deployments := ds\<rparr>) c p"
    and "distinct (keys vs_Meta vss) \<Longrightarrow> tracked (w\<lparr>cl_virtualservices := vss\<rparr>) c p"
  using assms by (simp_all add: tracked_def tracker_simps)

locale canary_on_tracker =
  fixes R :: "Cluster Reconciler" and g :: GroupVersionKind
  assumes fake: "client R = fakeClient" and gvk: "scheme R OwnerCanary = Inr g"
begin

lemma run_policy: "tracked w c p \<Longrightarrow> ReconcileCanary_GetCanaryPolicy R (c, w) = (Ok p, (c, w))"
  by (simp add: ReconcileCanary_GetCanaryPolicy_def run_simps fake fake_calls tracked_def tracker_simps)

lemma run_put:
  assumes "tracked w c p" "cn_Meta (f c) = cn_Meta c"
  shows "putStatus R f (c, w) = (Ok (), (f c, save (f c) w))"
  using assms by (simp add: run_simps fake fake_calls tracked_def tracker_simps flip: save_def)

text \<open>An update that is skipped when it would change nothing, as one equation.\<close>

lemma run_report:
  assumes "tracked w c p" "cn_Meta (f c) = cn_Meta c" "\<not> b \<Longrightarrow> f c = c"
  shows "whenP b (putStatus R f) (c, w) = (Ok (), (f c, save (f c) w))"
  using run_put [OF assms(1), of f] assms save_same [OF assms(1)]
  by (cases b) (simp_all add: whenP_def run_simps del: run_putStatus)

lemma run_fetch:
  "tracked w c p \<Longrightarrow> callP (api_get (canaries (client R)) (metaKey (cn_Meta c))) ((), w) = (Ok c, ((), w))"
  by (simp add: run_simps fake fake_calls tracked_def tracker_simps)

lemma run_phase:
  assumes "tracked w c p"
  shows "ReconcilePhaseStatus R (c, w) = (let d = (if phase_done (cn_Status c) then advance c else c) in
     (Ok (), (d, save d w)))"
  using run_put [OF assms, of advance] save_same [OF assms]
  by (simp add: phase_status_spec Let_def del: run_putStatus)

end

subsection \<open>Availability\<close>

text \<open>Both deployments exist and have an available replica.\<close>

definition available :: "Cluster \<Rightarrow> Canary \<Rightarrow> bool" where
  "available w c \<longleftrightarrow> (\<exists>cd bd.
     csd_Canary (csp_Deployments (cn_Spec c)) \<noteq> [] \<and> csd_Baseline (csp_Deployments (cn_Spec c)) \<noteq> [] \<and>
     find_key dp_Meta (cl_deployments w)
       \<lparr>nn_Namespace = canary_namespace c, nn_Name = csd_Canary (csp_Deployments (cn_Spec c))\<rparr> = Some cd \<and>
     find_key dp_Meta (cl_deployments w)
       \<lparr>nn_Namespace = canary_namespace c, nn_Name = csd_Baseline (csp_Deployments (cn_Spec c))\<rparr> = Some bd \<and>
     0 < sint (dp_AvailableReplicas cd) \<and> 0 < sint (dp_AvailableReplicas bd))"

definition initialized :: "Canary \<Rightarrow> Canary" where
  "initialized = upd_initialization (set_phase CanaryPhaseStatus_Success ''Initialized baseline and canary deployments'')"

lemma initialized_simps [simp]:
  "cn_Meta (initialized c) = cn_Meta c" "cn_Spec (initialized c) = cn_Spec c"
  "cn_Status (initialized c) = (cn_Status c)\<lparr>cst_Initialization :=
     set_phase CanaryPhaseStatus_Success ''Initialized baseline and canary deployments'' (cst_Initialization (cn_Status c))\<rparr>"
  by (simp_all add: initialized_def)

context canary_on_tracker begin

lemma run_available:
  assumes "tracked w c p" "available w c" "progress c \<noteq> CanaryProgress_Cleanup"
  shows "reconcileCanaryAndBaseline R (c, w) = (Ok (), (initialized c, save (initialized c) w))"
proof -
  have "putStatus R (upd_initialization (set_phase CanaryPhaseStatus_Success
      ''Initialized baseline and canary deployments'')) (c, w) = (Ok (), (initialized c, save (initialized c) w))"
    unfolding initialized_def by (rule run_put [OF assms(1)]) simp
  then show ?thesis
    using assms
    by (auto simp: reconcileCanaryAndBaseline_def run_simps fake fake_calls tracked_def tracker_simps available_def
        simp del: run_putStatus)
qed

lemma run_cleanup_skips_init:
  "progress c = CanaryProgress_Cleanup \<Longrightarrow> reconcileCanaryAndBaseline R (c, w) = (Ok (), (c, w))"
  by (simp add: reconcileCanaryAndBaseline_def run_simps)

text \<open>Steps outside their phase do nothing.\<close>

lemma run_skips:
  "progress c \<noteq> CanaryProgress_Testing \<Longrightarrow> reconcileTestJob R (c, w) = (Ok None, (c, w))"
  "progress c \<noteq> CanaryProgress_Testing \<Longrightarrow> progress c \<noteq> CanaryProgress_Canary \<Longrightarrow>
     reconcileJudgeJob jf R (c, w) = (Ok None, (c, w))"
  "progress c \<noteq> CanaryProgress_Canary \<Longrightarrow> reconcileVirtualService R (c, w) = (Ok None, (c, w))"
  "progress c \<noteq> CanaryProgress_Reporting \<Longrightarrow> reconcileReporting R (c, w) = (Ok (), (c, w))"
  "progress c \<noteq> CanaryProgress_Cleanup \<Longrightarrow> reconcileCleanup R (c, w) = (Ok (), (c, w))"
  by (simp_all add: reconcileTestJob_def reconcileJudgeJob_def reconcileVirtualService_def
      reconcileReporting_def reconcileCleanup_def run_simps)

subsection \<open>The jobs\<close>

text \<open>A pod that is there: its report becomes the status, whatever the status was.\<close>

lemma run_test_report:
  assumes t: "tracked w c p" and pr: "progress c = CanaryProgress_Testing"
    and pod: "find_key pod_Meta (cl_pods w) \<lparr>nn_Namespace = canary_namespace c, nn_Name = GetTestJobname c\<rparr> = Some pod"
    and rep: "job_report pod ''testjob'' = (st, msg)"
  shows "reconcileTestJob R (c, w) = (Ok (Some pod),
    (upd_testing (set_phase st msg) c, save (upd_testing (set_phase st msg) c) w))"
proof -
  have "upd_testing (set_phase st msg) c = c"
    if "\<not> (st \<noteq> ph_Status (cst_Testing (cn_Status c)) \<or> ph_Message (cst_Testing (cn_Status c)) \<noteq> msg)"
    using that by (simp add: upd_testing_def set_phase_def)
  then have "whenP (st \<noteq> ph_Status (cst_Testing (cn_Status c)) \<or> ph_Message (cst_Testing (cn_Status c)) \<noteq> msg)
      (putStatus R (upd_testing (set_phase st msg))) (c, w)
    = (Ok (), (upd_testing (set_phase st msg) c, save (upd_testing (set_phase st msg) c) w))"
    by (intro run_report [OF t]) simp_all
  moreover have "get_or_create (pods (client R)) \<lparr>nn_Namespace = canary_namespace c, nn_Name = GetTestJobname c\<rparr>
      b k (c, w) = (Ok pod, (c, w))" for b k
    using t pod by (simp add: get_or_create_def run_simps fake fake_calls tracked_def tracker_simps)
  ultimately show ?thesis
    using pr run_policy [OF t] rep
    by (simp add: reconcileTestJob_def run_simps)
qed

lemma run_judge_report:
  assumes t: "tracked w c p" and pr: "progress c \<in> {CanaryProgress_Testing, CanaryProgress_Canary}"
    and pod: "find_key pod_Meta (cl_pods w) \<lparr>nn_Namespace = canary_namespace c, nn_Name = GetJudgeJobName c\<rparr> = Some pod"
    and rep: "job_report pod ''judge'' = (st, msg)"
  shows "reconcileJudgeJob jf R (c, w) = (Ok (Some pod),
    (upd_judging (set_phase st msg) c, save (upd_judging (set_phase st msg) c) w))"
proof -
  have "upd_judging (set_phase st msg) c = c"
    if "\<not> (st \<noteq> ph_Status (cst_Judging (cn_Status c)) \<or> ph_Message (cst_Judging (cn_Status c)) \<noteq> msg)"
    using that by (simp add: upd_judging_def set_phase_def)
  then have "whenP (st \<noteq> ph_Status (cst_Judging (cn_Status c)) \<or> ph_Message (cst_Judging (cn_Status c)) \<noteq> msg)
      (putStatus R (upd_judging (set_phase st msg))) (c, w)
    = (Ok (), (upd_judging (set_phase st msg) c, save (upd_judging (set_phase st msg) c) w))"
    by (intro run_report [OF t]) simp_all
  moreover have "get_or_create (pods (client R)) \<lparr>nn_Namespace = canary_namespace c, nn_Name = GetJudgeJobName c\<rparr>
      b k (c, w) = (Ok pod, (c, w))" for b k
    using t pod by (simp add: get_or_create_def run_simps fake fake_calls tracked_def tracker_simps)
  ultimately show ?thesis
    using pr run_policy [OF t] rep
    by (auto simp: reconcileJudgeJob_def run_simps)
qed

end

text \<open>
  A pod that is missing is created; the fresh pod has no container status, so the report
  erases what was just written: status and message end up empty, only the pod's name stays.
\<close>

definition started :: "string \<Rightarrow> CanaryConfigPhase \<Rightarrow> CanaryConfigPhase" where
  "started name ph = set_phase CanaryPhaseStatus_Unset [] (init_job name ph)"

lemma started_simps [simp]:
  "ph_PodName (started name ph) = name" "ph_Status (started name ph) = CanaryPhaseStatus_Unset"
  "ph_Message (started name ph) = []"
  by (simp_all add: started_def init_job_def)

lemma started_abs: "started name = (\<lambda>ph. set_phase CanaryPhaseStatus_Unset [] (ph\<lparr>ph_Status := CanaryPhaseStatus_InProgress,
     ph_Message := ''Job initialized'', ph_PodName := name\<rparr>))"
  by (simp add: fun_eq_iff started_def init_job_def)

lemma fresh_pod_report:
  "pod_ContainerStatuses pod = [] \<Longrightarrow> job_report pod name = (CanaryPhaseStatus_Unset, [])"
  by (simp add: job_report_alive GetContainerTerminalState_def)

lemma created_job:
  "CreateTestJob R c p = Ok pod \<Longrightarrow> pod_ContainerStatuses pod = [] \<and>
     om_Namespace (pod_Meta pod) = canary_namespace c \<and> om_Name (pod_Meta pod) = GetTestJobname c"
  "CreateJudgeJob jf R c p = Ok pod \<Longrightarrow> pod_ContainerStatuses pod = [] \<and>
     om_Namespace (pod_Meta pod) = canary_namespace c \<and> om_Name (pod_Meta pod) = GetJudgeJobName c"
  by (auto simp: CreateTestJob_def CreateJudgeJob_def Let_def job_pod_def metaKey_def dest!: own_pod_key)

lemma upd_compose [simp]:
  "upd_testing f (upd_testing h c) = upd_testing (\<lambda>x. f (h x)) c"
  "upd_judging f (upd_judging h c) = upd_judging (\<lambda>x. f (h x)) c"
  by (simp_all add: upd_testing_def upd_judging_def)

lemma save_frame [simp]: "save c (w\<lparr>cl_pods := ps\<rparr>) = (save c w)\<lparr>cl_pods := ps\<rparr>"
  by (simp add: save_def)

context canary_on_tracker begin

lemma run_test_create:
  assumes t: "tracked w c p" and pr: "progress c = CanaryProgress_Testing"
    and none: "find_key pod_Meta (cl_pods w) \<lparr>nn_Namespace = canary_namespace c, nn_Name = GetTestJobname c\<rparr> = None"
    and pod: "CreateTestJob R c p = Ok pod"
  shows "reconcileTestJob R (c, w) = (Ok (Some pod),
    (upd_testing (started (GetTestJobname c)) c,
     save (upd_testing (started (GetTestJobname c)) c) (w\<lparr>cl_pods := cl_pods w @ [pod]\<rparr>)))"
proof -
  let ?w = "w\<lparr>cl_pods := cl_pods w @ [pod]\<rparr>" and ?c = "upd_testing (init_job (GetTestJobname c)) c"
  have key: "metaKey (pod_Meta pod) = \<lparr>nn_Namespace = canary_namespace c, nn_Name = GetTestJobname c\<rparr>"
    by (rule created_job_key(1) [OF pod])
  have "distinct (keys pod_Meta (cl_pods w @ [pod]))"
    using t none key by (simp add: tracked_def tracker_simps)
  then have t1: "tracked ?w c p" by (rule tracked_frame(1) [OF t])
  then have t2: "tracked (save ?c ?w) ?c p" by (rule tracked_save) simp_all
  have "get_or_create (pods (client R)) \<lparr>nn_Namespace = canary_namespace c, nn_Name = GetTestJobname c\<rparr>
      (liftP (CreateTestJob R c p)) (\<lambda>job. putStatus R (upd_testing (init_job (om_Name (pod_Meta job))))) (c, w)
    = (Ok pod, (?c, save ?c ?w))"
    using t none none [folded key] pod created_job(1) [OF pod] run_put [OF t1, of "upd_testing (init_job (GetTestJobname c))"]
    by (simp add: get_or_create_def run_simps fake fake_calls tracked_def tracker_simps del: run_putStatus)
  moreover have "whenP (CanaryPhaseStatus_Unset \<noteq> ph_Status (cst_Testing (cn_Status ?c))
        \<or> ph_Message (cst_Testing (cn_Status ?c)) \<noteq> [])
      (putStatus R (upd_testing (set_phase CanaryPhaseStatus_Unset []))) (?c, save ?c ?w)
    = (Ok (), (upd_testing (started (GetTestJobname c)) c, save (upd_testing (started (GetTestJobname c)) c) ?w))"
    by (subst run_report [OF t2]) (simp_all add: init_job_def started_abs save_save del: save_frame)
  ultimately show ?thesis
    using pr run_policy [OF t] fresh_pod_report created_job(1) [OF pod]
    by (simp add: reconcileTestJob_def run_simps)
qed

lemma run_judge_create:
  assumes t: "tracked w c p" and pr: "progress c \<in> {CanaryProgress_Testing, CanaryProgress_Canary}"
    and none: "find_key pod_Meta (cl_pods w) \<lparr>nn_Namespace = canary_namespace c, nn_Name = GetJudgeJobName c\<rparr> = None"
    and pod: "CreateJudgeJob jf R c p = Ok pod"
  shows "reconcileJudgeJob jf R (c, w) = (Ok (Some pod),
    (upd_judging (started (GetJudgeJobName c)) c,
     save (upd_judging (started (GetJudgeJobName c)) c) (w\<lparr>cl_pods := cl_pods w @ [pod]\<rparr>)))"
proof -
  let ?w = "w\<lparr>cl_pods := cl_pods w @ [pod]\<rparr>" and ?c = "upd_judging (init_job (GetJudgeJobName c)) c"
  have key: "metaKey (pod_Meta pod) = \<lparr>nn_Namespace = canary_namespace c, nn_Name = GetJudgeJobName c\<rparr>"
    by (rule created_job_key(2) [OF pod])
  have "distinct (keys pod_Meta (cl_pods w @ [pod]))"
    using t none key by (simp add: tracked_def tracker_simps)
  then have t1: "tracked ?w c p" by (rule tracked_frame(1) [OF t])
  then have t2: "tracked (save ?c ?w) ?c p" by (rule tracked_save) simp_all
  have "get_or_create (pods (client R)) \<lparr>nn_Namespace = canary_namespace c, nn_Name = GetJudgeJobName c\<rparr>
      (liftP (CreateJudgeJob jf R c p)) (\<lambda>job. putStatus R (upd_judging (init_job (om_Name (pod_Meta job))))) (c, w)
    = (Ok pod, (?c, save ?c ?w))"
    using t none none [folded key] pod created_job(2) [OF pod] run_put [OF t1, of "upd_judging (init_job (GetJudgeJobName c))"]
    by (simp add: get_or_create_def run_simps fake fake_calls tracked_def tracker_simps del: run_putStatus)
  moreover have "whenP (CanaryPhaseStatus_Unset \<noteq> ph_Status (cst_Judging (cn_Status ?c))
        \<or> ph_Message (cst_Judging (cn_Status ?c)) \<noteq> [])
      (putStatus R (upd_judging (set_phase CanaryPhaseStatus_Unset []))) (?c, save ?c ?w)
    = (Ok (), (upd_judging (started (GetJudgeJobName c)) c, save (upd_judging (started (GetJudgeJobName c)) c) ?w))"
    by (subst run_report [OF t2]) (simp_all add: init_job_def started_abs save_save del: save_frame)
  ultimately show ?thesis
    using pr run_policy [OF t] fresh_pod_report created_job(2) [OF pod]
    by (auto simp: reconcileJudgeJob_def run_simps)
qed

end

subsection \<open>Routing\<close>

text \<open>The virtual service of the policy, as a run reads it, and the update that stores one.\<close>

definition vs_key :: "Canary \<Rightarrow> CanaryPolicy \<Rightarrow> NamespacedName" where
  "vs_key c p = \<lparr>nn_Namespace = canary_namespace c, nn_Name = cps_VirtualService (cpo_Spec p)\<rparr>"

definition has_vs :: "Cluster \<Rightarrow> Canary \<Rightarrow> CanaryPolicy \<Rightarrow> VirtualService \<Rightarrow> bool" where
  "has_vs w c p vs \<longleftrightarrow> cps_VirtualService (cpo_Spec p) \<noteq> [] \<and>
     map_option VirtualService_read (find_key vs_Meta (cl_virtualservices w) (vs_key c p)) = Some vs"

definition put_vs :: "VirtualService \<Rightarrow> Cluster \<Rightarrow> Cluster" where
  "put_vs vs w = w\<lparr>cl_virtualservices := put_at vs_Meta vs (cl_virtualservices w)\<rparr>"

lemma has_vs_key: "has_vs w c p vs \<Longrightarrow> metaKey (vs_Meta vs) = vs_key c p"
  by (auto simp: has_vs_def dest: find_key_in)

lemma has_vs_read: "has_vs w c p vs \<Longrightarrow> VirtualService_read vs = vs"
  by (auto simp: has_vs_def)

lemma has_vs_stored:
  "cps_VirtualService (cpo_Spec p) \<noteq> [] \<Longrightarrow> VirtualService_read vs = vs \<Longrightarrow>
   find_key vs_Meta (cl_virtualservices w) (vs_key c p) = Some vs \<Longrightarrow> has_vs w c p vs"
  by (simp add: has_vs_def)

text \<open>What was read and has other routes now is read as it is.\<close>

lemma upd_routes_read:
  assumes "VirtualService_read vs = vs"
  shows "VirtualService_read (upd_routes i f vs) = upd_routes i f vs"
proof -
  let ?http = "vss_Http (vs_Spec vs)" and ?upd = "map_option (\<lambda>h. h\<lparr>hr_Route := f (hr_Route h)\<rparr>)"
  have all: "map (map_option HTTPRoute_kept) ?http = ?http"
    using assms by (simp add: VirtualService_read_iff)
  have "map (map_option HTTPRoute_kept) (?http[i := ?upd (?http ! i)]) = ?http[i := ?upd (?http ! i)]"
  proof (cases "i < length ?http")
    case True
    then have "map_option HTTPRoute_kept (?http ! i) = ?http ! i"
      using arg_cong [OF all, of "\<lambda>l. l ! i"] by simp
    then have "map_option HTTPRoute_kept (?upd (?http ! i)) = ?upd (?http ! i)"
      by (cases "?http ! i") (simp_all add: HTTPRoute_kept_iff)
    then show ?thesis by (simp add: map_update all)
  next
    case False
    then have "?http[i := ?upd (?http ! i)] = ?http" by (intro list_update_beyond) simp
    with all show ?thesis by simp
  qed
  then show ?thesis by (simp add: VirtualService_read_iff upd_routes_def Let_def)
qed

lemma tracked_put_vs: "tracked w c p \<Longrightarrow> tracked (put_vs vs w) c p"
  by (simp add: put_vs_def tracked_frame tracked_def tracker_simps)

lemma has_put_vs:
  assumes "has_vs w c p vs0" "vs_Meta vs = vs_Meta vs0"
  shows "find_key vs_Meta (cl_virtualservices (put_vs vs w)) (vs_key c p) = Some vs"
    and "VirtualService_read vs = vs \<Longrightarrow> has_vs (put_vs vs w) c p vs"
  using assms has_vs_key [of w c p vs0] by (auto simp: has_vs_def put_vs_def tracker_simps)

lemma has_vs_routes: "has_vs w c p vs \<Longrightarrow> has_vs (put_vs (upd_routes i f vs) w) c p (upd_routes i f vs)"
  by (intro has_put_vs(2) [where ?vs0.0 = vs] upd_routes_read has_vs_read) simp_all

lemma put_vs_twice: "vs_Meta vs = vs_Meta vs' \<Longrightarrow> put_vs vs (put_vs vs' w) = put_vs vs w"
  by (simp add: put_vs_def put_at_put_at)

lemma put_vs_simps [simp]:
  "cl_canaries (put_vs vs w) = cl_canaries w" "cl_deployments (put_vs vs w) = cl_deployments w"
  "cl_pods (put_vs vs w) = cl_pods w" "cl_policies (put_vs vs w) = cl_policies w"
  "cl_virtualservices (put_vs vs w) = put_at vs_Meta vs (cl_virtualservices w)"
  by (simp_all add: put_vs_def)

text \<open>What \<open>reconcileVirtualService\<close> first does with a queued phase.\<close>

definition canary_unqueued :: "Canary \<Rightarrow> Canary" where
  "canary_unqueued c =
     (if ph_Status (cst_Canary (cn_Status c)) = CanaryPhaseStatus_Queued
      then upd_canary (set_phase CanaryPhaseStatus_InProgress rerouting_message) c else c)"

definition canary_rerouted :: "Canary \<Rightarrow> Canary" where
  "canary_rerouted c =
     (if ph_Status (cst_Canary (cn_Status c)) = CanaryPhaseStatus_InProgress
      then upd_canary (set_phase CanaryPhaseStatus_Success rerouting_message) c else c)"

lemma canary_unqueued_simps [simp]:
  "cn_Meta (canary_unqueued c) = cn_Meta c" "cn_Spec (canary_unqueued c) = cn_Spec c"
  "progress (canary_unqueued c) = progress c"
  "cst_Judging (cn_Status (canary_unqueued c)) = cst_Judging (cn_Status c)"
  by (simp_all add: canary_unqueued_def)

lemma canary_rerouted_simps [simp]:
  "cn_Meta (canary_rerouted c) = cn_Meta c" "cn_Spec (canary_rerouted c) = cn_Spec c"
  "progress (canary_rerouted c) = progress c"
  "cst_Judging (cn_Status (canary_rerouted c)) = cst_Judging (cn_Status c)"
  by (simp_all add: canary_rerouted_def)

context canary_on_tracker begin

lemma run_unqueue:
  assumes "tracked w c p"
  shows "whenP (ph_Status (cst_Canary (cn_Status c)) = CanaryPhaseStatus_Queued)
      (putStatus R (upd_canary (set_phase CanaryPhaseStatus_InProgress rerouting_message))) (c, w)
    = (Ok (), (canary_unqueued c, save (canary_unqueued c) w))"
  using run_put [OF assms, of "upd_canary (set_phase CanaryPhaseStatus_InProgress rerouting_message)"] save_same [OF assms]
  by (simp add: canary_unqueued_def whenP_def run_simps del: run_putStatus)

lemma run_reroute:
  assumes "tracked w c p"
  shows "whenP (ph_Status (cst_Canary (cn_Status c)) = CanaryPhaseStatus_InProgress)
      (putStatus R (upd_canary (set_phase CanaryPhaseStatus_Success rerouting_message))) (c, w)
    = (Ok (), (canary_rerouted c, save (canary_rerouted c) w))"
  using run_put [OF assms, of "upd_canary (set_phase CanaryPhaseStatus_Success rerouting_message)"] save_same [OF assms]
  by (simp add: canary_rerouted_def whenP_def run_simps del: run_putStatus)

lemma run_get_vs:
  "tracked w c p \<Longrightarrow> has_vs w c p vs \<Longrightarrow>
   callP (api_get (virtualservices (client R)) \<lparr>nn_Namespace = canary_namespace c, nn_Name = cps_VirtualService (cpo_Spec p)\<rparr>) (m :: Canary, w)
     = (Ok vs, (m, w))"
  by (auto simp: run_simps fake fake_calls tracked_def has_vs_def vs_key_def tracker_simps)

lemma run_put_vs:
  assumes "tracked w c p" "has_vs w c p vs0" "vs_Meta vs = vs_Meta vs0"
  shows "callP (api_update (virtualservices (client R)) vs) (m :: Canary, w) = (Ok vs, (m, put_vs vs w))"
proof -
  have "metaKey (vs_Meta vs) = vs_key c p" using has_vs_key [OF assms(2)] assms(3) by simp
  moreover from this have "om_Namespace (vs_Meta vs) \<noteq> []" "om_Name (vs_Meta vs) \<noteq> []"
    using assms by (auto simp: metaKey_def vs_key_def tracked_def has_vs_def)
  moreover obtain raw where "find_key vs_Meta (cl_virtualservices w) (vs_key c p) = Some raw"
    using assms(2) by (auto simp: has_vs_def)
  ultimately have "api_update (virtualservices fakeClient) vs w = (Inr vs, put_vs vs w)"
    unfolding fakeClient_simps put_vs_def
    by (intro virtualservice_store.fake_put(1) [where y = raw])
       (use assms in \<open>simp_all add: tracked_def has_vs_def tracker_simps legal_key_def vs_key_def\<close>)
  then show ?thesis
    by (simp add: run_simps fake del: fakeClient_simps)
qed

text \<open>The route of the canary is not there yet: it is added.\<close>

lemma run_vs_add:
  assumes t: "tracked w c p" and pr: "progress c = CanaryProgress_Canary" and vs: "has_vs w c p vs"
    and r: "routed vs (cps_Service (cpo_Spec p)) i j h"
    and miss: "find_route (canary_name c) 0 (hr_Route h) = Ok (- 1)"
  shows "reconcileVirtualService R (c, w) =
    (let vs' = upd_routes i (add_canary_route (canary_name c) j) vs in
     (Ok (Some vs'), (canary_unqueued c, put_vs vs' (save (canary_unqueued c) w))))"
proof -
  let ?c = "canary_unqueued c"
  have t1: "tracked (save ?c w) ?c p" by (rule tracked_save [OF t]) simp_all
  have vs1: "has_vs (save ?c w) ?c p vs" using vs by (simp add: has_vs_def vs_key_def)
  show ?thesis
    using pr run_unqueue [OF t] run_policy [OF t1] run_get_vs [OF t1 vs1] r miss
      run_put_vs [OF t1 vs1, of "upd_routes i (add_canary_route (canary_name c) j) vs"]
    by (simp add: reconcileVirtualService_def run_prog run_control run_call(2,3) routed_def FindMatchingRouteInHttpRoute_def Let_def)
qed

text \<open>It is there: the phase is finished and the virtual service is left alone.\<close>

lemma run_vs_done:
  assumes t: "tracked w c p" and pr: "progress c = CanaryProgress_Canary" and vs: "has_vs w c p vs"
    and r: "routed vs (cps_Service (cpo_Spec p)) i j h"
    and hit: "find_route (canary_name c) 0 (hr_Route h) = Ok k" "k \<noteq> - 1"
  shows "reconcileVirtualService R (c, w) =
    (Ok None, (canary_rerouted (canary_unqueued c), save (canary_rerouted (canary_unqueued c)) w))"
proof -
  let ?c = "canary_unqueued c"
  have t1: "tracked (save ?c w) ?c p" by (rule tracked_save [OF t]) simp_all
  have vs1: "has_vs (save ?c w) ?c p vs" using vs by (simp add: has_vs_def vs_key_def)
  show ?thesis
    using pr run_unqueue [OF t] run_policy [OF t1] run_get_vs [OF t1 vs1] r hit run_reroute [OF t1]
    by (simp add: reconcileVirtualService_def run_prog run_control run_call(2,3) routed_def FindMatchingRouteInHttpRoute_def save_save)
qed

text \<open>The service of the policy is not routed: the controller waits.\<close>

lemma run_vs_wait:
  assumes t: "tracked w c p" and pr: "progress c = CanaryProgress_Canary" and vs: "has_vs w c p vs"
    and miss: "FindMatchingHttpAndRoute (cps_Service (cpo_Spec p)) vs = Ok (- 1, - 1)"
  shows "reconcileVirtualService R (c, w) = (Ok None, (canary_unqueued c, save (canary_unqueued c) w))"
proof -
  let ?c = "canary_unqueued c"
  have t1: "tracked (save ?c w) ?c p" by (rule tracked_save [OF t]) simp_all
  have vs1: "has_vs (save ?c w) ?c p vs" using vs by (simp add: has_vs_def vs_key_def)
  show ?thesis
    using pr run_unqueue [OF t] run_policy [OF t1] run_get_vs [OF t1 vs1] miss
    by (simp add: reconcileVirtualService_def run_prog run_control run_call(2,3))
qed

subsection \<open>Reporting\<close>

lemma run_reporting:
  assumes t: "tracked w c p" and pr: "progress c = CanaryProgress_Reporting"
    and st: "ph_Status (cst_Reporting (cn_Status c)) \<noteq> CanaryPhaseStatus_Success"
  shows "reconcileReporting R (c, w) = (Ok (), (upd_reporting (set_phase CanaryPhaseStatus_Success ''Reported'') c,
     save (upd_reporting (set_phase CanaryPhaseStatus_Success ''Reported'') c) w))"
  using pr st run_put [OF t, of "upd_reporting (set_phase CanaryPhaseStatus_Success ''Reported'')"]
  by (simp add: reconcileReporting_def ignoreError_def run_simps del: run_putStatus)

end

end
