(* ===== verification/CanaryLife.thy ===== *)
theory CanaryLife
  imports CanaryRuns
begin

text \<open>
  Whole runs of the canary controller on the in-memory cluster, one lemma per phase, and the
  life of a canary from its creation to the end of the cleanup.
\<close>

subsection \<open>Cleanup\<close>

lemma remove_key_absent: "find_key meta objs k = None \<Longrightarrow> remove_key meta k objs = objs"
  by (auto simp: remove_key_def find_key_None in_keys filter_id_conv)

definition drop_pod :: "NamespacedName \<Rightarrow> Cluster \<Rightarrow> Cluster" where
  "drop_pod k w = w\<lparr>cl_pods := remove_key pod_Meta k (cl_pods w)\<rparr>"

definition drop_deployment :: "NamespacedName \<Rightarrow> Cluster \<Rightarrow> Cluster" where
  "drop_deployment k w = w\<lparr>cl_deployments := remove_key dp_Meta k (cl_deployments w)\<rparr>"

lemma drop_simps [simp]:
  "cl_canaries (drop_pod k w) = cl_canaries w" "cl_policies (drop_pod k w) = cl_policies w"
  "cl_virtualservices (drop_pod k w) = cl_virtualservices w" "cl_deployments (drop_pod k w) = cl_deployments w"
  "cl_pods (drop_pod k w) = remove_key pod_Meta k (cl_pods w)"
  "cl_canaries (drop_deployment k w) = cl_canaries w" "cl_policies (drop_deployment k w) = cl_policies w"
  "cl_virtualservices (drop_deployment k w) = cl_virtualservices w" "cl_pods (drop_deployment k w) = cl_pods w"
  "cl_deployments (drop_deployment k w) = remove_key dp_Meta k (cl_deployments w)"
  by (simp_all add: drop_pod_def drop_deployment_def)

lemma tracked_drop:
  "tracked w c p \<Longrightarrow> tracked (drop_pod k w) c p" "tracked w c p \<Longrightarrow> tracked (drop_deployment k w) c p"
  by (simp_all add: drop_pod_def drop_deployment_def tracked_frame tracked_def tracker_simps)

lemma has_vs_drop [simp]:
  "has_vs (drop_pod k w) c p vs = has_vs w c p vs" "has_vs (drop_deployment k w) c p vs = has_vs w c p vs"
  "has_vs (save d w) c p vs = has_vs w c p vs"
  by (simp_all add: has_vs_def)

definition cleaned :: "Canary \<Rightarrow> Canary" where
  "cleaned = upd_cleanup (set_phase CanaryPhaseStatus_Success rerouting_message)"

lemma cleaned_simps [simp]:
  "cn_Meta (cleaned c) = cn_Meta c" "cn_Spec (cleaned c) = cn_Spec c"
  "cn_Status (cleaned c) = (cn_Status c)\<lparr>cst_Cleanup :=
     set_phase CanaryPhaseStatus_Success rerouting_message (cst_Cleanup (cn_Status c))\<rparr>"
  by (simp_all add: cleaned_def)

text \<open>The cluster without the three objects of a canary.\<close>

definition swept :: "Canary \<Rightarrow> Cluster \<Rightarrow> Cluster" where
  "swept c w =
     drop_deployment \<lparr>nn_Namespace = canary_namespace c, nn_Name = csd_Canary (csp_Deployments (cn_Spec c))\<rparr>
      (drop_pod \<lparr>nn_Namespace = canary_namespace c, nn_Name = GetJudgeJobName c\<rparr>
      (drop_pod \<lparr>nn_Namespace = canary_namespace c, nn_Name = GetTestJobname c\<rparr> w))"

context canary_on_tracker begin

lemma run_cleanup_pod:
  assumes "tracked w c p" "ns \<noteq> []" "n \<noteq> []" and k: "k = \<lparr>nn_Namespace = ns, nn_Name = n\<rparr>"
  shows "cleanupPod R n ns (c, w) = (Ok (), (c, drop_pod k w))"
proof (cases "find_key pod_Meta (cl_pods w) k")
  case None
  then have "remove_key pod_Meta k (cl_pods w) = cl_pods w" by (rule remove_key_absent)
  with None assms show ?thesis
    by (simp add: cleanupPod_def run_simps fake fake_calls tracked_def tracker_simps drop_pod_def)
next
  case (Some pod)
  then have "metaKey (pod_Meta pod) = k" by (simp add: find_key_in)
  with Some assms show ?thesis
    by (simp add: cleanupPod_def run_simps fake fake_calls tracked_def tracker_simps drop_pod_def)
qed

lemma run_cleanup_deployment:
  assumes "tracked w c p" "ns \<noteq> []" "n \<noteq> []" and k: "k = \<lparr>nn_Namespace = ns, nn_Name = n\<rparr>"
  shows "cleanupDeployment R n ns (c, w) = (Ok (), (c, drop_deployment k w))"
proof (cases "find_key dp_Meta (cl_deployments w) k")
  case None
  then have "remove_key dp_Meta k (cl_deployments w) = cl_deployments w" by (rule remove_key_absent)
  with None assms show ?thesis
    by (simp add: cleanupDeployment_def run_simps fake fake_calls tracked_def tracker_simps drop_deployment_def)
next
  case (Some d)
  then have "metaKey (dp_Meta d) = k" by (simp add: find_key_in)
  with Some assms show ?thesis
    by (simp add: cleanupDeployment_def run_simps fake fake_calls tracked_def tracker_simps drop_deployment_def)
qed

lemma run_cleanup_routes:
  assumes t: "tracked w c p" and vs: "has_vs w c p vs" and r: "routed vs (cps_Service (cpo_Spec p)) i j h"
    and k: "find_route (canary_name c) 0 (hr_Route h) = Ok k" "k \<noteq> - 1"
  shows "cleanup_routes R p (c, w) = (Ok (), (c, put_vs (upd_routes i (remove_canary_route j (nat k)) vs) w))"
  using run_get_vs [OF t vs] run_put_vs [OF t vs, of "upd_routes i (remove_canary_route j (nat k)) vs"] r k
  by (simp add: cleanup_routes_def run_prog run_control run_call(2,3) routed_def FindMatchingRouteInHttpRoute_def)

lemma run_cleanup_no_route:
  assumes t: "tracked w c p" and vs: "has_vs w c p vs" and r: "routed vs (cps_Service (cpo_Spec p)) i j h"
    and k: "find_route (canary_name c) 0 (hr_Route h) = Ok (- 1)"
  shows "cleanup_routes R p (c, w) = (Ok (), (c, w))"
  using run_get_vs [OF t vs] r k
  by (simp add: cleanup_routes_def run_prog run_control run_call(2,3) routed_def FindMatchingRouteInHttpRoute_def)

lemma tracked_swept: "tracked w c p \<Longrightarrow> tracked (swept c w) c p"
  by (simp add: swept_def tracked_drop)

lemma run_cleanup:
  assumes t: "tracked w c p" and pr: "progress c = CanaryProgress_Cleanup"
    and st: "ph_Status (cst_Cleanup (cn_Status c)) \<noteq> CanaryPhaseStatus_Success"
    and d: "csd_Canary (csp_Deployments (cn_Spec c)) \<noteq> []"
    and routes: "cleanup_routes R p (c, swept c w) = (Ok (), (c, w'))" and t': "tracked w' c p"
  shows "reconcileCleanup R (c, w) = (Ok (), (cleaned c, save (cleaned c) w'))"
proof -
  let ?tk = "\<lparr>nn_Namespace = canary_namespace c, nn_Name = GetTestJobname c\<rparr>"
  let ?jk = "\<lparr>nn_Namespace = canary_namespace c, nn_Name = GetJudgeJobName c\<rparr>"
  let ?dk = "\<lparr>nn_Namespace = canary_namespace c, nn_Name = csd_Canary (csp_Deployments (cn_Spec c))\<rparr>"
  have ns: "canary_namespace c \<noteq> []" using t by (simp add: tracked_def)
  have "cleanupPod R (GetTestJobname c) (canary_namespace c) (c, w) = (Ok (), (c, drop_pod ?tk w))"
    using ns by (intro run_cleanup_pod [OF t]) simp_all
  moreover have "cleanupPod R (GetJudgeJobName c) (canary_namespace c) (c, drop_pod ?tk w)
      = (Ok (), (c, drop_pod ?jk (drop_pod ?tk w)))"
    using ns by (intro run_cleanup_pod [OF tracked_drop(1) [OF t]]) simp_all
  moreover have "cleanupDeployment R (csd_Canary (csp_Deployments (cn_Spec c))) (canary_namespace c)
      (c, drop_pod ?jk (drop_pod ?tk w)) = (Ok (), (c, swept c w))"
    using ns d unfolding swept_def
    by (intro run_cleanup_deployment [OF tracked_drop(1) [OF tracked_drop(1) [OF t]]]) simp_all
  moreover have "putStatus R (upd_cleanup (set_phase CanaryPhaseStatus_Success rerouting_message)) (c, w')
      = (Ok (), (cleaned c, save (cleaned c) w'))"
    unfolding cleaned_def by (rule run_put [OF t']) simp
  ultimately show ?thesis
    using pr st run_policy [OF t] routes
    by (simp add: reconcileCleanup_def ignoreError_def run_prog run_control run_call(2,3))
qed

end

subsection \<open>One run, by phase\<close>

text \<open>The transition at the end of a run.\<close>

definition transition :: "Canary \<Rightarrow> Canary" where
  "transition c = (if phase_done (cn_Status c) then advance c else c)"

lemma transition_simps [simp]:
  "cn_Meta (transition c) = cn_Meta c" "cn_Spec (transition c) = cn_Spec c"
  by (simp_all add: transition_def)

lemma progress_initialized [simp]: "progress (initialized c) = progress c"
  by simp

lemma available_save [simp]: "available (save d w) c = available w c"
  by (simp add: available_def)

context canary_on_tracker begin

text \<open>The end of a run, after the step that belongs to the phase.\<close>

lemma end_of_run:
  assumes "tracked w c p"
  shows "orFallbackCanary (ReconcilePhaseStatus R) (retP (requeue_after_5s, None)) (c, w)
    = (Ok (requeue_after_5s, None), (transition c, save (transition c) w))"
  using run_phase [OF assms] by (simp add: orFallbackCanary_def run_prog transition_def Let_def)

lemma skip_step:
  "p s = (Ok x, s') \<Longrightarrow> orFallbackCanary p k s = k s'"
  by (simp add: orFallbackCanary_def run_prog)

lemma reconcile_run:
  assumes t: "tracked w c p" and a: "available w c" and pr: "progress c \<noteq> CanaryProgress_Cleanup"
    and rest: "afterInit jf R (initialized c, save (initialized c) w) = (r, (c', w'))"
  shows "ReconcileCanary_Reconcile jf R (metaKey (cn_Meta c)) w = (r, w')"
  using run_fetch [OF t] run_available [OF t a pr] rest
  by (simp add: ReconcileCanary_Reconcile_def canarySteps_def skip_step run_prog run_run run_control run_call(2,3))

text \<open>A new canary, and one whose deployments have become available.\<close>

lemma run_idle:
  assumes t: "tracked w c p" and a: "available w c"
    and pr: "progress c \<in> {CanaryProgress_Unset, CanaryProgress_Initializing}"
  shows "ReconcileCanary_Reconcile jf R (metaKey (cn_Meta c)) w
    = (Ok (requeue_after_5s, None), save (transition (initialized c)) w)"
proof (rule reconcile_run [OF t a])
  let ?c = "initialized c" and ?w = "save (initialized c) w"
  have t1: "tracked ?w ?c p" by (rule tracked_save [OF t]) simp_all
  have "progress ?c \<noteq> CanaryProgress_Testing" "progress ?c \<noteq> CanaryProgress_Canary"
    "progress ?c \<noteq> CanaryProgress_Reporting" "progress ?c \<noteq> CanaryProgress_Cleanup"
    using pr by auto
  then show "afterInit jf R (?c, ?w) = (Ok (requeue_after_5s, None), (transition ?c, save (transition ?c) w))"
    by (simp add: afterInit_def skip_step run_skips(1) run_skips(2) run_skips(3)
        run_skips(4) run_skips(5) end_of_run [OF t1] save_save)
qed (use pr in auto)

text \<open>Testing: the two jobs, then nothing until the transition.\<close>

lemma run_testing:
  assumes t: "tracked w c p" and a: "available w c" and pr: "progress c = CanaryProgress_Testing"
    and test: "reconcileTestJob R (initialized c, save (initialized c) w) = (Ok x, (c1, w1))"
    and judge: "reconcileJudgeJob jf R (c1, w1) = (Ok y, (c2, w2))"
    and t2: "tracked w2 c2 p" and pr2: "progress c2 = CanaryProgress_Testing"
  shows "ReconcileCanary_Reconcile jf R (metaKey (cn_Meta c)) w
    = (Ok (requeue_after_5s, None), save (transition c2) w2)"
proof (rule reconcile_run [OF t a])
  show "afterInit jf R (initialized c, save (initialized c) w)
      = (Ok (requeue_after_5s, None), (transition c2, save (transition c2) w2))"
    by (simp add: afterInit_def skip_step test judge run_skips(3) run_skips(4)
        run_skips(5) end_of_run [OF t2] pr2)
qed (use pr in auto)

text \<open>Canary: the judge's report and the routing.\<close>

lemma run_canary:
  assumes t: "tracked w c p" and a: "available w c" and pr: "progress c = CanaryProgress_Canary"
    and judge: "reconcileJudgeJob jf R (initialized c, save (initialized c) w) = (Ok x, (c1, w1))"
    and vs: "reconcileVirtualService R (c1, w1) = (Ok y, (c2, w2))"
    and t2: "tracked w2 c2 p" and pr2: "progress c2 = CanaryProgress_Canary"
  shows "ReconcileCanary_Reconcile jf R (metaKey (cn_Meta c)) w
    = (Ok (requeue_after_5s, None), save (transition c2) w2)"
proof (rule reconcile_run [OF t a])
  have "reconcileTestJob R (initialized c, save (initialized c) w)
      = (Ok None, (initialized c, save (initialized c) w))"
    by (rule run_skips(1)) (use pr in simp)
  then show "afterInit jf R (initialized c, save (initialized c) w)
      = (Ok (requeue_after_5s, None), (transition c2, save (transition c2) w2))"
    by (simp add: afterInit_def skip_step judge vs run_skips(4)
        run_skips(5) end_of_run [OF t2] pr2)
qed (use pr in auto)

text \<open>Reporting and cleanup.\<close>

lemma run_reporting_phase:
  assumes t: "tracked w c p" and a: "available w c" and pr: "progress c = CanaryProgress_Reporting"
    and st: "ph_Status (cst_Reporting (cn_Status c)) \<noteq> CanaryPhaseStatus_Success"
  shows "ReconcileCanary_Reconcile jf R (metaKey (cn_Meta c)) w = (Ok (requeue_after_5s, None),
     save (advance (upd_reporting (set_phase CanaryPhaseStatus_Success ''Reported'') (initialized c))) w)"
proof (rule reconcile_run [OF t a])
  let ?c = "initialized c" and ?w = "save (initialized c) w"
  let ?d = "upd_reporting (set_phase CanaryPhaseStatus_Success ''Reported'') ?c"
  have t1: "tracked ?w ?c p" by (rule tracked_save [OF t]) simp_all
  have t2: "tracked (save ?d w) ?d p" by (rule tracked_save [OF t]) simp_all
  have rep: "reconcileReporting R (?c, ?w) = (Ok (), (?d, save ?d w))"
    using pr st run_reporting [OF t1] by (simp add: save_save)
  have adv: "transition ?d = advance ?d"
    using pr by (simp add: transition_def phase_done_def)
  show "afterInit jf R (?c, ?w) = (Ok (requeue_after_5s, None), (advance ?d, save (advance ?d) w))"
    using pr
    by (simp add: afterInit_def skip_step run_skips(1) run_skips(2) run_skips(3)
        rep run_skips(5) end_of_run [OF t2] adv save_save)
qed (use pr in auto)

lemma run_cleanup_phase:
  assumes t: "tracked w c p" and pr: "progress c = CanaryProgress_Cleanup"
    and ini: "ph_Status (cst_Initialization (cn_Status c)) \<noteq> CanaryPhaseStatus_InProgress"
    and clean: "reconcileCleanup R (c, w) = (Ok (), (c1, w1))"
    and t1: "tracked w1 c1 p" and pr1: "progress c1 = CanaryProgress_Cleanup"
  shows "ReconcileCanary_Reconcile jf R (metaKey (cn_Meta c)) w = (Ok (requeue_after_5s, None), w1)"
proof -
  have "transition c1 = c1"
    using pr1 by (simp add: transition_def phase_done_def)
  then have "afterInit jf R (c, w) = (Ok (requeue_after_5s, None), (c1, w1))"
    using pr by (simp add: afterInit_def skip_step run_skips(1) run_skips(2)
        run_skips(3) run_skips(4) clean end_of_run [OF t1] save_same [OF t1])
  then show ?thesis
    using run_fetch [OF t] run_cleanup_skips_init [OF pr] ini
    by (simp add: ReconcileCanary_Reconcile_def canarySteps_def skip_step run_prog run_run run_control run_call(2,3))
qed

text \<open>A canary that has been cleaned up stays as it is.\<close>

lemma run_finished:
  assumes t: "tracked w c p" and pr: "progress c = CanaryProgress_Cleanup"
    and ini: "ph_Status (cst_Initialization (cn_Status c)) \<noteq> CanaryPhaseStatus_InProgress"
    and st: "ph_Status (cst_Cleanup (cn_Status c)) = CanaryPhaseStatus_Success"
  shows "ReconcileCanary_Reconcile jf R (metaKey (cn_Meta c)) w = (Ok (requeue_after_5s, None), w)"
  by (rule run_cleanup_phase [OF t pr ini _ t pr]) (use pr st in \<open>simp add: reconcileCleanup_def run_prog run_control run_call(2,3)\<close>)

end

subsection \<open>The stages of a canary's life\<close>

definition round :: "json_float \<Rightarrow> 'w Reconciler \<Rightarrow> NamespacedName \<Rightarrow> 'w \<Rightarrow> 'w" where
  "round jf R nn w = snd (ReconcileCanary_Reconcile jf R nn w)"

text \<open>A run that answers as a run should: again in five seconds, without an error.\<close>

definition turn :: "json_float \<Rightarrow> 'w Reconciler \<Rightarrow> NamespacedName \<Rightarrow> 'w \<Rightarrow> 'w option" where
  "turn jf R nn w =
     (case ReconcileCanary_Reconcile jf R nn w of
        (r, w') \<Rightarrow> if r = Ok (requeue_after_5s, None) then Some w' else None)"

primrec turns :: "json_float \<Rightarrow> 'w Reconciler \<Rightarrow> NamespacedName \<Rightarrow> nat \<Rightarrow> 'w \<Rightarrow> 'w option" where
  "turns jf R nn 0 w = Some w"
| "turns jf R nn (Suc n) w = (case turn jf R nn w of None \<Rightarrow> None | Some w' \<Rightarrow> turns jf R nn n w')"

lemma turn_run: "turn jf R nn w = Some w' \<longleftrightarrow> ReconcileCanary_Reconcile jf R nn w = (Ok (requeue_after_5s, None), w')"
  by (auto simp: turn_def split: prod.splits if_splits)

lemma turns_rounds: "turns jf R nn n w = Some w' \<Longrightarrow> (round jf R nn ^^ n) w = w'"
proof (induction n arbitrary: w)
  case (Suc n)
  then obtain v where "turn jf R nn w = Some v" "turns jf R nn n v = Some w'" by (auto split: option.splits)
  with Suc.IH [of v] show ?case by (simp add: turn_run round_def funpow_Suc_right del: funpow.simps)
qed simp

text \<open>The same canary, with another status.\<close>

definition sameness :: "Canary \<Rightarrow> Canary \<Rightarrow> bool" where
  "sameness c d \<longleftrightarrow> cn_Meta d = cn_Meta c \<and> cn_Spec d = cn_Spec c"

lemma sameness_trans: "sameness c d \<Longrightarrow> sameness d e \<Longrightarrow> sameness c e"
  by (simp add: sameness_def)

lemma sameness_fields:
  assumes "sameness c d"
  shows "cn_Meta d = cn_Meta c" "cn_Spec d = cn_Spec c"
    "GetTestJobname d = GetTestJobname c" "GetJudgeJobName d = GetJudgeJobName c"
    "available w d = available w c" "vs_key d p = vs_key c p" "has_vs w d p = has_vs w c p"
  using assms
  by (auto simp: sameness_def GetTestJobname_def GetJudgeJobName_def available_def vs_key_def has_vs_def fun_eq_iff)

lemma tracked_same: "tracked w c p \<Longrightarrow> sameness c d \<Longrightarrow> tracked (save d w) d p"
  by (rule tracked_save) (simp_all add: sameness_def)

lemma create_cong:
  assumes "sameness c d"
  shows "CreateTestJob R d p = CreateTestJob R c p" "CreateJudgeJob jf R d p = CreateJudgeJob jf R c p"
  using assms
  by (simp_all add: CreateTestJob_def CreateJudgeJob_def own_pod_def job_pod_def test_envs_def judge_envs_def
      sameness_fields Let_def)

definition test_pod_of :: "Cluster \<Rightarrow> Canary \<Rightarrow> Pod option" where
  "test_pod_of w c = find_key pod_Meta (cl_pods w) \<lparr>nn_Namespace = canary_namespace c, nn_Name = GetTestJobname c\<rparr>"

definition judge_pod_of :: "Cluster \<Rightarrow> Canary \<Rightarrow> Pod option" where
  "judge_pod_of w c = find_key pod_Meta (cl_pods w) \<lparr>nn_Namespace = canary_namespace c, nn_Name = GetJudgeJobName c\<rparr>"

text \<open>The canary after the reports of both jobs.\<close>

definition reported :: "CanaryPhaseStatus \<times> string \<Rightarrow> CanaryPhaseStatus \<times> string \<Rightarrow> Canary \<Rightarrow> Canary" where
  "reported t j c = upd_judging (set_phase (fst j) (snd j)) (upd_testing (set_phase (fst t) (snd t)) (initialized c))"

lemma reported_simps [simp]:
  "cn_Meta (reported t j c) = cn_Meta c" "cn_Spec (reported t j c) = cn_Spec c"
  "progress (reported t j c) = progress c"
  "ph_Status (cst_Testing (cn_Status (reported t j c))) = fst t"
  "ph_Status (cst_Judging (cn_Status (reported t j c))) = fst j"
  by (simp_all add: reported_def)

lemma reported_again [simp]: "reported t j (reported t j c) = reported t j c"
  by (simp add: reported_def upd_defs initialized_def set_phase_def)

context canary_on_tracker begin

lemma stage_idle:
  assumes "tracked w c p" "available w c" "progress c \<in> {CanaryProgress_Unset, CanaryProgress_Initializing}"
  shows "\<exists>d. turn jf R (metaKey (cn_Meta c)) w = Some (save d w) \<and> sameness c d \<and>
    progress d = next_progress (progress c)"
proof (intro exI conjI)
  show "turn jf R (metaKey (cn_Meta c)) w = Some (save (transition (initialized c)) w)"
    by (simp add: turn_def run_idle [OF assms])
  show "progress (transition (initialized c)) = next_progress (progress c)"
    using assms(3) by (auto simp: transition_def phase_done_def)
qed (simp add: sameness_def)

lemma stage_start:
  assumes t: "tracked w c p" and a: "available w c" and pr: "progress c = CanaryProgress_Testing"
    and none: "test_pod_of w c = None" "judge_pod_of w c = None"
    and pods: "CreateTestJob R c p = Ok tp" "CreateJudgeJob jf R c p = Ok jp"
  shows "turn jf R (metaKey (cn_Meta c)) w =
      Some (save (upd_judging (started (GetJudgeJobName c)) (upd_testing (started (GetTestJobname c)) (initialized c)))
        (w\<lparr>cl_pods := cl_pods w @ [tp, jp]\<rparr>))"
proof -
  let ?c1 = "upd_testing (started (GetTestJobname c)) (initialized c)"
  let ?c2 = "upd_judging (started (GetJudgeJobName c)) ?c1"
  let ?w1 = "save ?c1 (w\<lparr>cl_pods := cl_pods w @ [tp]\<rparr>)"
  let ?w2 = "save ?c2 (w\<lparr>cl_pods := cl_pods w @ [tp, jp]\<rparr>)"
  have s: "sameness c (initialized c)" "sameness c ?c1" "sameness c ?c2" by (simp_all add: sameness_def)
  have keys: "metaKey (pod_Meta tp) = \<lparr>nn_Namespace = canary_namespace c, nn_Name = GetTestJobname c\<rparr>"
    "metaKey (pod_Meta jp) = \<lparr>nn_Namespace = canary_namespace c, nn_Name = GetJudgeJobName c\<rparr>"
    using created_job_key pods by blast+
  have t1: "tracked (save (initialized c) w) (initialized c) p" by (rule tracked_same [OF t s(1)])
  have "distinct (keys pod_Meta (cl_pods w @ [tp]))"
    using t none keys by (simp add: tracked_def tracker_simps test_pod_of_def)
  moreover have "distinct (keys pod_Meta ((cl_pods w @ [tp]) @ [jp]))"
    using calculation none keys job_names_differ [of c]
    by (simp only: distinct_keys_append find_key_append) (simp add: judge_pod_of_def)
  ultimately have tw: "tracked (w\<lparr>cl_pods := cl_pods w @ [tp]\<rparr>) c p"
    "tracked (w\<lparr>cl_pods := cl_pods w @ [tp, jp]\<rparr>) c p"
    using tracked_frame(1) [OF t] by simp_all
  have "reconcileTestJob R (initialized c, save (initialized c) w) = (Ok (Some tp), (?c1, ?w1))"
    using run_test_create [OF t1, of tp] pr none(1) pods(1) sameness_fields [OF s(1)]
    by (simp add: test_pod_of_def save_save create_cong [OF s(1)])
  moreover have "reconcileJudgeJob jf R (?c1, ?w1) = (Ok (Some jp), (?c2, ?w2))"
    using run_judge_create [OF tracked_same [OF tw(1) s(2)], where pod = jp and jf = jf] pr none(2) pods(2)
      sameness_fields [OF s(2)] keys job_names_differ [of c]
    by (simp add: judge_pod_of_def save_save find_key_append create_cong [OF s(2)])
  ultimately have "ReconcileCanary_Reconcile jf R (metaKey (cn_Meta c)) w
      = (Ok (requeue_after_5s, None), save (transition ?c2) ?w2)"
    using run_testing [OF t a pr] tracked_same [OF tw(2) s(3)] pr by simp
  moreover have "transition ?c2 = ?c2"
    using pr by (simp add: transition_def phase_done_def)
  ultimately show ?thesis
    by (simp add: turn_def save_save)
qed

lemma stage_test:
  assumes t: "tracked w c p" and a: "available w c" and pr: "progress c = CanaryProgress_Testing"
    and pods: "test_pod_of w c = Some tp" "judge_pod_of w c = Some jp"
  shows "turn jf R (metaKey (cn_Meta c)) w
    = Some (save (transition (reported (job_report tp ''testjob'') (job_report jp ''judge'') c)) w)"
proof -
  let ?t = "job_report tp ''testjob''" and ?j = "job_report jp ''judge''"
  let ?c1 = "upd_testing (set_phase (fst ?t) (snd ?t)) (initialized c)"
  have s: "sameness c (initialized c)" "sameness c ?c1" "sameness c (reported ?t ?j c)" by (simp_all add: sameness_def)
  have "reconcileTestJob R (initialized c, save (initialized c) w) = (Ok (Some tp), (?c1, save ?c1 w))"
    using run_test_report [OF tracked_same [OF t s(1)], where pod = tp] pr pods sameness_fields [OF s(1)]
    by (simp add: save_save test_pod_of_def)
  moreover have "reconcileJudgeJob jf R (?c1, save ?c1 w) = (Ok (Some jp), (reported ?t ?j c, save (reported ?t ?j c) w))"
    using run_judge_report [OF tracked_same [OF t s(2)], where pod = jp and jf = jf] pr pods sameness_fields [OF s(2)]
    by (simp add: save_save judge_pod_of_def reported_def)
  ultimately show ?thesis
    using run_testing [OF t a pr] tracked_same [OF t s(3)] pr
    by (simp add: turn_def save_save)
qed

lemma judge_step:
  assumes t: "tracked w c p" and pr: "progress c = CanaryProgress_Canary" and jp: "judge_pod_of w c = Some jp"
  shows "reconcileJudgeJob jf R (initialized c, save (initialized c) w) =
    (let d = upd_judging (set_phase (fst (job_report jp ''judge'')) (snd (job_report jp ''judge''))) (initialized c)
     in (Ok (Some jp), (d, save d w)))"
proof -
  have s: "sameness c (initialized c)" by (simp add: sameness_def)
  show ?thesis
    using run_judge_report [OF tracked_same [OF t s], where pod = jp and jf = jf] pr jp sameness_fields(4) [OF s]
    by (simp add: save_save judge_pod_of_def Let_def)
qed

lemma stage_reroute:
  assumes t: "tracked w c p" and a: "available w c" and pr: "progress c = CanaryProgress_Canary"
    and st: "ph_Status (cst_Canary (cn_Status c)) = CanaryPhaseStatus_Queued"
    and jp: "judge_pod_of w c = Some jp" and vs: "has_vs w c p vs"
    and r: "routed vs (cps_Service (cpo_Spec p)) i j h"
    and miss: "find_route (canary_name c) 0 (hr_Route h) = Ok (- 1)"
  shows "\<exists>d. turn jf R (metaKey (cn_Meta c)) w =
       Some (put_vs (upd_routes i (add_canary_route (canary_name c) j) vs) (save d w)) \<and>
     sameness c d \<and> progress d = CanaryProgress_Canary \<and>
     ph_Status (cst_Canary (cn_Status d)) = CanaryPhaseStatus_InProgress"
proof -
  let ?c1 = "upd_judging (set_phase (fst (job_report jp ''judge'')) (snd (job_report jp ''judge''))) (initialized c)"
  let ?d = "canary_unqueued ?c1" and ?vs = "upd_routes i (add_canary_route (canary_name c) j) vs"
  have s: "sameness c ?c1" "sameness c ?d" by (simp_all add: sameness_def)
  have d: "ph_Status (cst_Canary (cn_Status ?d)) = CanaryPhaseStatus_InProgress" "progress ?d = CanaryProgress_Canary"
    using st pr by (simp_all add: canary_unqueued_def)
  then have "transition ?d = ?d"
    by (simp add: transition_def phase_done_def)
  moreover have "reconcileVirtualService R (?c1, save ?c1 w) = (Ok (Some ?vs), (?d, put_vs ?vs (save ?d w)))"
    using run_vs_add [OF tracked_same [OF t s(1)], where vs = vs and i = i and j = j and h = h] pr vs r miss
    by (simp add: Let_def save_save sameness_fields [OF s(1)])
  moreover have "tracked (put_vs ?vs (save ?d w)) ?d p"
    by (rule tracked_put_vs [OF tracked_same [OF t s(2)]])
  moreover have "save ?d (put_vs ?vs (save ?d w)) = put_vs ?vs (save ?d w)"
    using calculation(3) by (rule save_same)
  ultimately have "turn jf R (metaKey (cn_Meta c)) w = Some (put_vs ?vs (save ?d w))"
    using run_canary [OF t a pr, of jf _ ?c1 "save ?c1 w"] judge_step [OF t pr jp] d
    by (simp add: turn_def Let_def)
  with d s(2) show ?thesis by blast
qed

lemma stage_judged:
  assumes t: "tracked w c p" and a: "available w c" and pr: "progress c = CanaryProgress_Canary"
    and st: "ph_Status (cst_Canary (cn_Status c)) = CanaryPhaseStatus_InProgress"
    and jp: "judge_pod_of w c = Some jp" and vs: "has_vs w c p vs"
    and r: "routed vs (cps_Service (cpo_Spec p)) i j h"
    and hit: "find_route (canary_name c) 0 (hr_Route h) = Ok k" "k \<noteq> - 1"
    and verdict: "fst (job_report jp ''judge'') \<in> {CanaryPhaseStatus_Success, CanaryPhaseStatus_Failure}"
  shows "\<exists>d. turn jf R (metaKey (cn_Meta c)) w = Some (save d w) \<and> sameness c d \<and>
     progress d = CanaryProgress_Reporting \<and>
     ph_Status (cst_Judging (cn_Status d)) = fst (job_report jp ''judge'') \<and>
     ph_Status (cst_Reporting (cn_Status d)) = CanaryPhaseStatus_Queued"
proof -
  let ?c1 = "upd_judging (set_phase (fst (job_report jp ''judge'')) (snd (job_report jp ''judge''))) (initialized c)"
  let ?d = "canary_rerouted (canary_unqueued ?c1)"
  have s: "sameness c ?c1" "sameness c ?d" by (simp_all add: sameness_def)
  have d: "ph_Status (cst_Canary (cn_Status ?d)) = CanaryPhaseStatus_Success" "progress ?d = CanaryProgress_Canary"
     "ph_Status (cst_Judging (cn_Status ?d)) = fst (job_report jp ''judge'')"
    using st pr by (simp_all add: canary_unqueued_def canary_rerouted_def)
  then have tr: "transition ?d = advance ?d"
    using verdict by (simp add: transition_def phase_done_def)
  have "reconcileVirtualService R (?c1, save ?c1 w) = (Ok None, (?d, save ?d w))"
    using run_vs_done [OF tracked_same [OF t s(1)], where vs = vs and i = i and j = j and h = h and k = k] pr vs r hit
    by (simp add: Let_def save_save sameness_fields [OF s(1)])
  then have "turn jf R (metaKey (cn_Meta c)) w = Some (save (advance ?d) w)"
    using run_canary [OF t a pr, of jf _ ?c1 "save ?c1 w"] judge_step [OF t pr jp] d tr tracked_same [OF t s(2)]
    by (simp add: turn_def Let_def save_save)
  moreover have "progress (advance ?d) = CanaryProgress_Reporting"
     "ph_Status (cst_Judging (cn_Status (advance ?d))) = fst (job_report jp ''judge'')"
     "ph_Status (cst_Reporting (cn_Status (advance ?d))) = CanaryPhaseStatus_Queued"
    using d by (simp_all add: advance_def Let_def)
  moreover have "sameness c (advance ?d)" using s(2) by (simp add: sameness_def)
  ultimately show ?thesis by blast
qed

lemma stage_report:
  assumes t: "tracked w c p" and a: "available w c" and pr: "progress c = CanaryProgress_Reporting"
    and st: "ph_Status (cst_Reporting (cn_Status c)) = CanaryPhaseStatus_Queued"
  shows "\<exists>d. turn jf R (metaKey (cn_Meta c)) w = Some (save d w) \<and> sameness c d \<and>
     progress d = CanaryProgress_Cleanup \<and> cst_Judging (cn_Status d) = cst_Judging (cn_Status c) \<and>
     ph_Status (cst_Cleanup (cn_Status d)) = CanaryPhaseStatus_Queued \<and>
     ph_Status (cst_Initialization (cn_Status d)) = CanaryPhaseStatus_Success"
  using run_reporting_phase [OF t a pr, of jf] pr st
  by (intro exI [of _ "advance (upd_reporting (set_phase CanaryPhaseStatus_Success ''Reported'') (initialized c))"])
     (simp add: turn_def sameness_def advance_def Let_def)

lemma stage_cleanup:
  assumes t: "tracked w c p" and pr: "progress c = CanaryProgress_Cleanup"
    and st: "ph_Status (cst_Cleanup (cn_Status c)) = CanaryPhaseStatus_Queued"
      "ph_Status (cst_Initialization (cn_Status c)) = CanaryPhaseStatus_Success"
    and d: "csd_Canary (csp_Deployments (cn_Spec c)) \<noteq> []"
    and vs: "has_vs w c p vs" and r: "routed vs (cps_Service (cpo_Spec p)) i j h"
    and hit: "find_route (canary_name c) 0 (hr_Route h) = Ok k" "k \<noteq> - 1"
  shows "turn jf R (metaKey (cn_Meta c)) w =
    Some (save (cleaned c) (put_vs (upd_routes i (remove_canary_route j (nat k)) vs) (swept c w)))"
proof -
  let ?w = "put_vs (upd_routes i (remove_canary_route j (nat k)) vs) (swept c w)"
  have vs': "has_vs (swept c w) c p vs" using vs by (simp add: swept_def)
  have t': "tracked ?w c p" by (rule tracked_put_vs [OF tracked_swept [OF t]])
  have "reconcileCleanup R (c, w) = (Ok (), (cleaned c, save (cleaned c) ?w))"
    using run_cleanup [OF t pr _ d run_cleanup_routes [OF tracked_swept [OF t] vs' r hit] t'] st by simp
  then show ?thesis
    using run_cleanup_phase [OF t pr, of "cleaned c" "save (cleaned c) ?w" jf] st pr
      tracked_save [OF t', of "cleaned c"]
    by (simp add: turn_def)
qed

end

subsection \<open>The environment: jobs end\<close>

text \<open>The kubelet reports that the container of a job has terminated.\<close>

definition terminated :: "string \<Rightarrow> int32 \<Rightarrow> Pod \<Rightarrow> Pod" where
  "terminated name code pod = pod\<lparr>pod_ContainerStatuses :=
     [\<lparr>cs_Name = name, cs_State = \<lparr>st_Waiting = None, st_Running = None,
       st_Terminated = Some \<lparr>cst_ExitCode = code, cst_rest = []\<rparr>\<rparr>, cs_rest = []\<rparr>]\<rparr>"

definition exit_pod :: "Canary \<Rightarrow> int32 \<Rightarrow> int32 \<Rightarrow> Pod \<Rightarrow> Pod" where
  "exit_pod c tcode jcode pod =
     (if metaKey (pod_Meta pod) = \<lparr>nn_Namespace = canary_namespace c, nn_Name = GetTestJobname c\<rparr>
      then terminated ''testjob'' tcode pod
      else if metaKey (pod_Meta pod) = \<lparr>nn_Namespace = canary_namespace c, nn_Name = GetJudgeJobName c\<rparr>
      then terminated ''judge'' jcode pod else pod)"

definition jobs_exit :: "Canary \<Rightarrow> int32 \<Rightarrow> int32 \<Rightarrow> Cluster \<Rightarrow> Cluster" where
  "jobs_exit c tcode jcode w = w\<lparr>cl_pods := map (exit_pod c tcode jcode) (cl_pods w)\<rparr>"

lemma exit_pod_meta [simp]: "pod_Meta (exit_pod c a b pod) = pod_Meta pod"
  by (simp add: exit_pod_def terminated_def)

lemma terminated_report:
  "job_report (terminated name code pod) name =
     (if code = 0 then (CanaryPhaseStatus_Success, ''Job finished successfully'')
      else (CanaryPhaseStatus_Failure, ''Job failed''))"
  by (subst job_report_terminal [where t = "\<lparr>cst_ExitCode = code, cst_rest = []\<rparr>"])
     (simp_all add: GetContainerTerminalState_def terminated_def)

lemma find_key_map:
  "(\<And>x. meta (f x) = meta x) \<Longrightarrow> find_key meta (map f objs) k = map_option f (find_key meta objs k)"
  by (induction objs) auto

lemma find_key_append2:
  "find_key meta (objs @ ys) k = (case find_key meta objs k of Some y \<Rightarrow> Some y | None \<Rightarrow> find_key meta ys k)"
  by (induction objs) auto

lemma keys_map: "(\<And>x. meta (f x) = meta x) \<Longrightarrow> keys meta (map f objs) = keys meta objs"
  by (simp add: keys_def)

lemma exit_absent:
  assumes "find_key pod_Meta ps \<lparr>nn_Namespace = canary_namespace c, nn_Name = GetTestJobname c\<rparr> = None"
    and "find_key pod_Meta ps \<lparr>nn_Namespace = canary_namespace c, nn_Name = GetJudgeJobName c\<rparr> = None"
  shows "map (exit_pod c a b) ps = ps"
  using assms by (auto simp: find_key_None in_keys exit_pod_def intro!: map_idI)

lemma remove_key_append:
  "remove_key meta k (objs @ [x]) = remove_key meta k objs @ (if metaKey (meta x) = k then [] else [x])"
  by (simp add: remove_key_def)

text \<open>Sweeping undoes the creation of the two pods, whatever they reported.\<close>

lemma sweep_jobs:
  assumes none: "find_key pod_Meta ps \<lparr>nn_Namespace = canary_namespace c, nn_Name = GetTestJobname c\<rparr> = None"
      "find_key pod_Meta ps \<lparr>nn_Namespace = canary_namespace c, nn_Name = GetJudgeJobName c\<rparr> = None"
    and keys: "metaKey (pod_Meta tp) = \<lparr>nn_Namespace = canary_namespace c, nn_Name = GetTestJobname c\<rparr>"
      "metaKey (pod_Meta jp) = \<lparr>nn_Namespace = canary_namespace c, nn_Name = GetJudgeJobName c\<rparr>"
  shows "remove_key pod_Meta \<lparr>nn_Namespace = canary_namespace c, nn_Name = GetJudgeJobName c\<rparr>
      (remove_key pod_Meta \<lparr>nn_Namespace = canary_namespace c, nn_Name = GetTestJobname c\<rparr>
        (map (exit_pod c a b) (ps @ [tp, jp]))) = ps"
  using exit_absent [OF none] remove_key_absent [OF none(1)] remove_key_absent [OF none(2)] keys
  by (simp add: remove_key_def)

subsection \<open>A life\<close>

text \<open>
  What a canary needs to run through: its deployments available, its service routed on a
  weighted route, and no objects of its own yet.
\<close>

definition startable :: "Cluster \<Rightarrow> Canary \<Rightarrow> CanaryPolicy \<Rightarrow> VirtualService \<Rightarrow> nat \<Rightarrow> nat \<Rightarrow> HTTPRoute \<Rightarrow> bool" where
  "startable w c p vs i j h \<longleftrightarrow>
     tracked w c p \<and> available w c \<and> cn_Status c = zeroStatus \<and>
     test_pod_of w c = None \<and> judge_pod_of w c = None \<and>
     has_vs w c p vs \<and> routed vs (cps_Service (cpo_Spec p)) i j h \<and>
     find_route (canary_name c) 0 (hr_Route h) = Ok (- 1)"

text \<open>Everything the canary made is gone, its deployment too, and the route has its weight back.\<close>

definition concluded :: "Canary \<Rightarrow> VirtualService \<Rightarrow> nat \<Rightarrow> nat \<Rightarrow> Canary \<Rightarrow> Cluster \<Rightarrow> Cluster" where
  "concluded c vs i j d w =
     save d (put_vs (upd_routes i (\<lambda>rs. rs[j := map_weight restored_weight (rs ! j)]) vs)
       (drop_deployment \<lparr>nn_Namespace = canary_namespace c, nn_Name = csd_Canary (csp_Deployments (cn_Spec c))\<rparr> w))"

text \<open>
  On a weighted route nothing is left of the rerouting: the virtual service is stored as it was
  read at the start.
\<close>

lemma concluded_weighted:
  assumes "startable w c p vs i j h" "route_weight (hr_Route h ! j) \<noteq> 0"
  shows "concluded c vs i j d w = save d (put_vs vs (drop_deployment
    \<lparr>nn_Namespace = canary_namespace c, nn_Name = csd_Canary (csp_Deployments (cn_Spec c))\<rparr> w))"
proof -
  have "routed vs (cps_Service (cpo_Spec p)) i j h"
    using assms(1) by (simp add: startable_def)
  then have "upd_routes i (\<lambda>rs. rs[j := map_weight restored_weight (rs ! j)]) vs = vs"
    using assms(2) by (intro upd_routes_same [where h = h]) (auto simp: routed_def map_weight_same)
  then show ?thesis by (simp add: concluded_def)
qed

lemma put_vs_same:
  assumes "tracked w c p" "find_key vs_Meta (cl_virtualservices w) (vs_key c p) = Some vs"
  shows "put_vs vs w = w"
proof -
  have "metaKey (vs_Meta vs) = vs_key c p" using find_key_in [OF assms(2)] by simp
  then have "put_at vs_Meta vs (cl_virtualservices w) = cl_virtualservices w"
    using assms by (intro put_at_same) (simp_all add: tracked_def tracker_simps)
  then show ?thesis by (simp add: put_vs_def)
qed

context canary_on_tracker begin

lemma created_jobs: "\<exists>tp jp. CreateTestJob R c p = Ok tp \<and> CreateJudgeJob jf R c p = Ok jp"
  by (simp add: CreateTestJob_def CreateJudgeJob_def Let_def own_pod_Ok [OF gvk])

text \<open>The first three runs end with both jobs started.\<close>

lemma life_to_jobs:
  assumes s: "startable w c p vs i j h" and nn: "nn = metaKey (cn_Meta c)"
    and pods: "CreateTestJob R c p = Ok tp" "CreateJudgeJob jf R c p = Ok jp"
  shows "\<exists>d. turns jf R nn 3 w = Some (save d (w\<lparr>cl_pods := cl_pods w @ [tp, jp]\<rparr>)) \<and> sameness c d \<and>
     progress d = CanaryProgress_Testing"
proof -
  note s' = s [unfolded startable_def]
  have t: "tracked w c p" and a: "available w c" and "progress c = CanaryProgress_Unset"
    using s' by (simp_all add: zeroStatus_def)
  then obtain d1 where d1: "turn jf R nn w = Some (save d1 w)" "sameness c d1" "progress d1 = CanaryProgress_Initializing"
    using stage_idle [OF t a, of jf] nn by auto
  have t1: "tracked (save d1 w) d1 p" and a1: "available (save d1 w) d1"
    using tracked_same [OF t d1(2)] a sameness_fields [OF d1(2)] by simp_all
  obtain d2 where d2: "turn jf R nn (save d1 w) = Some (save d2 (save d1 w))" "sameness d1 d2" "progress d2 = CanaryProgress_Testing"
    using stage_idle [OF t1 a1, of jf] nn d1 sameness_fields(1) [OF d1(2)] by auto
  have s2: "sameness c d2" by (rule sameness_trans [OF d1(2) d2(2)])
  have w2: "save d2 (save d1 w) = save d2 w"
    using sameness_fields(1) [OF d2(2)] by (simp add: save_save)
  have t2: "tracked (save d2 w) d2 p" and a2: "available (save d2 w) d2"
    using tracked_same [OF t s2] a sameness_fields [OF s2] by simp_all
  let ?d = "upd_judging (started (GetJudgeJobName d2)) (upd_testing (started (GetTestJobname d2)) (initialized d2))"
  have "turn jf R (metaKey (cn_Meta d2)) (save d2 w) = Some (save ?d ((save d2 w)\<lparr>cl_pods := cl_pods (save d2 w) @ [tp, jp]\<rparr>))"
    by (rule stage_start [OF t2 a2 d2(3)])
       (use s' pods sameness_fields [OF s2] create_cong [OF s2] in \<open>simp_all add: test_pod_of_def judge_pod_of_def create_cong [OF s2]\<close>)
  then have "turn jf R nn (save d2 w) = Some (save ?d (w\<lparr>cl_pods := cl_pods w @ [tp, jp]\<rparr>))"
    using sameness_fields(1) [OF s2] nn by (simp add: save_save)
  moreover have "sameness c ?d" using s2 by (simp add: sameness_def)
  moreover have "progress ?d = CanaryProgress_Testing" using d2(3) by simp
  ultimately show ?thesis
    using d1(1) d2(1) w2 by (auto simp: numeral_3_eq_3)
qed

end

text \<open>
  A cluster in which the controller can work on a canary and finds its virtual service and the
  two pods.
\<close>

definition staged :: "Cluster \<Rightarrow> Canary \<Rightarrow> CanaryPolicy \<Rightarrow> VirtualService \<Rightarrow> Pod \<Rightarrow> Pod \<Rightarrow> bool" where
  "staged x c p vs tp jp \<longleftrightarrow> tracked x c p \<and> available x c \<and> has_vs x c p vs \<and>
     test_pod_of x c = Some tp \<and> judge_pod_of x c = Some jp"

lemma staged_save:
  assumes "staged x c p vs tp jp" "sameness c d"
  shows "tracked (save d x) d p" "available (save d x) d" "has_vs (save d x) d p vs"
    "test_pod_of (save d x) d = Some tp" "judge_pod_of (save d x) d = Some jp"
    "metaKey (cn_Meta c) = metaKey (cn_Meta d)" "canary_name d = canary_name c"
  using assms tracked_same [of x c p d] sameness_fields [OF assms(2)]
  by (simp_all add: staged_def test_pod_of_def judge_pod_of_def)

lemma staged_put_vs:
  "staged x c p vs tp jp \<Longrightarrow> staged (put_vs (upd_routes i f vs) x) c p (upd_routes i f vs) tp jp"
  by (simp add: staged_def test_pod_of_def judge_pod_of_def available_def tracked_put_vs has_vs_routes)

lemma save_over: "sameness d e \<Longrightarrow> save e (save d x) = save e x"
  by (rule save_save) (simp add: sameness_def)

lemma save_put_vs: "put_vs vs (save d x) = save d (put_vs vs x)"
  by (simp add: put_vs_def save_def)

context canary_on_tracker begin

text \<open>One lemma for each run from the end of the jobs on.\<close>

lemma life_tested:
  assumes st: "staged x c p vs tp jp" and s: "sameness c d" and pr: "progress d = CanaryProgress_Testing"
    and ok: "fst (job_report tp ''testjob'') = CanaryPhaseStatus_Success"
  shows "\<exists>e. turn jf R (metaKey (cn_Meta c)) (save d x) = Some (save e x) \<and> sameness c e \<and>
     progress e = CanaryProgress_Canary \<and> ph_Status (cst_Canary (cn_Status e)) = CanaryPhaseStatus_Queued"
proof (intro exI conjI)
  let ?e = "transition (reported (job_report tp ''testjob'') (job_report jp ''judge'') d)"
  have "sameness d ?e" by (simp add: sameness_def)
  then show "turn jf R (metaKey (cn_Meta c)) (save d x) = Some (save ?e x)"
    using stage_test [OF staged_save(1,2) [OF st s] pr staged_save(4,5) [OF st s]] staged_save(6) [OF st s]
    by (simp add: save_over)
  show "sameness c ?e" using s by (simp add: sameness_def)
  show "progress ?e = CanaryProgress_Canary" "ph_Status (cst_Canary (cn_Status ?e)) = CanaryPhaseStatus_Queued"
    using pr ok by (simp_all add: transition_def phase_done_def advance_def Let_def)
qed

lemma life_rerouted:
  assumes st: "staged x c p vs tp jp" and s: "sameness c d" and pr: "progress d = CanaryProgress_Canary"
    and q: "ph_Status (cst_Canary (cn_Status d)) = CanaryPhaseStatus_Queued"
    and r: "routed vs (cps_Service (cpo_Spec p)) i j h" and miss: "find_route (canary_name c) 0 (hr_Route h) = Ok (- 1)"
  shows "\<exists>e. turn jf R (metaKey (cn_Meta c)) (save d x) = Some (save e (put_vs (upd_routes i (add_canary_route (canary_name c) j) vs) x)) \<and>
     sameness c e \<and> progress e = CanaryProgress_Canary \<and> ph_Status (cst_Canary (cn_Status e)) = CanaryPhaseStatus_InProgress"
proof -
  note k = staged_save [OF st s]
  obtain e where e: "turn jf R (metaKey (cn_Meta d)) (save d x)
      = Some (put_vs (upd_routes i (add_canary_route (canary_name d) j) vs) (save e (save d x)))"
    "sameness d e" "progress e = CanaryProgress_Canary" "ph_Status (cst_Canary (cn_Status e)) = CanaryPhaseStatus_InProgress"
    using stage_reroute [OF k(1,2) pr q k(5,3) r, of jf] miss k(7) by auto
  then show ?thesis
    using k(6,7) sameness_trans [OF s e(2)] by (intro exI [of _ e]) (simp add: save_over save_put_vs)
qed

lemma life_judged:
  assumes st: "staged x c p vs tp jp" and s: "sameness c d" and pr: "progress d = CanaryProgress_Canary"
    and q: "ph_Status (cst_Canary (cn_Status d)) = CanaryPhaseStatus_InProgress"
    and r: "routed vs (cps_Service (cpo_Spec p)) i j h"
    and hit: "find_route (canary_name c) 0 (hr_Route h) = Ok k" "k \<noteq> - 1"
    and verdict: "fst (job_report jp ''judge'') \<in> {CanaryPhaseStatus_Success, CanaryPhaseStatus_Failure}"
  shows "\<exists>e. turn jf R (metaKey (cn_Meta c)) (save d x) = Some (save e x) \<and> sameness c e \<and>
     progress e = CanaryProgress_Reporting \<and> ph_Status (cst_Judging (cn_Status e)) = fst (job_report jp ''judge'') \<and>
     ph_Status (cst_Reporting (cn_Status e)) = CanaryPhaseStatus_Queued"
proof -
  note m = staged_save [OF st s]
  obtain e where e: "turn jf R (metaKey (cn_Meta d)) (save d x) = Some (save e (save d x))" "sameness d e"
    "progress e = CanaryProgress_Reporting" "ph_Status (cst_Judging (cn_Status e)) = fst (job_report jp ''judge'')"
    "ph_Status (cst_Reporting (cn_Status e)) = CanaryPhaseStatus_Queued"
    using stage_judged [OF m(1,2) pr q m(5,3) r, of k jf] hit verdict m(7) by auto
  then show ?thesis
    using m(6) sameness_trans [OF s e(2)] by (intro exI [of _ e]) (simp add: save_over)
qed

lemma life_reported:
  assumes st: "staged x c p vs tp jp" and s: "sameness c d" and pr: "progress d = CanaryProgress_Reporting"
    and q: "ph_Status (cst_Reporting (cn_Status d)) = CanaryPhaseStatus_Queued"
  shows "\<exists>e. turn jf R (metaKey (cn_Meta c)) (save d x) = Some (save e x) \<and> sameness c e \<and>
     progress e = CanaryProgress_Cleanup \<and> cst_Judging (cn_Status e) = cst_Judging (cn_Status d) \<and>
     ph_Status (cst_Cleanup (cn_Status e)) = CanaryPhaseStatus_Queued \<and>
     ph_Status (cst_Initialization (cn_Status e)) = CanaryPhaseStatus_Success"
proof -
  note m = staged_save [OF st s]
  obtain e where e: "turn jf R (metaKey (cn_Meta d)) (save d x) = Some (save e (save d x))" "sameness d e"
    "progress e = CanaryProgress_Cleanup" "cst_Judging (cn_Status e) = cst_Judging (cn_Status d)"
    "ph_Status (cst_Cleanup (cn_Status e)) = CanaryPhaseStatus_Queued"
    "ph_Status (cst_Initialization (cn_Status e)) = CanaryPhaseStatus_Success"
    using stage_report [OF m(1,2) pr q, of jf] by auto
  then show ?thesis
    using m(6) sameness_trans [OF s e(2)] by (intro exI [of _ e]) (simp add: save_over)
qed

lemma life_cleaned:
  assumes st: "staged x c p vs tp jp" and s: "sameness c d" and pr: "progress d = CanaryProgress_Cleanup"
    and q: "ph_Status (cst_Cleanup (cn_Status d)) = CanaryPhaseStatus_Queued"
      "ph_Status (cst_Initialization (cn_Status d)) = CanaryPhaseStatus_Success"
    and r: "routed vs (cps_Service (cpo_Spec p)) i j h"
    and hit: "find_route (canary_name c) 0 (hr_Route h) = Ok (int k)"
  shows "turn jf R (metaKey (cn_Meta c)) (save d x)
    = Some (save (cleaned d) (put_vs (upd_routes i (remove_canary_route j k) vs) (swept c x)))"
proof -
  note m = staged_save [OF st s]
  have "csd_Canary (csp_Deployments (cn_Spec d)) \<noteq> []"
    using m(2) by (auto simp: available_def)
  then have "turn jf R (metaKey (cn_Meta d)) (save d x)
      = Some (save (cleaned d) (put_vs (upd_routes i (remove_canary_route j k) vs) (swept d (save d x))))"
    using stage_cleanup [OF m(1) pr q _ m(3) r, of "int k" jf] hit m(7) by simp
  moreover have "swept d (save d x) = save d (swept c x)"
    using sameness_fields [OF s] by (simp add: swept_def drop_pod_def drop_deployment_def save_def)
  moreover have "sameness d (cleaned d)" by (simp add: sameness_def)
  ultimately show ?thesis using m(6) by (simp add: save_over save_put_vs)
qed

end

text \<open>The cluster in which the jobs have ended is staged, and sweeping it removes the jobs again.\<close>

lemma jobs_ended:
  assumes s: "startable w c p vs i j h"
    and keys: "metaKey (pod_Meta tp) = \<lparr>nn_Namespace = canary_namespace c, nn_Name = GetTestJobname c\<rparr>"
      "metaKey (pod_Meta jp) = \<lparr>nn_Namespace = canary_namespace c, nn_Name = GetJudgeJobName c\<rparr>"
    and x: "x = w\<lparr>cl_pods := map (exit_pod c tcode jcode) (cl_pods w @ [tp, jp])\<rparr>"
  shows "staged x c p vs (terminated ''testjob'' tcode tp) (terminated ''judge'' jcode jp)"
    "drop_pod \<lparr>nn_Namespace = canary_namespace c, nn_Name = GetJudgeJobName c\<rparr>
       (drop_pod \<lparr>nn_Namespace = canary_namespace c, nn_Name = GetTestJobname c\<rparr> x) = w"
proof -
  note s' = s [unfolded startable_def]
  have none: "find_key pod_Meta (cl_pods w) \<lparr>nn_Namespace = canary_namespace c, nn_Name = GetTestJobname c\<rparr> = None"
      "find_key pod_Meta (cl_pods w) \<lparr>nn_Namespace = canary_namespace c, nn_Name = GetJudgeJobName c\<rparr> = None"
    and t: "tracked w c p"
    using s' by (simp_all add: test_pod_of_def judge_pod_of_def)
  have "distinct (keys pod_Meta ((cl_pods w @ [tp]) @ [jp]))"
    using t none keys job_names_differ [of c]
    by (simp only: distinct_keys_append find_key_append) (simp add: tracked_def tracker_simps)
  then have "distinct (keys pod_Meta (cl_pods x))"
    by (simp add: x keys_map del: map_append)
  then have "tracked x c p" using tracked_frame(1) [OF t] by (simp add: x)
  moreover have "test_pod_of x c = Some (terminated ''testjob'' tcode tp)" "judge_pod_of x c = Some (terminated ''judge'' jcode jp)"
    using none keys job_names_differ [of c]
    by (simp_all add: test_pod_of_def judge_pod_of_def x find_key_map find_key_append2
        del: map_append) (simp_all add: exit_pod_def)
  ultimately show "staged x c p vs (terminated ''testjob'' tcode tp) (terminated ''judge'' jcode jp)"
    using s' by (simp add: staged_def x available_def has_vs_def)
  show "drop_pod \<lparr>nn_Namespace = canary_namespace c, nn_Name = GetJudgeJobName c\<rparr>
       (drop_pod \<lparr>nn_Namespace = canary_namespace c, nn_Name = GetTestJobname c\<rparr> x) = w"
    using sweep_jobs [OF none keys, of tcode jcode] by (simp add: x drop_pod_def)
qed

context canary_on_tracker begin

text \<open>After the jobs have ended, the test without failure, five more runs conclude the canary.\<close>

lemma life_from_jobs:
  assumes s: "startable w c p vs i j h" and nn: "nn = metaKey (cn_Meta c)"
    and pods: "CreateTestJob R c p = Ok tp" "CreateJudgeJob jf R c p = Ok jp"
    and d0: "sameness c d0" "progress d0 = CanaryProgress_Testing"
  shows "\<exists>d. turns jf R nn 5 (jobs_exit c 0 jcode (save d0 (w\<lparr>cl_pods := cl_pods w @ [tp, jp]\<rparr>)))
      = Some (concluded c vs i j d w) \<and> sameness c d \<and> progress d = CanaryProgress_Cleanup \<and>
     ph_Status (cst_Cleanup (cn_Status d)) = CanaryPhaseStatus_Success \<and>
     ph_Status (cst_Initialization (cn_Status d)) = CanaryPhaseStatus_Success \<and>
     ph_Status (cst_Judging (cn_Status d)) = (if jcode = 0 then CanaryPhaseStatus_Success else CanaryPhaseStatus_Failure)"
proof -
  let ?vs = "upd_routes i (add_canary_route (canary_name c) j) vs" and ?k = "length (hr_Route h)"
  have r: "routed vs (cps_Service (cpo_Spec p)) i j h" and miss: "find_route (canary_name c) 0 (hr_Route h) = Ok (- 1)"
    using s by (simp_all add: startable_def)
  define x where "x = w\<lparr>cl_pods := map (exit_pod c 0 jcode) (cl_pods w @ [tp, jp])\<rparr>"
  have keys: "metaKey (pod_Meta tp) = \<lparr>nn_Namespace = canary_namespace c, nn_Name = GetTestJobname c\<rparr>"
    "metaKey (pod_Meta jp) = \<lparr>nn_Namespace = canary_namespace c, nn_Name = GetJudgeJobName c\<rparr>"
    using created_job_key pods by blast+
  note e = jobs_ended [OF s keys x_def]
  note ev = staged_put_vs [OF e(1), of i "add_canary_route (canary_name c) j"]
  note rv = routed_added [OF r, of "canary_name c"] and hit = find_canary_added [OF miss, of j]
  have start: "jobs_exit c 0 jcode (save d0 (w\<lparr>cl_pods := cl_pods w @ [tp, jp]\<rparr>)) = save d0 x"
    by (simp add: jobs_exit_def x_def)
  obtain d1 where d1: "turn jf R nn (save d0 x) = Some (save d1 x)" "sameness c d1" "progress d1 = CanaryProgress_Canary"
    "ph_Status (cst_Canary (cn_Status d1)) = CanaryPhaseStatus_Queued"
    using life_tested [OF e(1) d0, of jf] nn by (auto simp: terminated_report)
  obtain d2 where d2: "turn jf R nn (save d1 x) = Some (save d2 (put_vs ?vs x))" "sameness c d2"
    "progress d2 = CanaryProgress_Canary" "ph_Status (cst_Canary (cn_Status d2)) = CanaryPhaseStatus_InProgress"
    using life_rerouted [OF e(1) d1(2-4) r miss, of jf] nn by auto
  obtain d3 where d3: "turn jf R nn (save d2 (put_vs ?vs x)) = Some (save d3 (put_vs ?vs x))" "sameness c d3"
    "progress d3 = CanaryProgress_Reporting" "ph_Status (cst_Reporting (cn_Status d3)) = CanaryPhaseStatus_Queued"
    "ph_Status (cst_Judging (cn_Status d3)) = (if jcode = 0 then CanaryPhaseStatus_Success else CanaryPhaseStatus_Failure)"
    using life_judged [OF ev d2(2-4) rv, of "int ?k" jf] hit nn by (cases "jcode = 0") (auto simp: terminated_report)
  obtain d4 where d4: "turn jf R nn (save d3 (put_vs ?vs x)) = Some (save d4 (put_vs ?vs x))" "sameness c d4"
    "progress d4 = CanaryProgress_Cleanup" "ph_Status (cst_Cleanup (cn_Status d4)) = CanaryPhaseStatus_Queued"
    "ph_Status (cst_Initialization (cn_Status d4)) = CanaryPhaseStatus_Success"
    "cst_Judging (cn_Status d4) = cst_Judging (cn_Status d3)"
    using life_reported [OF ev d3(2-4), of jf] nn by auto
  have "turn jf R nn (save d4 (put_vs ?vs x))
      = Some (save (cleaned d4) (put_vs (upd_routes i (remove_canary_route j ?k) ?vs) (swept c (put_vs ?vs x))))"
    using life_cleaned [OF ev d4(2-5) rv, of ?k jf] hit nn by simp
  moreover have "put_vs vs2 (swept c (put_vs ?vs x)) = put_vs vs2 (drop_deployment
      \<lparr>nn_Namespace = canary_namespace c, nn_Name = csd_Canary (csp_Deployments (cn_Spec c))\<rparr> w)"
    if "vs_Meta vs2 = vs_Meta vs" for vs2
    using that e(2) [symmetric] by (simp add: swept_def put_vs_def drop_pod_def drop_deployment_def put_at_put_at)
  ultimately have "turns jf R nn 5 (save d0 x) = Some (concluded c vs i j (cleaned d4) w)"
    using d1(1) d2(1) d3(1) d4(1) cleanup_restores [OF r, of "canary_name c"] by (simp add: concluded_def eval_nat_numeral)
  then show ?thesis
    unfolding start using d4 d3(5) by (intro exI [of _ "cleaned d4"]) (simp add: sameness_def)
qed

end

end
