(* ===== verification/DemoCluster.thy ===== *)
theory DemoCluster
  imports DeployProps CanaryLife
begin

text \<open>
  A concrete cluster, along the lines of the repository's \<open>example\<close> directory: an application
  with its canary, a policy, and a virtual service. The hypotheses of the theorems about the
  in-memory cluster hold on it.
\<close>

definition demo_policy :: CanaryPolicy where
  "demo_policy = \<lparr>cpo_Meta = mkMeta ''pol'' ''ns'' None,
     cpo_Spec = \<lparr>cps_Base = ''app'', cps_VirtualService = ''vs'', cps_Service = ''app'',
       cps_BaselineMode = BaselineModeUnset, cps_DestinationRule = \<lparr>drs_Host = [], drs_Subsets = []\<rparr>,
       cps_Ports = [],
       cps_TestSpec = \<lparr>ts_Image = ''test'', ts_Cmd = [], ts_Boundary = \<lparr>tsb_Time = [], tsb_Requests = 100\<rparr>\<rparr>,
       cps_JudgeSpec = \<lparr>js_Image = ''judge'', js_Cmd = [], js_DiffMetrics = None,
         js_ThresholdMetrics = None, js_Boundary_Time = ''10m''\<rparr>\<rparr>\<rparr>"

definition demo_template :: "gomap \<Rightarrow> string \<Rightarrow> DeploymentSpec" where
  "demo_template l img = \<lparr>ds_Replicas = Some 3, ds_Selector = Some \<lparr>ls_MatchLabels = l, ls_rest = []\<rparr>,
     ds_Template = \<lparr>pt_Meta = mkMeta [] [] l,
       pt_Spec = \<lparr>ps_Containers = [\<lparr>ct_Name = ''app'', ct_Image = img, ct_Command = [], ct_Env = [],
           ct_ImagePullPolicy = [], ct_rest = []\<rparr>],
         ps_RestartPolicy = [], ps_rest = []\<rparr>\<rparr>, ds_rest = []\<rparr>"

definition demo_base :: Deployment where
  "demo_base = \<lparr>dp_Meta = mkMeta ''app'' ''ns'' None,
     dp_Spec = demo_template (Some [''app'' \<mapsto> ''app'']) ''app:1'', dp_AvailableReplicas = 3, dp_rest = []\<rparr>"

definition demo_deployment :: Deployment where
  "demo_deployment = \<lparr>dp_Meta = mkMeta ''app-canary'' ''ns''
       (Some [CanaryPolicyLabel \<mapsto> ''pol'', KraneTierLabel \<mapsto> ''canary'']),
     dp_Spec = demo_template (Some [''app'' \<mapsto> ''app'', KraneTierLabel \<mapsto> ''canary'']) ''app:2'',
     dp_AvailableReplicas = 1, dp_rest = []\<rparr>"

text \<open>
  The virtual service has a URI prefix, like the one of the example (\<open>01-vs.yaml\<close>); what a run
  reads of it has none.
\<close>

definition example_match :: "string \<Rightarrow> HTTPMatchRequest" where
  "example_match p =
     \<lparr>hm_Uri = Some \<lparr>sm_Exact = [], sm_Prefix = p, sm_Regex = []\<rparr>, hm_Scheme = None, hm_Method = None,
      hm_Authority = None, hm_Headers = None, hm_Port = 0, hm_SourceLabels = None, hm_Gateways = []\<rparr>"

definition demo_http :: HTTPRoute where
  "demo_http = \<lparr>hr_Match = [Some (example_match [])], hr_Route = [Some (mkRoute ''app'' 100)], hr_Redirect = None, hr_Rewrite = None,
     hr_WebsocketUpgrade = False, hr_Timeout = [], hr_Retries = None, hr_Fault = None, hr_Mirror = None,
     hr_CorsPolicy = None, hr_AppendHeaders = None, hr_RemoveResponseHeaders = [],
     hr_AppendResponseHeaders = None, hr_RemoveRequestHeaders = [], hr_AppendRequestHeaders = None,
     hr_Headers = None\<rparr>"

definition demo_vs :: VirtualService where
  "demo_vs = \<lparr>vs_Meta = mkMeta ''vs'' ''ns'' None,
     vs_Spec = \<lparr>vss_Hosts = [''app''], vss_Gateways = [], vss_Http = [Some demo_http], vss_Tls = [], vss_Tcp = [],
       vss_ExportTo = []\<rparr>\<rparr>"

definition demo_stored_vs :: VirtualService where
  "demo_stored_vs = demo_vs\<lparr>vs_Spec := (vs_Spec demo_vs)\<lparr>vss_Http := [Some (demo_http\<lparr>hr_Match := [Some (example_match ''/'')]\<rparr>)]\<rparr>\<rparr>"

lemma demo_vs_read: "VirtualService_read demo_stored_vs = demo_vs" "demo_stored_vs \<noteq> demo_vs"
  by (simp_all add: demo_stored_vs_def demo_vs_def VirtualService_read_def VirtualServiceSpec_kept_def HTTPRoute_kept_def
      demo_http_def HTTPMatchRequest_kept_def example_match_def StringMatch_kept_def)

lemma demo_stored_vs_meta [simp]: "vs_Meta demo_stored_vs = mkMeta ''vs'' ''ns'' None"
  by (simp add: demo_stored_vs_def demo_vs_def)

text \<open>The cluster in which the canary deployment has just been created...\<close>

definition demo_cluster :: Cluster where
  "demo_cluster = \<lparr>cl_canaries = [], cl_policies = [demo_policy], cl_deployments = [demo_base, demo_deployment],
     cl_pods = [], cl_services = [], cl_virtualservices = [demo_stored_vs], cl_destinationrules = []\<rparr>"

text \<open>... and the one in which the deployment controller has done its work and the pods are up.\<close>

definition demo_canary :: Canary where
  "demo_canary = createCanaryConfig demo_policy demo_deployment"

definition demo_baseline :: Deployment where
  "demo_baseline = demo_base\<lparr>dp_Meta := mkMeta ''app-baseline'' ''ns'' None, dp_AvailableReplicas := 1\<rparr>"

definition demo_running :: Cluster where
  "demo_running = demo_cluster\<lparr>cl_canaries := [demo_canary],
     cl_deployments := [demo_base, demo_deployment, demo_baseline]\<rparr>"

lemma demo_names:
  "MakeBaselineName demo_deployment = ''app-baseline''"
  "MakeCanaryConfigName demo_policy demo_deployment = ''pol-app-canary''"
  "MakeCanaryServiceName demo_policy demo_deployment = ''pol-app-canary''"
  by (simp_all add: MakeBaselineName_def MakeCanaryConfigName_def MakeCanaryServiceName_def
      demo_deployment_def demo_policy_def strings_TrimSuffix_def suffix_def)

lemma demo_meta:
  "dp_Meta demo_deployment = mkMeta ''app-canary'' ''ns''
       (Some [CanaryPolicyLabel \<mapsto> ''pol'', KraneTierLabel \<mapsto> ''canary''])"
  "cpo_Meta demo_policy = mkMeta ''pol'' ''ns'' None"
  "cn_Meta demo_canary = mkMeta ''pol-app-canary'' ''ns'' None"
  "cn_Spec demo_canary = \<lparr>csp_Policy = ''pol'', csp_Deployments =
     \<lparr>csd_Canary = ''app-canary'', csd_Baseline = ''app-baseline'', csd_Base = ''app''\<rparr>\<rparr>"
  "cn_Status demo_canary = zeroStatus"
  by (simp_all add: demo_canary_def createCanaryConfig_def demo_names) (simp_all add: demo_deployment_def demo_policy_def)

lemma demo_provisionable: "provisionable demo_cluster demo_deployment demo_policy demo_base"
proof -
  have "dp_Meta demo_base = mkMeta ''app'' ''ns'' None" "cps_Base (cpo_Spec demo_policy) = ''app''"
    "cps_BaselineMode (cpo_Spec demo_policy) = BaselineModeUnset"
    "cl_deployments demo_cluster = [demo_base, demo_deployment]" "cl_policies demo_cluster = [demo_policy]"
    "cl_services demo_cluster = []" "cl_canaries demo_cluster = []"
    by (simp_all add: demo_base_def demo_policy_def demo_cluster_def)
  moreover have "selectable (dp_Spec demo_deployment)" "selectable (dp_Spec demo_base)"
    by (auto simp: selectable_def demo_deployment_def demo_base_def demo_template_def)
  moreover have "consistent demo_cluster"
    by (simp add: consistent_def demo_cluster_def demo_base_def demo_deployment_def keys_def)
  ultimately show ?thesis
    by (simp add: provisionable_def demo_names demo_meta)
qed

lemma demo_routed: "routed demo_vs ''app'' 0 0 demo_http"
  by (simp add: routed_def FindMatchingHttpAndRoute_def http_at_def demo_vs_def demo_http_def)

lemma demo_startable: "startable demo_running demo_canary demo_policy demo_vs 0 0 demo_http"
proof -
  have "consistent demo_running"
    by (simp add: consistent_def demo_running_def demo_cluster_def demo_base_def demo_deployment_def demo_baseline_def keys_def)
  then have "tracked demo_running demo_canary demo_policy"
    by (simp add: tracked_def demo_meta) (simp add: demo_running_def demo_cluster_def demo_meta)
  moreover have "available demo_running demo_canary"
    by (simp add: available_def demo_meta)
       (simp add: demo_running_def demo_base_def demo_deployment_def demo_baseline_def)
  moreover have "has_vs demo_running demo_canary demo_policy demo_vs"
    by (simp add: has_vs_def vs_key_def demo_meta)
       (simp add: demo_running_def demo_cluster_def demo_vs_read demo_policy_def)
  moreover have "cps_Service (cpo_Spec demo_policy) = ''app''"
    by (simp add: demo_policy_def)
  ultimately show ?thesis
    using demo_routed
    by (simp add: startable_def demo_meta test_pod_of_def judge_pod_of_def)
       (simp add: demo_running_def demo_cluster_def demo_http_def)
qed

lemma demo_weight: "route_weight (hr_Route demo_http ! 0) = 100"
  by (simp add: demo_http_def route_weight_def)

text \<open>The manager's reconcilers on the in-memory cluster.\<close>

abbreviation inMemory :: "Cluster Reconciler" where
  "inMemory \<equiv> \<lparr>client = fakeClient, scheme = kraneScheme\<rparr>"

interpretation krane: canary_on_tracker "\<lparr>client = fakeClient, scheme = kraneScheme\<rparr>"
    "\<lparr>gvk_Group = ''krane.sh'', gvk_Version = ''v1'', gvk_Kind = ''Canary''\<rparr>"
  by unfold_locales simp_all

subsection \<open>The demo canary under test\<close>

definition demo_testing :: Canary where
  "demo_testing = set_progress CanaryProgress_Testing demo_canary"

text \<open>Its two pods, the test terminated with the given code, the judge still starting.\<close>

definition demo_test_pod :: "int32 \<Rightarrow> Pod" where
  "demo_test_pod code = terminated ''testjob'' code
     \<lparr>pod_Meta = mkMeta ''pol-app-canary-testjob'' ''ns'' None, pod_Spec = zeroPodSpec, pod_ContainerStatuses = [], pod_rest = []\<rparr>"

definition demo_judge_pod :: Pod where
  "demo_judge_pod =
     \<lparr>pod_Meta = mkMeta ''pol-app-canary-judge'' ''ns'' None, pod_Spec = zeroPodSpec, pod_ContainerStatuses = [], pod_rest = []\<rparr>"

definition demo_tested :: "int32 \<Rightarrow> Cluster" where
  "demo_tested code = (save demo_testing demo_running)\<lparr>cl_pods := [demo_test_pod code, demo_judge_pod]\<rparr>"

lemma demo_tracked: "tracked demo_running demo_canary demo_policy"
  using demo_startable by (simp add: startable_def)

lemma demo_running_pods [simp]: "cl_pods demo_running = []"
  by (simp add: demo_running_def demo_cluster_def)

lemma demo_testing_simps [simp]:
  "cn_Meta demo_testing = cn_Meta demo_canary" "cn_Spec demo_testing = cn_Spec demo_canary"
  by (simp_all add: demo_testing_def)

lemma demo_testing_progress: "progress demo_testing = CanaryProgress_Testing"
  by (simp add: demo_testing_def)

lemma demo_testing_tracked: "tracked (save demo_testing demo_running) demo_testing demo_policy"
  by (rule tracked_save [OF demo_tracked]) simp_all

lemma demo_testing_fresh: "test_pod_of (save demo_testing demo_running) demo_testing = None"
  by (simp add: test_pod_of_def)

lemma demo_pod_keys:
  "metaKey (pod_Meta (demo_test_pod code)) = \<lparr>nn_Namespace = ''ns'', nn_Name = ''pol-app-canary-testjob''\<rparr>"
  "metaKey (pod_Meta demo_judge_pod) = \<lparr>nn_Namespace = ''ns'', nn_Name = ''pol-app-canary-judge''\<rparr>"
  by (simp_all add: demo_test_pod_def demo_judge_pod_def terminated_def)

lemma demo_tested_tracked: "tracked (demo_tested code) demo_testing demo_policy"
  unfolding demo_tested_def by (rule tracked_frame(1) [OF demo_testing_tracked]) (simp add: demo_pod_keys)

lemma demo_tested_available: "available (demo_tested code) demo_testing"
  using demo_startable by (simp add: startable_def available_def demo_tested_def)

lemma demo_tested_pod: "test_pod_of (demo_tested code) demo_testing = Some (demo_test_pod code)"
  by (simp add: test_pod_of_def demo_tested_def demo_pod_keys demo_meta GetTestJobname_def)

lemma demo_judged_pod: "judge_pod_of (demo_tested code) demo_testing = Some demo_judge_pod"
  by (simp add: judge_pod_of_def demo_tested_def demo_pod_keys demo_meta GetJudgeJobName_def)

lemma demo_test_pod_state:
  "GetContainerTerminalState (demo_test_pod code) ''testjob'' = Some \<lparr>cst_ExitCode = code, cst_rest = []\<rparr>"
  by (simp add: GetContainerTerminalState_def demo_test_pod_def terminated_def)

subsection \<open>The demo canary when traffic is rerouted\<close>

definition demo_rerouting :: Canary where
  "demo_rerouting = upd_canary (\<lambda>ph. ph\<lparr>ph_Status := CanaryPhaseStatus_Queued\<rparr>) (set_progress CanaryProgress_Canary demo_canary)"

lemma demo_rerouting_meta [simp]:
  "cn_Meta demo_rerouting = cn_Meta demo_canary" "cn_Spec demo_rerouting = cn_Spec demo_canary"
  by (simp_all add: demo_rerouting_def)

lemma demo_rerouting_phase:
  "progress demo_rerouting = CanaryProgress_Canary"
  "ph_Status (cst_Canary (cn_Status demo_rerouting)) = CanaryPhaseStatus_Queued"
  by (simp_all add: demo_rerouting_def)

lemma demo_rerouting_tracked: "tracked (save demo_rerouting demo_running) demo_rerouting demo_policy"
  by (rule tracked_save [OF demo_tracked]) simp_all

lemma demo_rerouting_vs: "has_vs (save demo_rerouting demo_running) demo_rerouting demo_policy demo_vs"
  using demo_startable by (simp add: startable_def has_vs_def vs_key_def)

lemma demo_rerouting_routed: "routed demo_vs (cps_Service (cpo_Spec demo_policy)) 0 0 demo_http"
  using demo_startable by (simp add: startable_def)

lemma demo_rerouting_fresh: "find_route (canary_name demo_rerouting) 0 (hr_Route demo_http) = Ok (- 1)"
  using demo_startable by (simp add: startable_def)

end
