(* ===== verification/Effects.thy ===== *)
theory Effects
  imports ClientApi
begin

text \<open>
  A program logic for the writes of a program that runs with a logging client:
  \<open>emits I P Q p\<close> says that \<open>p\<close>, started in a memory that satisfies \<open>I\<close>, ends (however it
  ends) in one that does, that every write it attempted on the way satisfies \<open>P\<close>, and that a
  result it returns without an error satisfies \<open>Q\<close>. The rules follow the constructs of the
  programs and are collected in \<open>emits_intros\<close>.
\<close>

named_theorems emits_intros "the writes of a program, one rule per construct"

definition emitted :: "('m \<Rightarrow> bool) \<Rightarrow> (event \<Rightarrow> bool) \<Rightarrow> ('a \<Rightarrow> bool) \<Rightarrow> event list
    \<Rightarrow> 'a outcome \<Rightarrow> 'm \<times> 'w \<times> event list \<Rightarrow> bool" where
  "emitted I P Q l r s = (case s of (m, w, l') \<Rightarrow>
     I m \<and> (\<exists>k. l' = l @ k \<and> list_all P k) \<and> (\<forall>x. r = Ok x \<longrightarrow> Q x))"

definition emits :: "('m \<Rightarrow> bool) \<Rightarrow> (event \<Rightarrow> bool) \<Rightarrow> ('a \<Rightarrow> bool) \<Rightarrow> ('m \<times> 'w \<times> event list, 'a) prog \<Rightarrow> bool" where
  "emits I P Q p \<longleftrightarrow> (\<forall>m w l. I m \<longrightarrow> wp p (emitted I P Q l) (m, w, l))"

lemma emitted_simp [simp]:
  "emitted I P Q l r (m, w, l') \<longleftrightarrow> I m \<and> (\<exists>k. l' = l @ k \<and> list_all P k) \<and> (\<forall>x. r = Ok x \<longrightarrow> Q x)"
  by (simp add: emitted_def)

lemma emitted_trans:
  "emitted I P Q (l @ k) r s \<Longrightarrow> list_all P k \<Longrightarrow> emitted I P Q l r s"
  by (cases s) auto

lemma emitsD:
  "emits I P Q p \<Longrightarrow> I m \<Longrightarrow> p (m, w, l) = (r, s) \<Longrightarrow> emitted I P Q l r s"
  unfolding emits_def by (blast dest: wpD)

lemma emits_ret [emits_intros]: "Q x \<Longrightarrow> emits I P Q (retP x)"
  by (auto simp: emits_def wp_simps)

lemma emits_err [emits_intros]: "emits I P Q (errP e)"
  by (auto simp: emits_def wp_simps)

lemma emits_lift [emits_intros]: "(\<And>x. r = Ok x \<Longrightarrow> Q x) \<Longrightarrow> emits I P Q (liftP r)"
  by (auto simp: emits_def wp_simps)

lemma emits_mem [emits_intros]: "(\<And>m. I m \<Longrightarrow> Q m) \<Longrightarrow> emits I P Q memP"
  by (auto simp: emits_def wp_simps)

lemma emits_modmem [emits_intros]: "(\<And>m. I m \<Longrightarrow> I (f m)) \<Longrightarrow> emits I P (\<lambda>_. True) (modmemP f)"
  by (auto simp: emits_def wp_simps)

lemma emits_bind:
  fixes p :: "('m \<times> 'w \<times> event list, 'a) prog"
  assumes m: "emits I P Q p" and f: "\<And>x. Q x \<Longrightarrow> emits I P Q' (f x)"
  shows "emits I P Q' (bindP p f)"
  unfolding emits_def wp_bind
proof (intro allI impI)
  fix m0 w l
  assume "I m0"
  with m have "wp p (emitted I P Q l) (m0, w, l)"
    by (simp add: emits_def)
  then show "wp p (continue (\<lambda>x. wp (f x) (emitted I P Q' l)) (emitted I P Q' l)) (m0, w, l)"
  proof (rule wp_mono)
    fix r and s :: "'m \<times> 'w \<times> event list"
    assume *: "emitted I P Q l r s"
    show "continue (\<lambda>x. wp (f x) (emitted I P Q' l)) (emitted I P Q' l) r s"
    proof (rule continueI)
      fix x assume "r = Ok x"
      with * f obtain m' w' k where s: "s = (m', w', l @ k)" "I m'" "list_all P k" and fx: "emits I P Q' (f x)"
        by (cases s) auto
      then have "wp (f x) (emitted I P Q' (l @ k)) s"
        by (simp add: emits_def)
      then show "wp (f x) (emitted I P Q' l) s"
        by (rule wp_mono) (use s in \<open>auto intro: emitted_trans\<close>)
    qed (use * in \<open>cases s; auto\<close>)+
  qed
qed

lemma emits_weaken: "emits I P Q p \<Longrightarrow> (\<And>x. Q x \<Longrightarrow> Q' x) \<Longrightarrow> (\<And>e. P e \<Longrightarrow> P' e) \<Longrightarrow> emits I P' Q' p"
  unfolding emits_def
  by (intro allI impI, drule spec, drule spec, drule spec, drule mp, assumption, erule wp_mono)
     (fastforce simp: emitted_def list_all_iff)

lemma emits_any: "emits I P Q p \<Longrightarrow> emits I P (\<lambda>_. True) p"
  by (rule emits_weaken) auto

lemma emits_then [emits_intros]:
  "emits I P (\<lambda>_. True) p \<Longrightarrow> emits I P Q n \<Longrightarrow> emits I P Q (thenP p n)"
  unfolding thenP_def by (rule emits_bind)

lemma emits_bind_mem [emits_intros]:
  "(\<And>m. I m \<Longrightarrow> emits I P Q (f m)) \<Longrightarrow> emits I P Q (bindP memP f)"
  by (rule emits_bind [where Q = I]) (auto intro: emits_intros)

lemma emits_bind_lift [emits_intros]:
  "(\<And>x. r = Ok x \<Longrightarrow> emits I P Q (f x)) \<Longrightarrow> emits I P Q (bindP (liftP r) f)"
  by (rule emits_bind [where Q = "\<lambda>x. r = Ok x"]) (auto intro: emits_intros)

lemma emits_if [emits_intros]:
  "(b \<Longrightarrow> emits I P Q m) \<Longrightarrow> (\<not> b \<Longrightarrow> emits I P Q n) \<Longrightarrow> emits I P Q (if b then m else n)"
  by simp

lemma emits_when [emits_intros]:
  "(b \<Longrightarrow> emits I P (\<lambda>_. True) m) \<Longrightarrow> emits I P (\<lambda>_. True) (whenP b m)"
  by (auto simp: whenP_def intro: emits_intros)

lemma emits_try: "emits I P Q p \<Longrightarrow> emits I P (\<lambda>r. \<forall>x. r = Inr x \<longrightarrow> Q x) (tryP p)"
  unfolding emits_def wp_try
  by (intro allI impI, drule spec, drule spec, drule spec, drule mp, assumption, erule wp_mono)
     (auto simp: emitted_def split: outcome.splits)

text \<open>Reads do not write; a write is the event it is logged as.\<close>

lemma emits_get [emits_intros]: "emits I P (\<lambda>_. True) (callP (api_get (log_api wrap A) k))"
  by (auto simp: emits_def wp_simps log_api_def split: prod.splits sum.splits)

lemma emits_write [emits_intros]:
  "P (VCreate, wrap x) \<Longrightarrow> emits I P (\<lambda>_. True) (callP (api_create (log_api wrap A) x))"
  "P (VUpdate, wrap x) \<Longrightarrow> emits I P (\<lambda>_. True) (callP (api_update (log_api wrap A) x))"
  "P (VUpdateStatus, wrap x) \<Longrightarrow> emits I P (\<lambda>_. True) (callP (api_update_status (log_api wrap A) x))"
  "P (VDelete, wrap x) \<Longrightarrow> emits I P (\<lambda>_. True) (callP (api_delete (log_api wrap A) x))"
  by (auto simp: emits_def wp_simps log_api_def log_call_def split: prod.splits sum.splits)

text \<open>A call whose result the program goes on with.\<close>

lemma emits_bind_call [emits_intros]:
  assumes "emits I P (\<lambda>_. True) (callP g)" "\<And>x. emits I P Q (f x)"
  shows "emits I P Q (bindP (callP g) f)"
  by (rule emits_bind [OF assms(1)]) (rule assms(2))

lemma emits_bind_try_call [emits_intros]:
  assumes "emits I P (\<lambda>_. True) (callP g)" "\<And>e. emits I P Q (f (Inl e))" "\<And>x. emits I P Q (f (Inr x))"
  shows "emits I P Q (bindP (tryP (callP g)) f)"
proof (rule emits_bind [OF emits_try [OF assms(1)]])
  fix r show "emits I P Q (f r)" by (cases r) (auto intro: assms)
qed

lemma emits_goc:
  assumes build: "emits I P (\<lambda>x. P (VCreate, wrap x)) build"
    and created: "\<And>x. emits I P (\<lambda>_. True) (created x)"
  shows "emits I P (\<lambda>_. True) (get_or_create (log_api wrap A) k build created)"
  unfolding get_or_create_def
proof (rule emits_bind_try_call)
  fix e
  have "emits I P (\<lambda>_. True) (bindP build (\<lambda>x. bindP (callP (api_create (log_api wrap A) x))
      (\<lambda>x'. thenP (created x') (retP x'))))"
    by (rule emits_bind [OF build]) (auto intro!: emits_intros created)
  then show "emits I P (\<lambda>_. True) (case Inl e of Inr x \<Rightarrow> retP x
     | Inl e \<Rightarrow> if \<not> IsNotFound e then errP e else bindP build (\<lambda>x.
          bindP (callP (api_create (log_api wrap A) x)) (\<lambda>x'. thenP (created x') (retP x'))))"
    by (simp add: emits_err)
qed (simp_all add: emits_get emits_ret)

text \<open>The writes of a program without a local memory, such as a whole run.\<close>

definition records :: "(event \<Rightarrow> bool) \<Rightarrow> ('a \<Rightarrow> bool) \<Rightarrow> ('w \<times> event list, 'a) prog \<Rightarrow> bool" where
  "records P Q p \<longleftrightarrow> (\<forall>w l. \<exists>r w' k. p (w, l) = (r, (w', l @ k)) \<and> list_all P k \<and> (\<forall>x. r = Ok x \<longrightarrow> Q x))"

lemma recordsE:
  assumes "records P Q p"
  obtains r w' k where "p (w, l) = (r, (w', l @ k))" "list_all P k" "\<And>x. r = Ok x \<Longrightarrow> Q x"
  using assms unfolding records_def by blast

lemma records_run:
  assumes "emits I P Q p" "I m"
  shows "records P Q (runP m p)"
  unfolding records_def
proof (intro allI)
  fix w l
  obtain r m' w' l' where p: "p (m, w, l) = (r, (m', w', l'))" by (metis prod_cases4)
  from emitsD [OF assms p] show "\<exists>r w' k. runP m p (w, l) = (r, (w', l @ k)) \<and> list_all P k \<and> (\<forall>x. r = Ok x \<longrightarrow> Q x)"
    by (auto simp: run_run p)
qed

lemma records_ret: "Q x \<Longrightarrow> records P Q (retP x)"
  by (auto simp: records_def run_prog)

lemma records_bind_try:
  assumes p: "records P Q p" and e: "\<And>e. records P Q' (f (Inl e))" and f: "\<And>x. Q x \<Longrightarrow> records P Q' (f (Inr x))"
  shows "records P Q' (bindP (tryP p) f)"
  unfolding records_def
proof (intro allI)
  fix w l
  obtain r w1 k1 where 1: "p (w, l) = (r, (w1, l @ k1))" "list_all P k1" "\<And>x. r = Ok x \<Longrightarrow> Q x"
    using p by (rule recordsE) blast
  show "\<exists>r w' k. bindP (tryP p) f (w, l) = (r, (w', l @ k)) \<and> list_all P k \<and> (\<forall>x. r = Ok x \<longrightarrow> Q' x)"
  proof (cases "\<exists>q. r = Panic q")
    case False
    then obtain x where x: "tryP p (w, l) = (Ok x, (w1, l @ k1))" "records P Q' (f x)"
      using 1 e f by (cases r) (auto simp: run_prog)
    from x(2) obtain r2 w2 k2 where "f x (w1, l @ k1) = (r2, (w2, (l @ k1) @ k2))" "list_all P k2" "\<And>x. r2 = Ok x \<Longrightarrow> Q' x"
      by (rule recordsE) blast
    with x(1) 1(2) show ?thesis
      by (intro exI [of _ r2] exI [of _ w2] exI [of _ "k1 @ k2"]) (auto simp: run_prog(6))
  qed (use 1 in \<open>auto simp: run_prog\<close>)
qed

end
