(* ===== verification/DeployEffects.thy ===== *)
theory DeployEffects
  imports DeployController Effects
begin

text \<open>
  What the deployment controller may write, against any server: it never deletes, it updates
  deployments only, and what it creates is a service, a baseline or a fresh \<open>Canary\<close>.
\<close>

fun provisioning_write :: "event \<Rightarrow> bool" where
  "provisioning_write (VUpdate, KDeployment d) = True"
| "provisioning_write (VCreate, KService s) =
     (svc_Ports s \<noteq> [] \<and> svc_Selector s = om_Labels (svc_Meta s) \<and>
      map_has (svc_Selector s) CanaryConfigLabel \<and> map_has (svc_Selector s) CanaryPolicyLabel)"
| "provisioning_write (VCreate, KDeployment b) =
     (ds_Replicas (dp_Spec b) = Some 1 \<and> map_get (om_Labels (dp_Meta b)) KraneTierLabel = ''baseline'' \<and>
      map_get (template_labels (dp_Spec b)) KraneTierLabel = ''baseline'' \<and>
      suffix ''-baseline'' (om_Name (dp_Meta b)) \<and> length (om_OwnerReferences (dp_Meta b)) = 1)"
| "provisioning_write (VCreate, KCanary c) = (cn_Status c = zeroStatus)"
| "provisioning_write _ = False"

lemma SetControllerReference_first:
  "SetControllerReference sc kind owner obj = Ok obj' \<Longrightarrow> om_OwnerReferences obj = [] \<Longrightarrow>
   length (om_OwnerReferences obj') = 1"
  by (auto simp: SetControllerReference_def Let_def split: sum.splits)

lemma SetControllerReference_kept:
  "SetControllerReference sc kind owner obj = Ok obj' \<Longrightarrow> om_OwnerReferences obj = [] \<Longrightarrow>
   om_Name obj' = om_Name obj \<and> om_Labels obj' = om_Labels obj \<and> length (om_OwnerReferences obj') = 1"
  by (simp add: SetControllerReference_first SetControllerReference_fields)

lemma connect_selectors_built:
  assumes "connect_selectors cfg pol src = Ok sp"
  shows "ds_Replicas sp = Some 1 \<and> map_get (template_labels sp) KraneTierLabel = ''baseline''"
proof -
  obtain sel f g where src: "ds_Selector src = Some sel" "ls_MatchLabels sel = Some f" "template_labels src = Some g"
    using assms connect_selectors_Ok_iff [of cfg pol src] unfolding selectable_def by auto
  then show ?thesis
    using assms connect_selectors_Ok [OF src] by (auto simp: set_template_labels_def)
qed

locale logging_deployer =
  fixes R :: "('w \<times> event list) Reconciler" and C :: "'w Client"
  assumes logs: "client R = logging C"
begin

abbreviation "provisions \<equiv> emits (\<lambda>m :: DeployMem. True) provisioning_write"

lemma provisions_template: "provisions (\<lambda>_. True) (reconcileCanaryDeployment R)"
  by (auto simp: reconcileCanaryDeployment_def logs Let_def intro!: emits_intros)

lemma provisions_service: "provisions (\<lambda>_. True) (reconcileCanaryService R)"
proof -
  have "provisions (\<lambda>x. provisioning_write (VCreate, KService x)) (createCanaryService R)"
    by (auto simp: emits_def createCanaryService_def wp_simps Let_def selection_map_def newCanaryService_def
        dest!: SetControllerReference_fields(3) intro!: continueI)
  then show ?thesis
    unfolding reconcileCanaryService_def logs logging_simps
    by (auto intro!: emits_bind_mem emits_goc emits_ret)
qed

lemma provisions_baseline: "provisions (\<lambda>_. True) (reconcileBaseline R)"
proof -
  have "provisions (\<lambda>x. provisioning_write (VCreate, KDeployment x)) (createBaselineDeployment R)"
    unfolding createBaselineDeployment_def logs logging_simps
    by (auto simp: Let_def baseline_meta_def MakeBaselineName_def suffix_def
        dest: connect_selectors_built dest!: SetControllerReference_kept intro!: emits_intros)
  then show ?thesis
    unfolding reconcileBaseline_def logs logging_simps
    by (auto intro!: emits_bind_mem emits_goc emits_ret simp: Let_def)
qed

lemma provisions_config: "provisions (\<lambda>_. True) (reconcileCanaryConfig R)"
proof -
  have "provisions (\<lambda>_. True) (get_or_create (canaries (client R)) k (retP (createCanaryConfig p c)) (\<lambda>_. retP ()))" for k p c
    unfolding logs logging_simps
    by (rule emits_goc) (auto simp: createCanaryConfig_def intro!: emits_intros)
  then show ?thesis
    unfolding reconcileCanaryConfig_def
    by (auto simp: Let_def logs intro!: emits_intros emits_bind [where Q = "\<lambda>_. True"])
qed

lemma provisions_fallback:
  "provisions (\<lambda>_. True) p \<Longrightarrow> provisions (\<lambda>_. True) k \<Longrightarrow> provisions (\<lambda>_. True) (orFallback p k)"
  unfolding orFallback_def
  by (rule emits_bind [OF emits_try]) (auto split: sum.splits intro: emits_ret)

lemma provisions_steps: "provisions (\<lambda>_. True) (reconcileSteps R)"
  unfolding reconcileSteps_def
  by (intro provisions_fallback provisions_template provisions_service provisions_baseline
      provisions_config emits_ret) simp

lemma provisions_policy: "emits (\<lambda>_. True) provisioning_write (\<lambda>_. True) (ReconcileDeployment_GetCanaryPolicy R d)"
  unfolding ReconcileDeployment_GetCanaryPolicy_def logs logging_simps by (rule emits_get)

lemma provisions_fetch: "emits (\<lambda>_. True) provisioning_write (\<lambda>_. True) (ReconcileDeployment_reconcile R nn)"
  unfolding ReconcileDeployment_reconcile_def UpdateCanaryConfigName_def logs logging_simps
  by (intro emits_bind_call emits_get emits_bind [OF provisions_policy] emits_if emits_bind_lift emits_write emits_ret)
     simp_all

text \<open>The whole run.\<close>

lemma run_logged: "records provisioning_write (\<lambda>_. True) (ReconcileDeployment_Reconcile R nn)"
  unfolding ReconcileDeployment_Reconcile_def
  by (rule records_bind_try [OF records_run [OF provisions_fetch]],
      auto intro!: records_ret records_bind_try [OF records_run [OF provisions_policy]]
        records_run [OF provisions_steps] split: sum.splits)

end

interpretation deployer_log: logging_deployer "\<lparr>client = logging C, scheme = s\<rparr>" C for C s
  by unfold_locales simp

end
