(* ===== verification/CanaryEffects.thy ===== *)
theory CanaryEffects
  imports CanaryController Effects Tracker
begin

text \<open>
  What the canary controller may write, by phase, against any server that keeps two documented
  promises: \<open>Get\<close> answers with the object of the requested key, and the answer to a status
  update carries the status that was sent, for the same object and specification. (A change of
  the specification in between is a conflict, since the update carries the resource version.)
\<close>

definition nonempty_key :: "NamespacedName \<Rightarrow> bool" where
  "nonempty_key k \<longleftrightarrow> nn_Namespace k \<noteq> [] \<and> nn_Name k \<noteq> []"

definition keyed_gets :: "'w Client \<Rightarrow> bool" where
  "keyed_gets C \<longleftrightarrow> (\<forall>k w w'. nonempty_key k \<longrightarrow>
     (\<forall>x. api_get (canaries C) k w = (Inr x, w') \<longrightarrow> metaKey (cn_Meta x) = k) \<and>
     (\<forall>x. api_get (pods C) k w = (Inr x, w') \<longrightarrow> metaKey (pod_Meta x) = k) \<and>
     (\<forall>x. api_get (deployments C) k w = (Inr x, w') \<longrightarrow> metaKey (dp_Meta x) = k))"

definition same_object :: "Canary \<Rightarrow> Canary \<Rightarrow> bool" where
  "same_object c0 c \<longleftrightarrow> metaKey (cn_Meta c) = metaKey (cn_Meta c0) \<and> cn_Spec c = cn_Spec c0"

definition status_echo :: "'w Client \<Rightarrow> bool" where
  "status_echo C \<longleftrightarrow> (\<forall>x w x' w'. api_update_status (canaries C) x w = (Inr x', w') \<longrightarrow>
     same_object x x' \<and> cn_Status x' = cn_Status x)"

text \<open>The results of the phases before the one a canary is in.\<close>

definition past :: "Canary \<Rightarrow> CanaryConfigPhase list" where
  "past c = (let st = cn_Status c in
     (if progress c \<in> {CanaryProgress_Canary, CanaryProgress_Reporting, CanaryProgress_Cleanup} then [cst_Testing st] else []) @
     (if progress c \<in> {CanaryProgress_Reporting, CanaryProgress_Cleanup} then [cst_Canary st, cst_Judging st] else []) @
     (if progress c = CanaryProgress_Cleanup then [cst_Reporting st] else []))"

text \<open>
  The invariant of the memory until the last step: the canary read, in the phase read, with the
  results of the earlier phases.
\<close>

definition in_phase :: "Canary \<Rightarrow> Canary \<Rightarrow> bool" where
  "in_phase c0 c \<longleftrightarrow> same_object c0 c \<and> progress c = progress c0 \<and> past c = past c0"

lemma in_phase_refl [simp]: "in_phase c c"
  by (simp add: in_phase_def same_object_def)

lemma in_phase_fields:
  assumes "in_phase c0 c"
  shows "canary_name c = canary_name c0" "canary_namespace c = canary_namespace c0"
    "cn_Spec c = cn_Spec c0" "progress c = progress c0"
    "GetTestJobname c = GetTestJobname c0" "GetJudgeJobName c = GetJudgeJobName c0"
  using assms
  by (auto simp: in_phase_def same_object_def metaKey_def GetTestJobname_def GetJudgeJobName_def)

lemma in_phase_updates [simp]:
  "in_phase c0 (upd_initialization f c) = in_phase c0 c"
  "progress c0 = CanaryProgress_Testing \<Longrightarrow> in_phase c0 (upd_testing f c) = in_phase c0 c"
  "progress c0 = CanaryProgress_Canary \<Longrightarrow> in_phase c0 (upd_canary f c) = in_phase c0 c"
  "progress c0 = CanaryProgress_Testing \<or> progress c0 = CanaryProgress_Canary \<Longrightarrow>
     in_phase c0 (upd_judging f c) = in_phase c0 c"
  "progress c0 = CanaryProgress_Reporting \<Longrightarrow> in_phase c0 (upd_reporting f c) = in_phase c0 c"
  "in_phase c0 (upd_cleanup f c) = in_phase c0 c"
  by (auto simp: in_phase_def same_object_def past_def Let_def)

text \<open>A step that looks at the canary first has it in the phase of \<open>c0\<close>.\<close>

lemma emits_bind_phase:
  assumes "\<And>m. in_phase c0 m \<Longrightarrow> progress m = progress c0 \<Longrightarrow> emits (in_phase c0) P Q (f m)"
  shows "emits (in_phase c0) P Q (bindP memP f)"
  by (rule emits_bind_mem) (rule assms, simp_all add: in_phase_def)

subsection \<open>The writes allowed in a phase\<close>

definition test_key :: "Canary \<Rightarrow> NamespacedName" where
  "test_key c = \<lparr>nn_Namespace = canary_namespace c, nn_Name = GetTestJobname c\<rparr>"

definition judge_key :: "Canary \<Rightarrow> NamespacedName" where
  "judge_key c = \<lparr>nn_Namespace = canary_namespace c, nn_Name = GetJudgeJobName c\<rparr>"

definition canary_deployment_key :: "Canary \<Rightarrow> NamespacedName" where
  "canary_deployment_key c =
     \<lparr>nn_Namespace = canary_namespace c, nn_Name = csd_Canary (csp_Deployments (cn_Spec c))\<rparr>"

fun phase_write :: "Canary \<Rightarrow> event \<Rightarrow> bool" where
  "phase_write c0 (VUpdateStatus, KCanary x) = in_phase c0 x"
| "phase_write c0 (VCreate, KPod pod) =
     (progress c0 = CanaryProgress_Testing \<and> metaKey (pod_Meta pod) = test_key c0 \<or>
      progress c0 \<in> {CanaryProgress_Testing, CanaryProgress_Canary} \<and> metaKey (pod_Meta pod) = judge_key c0)"
| "phase_write c0 (VUpdate, KVirtualService vs) =
     (progress c0 \<in> {CanaryProgress_Canary, CanaryProgress_Cleanup})"
| "phase_write c0 (VDelete, KPod pod) =
     (progress c0 = CanaryProgress_Cleanup \<and> metaKey (pod_Meta pod) \<in> {test_key c0, judge_key c0})"
| "phase_write c0 (VDelete, KDeployment d) =
     (progress c0 = CanaryProgress_Cleanup \<and>
      (nonempty_key (canary_deployment_key c0) \<longrightarrow> metaKey (dp_Meta d) = canary_deployment_key c0))"
| "phase_write c0 _ = False"

text \<open>
  The log of a run on the canary \<open>c0\<close> it has read: writes of its phase, and after them at most
  one transition, on the canary the steps have left.
\<close>

definition run_log :: "Canary \<Rightarrow> event list \<Rightarrow> Canary \<times> 'w \<times> event list \<Rightarrow> bool" where
  "run_log c0 l s = (case s of (m, w, l') \<Rightarrow> \<exists>k t. l' = l @ k @ t \<and> list_all (phase_write c0) k \<and>
     (t = [] \<or> (\<exists>c. in_phase c0 c \<and> phase_done (cn_Status c) \<and> t = [(VUpdateStatus, KCanary (advance c))])))"

subsection \<open>The steps\<close>

text \<open>
  The client's promises as a locale; \<open>R\<close> is a reconciler whose client logs its writes, \<open>c0\<close>
  the canary it has read.
\<close>

locale canary_server =
  fixes C :: "'w Client" and R :: "('w \<times> event list) Reconciler" and c0 :: Canary
  assumes logs: "client R = logging C"
    and keyed: "keyed_gets C"
    and echo: "status_echo C"
begin

lemma emits_status:
  assumes "\<And>c. in_phase c0 c \<Longrightarrow> in_phase c0 (f c)"
  shows "emits (in_phase c0) (phase_write c0) (\<lambda>_. True) (putStatus R f)"
proof -
  have "in_phase c0 c'" if "in_phase c0 c" "api_update_status (canaries C) (f c) w = (Inr c', w')" for c c' w w'
  proof -
    have "same_object (f c) c'" "cn_Status c' = cn_Status (f c)"
      using echo that(2) unfolding status_echo_def by blast+
    with assms [OF that(1)] show ?thesis by (auto simp: in_phase_def same_object_def past_def)
  qed
  then show ?thesis
    using assms by (auto simp: emits_def wp_simps logs log_api_def log_call_def split: prod.splits sum.splits)
qed

lemma emits_get_pod:
  assumes "nonempty_key k"
  shows "emits I P (\<lambda>x. metaKey (pod_Meta x) = k) (callP (api_get (log_api KPod (pods C)) k))"
  using keyed assms
  by (auto simp: emits_def wp_simps log_api_def keyed_gets_def split: prod.splits sum.splits)

lemma emits_get_deployment:
  assumes "nonempty_key k"
  shows "emits I P (\<lambda>x. metaKey (dp_Meta x) = k) (callP (api_get (log_api KDeployment (deployments C)) k))"
  using keyed assms
  by (auto simp: emits_def wp_simps log_api_def keyed_gets_def split: prod.splits sum.splits)

lemma emits_policy: "emits (in_phase c0) (phase_write c0) (\<lambda>_. True) (ReconcileCanary_GetCanaryPolicy R)"
  unfolding ReconcileCanary_GetCanaryPolicy_def logs logging_simps by (intro emits_intros)

lemma emits_step_init: "emits (in_phase c0) (phase_write c0) (\<lambda>_. True) (reconcileCanaryAndBaseline R)"
  by (auto simp: reconcileCanaryAndBaseline_def logs intro!: emits_intros emits_status)

text \<open>A report: the status is updated when it differs.\<close>

lemma emits_report:
  assumes "\<And>c. in_phase c0 c \<Longrightarrow> in_phase c0 (f c)"
  shows "emits (in_phase c0) (phase_write c0) (\<lambda>_. True)
    (bindP memP (\<lambda>c. thenP (whenP (b c) (putStatus R f)) (retP x)))"
  by (intro emits_intros emits_status) (simp_all add: assms)

lemma emits_step_test: "emits (in_phase c0) (phase_write c0) (\<lambda>_. True) (reconcileTestJob R)"
proof -
  have goc: "emits (in_phase c0) (phase_write c0) (\<lambda>_. True)
      (get_or_create (pods (client R)) k (liftP (CreateTestJob R c policy))
        (\<lambda>job. putStatus R (upd_testing (init_job (om_Name (pod_Meta job))))))"
    if "in_phase c0 c" "progress c = CanaryProgress_Testing" for k c policy
    unfolding logs logging_simps
    by (rule emits_goc) (use that in \<open>auto intro!: emits_intros emits_status
        simp: test_key_def in_phase_fields dest!: created_job_key\<close>)
  show ?thesis
    unfolding reconcileTestJob_def
    by (rule emits_bind_phase, auto intro!: emits_intros emits_bind [OF emits_policy] emits_bind [OF goc] emits_report split: prod.splits)
qed

lemma emits_step_judge: "emits (in_phase c0) (phase_write c0) (\<lambda>_. True) (reconcileJudgeJob jf R)"
proof -
  have goc: "emits (in_phase c0) (phase_write c0) (\<lambda>_. True)
      (get_or_create (pods (client R)) k (liftP (CreateJudgeJob jf R c policy))
        (\<lambda>job. putStatus R (upd_judging (init_job (om_Name (pod_Meta job))))))"
    if "in_phase c0 c" "progress c = CanaryProgress_Testing \<or> progress c = CanaryProgress_Canary" for k c policy
    unfolding logs logging_simps
    by (rule emits_goc) (use that in \<open>auto intro!: emits_intros emits_status
        simp: judge_key_def in_phase_fields dest!: created_job_key\<close>)
  show ?thesis
    unfolding reconcileJudgeJob_def
    by (rule emits_bind_phase, auto intro!: emits_intros emits_bind [OF emits_policy] emits_bind [OF goc] emits_report split: prod.splits)
qed

lemma emits_step_routing: "emits (in_phase c0) (phase_write c0) (\<lambda>_. True) (reconcileVirtualService R)"
  unfolding reconcileVirtualService_def
  by (rule emits_bind_phase, auto simp: logs in_phase_fields intro!: emits_intros emits_status emits_bind [OF emits_policy])

lemma emits_ignore:
  "emits (in_phase c0) (phase_write c0) (\<lambda>_. True) p \<Longrightarrow>
   emits (in_phase c0) (phase_write c0) (\<lambda>_. True) (ignoreError p)"
  unfolding ignoreError_def by (rule emits_bind [OF emits_try]) (auto intro: emits_intros)

lemma emits_step_reporting: "emits (in_phase c0) (phase_write c0) (\<lambda>_. True) (reconcileReporting R)"
  unfolding reconcileReporting_def
  by (rule emits_bind_phase, auto intro!: emits_intros emits_status emits_ignore)

lemma emits_cleanup_pod:
  assumes "progress c0 = CanaryProgress_Cleanup" "\<lparr>nn_Namespace = ns, nn_Name = name\<rparr> \<in> {test_key c0, judge_key c0}"
    "ns \<noteq> []" "name \<noteq> []"
  shows "emits (in_phase c0) (phase_write c0) (\<lambda>_. True) (cleanupPod R name ns)"
  unfolding cleanupPod_def logs logging_simps
proof (rule emits_bind [OF emits_try [OF emits_get_pod]])
  fix r :: "error + Pod"
  assume "\<forall>x. r = Inr x \<longrightarrow> metaKey (pod_Meta x) = \<lparr>nn_Namespace = ns, nn_Name = name\<rparr>"
  then show "emits (in_phase c0) (phase_write c0) (\<lambda>_. True)
     (case r of Inl err \<Rightarrow> if IsNotFound err then retP () else errP err
      | Inr pod \<Rightarrow> callP (api_delete (log_api KPod (pods C)) pod))"
    using assms by (cases r) (auto intro!: emits_intros)
qed (use assms in \<open>simp add: nonempty_key_def\<close>)

lemma emits_cleanup_deployment:
  assumes "progress c0 = CanaryProgress_Cleanup" "\<lparr>nn_Namespace = ns, nn_Name = name\<rparr> = canary_deployment_key c0"
  shows "emits (in_phase c0) (phase_write c0) (\<lambda>_. True) (cleanupDeployment R name ns)"
proof -
  let ?k = "\<lparr>nn_Namespace = ns, nn_Name = name\<rparr>"
  have "emits (in_phase c0) (phase_write c0) (\<lambda>x. nonempty_key ?k \<longrightarrow> metaKey (dp_Meta x) = ?k)
     (callP (api_get (log_api KDeployment (deployments C)) ?k))"
    by (cases "nonempty_key ?k") (auto intro: emits_get emits_weaken [OF emits_get_deployment])
  note get = emits_try [OF this]
  show ?thesis
    unfolding cleanupDeployment_def logs logging_simps
  proof (rule emits_bind [OF get])
    fix r :: "error + Deployment"
    assume "\<forall>x. r = Inr x \<longrightarrow> nonempty_key ?k \<longrightarrow> metaKey (dp_Meta x) = ?k"
    then show "emits (in_phase c0) (phase_write c0) (\<lambda>_. True)
       (case r of Inl err \<Rightarrow> if IsNotFound err then retP () else errP err
        | Inr app \<Rightarrow> callP (api_delete (log_api KDeployment (deployments C)) app))"
      using assms by (cases r) (auto intro!: emits_intros)
  qed
qed

lemma emits_cleanup_routes:
  assumes "progress c0 = CanaryProgress_Cleanup"
  shows "emits (in_phase c0) (phase_write c0) (\<lambda>_. True) (cleanup_routes R policy)"
  unfolding cleanup_routes_def
  by (auto simp: logs assms intro!: emits_intros)

lemma emits_step_cleanup:
  assumes named: "canary_namespace c0 \<noteq> []"
  shows "emits (in_phase c0) (phase_write c0) (\<lambda>_. True) (reconcileCleanup R)"
proof -
  have "emits (in_phase c0) (phase_write c0) (\<lambda>_. True)
     (thenP (cleanupPod R (GetTestJobname c) (canary_namespace c))
      (thenP (cleanupPod R (GetJudgeJobName c) (canary_namespace c))
      (thenP (cleanupDeployment R (csd_Canary (csp_Deployments (cn_Spec c))) (canary_namespace c))
      (thenP (cleanup_routes R policy)
        (ignoreError (putStatus R (upd_cleanup (set_phase CanaryPhaseStatus_Success rerouting_message))))))))"
    if "in_phase c0 c" "progress c = CanaryProgress_Cleanup" for c policy
    using that named job_names_nonempty
    by (intro emits_then emits_cleanup_pod emits_cleanup_deployment emits_cleanup_routes emits_ignore emits_status)
       (auto simp: in_phase_fields test_key_def judge_key_def canary_deployment_key_def)
  then show ?thesis
    unfolding reconcileCleanup_def
    by (auto intro!: emits_bind_mem emits_ret emits_bind [OF emits_policy])
qed

lemma run_log_emitted: "emitted (in_phase c0) (phase_write c0) Q l r s \<Longrightarrow> run_log c0 l s"
  by (cases s) (auto simp: run_log_def)

lemma run_log_trans:
  assumes "run_log c0 (l @ k) s" "list_all (phase_write c0) k"
  shows "run_log c0 l s"
proof -
  obtain m w l' where s: "s = (m, w, l')" by (cases s)
  with assms(1) obtain k' t where "l' = l @ (k @ k') @ t" "list_all (phase_write c0) k'"
    "t = [] \<or> (\<exists>c. in_phase c0 c \<and> phase_done (cn_Status c) \<and> t = [(VUpdateStatus, KCanary (advance c))])"
    by (auto simp: run_log_def)
  moreover from this assms(2) have "list_all (phase_write c0) (k @ k')" by simp
  ultimately show ?thesis unfolding run_log_def s by blast
qed

lemma run_log_then:
  fixes p :: "(Canary \<times> 'w \<times> event list, 'a) prog"
  assumes p: "emits (in_phase c0) (phase_write c0) Q p"
    and k: "\<And>m w l. in_phase c0 m \<Longrightarrow> wp k (\<lambda>_. run_log c0 l) (m, w, l)"
    and m: "in_phase c0 m"
  shows "wp (orFallbackCanary p k) (\<lambda>_. run_log c0 l) (m, w, l)"
  unfolding wp_orFallbackCanary
proof (rule wp_mono)
  show "wp p (emitted (in_phase c0) (phase_write c0) Q l) (m, w, l)"
    using p m by (simp add: emits_def)
  fix r and s :: "Canary \<times> 'w \<times> event list"
  assume *: "emitted (in_phase c0) (phase_write c0) Q l r s"
  obtain m' w' l' where s: "s = (m', w', l')" by (cases s)
  with * obtain k' where k': "l' = l @ k'" "list_all (phase_write c0) k'" "in_phase c0 m'" by auto
  have "wp k (\<lambda>_. run_log c0 l) s"
    unfolding s k'(1) by (rule wp_mono [OF k [OF k'(3)]]) (rule run_log_trans [OF _ k'(2)])
  then show "case r of Ok x \<Rightarrow> wp k (\<lambda>_. run_log c0 l) s | Err e \<Rightarrow> run_log c0 l s | Panic q \<Rightarrow> run_log c0 l s"
    using run_log_emitted [OF *] by (cases r) simp_all
qed

lemma run_log_transition:
  assumes "in_phase c0 m"
  shows "wp (orFallbackCanary (ReconcilePhaseStatus R) (retP (requeue_after_5s, None))) (\<lambda>_. run_log c0 l) (m, w, l)"
proof -
  have "run_log c0 l (m', w', l')" if "l' = l \<or> phase_done (cn_Status m) \<and> l' = l @ [(VUpdateStatus, KCanary (advance m))]"
    for m' and w' :: 'w and l'
  proof (cases "l' = l")
    case True
    then show ?thesis by (auto simp: run_log_def)
  next
    case False
    with that assms show ?thesis
      unfolding run_log_def prod.case
      by (intro exI [of _ "[]"] exI [of _ "[(VUpdateStatus, KCanary (advance m))]"]) auto
  qed
  then show ?thesis
    by (simp add: wp_def orFallbackCanary_def run_simps phase_status_spec logs log_api_def log_call_def
        split: prod.splits sum.splits)
qed

lemma run_steps_log:
  assumes "in_phase c0 m" and named: "canary_namespace c0 \<noteq> []"
  shows "wp (canarySteps jf R) (\<lambda>_. run_log c0 l) (m, w, l)"
  unfolding canarySteps_def
proof (rule run_log_then [OF emits_step_init _ assms(1)])
  fix m w l assume m: "in_phase c0 m"
  have "wp (afterInit jf R) (\<lambda>_. run_log c0 l) (m, w, l)"
    unfolding afterInit_def
    by (intro run_log_then [OF emits_step_test] run_log_then [OF emits_step_judge]
        run_log_then [OF emits_step_routing] run_log_then [OF emits_step_reporting]
        run_log_then [OF emits_step_cleanup [OF named]] run_log_transition m)
  moreover have "run_log c0 l (m, w, l)"
    by (auto simp: run_log_def)
  ultimately show "wp (bindP memP (\<lambda>cfg.
      if ph_Status (cst_Initialization (cn_Status cfg)) = CanaryPhaseStatus_InProgress
      then retP (requeue_after_5s, None) else afterInit jf R)) (\<lambda>_. run_log c0 l) (m, w, l)"
    by (simp add: wp_simps)
qed

end

text \<open>The in-memory client keeps both promises, so do its logging and every other locale instance.\<close>

lemma filter_keyed:
  "nonempty_key k \<Longrightarrow> x \<in> set (filterByNamespaceAndName meta objs (nn_Namespace k) (nn_Name k)) \<Longrightarrow>
   metaKey (meta x) = k"
  by (cases k) (auto simp: filterByNamespaceAndName_def nonempty_key_def metaKey_def)

lemma tracker_Get_keyed:
  "nonempty_key k \<Longrightarrow> tracker_Get meta gr (nn_Namespace k) (nn_Name k) objs = Inr x \<Longrightarrow> metaKey (meta x) = k"
  by (auto simp: tracker_Get_def split: list.splits intro!: filter_keyed [of k x meta objs])

lemma fakeClient_keyed: "keyed_gets fakeClient"
  by (auto simp: keyed_gets_def fake_api_def dest: tracker_Get_keyed)

lemma fakeClient_echo: "status_echo fakeClient"
  by (auto simp: status_echo_def fake_api_def fake_write_def same_object_def split: sum.splits)

interpretation fake_server: canary_server fakeClient "\<lparr>client = logging fakeClient, scheme = s\<rparr>" c0
  for s c0
  by unfold_locales (simp_all add: fakeClient_keyed fakeClient_echo)

lemma canary_server_intro:
  "keyed_gets C \<Longrightarrow> status_echo C \<Longrightarrow> canary_server C \<lparr>client = logging C, scheme = s\<rparr>"
  by (simp add: canary_server_def)

subsection \<open>A whole run\<close>

text \<open>
  A run on a canary it can read writes what its phase allows, then at most one transition; on a
  canary it cannot read it writes nothing.
\<close>

lemma canary_run_log:
  assumes C: "keyed_gets C" "status_echo C" and nn: "nonempty_key nn"
    and get: "api_get (canaries C) nn w = (Inr c, w0)"
  shows "\<exists>r w' k t. ReconcileCanary_Reconcile jf \<lparr>client = logging C, scheme = sc\<rparr> nn (w, []) = (r, (w', k @ t)) \<and>
    list_all (phase_write c) k \<and>
    (t = [] \<or> (\<exists>d. in_phase c d \<and> phase_done (cn_Status d) \<and> t = [(VUpdateStatus, KCanary (advance d))]))"
proof -
  let ?R = "\<lparr>client = logging C, scheme = sc\<rparr>"
  have "metaKey (cn_Meta c) = nn"
    using C(1) nn get unfolding keyed_gets_def by blast
  then have "canary_namespace c \<noteq> []"
    using nn by (auto simp: nonempty_key_def metaKey_def)
  then have "wp (canarySteps jf ?R) (\<lambda>_. run_log c []) (c, w0, [])"
    using canary_server.run_steps_log [OF canary_server_intro [OF C] in_phase_refl] by blast
  then obtain r m w' l where "canarySteps jf ?R (c, w0, []) = (r, m, w', l)" "run_log c [] (m, w', l)"
    by (auto simp: wp_def split: prod.splits)
  moreover have "callP (api_get (canaries (client ?R)) nn) ((), w, []) = (Ok c, (), w0, [])"
    using get by (simp add: run_call log_api_def)
  ultimately show ?thesis
    by (auto simp: ReconcileCanary_Reconcile_def run_prog run_run run_log_def)
qed

lemma canary_run_idle:
  "api_get (canaries C) nn w = (Inl e, w0) \<Longrightarrow>
   \<exists>r. ReconcileCanary_Reconcile jf \<lparr>client = logging C, scheme = sc\<rparr> nn (w, []) = (r, (w0, []))"
  by (simp add: ReconcileCanary_Reconcile_def run_simps log_api_def)

end
