(* ===== verification/RunResults.thy ===== *)
theory RunResults
  imports CanaryController DeployController
begin

text \<open>
  What a run can answer, for every client: whether the request is tried again, when, and with
  which error.
\<close>

subsection \<open>The canary controller\<close>

text \<open>The answers of a run that has read its canary.\<close>

definition retried :: "(Result \<times> error option) outcome \<Rightarrow> bool" where
  "retried r \<longleftrightarrow> r = Ok (requeue_after_5s, None) \<or> (\<exists>e. r = Ok (canary_fallbackReconcile (Some e))) \<or> (\<exists>q. r = Panic q)"

lemma retried_step:
  assumes "\<And>s. retried (fst (k s))"
  shows "retried (fst (orFallbackCanary p k s))"
  using assms
  by (cases "p s"; cases "fst (p s)") (auto simp: orFallbackCanary_def run_prog retried_def)

lemma retried_run: "retried (fst (canarySteps jf R s))"
proof -
  have end_ret: "retried (fst (retP (requeue_after_5s, None) s))" for s :: "Canary \<times> 'a"
    by (simp add: run_prog retried_def)
  have "retried (fst (afterInit jf R s))" for s
    unfolding afterInit_def by (intro retried_step end_ret)
  moreover have "retried (fst (bindP memP (\<lambda>cfg.
      if ph_Status (cst_Initialization (cn_Status cfg)) = CanaryPhaseStatus_InProgress
      then retP (requeue_after_5s, None) else afterInit jf R) s))" if "\<And>s. retried (fst (afterInit jf R s))" for s
    using that [of s] by (cases s) (simp add: run_prog(6) run_call(2) run_control end_ret)
  ultimately show ?thesis
    unfolding canarySteps_def by (intro retried_step) blast
qed

lemma canary_fallback_simps [simp]:
  "canary_fallbackReconcile (Some e) = (\<lparr>rs_Requeue = True, rs_RequeueAfter = Second * 5\<rparr>,
     if strings_Contains (Error e) modified_message then None else Some e)"
  by (simp add: canary_fallbackReconcile_def modified_message_def)

subsection \<open>A policy that is missing, a mode that is unknown\<close>

lemma missing_policy_run:
  assumes "api_get (deployments (client R)) nn w = (Inr d, w1)"
    and "api_get (policies (client R)) \<lparr>nn_Namespace = deployment_namespace d, nn_Name = GetCanaryPolicyName d\<rparr> w1 = (Inl e, w2)"
    and "IsNotFound e"
  shows "ReconcileDeployment_Reconcile R nn w = (Ok (noResult, None), w2)"
  using assms
  by (simp add: ReconcileDeployment_Reconcile_def ReconcileDeployment_reconcile_def
      ReconcileDeployment_GetCanaryPolicy_def run_simps)

lemma unknown_mode_run:
  assumes "cps_BaselineMode (cpo_Spec (me_policy m)) = BaselineModeOther s"
    and "api_get (deployments (client R)) \<lparr>nn_Namespace = deployment_namespace (me_instance m),
       nn_Name = MakeBaselineName (me_instance m)\<rparr> w = (Inl e, w1)" "IsNotFound e"
    and "api_get (deployments (client R)) \<lparr>nn_Namespace = deployment_namespace (me_instance m),
       nn_Name = cps_Base (cpo_Spec (me_policy m))\<rparr> w1 = (Inr base, w2)"
  shows "reconcileBaseline R (m, w) = (Panic NilDereference, (m, w2))"
  using assms
  by (simp add: reconcileBaseline_def get_or_create_def createBaselineDeployment_def run_simps default_mode_def
      connect_selectors_def)

end
