(* ===== verification/ExampleJobs.thy ===== *)
theory ExampleJobs
  imports CanaryJobs
begin

text \<open>
  The programs of the two job images in \<open>example/\<close>: the judge (\<open>example/judge/main.go\<close>), which
  watches a metric and fails when it violates its margin for too long, and the test job
  (\<open>example/testjob/main.go\<close>), which sends requests up to a bound. Prometheus, the HTTP service
  and the clock are parameters: functions of the number of the iteration.
\<close>

subsection \<open>Comparison of floats\<close>

text \<open>
  \<open>a > b\<close> on IEEE-754 bit patterns: false when one is not a number; otherwise the magnitude
  with its sign decides, and the two zeroes are equal.
\<close>

definition float_magnitude :: "float64 \<Rightarrow> int" where
  "float_magnitude x = uint x mod 2 ^ 63"

definition float_is_nan :: "float64 \<Rightarrow> bool" where
  "float_is_nan x \<longleftrightarrow> 0x7FF0000000000000 < float_magnitude x"

definition float_order :: "float64 \<Rightarrow> int" where
  "float_order x = (if 2 ^ 63 \<le> uint x then - float_magnitude x else float_magnitude x)"

definition float_greater :: "float64 \<Rightarrow> float64 \<Rightarrow> bool" where
  "float_greater a b \<longleftrightarrow> \<not> float_is_nan a \<and> \<not> float_is_nan b \<and> float_order b < float_order a"

subsection \<open>The judge\<close>

definition newDiffQuery :: "string \<Rightarrow> string \<Rightarrow> string \<Rightarrow> string \<Rightarrow> string" where
  "newDiffQuery metric containerName baseline canary =
     (let q = [CHR 0x22] in
      metric @ ''{container_name='' @ q @ containerName @ q @ '',name=~'' @ q @ ''.*'' @ canary @
      ''.*'' @ q @ ''} - on (container_name) '' @
      metric @ ''{container_name='' @ q @ containerName @ q @ '',name=~'' @ q @ ''.*'' @ baseline @ ''.*'' @ q @ ''}'')"

text \<open>
  The two nested loops over series and samples. The counter runs on across series; the loop is
  left with the failure as soon as it exceeds ten.
\<close>

fun judge_samples :: "float64 \<Rightarrow> nat \<Rightarrow> float64 list \<Rightarrow> nat option" where
  "judge_samples margin n [] = Some n"
| "judge_samples margin n (v # vs) =
     (let n' = (if float_greater v margin then n + 1 else 0)
      in if n' > 10 then None else judge_samples margin n' vs)"

fun judge_series :: "float64 \<Rightarrow> nat \<Rightarrow> float64 list list \<Rightarrow> nat option" where
  "judge_series margin n [] = Some n"
| "judge_series margin n (s # ss) =
     (if length s \<le> 0 then judge_series margin n ss
      else (case judge_samples margin n s of None \<Rightarrow> None | Some n' \<Rightarrow> judge_series margin n' ss))"

text \<open>
  What the client of Prometheus answers: an error, a matrix (the samples of every series) or a
  value of another type, for which the type assertion panics.
\<close>

datatype prom_answer = PromError string | PromMatrix "float64 list list" | PromOther

datatype judge_outcome = Judged | MetricFailed | QueryError string | JudgePanic

definition judge_reconcile :: "float64 \<Rightarrow> prom_answer \<Rightarrow> judge_outcome" where
  "judge_reconcile margin answer =
     (case answer of
        PromError e \<Rightarrow> QueryError e
      | PromOther \<Rightarrow> JudgePanic
      | PromMatrix resMatrix \<Rightarrow> (case judge_series margin 0 resMatrix of None \<Rightarrow> MetricFailed | Some n \<Rightarrow> Judged))"

text \<open>
  One iteration over the metrics. A failed metric ends the program with code 1, a panic with
  Go's code 2; any other error is printed and the loop goes on.
\<close>

fun judge_round :: "(string \<Rightarrow> prom_answer) \<Rightarrow> string \<Rightarrow> string \<Rightarrow> DiffMetric list \<Rightarrow> int option" where
  "judge_round prom baseline canary [] = None"
| "judge_round prom baseline canary (m # ms) =
     (case judge_reconcile (dm_Diff m) (prom (newDiffQuery (dm_Metric m) (dm_Container m) baseline canary)) of
        MetricFailed \<Rightarrow> Some 1
      | JudgePanic \<Rightarrow> Some 2
      | _ \<Rightarrow> judge_round prom baseline canary ms)"

text \<open>
  The main loop. \<open>prom k\<close> answers the queries of iteration \<open>k\<close>, \<open>elapsed k\<close> is the time since the
  start at its beginning; the result is the exit code, and None a program that runs for ever.
\<close>

partial_function (option) judge_loop ::
    "(nat \<Rightarrow> string \<Rightarrow> prom_answer) \<Rightarrow> (nat \<Rightarrow> int) \<Rightarrow> int \<Rightarrow> string \<Rightarrow> string
       \<Rightarrow> DiffMetric list \<Rightarrow> nat \<Rightarrow> int option" where
  "judge_loop prom elapsed timeBoundary baseline canary ms k =
     (case judge_round (prom k) baseline canary ms of
        Some code \<Rightarrow> Some code
      | None \<Rightarrow> if timeBoundary > 0 \<and> elapsed k \<ge> timeBoundary then Some 0
                else judge_loop prom elapsed timeBoundary baseline canary ms (Suc k))"

text \<open>
  The program: \<open>getenv\<close> is its environment, \<open>parseDuration\<close> the value of \<open>time.ParseDuration\<close>
  (0 with its ignored error), the two decoders stand for \<open>json.Unmarshal\<close> into the two slices,
  and \<open>newClient\<close> for the client of the given address.
\<close>

definition judge_main ::
    "(string \<Rightarrow> int) \<Rightarrow> (string \<Rightarrow> string + DiffMetric list) \<Rightarrow> (string \<Rightarrow> string + ThresholdMetric list)
       \<Rightarrow> (string \<Rightarrow> string + (nat \<Rightarrow> string \<Rightarrow> prom_answer)) \<Rightarrow> (nat \<Rightarrow> int) \<Rightarrow> (string \<Rightarrow> string) \<Rightarrow> int option" where
  "judge_main parseDuration decodeDiffs decodeThresholds newClient elapsed getenv =
     (let canaryLabel = getenv ''KRANE_CANARY'';
          baselineLabel = getenv ''KRANE_BASELINE'';
          timeBoundary = parseDuration (getenv ''KRANE_BOUNDARY_TIME'');
          diffs = getenv ''KRANE_DIFF_METRICS'';
          thresholds = getenv ''KRANE_THRESHOLD_METRICS''
      in case (if diffs \<noteq> [] then decodeDiffs diffs else Inr []) of
           Inl e \<Rightarrow> Some 2
         | Inr diffMetrics \<Rightarrow>
             (case (if thresholds \<noteq> [] then decodeThresholds thresholds else Inr []) of
                Inl e \<Rightarrow> Some 2
              | Inr thresholdMetrics \<Rightarrow>
                  (case newClient (getenv ''KRANE_PROMETHEUS'') of
                     Inl e \<Rightarrow> Some 2
                   | Inr prom \<Rightarrow> judge_loop prom elapsed timeBoundary baselineLabel canaryLabel diffMetrics 0)))"

subsection \<open>When a metric fails\<close>

text \<open>A run of more than ten violations in the samples of all series, one after the other.\<close>

definition violated :: "float64 \<Rightarrow> float64 list \<Rightarrow> bool" where
  "violated margin vs \<longleftrightarrow> (\<exists>xs ys zs. vs = xs @ ys @ zs \<and> length ys = 11 \<and> (\<forall>v\<in>set ys. float_greater v margin))"

lemma judge_samples_append:
  "judge_samples margin n (xs @ ys) = (case judge_samples margin n xs of None \<Rightarrow> None | Some k \<Rightarrow> judge_samples margin k ys)"
  by (induction xs arbitrary: n) (simp_all add: Let_def)

lemma judge_series_concat: "judge_series margin n ss = judge_samples margin n (concat ss)"
  by (induction ss arbitrary: n) (auto simp: judge_samples_append split: option.splits)

text \<open>The counter: with \<open>n\<close> violations just before, the run fails as \<open>n\<close> violating samples in front would.\<close>

lemma judge_samples_run:
  "(\<forall>v\<in>set vs. float_greater v margin) \<Longrightarrow> n + length vs > 10 \<Longrightarrow> n \<le> 10 \<Longrightarrow> judge_samples margin n (vs @ rest) = None"
proof (induction vs arbitrary: n)
  case (Cons v vs)
  then show ?case by (cases "n = 10") (auto simp: Let_def)
qed simp

lemma judge_samples_bound: "judge_samples margin n vs = Some k \<Longrightarrow> n \<le> 10 \<Longrightarrow> k \<le> 10"
  by (induction vs arbitrary: n) (auto simp: Let_def split: if_splits)

lemma judge_samples_more:
  "judge_samples margin 0 vs = None \<Longrightarrow> n \<le> 10 \<Longrightarrow> judge_samples margin n vs = None"
proof -
  have "judge_samples margin m vs = None \<Longrightarrow> m \<le> n \<Longrightarrow> n \<le> 10 \<Longrightarrow> judge_samples margin n vs = None" for m n
  proof (induction vs arbitrary: m n)
    case (Cons v vs)
    show ?case
    proof (cases "float_greater v margin")
      case True
      show ?thesis
      proof (cases "n = 10")
        case False
        with Cons True Cons.IH [of "Suc m" "Suc n"] show ?thesis by (auto simp: Let_def split: if_splits)
      qed (simp add: True Let_def)
    next
      case False
      with Cons show ?thesis by (simp add: Let_def)
    qed
  qed simp
  then show "judge_samples margin 0 vs = None \<Longrightarrow> n \<le> 10 \<Longrightarrow> judge_samples margin n vs = None" by blast
qed

text \<open>A failure has a run of violations as its witness.\<close>

lemma judge_samples_fail:
  "judge_samples margin n vs = None \<Longrightarrow> n \<le> 10 \<Longrightarrow>
   (\<exists>ys zs. vs = ys @ zs \<and> n + length ys = 11 \<and> (\<forall>v\<in>set ys. float_greater v margin)) \<or> violated margin vs"
proof (induction vs arbitrary: n)
  case (Cons v vs)
  show ?case
  proof (cases "float_greater v margin")
    case False
    with Cons.prems have "judge_samples margin 0 vs = None" by (simp add: Let_def)
    from Cons.IH [OF this] have "violated margin vs"
      by (auto simp: violated_def) (metis append_Nil)
    then show ?thesis
      unfolding violated_def by (metis append_Cons)
  next
    case True
    show ?thesis
    proof (cases "n = 10")
      case True' : True
      with True show ?thesis
        by (intro disjI1 exI [of _ "[v]"] exI [of _ vs]) simp
    next
      case False
      with Cons.prems True have "judge_samples margin (Suc n) vs = None" by (simp add: Let_def split: if_splits)
      from Cons.IH [OF this] False Cons.prems(2)
      consider ys zs where "vs = ys @ zs" "Suc n + length ys = 11" "\<forall>v\<in>set ys. float_greater v margin"
        | "violated margin vs" by auto
      then show ?thesis
      proof cases
        case 1
        with True show ?thesis by (intro disjI1 exI [of _ "v # ys"] exI [of _ zs]) simp
      next
        case 2
        then show ?thesis unfolding violated_def by (metis append_Cons)
      qed
    qed
  qed
qed simp

lemma judge_samples_iff: "judge_samples margin 0 vs = None \<longleftrightarrow> violated margin vs"
proof
  assume "judge_samples margin 0 vs = None"
  from judge_samples_fail [OF this] show "violated margin vs"
    by (auto simp: violated_def) (metis append_Nil)
next
  assume "violated margin vs"
  then obtain xs ys zs where v: "vs = xs @ ys @ zs" "length ys = 11" "\<forall>v\<in>set ys. float_greater v margin"
    by (auto simp: violated_def)
  show "judge_samples margin 0 vs = None"
  proof (cases "judge_samples margin 0 xs")
    case (Some k)
    then have "k \<le> 10" using judge_samples_bound [of margin 0 xs k] by simp
    with Some v judge_samples_run [of ys margin k zs] show ?thesis
      by (simp add: judge_samples_append)
  qed (simp add: v judge_samples_append)
qed

lemma judge_reconcile_fails:
  "judge_reconcile margin (PromMatrix m) = (if violated margin (concat m) then MetricFailed else Judged)"
  using judge_samples_iff [of margin "concat m"]
  by (cases "judge_samples margin 0 (concat m)") (simp_all add: judge_reconcile_def judge_series_concat)

text \<open>An iteration stops the program exactly at the first metric that fails or panics.\<close>

lemma judge_round_goes_on:
  "judge_round prom b c ms = None \<longleftrightarrow>
     (\<forall>m\<in>set ms. judge_reconcile (dm_Diff m) (prom (newDiffQuery (dm_Metric m) (dm_Container m) b c)) \<notin> {MetricFailed, JudgePanic})"
  by (induction ms) (auto split: judge_outcome.splits)

lemma judge_round_code: "judge_round prom b c ms = Some r \<Longrightarrow> r = 1 \<or> r = 2"
  by (induction ms) (auto split: judge_outcome.splits)

text \<open>The loop ends when the time is up, at the latest.\<close>

lemma judge_loop_ends:
  assumes "timeBoundary > 0" "elapsed (k + n) \<ge> timeBoundary"
  shows "\<exists>r. judge_loop prom elapsed timeBoundary baseline canary ms k = Some r"
  using assms(2)
proof (induction n arbitrary: k)
  case 0
  then show ?case using assms(1) by (subst judge_loop.simps) (simp split: option.splits)
next
  case (Suc n)
  from Suc.IH [of "Suc k"] Suc.prems show ?case by (subst judge_loop.simps) (simp split: option.splits)
qed

text \<open>How it ends: no iteration before the last stops it, and the last gives the code.\<close>

definition judge_stops :: "(nat \<Rightarrow> string \<Rightarrow> prom_answer) \<Rightarrow> (nat \<Rightarrow> int) \<Rightarrow> int \<Rightarrow> string \<Rightarrow> string
    \<Rightarrow> DiffMetric list \<Rightarrow> nat \<Rightarrow> bool" where
  "judge_stops prom elapsed timeBoundary baseline canary ms k \<longleftrightarrow>
     judge_round (prom k) baseline canary ms \<noteq> None \<or> timeBoundary > 0 \<and> elapsed k \<ge> timeBoundary"

definition judge_code :: "int option \<Rightarrow> int" where
  "judge_code r = (case r of None \<Rightarrow> 0 | Some c \<Rightarrow> c)"

lemma judge_loop_code:
  assumes "judge_loop prom elapsed timeBoundary baseline canary ms k = Some r"
  shows "\<exists>n\<ge>k. judge_stops prom elapsed timeBoundary baseline canary ms n \<and>
     (\<forall>i. k \<le> i \<and> i < n \<longrightarrow> \<not> judge_stops prom elapsed timeBoundary baseline canary ms i) \<and>
     r = judge_code (judge_round (prom n) baseline canary ms)"
proof (rule judge_loop.raw_induct [OF _ assms], goal_cases)
  case (1 loop prom elapsed timeBoundary baseline canary ms k r)
  show ?case
  proof (cases "judge_stops prom elapsed timeBoundary baseline canary ms k")
    case True
    with 1(2) show ?thesis
      by (intro exI [of _ k]) (auto simp: judge_code_def judge_stops_def split: option.splits if_splits)
  next
    case False
    with 1(2) have "loop prom elapsed timeBoundary baseline canary ms (Suc k) = Some r"
      by (auto simp: judge_stops_def split: if_splits)
    from 1(1) [OF this] obtain n where "n \<ge> Suc k" "judge_stops prom elapsed timeBoundary baseline canary ms n"
      "\<forall>i. Suc k \<le> i \<and> i < n \<longrightarrow> \<not> judge_stops prom elapsed timeBoundary baseline canary ms i"
      "r = judge_code (judge_round (prom n) baseline canary ms)" by blast
    with False show ?thesis
      by (intro exI [of _ n]) (metis Suc_le_eq le_neq_implies_less Suc_leD)
  qed
qed

text \<open>Without a time boundary, and while no metric fails, it never ends.\<close>

lemma judge_loop_forever:
  assumes "timeBoundary \<le> 0" "\<And>i. judge_round (prom i) baseline canary ms = None"
  shows "judge_loop prom elapsed timeBoundary baseline canary ms k = None"
proof (cases "judge_loop prom elapsed timeBoundary baseline canary ms k")
  case (Some r)
  from judge_loop_code [OF Some] assms show ?thesis by (auto simp: judge_stops_def)
qed

subsection \<open>The test job\<close>

text \<open>
  \<open>posts k\<close>: the request of iteration \<open>k\<close> was answered; \<open>elapsed k\<close>: the time since the start
  after it. The result is the number of requests, or the exit code 1 as \<open>Inl\<close>.
\<close>

partial_function (option) testjob_loop ::
    "(nat \<Rightarrow> bool) \<Rightarrow> (nat \<Rightarrow> int) \<Rightarrow> int \<Rightarrow> int \<Rightarrow> nat \<Rightarrow> int \<Rightarrow> (int + nat) option" where
  "testjob_loop posts elapsed reqLimit timeLimit reqs retries =
     (if \<not> posts reqs \<and> retries \<le> 0 then Some (Inl 1)
      else
        let retries' = (if posts reqs then retries else retries - 1); diff = elapsed reqs; reqs' = Suc reqs in
        if reqLimit \<noteq> 0 \<and> reqLimit \<le> int reqs' then Some (Inr reqs')
        else if timeLimit \<noteq> 0 \<and> timeLimit \<ge> diff then Some (Inr reqs')
        else testjob_loop posts elapsed reqLimit timeLimit reqs' retries')"

text \<open>The program: \<open>posts target\<close> tells which of the requests to the target are answered.\<close>

definition testjob_main ::
    "(string \<Rightarrow> int) \<Rightarrow> (string \<Rightarrow> nat \<Rightarrow> bool) \<Rightarrow> (nat \<Rightarrow> int) \<Rightarrow> (string \<Rightarrow> string) \<Rightarrow> (int + nat) option" where
  "testjob_main parseDuration posts elapsed getenv =
     (let reqLimit = strconv_Atoi (getenv ''KRANE_BOUNDARY_REQUESTS'');
          timeLimit = parseDuration (getenv ''KRANE_BOUNDARY_TIME'');
          target = getenv ''KRANE_TARGET''
      in testjob_loop (posts target) elapsed reqLimit timeLimit 0 20)"

text \<open>Requests up to the bound, when every request is answered and there is no time limit.\<close>

lemma testjob_requests:
  assumes "\<And>k. posts k" "int reqs < reqLimit"
  shows "testjob_loop posts elapsed reqLimit 0 reqs retries = Some (Inr (nat reqLimit))"
  using assms(2)
proof (induction "nat (reqLimit - int reqs)" arbitrary: reqs)
  case (Suc n)
  show ?case
  proof (cases "reqLimit \<le> int (Suc reqs)")
    case True
    with Suc.prems have "nat reqLimit = Suc reqs" by simp
    with True Suc.prems show ?thesis
      by (subst testjob_loop.simps) (simp add: assms(1))
  next
    case False
    with Suc.prems Suc.hyps(1) [of "Suc reqs"] Suc.hyps(2) show ?thesis
      by (subst testjob_loop.simps) (simp add: assms(1))
  qed
qed simp

text \<open>A time limit the first request keeps ends the job right after it, answered or not.\<close>

lemma testjob_time:
  "timeLimit \<noteq> 0 \<Longrightarrow> elapsed 0 \<le> timeLimit \<Longrightarrow> 0 < retries \<Longrightarrow>
   testjob_loop posts elapsed reqLimit timeLimit 0 retries = Some (Inr 1)"
  by (subst testjob_loop.simps) (simp add: Let_def)

text \<open>A limit that all requests are later than is no limit.\<close>

lemma testjob_late_Some:
  assumes "testjob_loop posts elapsed reqLimit timeLimit reqs retries = Some r" "\<forall>k\<ge>reqs. timeLimit < elapsed k"
  shows "testjob_loop posts elapsed reqLimit 0 reqs retries = Some r"
  using assms(2)
proof (induction rule: testjob_loop.raw_induct [OF _ assms(1), consumes 0, case_names loop])
  case (loop go posts elapsed reqLimit timeLimit reqs retries r)
  then show ?case
    by (subst testjob_loop.simps) (auto simp: Let_def split: if_splits)
qed

lemma testjob_unlimited_Some:
  assumes "testjob_loop posts elapsed reqLimit limit reqs retries = Some r" "limit = 0" "\<forall>k\<ge>reqs. timeLimit < elapsed k"
  shows "testjob_loop posts elapsed reqLimit timeLimit reqs retries = Some r"
  using assms(2,3)
proof (induction rule: testjob_loop.raw_induct [OF _ assms(1), consumes 0, case_names loop])
  case (loop go posts elapsed reqLimit limit reqs retries r)
  then show ?case
    by (subst testjob_loop.simps) (auto simp: Let_def split: if_splits)
qed

lemma testjob_late:
  assumes "\<forall>k\<ge>reqs. timeLimit < elapsed k"
  shows "testjob_loop posts elapsed reqLimit timeLimit reqs retries = testjob_loop posts elapsed reqLimit 0 reqs retries"
proof (cases "testjob_loop posts elapsed reqLimit timeLimit reqs retries")
  case None
  then show ?thesis
    using testjob_unlimited_Some [OF _ refl assms, of posts reqLimit retries] by (metis not_None_eq)
next
  case (Some r)
  then show ?thesis using testjob_late_Some [OF Some assms] by simp
qed

text \<open>With a bound on the requests the job ends, whatever the service answers.\<close>

lemma testjob_ends:
  "0 < reqLimit \<Longrightarrow> \<exists>r. testjob_loop posts elapsed reqLimit timeLimit reqs retries = Some r \<and>
     (\<forall>n. r = Inr n \<longrightarrow> n \<le> max (Suc reqs) (nat reqLimit)) \<and> (\<forall>code. r = Inl code \<longrightarrow> code = 1)"
proof (induction "nat (reqLimit - int reqs)" arbitrary: reqs retries rule: less_induct)
  case less
  show ?case
  proof (cases "reqLimit \<le> int (Suc reqs)")
    case True
    with less.prems show ?thesis
      by (subst testjob_loop.simps) (auto simp: Let_def)
  next
    case False
    then have "nat (reqLimit - int (Suc reqs)) < nat (reqLimit - int reqs)" by simp
    from less.hyps [OF this less.prems, of "if posts reqs then retries else retries - 1"] False less.prems show ?thesis
      by (subst testjob_loop.simps) (fastforce simp: Let_def)
  qed
qed

subsection \<open>The environment of a job\<close>

text \<open>A process of a container sees the variables of the container, and no other of the program's.\<close>

definition environment :: "EnvVar list \<Rightarrow> (string \<Rightarrow> string) \<Rightarrow> bool" where
  "environment es getenv \<longleftrightarrow> (\<forall>e\<in>set es. getenv (ev_Name e) = ev_Value e) \<and>
     (\<forall>n. n \<notin> ev_Name ` set es \<longrightarrow> prefix ''KRANE_'' n \<longrightarrow> getenv n = [])"

fun env_value :: "EnvVar list \<Rightarrow> string \<Rightarrow> string" where
  "env_value [] n = []"
| "env_value (e # es) n = (if ev_Name e = n then ev_Value e else env_value es n)"

lemma env_value_append:
  "env_value (xs @ ys) n = (if n \<in> ev_Name ` set xs then env_value xs n else env_value ys n)"
  by (induction xs) auto

lemma env_value_read: "environment es getenv \<Longrightarrow> prefix ''KRANE_'' n \<Longrightarrow> getenv n = env_value es n"
proof -
  have "n \<in> ev_Name ` set es \<Longrightarrow> \<forall>e\<in>set es. getenv (ev_Name e) = ev_Value e \<Longrightarrow> getenv n = env_value es n"
    by (induction es) auto
  moreover have "n \<notin> ev_Name ` set es \<Longrightarrow> env_value es n = []" by (induction es) auto
  ultimately show "environment es getenv \<Longrightarrow> prefix ''KRANE_'' n \<Longrightarrow> getenv n = env_value es n"
    unfolding environment_def by metis
qed

lemma Atoi_empty [simp]: "strconv_Atoi [] = 0"
  by (simp add: strconv_Atoi_def)

lemma test_environment:
  assumes "environment (test_envs c ts) getenv"
  shows "getenv ''KRANE_TARGET'' = canary_name c"
    "strconv_Atoi (getenv ''KRANE_BOUNDARY_REQUESTS'') = sint (tsb_Requests (ts_Boundary ts))"
    "getenv ''KRANE_BOUNDARY_TIME'' = tsb_Time (ts_Boundary ts)"
  by (simp_all add: env_value_read [OF assms] test_envs_def env_value_append)

lemma judge_environment:
  assumes "environment (judge_envs jf c js) getenv"
  shows "getenv ''KRANE_CANARY'' = csd_Canary (csp_Deployments (cn_Spec c))"
    "getenv ''KRANE_BASELINE'' = csd_Baseline (csp_Deployments (cn_Spec c))"
    "getenv ''KRANE_BOUNDARY_TIME'' = js_Boundary_Time js"
    "getenv ''KRANE_PROMETHEUS'' = ''http://prometheus.istio-system.svc.cluster.local:9090''"
    "getenv ''KRANE_DIFF_METRICS'' = (if slice_length (js_DiffMetrics js) > 0 then marshal_DiffMetrics jf (js_DiffMetrics js) else [])"
    "getenv ''KRANE_THRESHOLD_METRICS'' = (if slice_length (js_ThresholdMetrics js) > 0 then marshal_DiffMetrics jf (js_DiffMetrics js) else [])"
  by (simp_all add: env_value_read [OF assms] judge_envs_def env_value_append)

text \<open>Such environments exist.\<close>

lemma environment_exists: "distinct (map ev_Name es) \<Longrightarrow> environment es (env_value es)"
proof -
  have "distinct (map ev_Name es) \<Longrightarrow> \<forall>e\<in>set es. env_value es (ev_Name e) = ev_Value e"
    by (induction es) (auto simp: image_iff)
  moreover have "n \<notin> ev_Name ` set es \<Longrightarrow> env_value es n = []" for n by (induction es) auto
  ultimately show "distinct (map ev_Name es) \<Longrightarrow> environment es (env_value es)"
    by (simp add: environment_def)
qed

lemma job_environments_exist:
  "environment (test_envs c ts) (env_value (test_envs c ts))"
  "environment (judge_envs jf c js) (env_value (judge_envs jf c js))"
  by (rule environment_exists, simp add: test_envs_def judge_envs_def)+

subsection \<open>The judge of a policy\<close>

definition diff_metrics :: "JudgeSpec \<Rightarrow> DiffMetric list" where
  "diff_metrics js = (case js_DiffMetrics js of None \<Rightarrow> [] | Some ds \<Rightarrow> ds)"

text \<open>
  What the judge relies on of \<open>encoding/json\<close>: the metrics can be marshalled and are read back,
  and a list of metrics of the one kind is readable as one of the other.
\<close>

definition decodes :: "json_float \<Rightarrow> JudgeSpec \<Rightarrow> (string \<Rightarrow> string + DiffMetric list)
    \<Rightarrow> (string \<Rightarrow> string + ThresholdMetric list) \<Rightarrow> bool" where
  "decodes jf js decodeDiffs decodeThresholds \<longleftrightarrow>
     (slice_length (js_DiffMetrics js) > 0 \<longrightarrow> marshal_DiffMetrics jf (js_DiffMetrics js) \<noteq> [] \<and>
        decodeDiffs (marshal_DiffMetrics jf (js_DiffMetrics js)) = Inr (diff_metrics js)) \<and>
     (\<exists>ts. decodeThresholds (marshal_DiffMetrics jf (js_DiffMetrics js)) = Inr ts)"

text \<open>No incident in a metric: its query succeeds without a failure, or does not succeed.\<close>

definition metric_passes :: "(string \<Rightarrow> prom_answer) \<Rightarrow> string \<Rightarrow> string \<Rightarrow> DiffMetric \<Rightarrow> bool" where
  "metric_passes prom baseline canary m \<longleftrightarrow>
     (case prom (newDiffQuery (dm_Metric m) (dm_Container m) baseline canary) of
        PromError e \<Rightarrow> True | PromOther \<Rightarrow> False | PromMatrix x \<Rightarrow> \<not> violated (dm_Diff m) (concat x))"

lemma judge_round_passes:
  "judge_round prom b c ms = None \<longleftrightarrow> list_all (metric_passes prom b c) ms"
  unfolding judge_round_goes_on list_all_iff metric_passes_def
  by (intro ball_cong refl)
     (simp add: judge_reconcile_fails split: prom_answer.split, simp add: judge_reconcile_def)

lemma judge_main_started:
  assumes "environment (judge_envs jf c js) getenv" "decodes jf js decodeDiffs decodeThresholds"
    and "newClient ''http://prometheus.istio-system.svc.cluster.local:9090'' = Inr prom"
  shows "judge_main parseDuration decodeDiffs decodeThresholds newClient elapsed getenv
    = judge_loop prom elapsed (parseDuration (js_Boundary_Time js)) (csd_Baseline (csp_Deployments (cn_Spec c)))
        (csd_Canary (csp_Deployments (cn_Spec c))) (diff_metrics js) 0"
  using assms(2,3)
  by (auto simp: judge_main_def judge_environment [OF assms(1)] decodes_def Let_def diff_metrics_def slice_length_def
      split: option.splits)

end
