(* ===== verification/Mirrors.thy ===== *)
theory Mirrors
  imports CanaryController DeployController
begin

text \<open>
  Runs of the controllers against two clients. When the calls of two clients give the same answers
  and keep a relation between their worlds, so do whole runs of both controllers. The relation is
  a parameter: instances relate a client to its logged one, to the same client among others that
  do nothing, and whatever else keeps the answers.
\<close>

subsection \<open>Simulation of programs\<close>

definition mirrors :: "('s \<Rightarrow> 't \<Rightarrow> bool) \<Rightarrow> ('s \<Rightarrow> 'a \<times> 's) \<Rightarrow> ('t \<Rightarrow> 'a \<times> 't) \<Rightarrow> bool" where
  "mirrors R p q \<longleftrightarrow> (\<forall>w v. R w v \<longrightarrow> fst (p w) = fst (q v) \<and> R (snd (p w)) (snd (q v)))"

text \<open>Two runs with the same local memory in related worlds.\<close>

fun with_mem :: "('w \<Rightarrow> 'v \<Rightarrow> bool) \<Rightarrow> 'm \<times> 'w \<Rightarrow> 'm \<times> 'v \<Rightarrow> bool" where
  "with_mem R (m, w) (m', v) \<longleftrightarrow> m = m' \<and> R w v"

lemma mirrorsI: "(\<And>w v. R w v \<Longrightarrow> fst (p w) = fst (q v) \<and> R (snd (p w)) (snd (q v))) \<Longrightarrow> mirrors R p q"
  by (simp add: mirrors_def)

lemma mirrorsE:
  assumes "mirrors R p q" "R w v"
  obtains r w' v' where "p w = (r, w')" "q v = (r, v')" "R w' v'"
  using assms unfolding mirrors_def by (metis prod.collapse)

lemma mirrors_at: "mirrors R p q \<Longrightarrow> R w v \<Longrightarrow> p w = (r, w') \<Longrightarrow> \<exists>v'. q v = (r, v') \<and> R w' v'"
  by (erule mirrorsE) auto

lemma mirrors_bind:
  assumes p: "mirrors R p q" and f: "\<And>x. mirrors R (f x) (g x)"
  shows "mirrors R (bindP p f) (bindP q g)"
proof (rule mirrorsI)
  fix w v assume "R w v"
  with p obtain r w' v' where 1: "p w = (r, w')" "q v = (r, v')" "R w' v'" by (rule mirrorsE)
  then show "fst (bindP p f w) = fst (bindP q g v) \<and> R (snd (bindP p f w)) (snd (bindP q g v))"
    using f by (cases r) (auto simp: run_prog mirrors_def)
qed

lemma mirrors_try: "mirrors R p q \<Longrightarrow> mirrors R (tryP p) (tryP q)"
proof (rule mirrorsI)
  fix w v assume "mirrors R p q" "R w v"
  then obtain r w' v' where "p w = (r, w')" "q v = (r, v')" "R w' v'" by (rule mirrorsE)
  then show "fst (tryP p w) = fst (tryP q v) \<and> R (snd (tryP p w)) (snd (tryP q v))"
    by (cases r) (auto simp: run_prog)
qed

lemma mirrors_run: "mirrors (with_mem R) p q \<Longrightarrow> mirrors R (runP m p) (runP m q)"
  unfolding mirrors_def by (auto simp: run_run split: prod.splits) (metis fst_conv snd_conv with_mem.simps)+

lemma mirrors_call: "mirrors R f g \<Longrightarrow> mirrors (with_mem R) (callP f) (callP g)"
proof (rule mirrorsI)
  fix s t assume fg: "mirrors R f g" and "with_mem R s t"
  then obtain m w v where st: "s = (m, w)" "t = (m, v)" "R w v" by (cases s; cases t) simp
  from fg st(3) obtain r w' v' where "f w = (r, w')" "g v = (r, v')" "R w' v'" by (rule mirrorsE)
  with st show "fst (callP f s) = fst (callP g t) \<and> with_mem R (snd (callP f s)) (snd (callP g t))"
    by (cases r) (auto simp: run_call)
qed

lemma mirrors_basic:
  "mirrors R (retP x) (retP x)" "mirrors R (errP e) (errP e)" "mirrors R (liftP r) (liftP r)"
  "mirrors (with_mem R) memP memP" "mirrors (with_mem R) (modmemP f) (modmemP f)"
  by (auto simp: mirrors_def run_prog run_call split: outcome.splits)

lemma mirrors_then: "mirrors R p q \<Longrightarrow> mirrors R p' q' \<Longrightarrow> mirrors R (thenP p p') (thenP q q')"
  by (simp add: thenP_def mirrors_bind)

lemma mirrors_if: "mirrors R p q \<Longrightarrow> mirrors R p' q' \<Longrightarrow> mirrors R (if b then p else p') (if b then q else q')"
  by simp

lemma mirrors_when: "mirrors R p q \<Longrightarrow> mirrors R (whenP b p) (whenP b q)"
  by (simp add: whenP_def mirrors_basic)

lemmas mirrors_control = mirrors_then mirrors_if mirrors_when

lemma mirrors_case_sum:
  "(\<And>a. mirrors R (f a) (f' a)) \<Longrightarrow> (\<And>b. mirrors R (g b) (g' b)) \<Longrightarrow>
   mirrors R (case r of Inl a \<Rightarrow> f a | Inr b \<Rightarrow> g b) (case r of Inl a \<Rightarrow> f' a | Inr b \<Rightarrow> g' b)"
  by (cases r) simp_all

lemma mirrors_case_prod:
  "(\<And>a b. mirrors R (f a b) (f' a b)) \<Longrightarrow> mirrors R (case r of (a, b) \<Rightarrow> f a b) (case r of (a, b) \<Rightarrow> f' a b)"
  by (cases r) simp

subsection \<open>Two clients\<close>

definition api_mirrors :: "('w \<Rightarrow> 'v \<Rightarrow> bool) \<Rightarrow> ('o, 'w) api \<Rightarrow> ('o, 'v) api \<Rightarrow> bool" where
  "api_mirrors R A B \<longleftrightarrow>
     (\<forall>k. mirrors R (api_get A k) (api_get B k)) \<and>
     (\<forall>x. mirrors R (api_create A x) (api_create B x)) \<and>
     (\<forall>x. mirrors R (api_update A x) (api_update B x)) \<and>
     (\<forall>x. mirrors R (api_update_status A x) (api_update_status B x)) \<and>
     (\<forall>x. mirrors R (api_delete A x) (api_delete B x))"

lemma mirrors_api:
  assumes "api_mirrors R A B"
  shows "mirrors (with_mem R) (callP (api_get A k)) (callP (api_get B k))"
    "mirrors (with_mem R) (callP (api_create A x)) (callP (api_create B x))"
    "mirrors (with_mem R) (callP (api_update A x)) (callP (api_update B x))"
    "mirrors (with_mem R) (callP (api_update_status A x)) (callP (api_update_status B x))"
    "mirrors (with_mem R) (callP (api_delete A x)) (callP (api_delete B x))"
  using assms by (auto simp: api_mirrors_def intro!: mirrors_call)

lemma mirrors_goc:
  assumes "api_mirrors R A B" "mirrors (with_mem R) b b'" "\<And>x. mirrors (with_mem R) (c x) (c' x)"
  shows "mirrors (with_mem R) (get_or_create A k b c) (get_or_create B k b' c')"
  unfolding get_or_create_def
  by (intro mirrors_bind mirrors_try mirrors_case_sum mirrors_control mirrors_basic mirrors_api [OF assms(1)] assms(2,3))

locale mirror =
  fixes R :: "'w \<Rightarrow> 'v \<Rightarrow> bool" and C :: "'w Client" and D :: "'v Client"
  assumes canaries_mirror: "api_mirrors R (canaries C) (canaries D)"
    and policies_mirror: "api_mirrors R (policies C) (policies D)"
    and deployments_mirror: "api_mirrors R (deployments C) (deployments D)"
    and pods_mirror: "api_mirrors R (pods C) (pods D)"
    and services_mirror: "api_mirrors R (services C) (services D)"
    and virtualservices_mirror: "api_mirrors R (virtualservices C) (virtualservices D)"
    and destinationrules_mirror: "api_mirrors R (destinationrules C) (destinationrules D)"
begin

lemmas calls = mirrors_api [OF canaries_mirror] mirrors_api [OF policies_mirror] mirrors_api [OF deployments_mirror]
  mirrors_api [OF pods_mirror] mirrors_api [OF services_mirror] mirrors_api [OF virtualservices_mirror]
  mirrors_api [OF destinationrules_mirror]

lemmas gocs = mirrors_goc [OF canaries_mirror] mirrors_goc [OF pods_mirror] mirrors_goc [OF services_mirror]
  mirrors_goc [OF deployments_mirror] mirrors_goc [OF destinationrules_mirror]

lemmas mirror_rules = mirrors_bind mirrors_try mirrors_control mirrors_case_sum mirrors_case_prod
  gocs mirrors_basic calls mirrors_run

end

subsection \<open>The controllers\<close>

text \<open>The objects built depend on the scheme alone, not on the client.\<close>

lemma jobs_by_scheme:
  "CreateTestJob \<lparr>client = C, scheme = sc\<rparr> = CreateTestJob \<lparr>client = D, scheme = sc\<rparr>"
  "CreateJudgeJob jf \<lparr>client = C, scheme = sc\<rparr> = CreateJudgeJob jf \<lparr>client = D, scheme = sc\<rparr>"
  "createBaselineDestinationRule \<lparr>client = C, scheme = sc\<rparr> = createBaselineDestinationRule \<lparr>client = D, scheme = sc\<rparr>"
  by (simp_all add: fun_eq_iff CreateTestJob_def CreateJudgeJob_def own_pod_def createBaselineDestinationRule_def)

context mirror begin

lemma mirrors_canary_policy:
  "mirrors (with_mem R) (ReconcileCanary_GetCanaryPolicy \<lparr>client = C, scheme = sc\<rparr>)
     (ReconcileCanary_GetCanaryPolicy \<lparr>client = D, scheme = sc\<rparr>)"
  unfolding ReconcileCanary_GetCanaryPolicy_def Reconciler.select_convs by (intro mirror_rules)

lemma mirrors_status:
  "mirrors (with_mem R) (putStatus \<lparr>client = C, scheme = sc\<rparr> f) (putStatus \<lparr>client = D, scheme = sc\<rparr> f)"
  unfolding putStatus_def StatusUpdate_def Reconciler.select_convs by (intro mirror_rules)

lemma mirrors_ignore: "mirrors Q p q \<Longrightarrow> mirrors Q (ignoreError p) (ignoreError q)"
  unfolding ignoreError_def by (intro mirror_rules)

lemmas canary_rules = mirrors_canary_policy mirrors_status mirrors_ignore mirror_rules

lemma mirrors_init:
  "mirrors (with_mem R) (reconcileCanaryAndBaseline \<lparr>client = C, scheme = sc\<rparr>)
     (reconcileCanaryAndBaseline \<lparr>client = D, scheme = sc\<rparr>)"
  unfolding reconcileCanaryAndBaseline_def Reconciler.select_convs by (intro canary_rules)

lemma mirrors_jobs:
  "mirrors (with_mem R) (reconcileTestJob \<lparr>client = C, scheme = sc\<rparr>) (reconcileTestJob \<lparr>client = D, scheme = sc\<rparr>)"
  "mirrors (with_mem R) (reconcileJudgeJob jf \<lparr>client = C, scheme = sc\<rparr>) (reconcileJudgeJob jf \<lparr>client = D, scheme = sc\<rparr>)"
  unfolding reconcileTestJob_def reconcileJudgeJob_def jobs_by_scheme(1) [of C sc D]
    jobs_by_scheme(2) [of jf C sc D] Reconciler.select_convs Let_def
  by (intro canary_rules)+

lemma mirrors_routing:
  "mirrors (with_mem R) (reconcileVirtualService \<lparr>client = C, scheme = sc\<rparr>) (reconcileVirtualService \<lparr>client = D, scheme = sc\<rparr>)"
  unfolding reconcileVirtualService_def Reconciler.select_convs by (intro canary_rules)

lemma mirrors_cleanup:
  "mirrors (with_mem R) (reconcileCleanup \<lparr>client = C, scheme = sc\<rparr>) (reconcileCleanup \<lparr>client = D, scheme = sc\<rparr>)"
  unfolding reconcileCleanup_def cleanupPod_def cleanupDeployment_def cleanup_routes_def Reconciler.select_convs by (intro canary_rules)

lemma mirrors_reporting:
  "mirrors (with_mem R) (reconcileReporting \<lparr>client = C, scheme = sc\<rparr>) (reconcileReporting \<lparr>client = D, scheme = sc\<rparr>)"
  unfolding reconcileReporting_def Reconciler.select_convs by (intro canary_rules)

lemma mirrors_phase:
  "mirrors (with_mem R) (ReconcilePhaseStatus \<lparr>client = C, scheme = sc\<rparr>) (ReconcilePhaseStatus \<lparr>client = D, scheme = sc\<rparr>)"
  unfolding ReconcilePhaseStatus_def Let_def by (intro canary_rules)

lemma mirrors_destination_rules:
  "mirrors (with_mem R) (reconcileDestinationRules \<lparr>client = C, scheme = sc\<rparr>) (reconcileDestinationRules \<lparr>client = D, scheme = sc\<rparr>)"
  unfolding reconcileDestinationRules_def jobs_by_scheme(3) [of C sc D] Reconciler.select_convs
  by (intro canary_rules)

lemma mirrors_fallback:
  "mirrors Q p q \<Longrightarrow> mirrors Q p' q' \<Longrightarrow> mirrors Q (orFallbackCanary p p') (orFallbackCanary q q')"
  "mirrors Q m n \<Longrightarrow> mirrors Q p' q' \<Longrightarrow> mirrors Q (orFallback m p') (orFallback n q')"
  unfolding orFallbackCanary_def orFallback_def by (intro mirror_rules; assumption)+

lemma mirrors_canary_steps:
  "mirrors (with_mem R) (canarySteps jf \<lparr>client = C, scheme = sc\<rparr>) (canarySteps jf \<lparr>client = D, scheme = sc\<rparr>)"
  unfolding canarySteps_def afterInit_def
  by (intro mirrors_fallback(1) mirrors_init mirrors_jobs mirrors_routing mirrors_reporting mirrors_cleanup
      mirrors_phase mirror_rules)

lemma mirrors_deployment_steps:
  "mirrors (with_mem R) (reconcileSteps \<lparr>client = C, scheme = sc\<rparr>) (reconcileSteps \<lparr>client = D, scheme = sc\<rparr>)"
proof -
  have "mirrors (with_mem R) (reconcileCanaryDeployment \<lparr>client = C, scheme = sc\<rparr>)
      (reconcileCanaryDeployment \<lparr>client = D, scheme = sc\<rparr>)"
    unfolding reconcileCanaryDeployment_def Reconciler.select_convs Let_def by (intro mirror_rules)
  moreover have "mirrors (with_mem R) (reconcileCanaryService \<lparr>client = C, scheme = sc\<rparr>)
      (reconcileCanaryService \<lparr>client = D, scheme = sc\<rparr>)"
    unfolding reconcileCanaryService_def createCanaryService_def Reconciler.select_convs Let_def
    by (intro mirror_rules)
  moreover have "mirrors (with_mem R) (reconcileBaseline \<lparr>client = C, scheme = sc\<rparr>)
      (reconcileBaseline \<lparr>client = D, scheme = sc\<rparr>)"
    unfolding reconcileBaseline_def createBaselineDeployment_def Reconciler.select_convs Let_def
    by (intro mirror_rules)
  moreover have "mirrors (with_mem R) (reconcileCanaryConfig \<lparr>client = C, scheme = sc\<rparr>)
      (reconcileCanaryConfig \<lparr>client = D, scheme = sc\<rparr>)"
    unfolding reconcileCanaryConfig_def Reconciler.select_convs Let_def by (intro mirror_rules)
  ultimately show ?thesis
    unfolding reconcileSteps_def by (intro mirrors_fallback(2) mirror_rules)
qed

lemma mirrors_deployment_fetch:
  "mirrors (with_mem R) (ReconcileDeployment_reconcile \<lparr>client = C, scheme = sc\<rparr> nn)
     (ReconcileDeployment_reconcile \<lparr>client = D, scheme = sc\<rparr> nn)"
  "mirrors (with_mem R) (ReconcileDeployment_GetCanaryPolicy \<lparr>client = C, scheme = sc\<rparr> d)
     (ReconcileDeployment_GetCanaryPolicy \<lparr>client = D, scheme = sc\<rparr> d)"
  unfolding ReconcileDeployment_reconcile_def ReconcileDeployment_GetCanaryPolicy_def UpdateCanaryConfigName_def
    Reconciler.select_convs by (intro mirror_rules)+

theorem canary_runs:
  "mirrors R (ReconcileCanary_Reconcile jf \<lparr>client = C, scheme = sc\<rparr> nn)
     (ReconcileCanary_Reconcile jf \<lparr>client = D, scheme = sc\<rparr> nn)"
  unfolding ReconcileCanary_Reconcile_def Reconciler.select_convs
  by (intro mirrors_canary_steps mirror_rules)

theorem deployment_runs:
  "mirrors R (ReconcileDeployment_Reconcile \<lparr>client = C, scheme = sc\<rparr> nn)
     (ReconcileDeployment_Reconcile \<lparr>client = D, scheme = sc\<rparr> nn)"
  unfolding ReconcileDeployment_Reconcile_def
  by (intro mirrors_deployment_fetch mirrors_deployment_steps mirror_rules)

end

end
