(* ===== verification/Interference.thy ===== *)
theory Interference
  imports Mirrors Effects Tracker
begin

text \<open>
  What a run does to the world, from its log. A run with the logging client does the same as the
  run without it, and the world it leaves has evolved from the one it found through the writes of
  the log, in their order. What "evolved" means is a parameter: for a server nobody else uses it
  is the replay of the log, for a server other actors change between two calls it is the
  interleaving of the log with their actions.
\<close>

subsection \<open>Evolutions\<close>

definition api_evolves :: "('w \<Rightarrow> event list \<Rightarrow> 'w \<Rightarrow> bool) \<Rightarrow> ('o \<Rightarrow> kobject) \<Rightarrow> ('o, 'w) api \<Rightarrow> bool" where
  "api_evolves E wrap A \<longleftrightarrow>
     (\<forall>k w. E w [] (snd (api_get A k w))) \<and>
     (\<forall>x w. E w [(VCreate, wrap x)] (snd (api_create A x w))) \<and>
     (\<forall>x w. E w [(VUpdate, wrap x)] (snd (api_update A x w))) \<and>
     (\<forall>x w. E w [(VUpdateStatus, wrap x)] (snd (api_update_status A x w))) \<and>
     (\<forall>x w. E w [(VDelete, wrap x)] (snd (api_delete A x w)))"

text \<open>The world of the logging client is the other one with a log that explains it.\<close>

fun explains :: "('w \<Rightarrow> event list \<Rightarrow> 'w \<Rightarrow> bool) \<Rightarrow> 'w \<Rightarrow> 'w \<Rightarrow> 'w \<times> event list \<Rightarrow> bool" where
  "explains E w0 w (v, l) \<longleftrightarrow> v = w \<and> E w0 l w"

locale evolution =
  fixes E :: "'w \<Rightarrow> event list \<Rightarrow> 'w \<Rightarrow> bool" and C :: "'w Client"
  assumes stay: "E w [] w"
    and append: "E w k w' \<Longrightarrow> E w' k' w'' \<Longrightarrow> E w (k @ k') w''"
    and canaries_evolve: "api_evolves E KCanary (canaries C)"
    and policies_evolve: "api_evolves E KPolicy (policies C)"
    and deployments_evolve: "api_evolves E KDeployment (deployments C)"
    and pods_evolve: "api_evolves E KPod (pods C)"
    and services_evolve: "api_evolves E KService (services C)"
    and virtualservices_evolve: "api_evolves E KVirtualService (virtualservices C)"
    and destinationrules_evolve: "api_evolves E KDestinationRule (destinationrules C)"
begin

lemma explains_get:
  "(\<And>w. E w [] (snd (f w))) \<Longrightarrow> mirrors (explains E w0) f (\<lambda>(w, l). case f w of (r, w') \<Rightarrow> (r, (w', l)))"
proof (rule mirrorsI)
  fix w :: 'w and t assume f: "\<And>w. E w [] (snd (f w))" and "explains E w0 w t"
  then have "fst t = w" "E w0 (snd t @ []) (snd (f w))"
    using append [of w0 "snd t" w "[]" "snd (f w)"] by (cases t; simp)+
  then show "fst (f w) = fst ((\<lambda>(w, l). case f w of (r, w') \<Rightarrow> (r, (w', l))) t) \<and>
      explains E w0 (snd (f w)) (snd ((\<lambda>(w, l). case f w of (r, w') \<Rightarrow> (r, (w', l))) t))"
    by (cases t) (auto split: prod.splits)
qed

lemma explains_write: "(\<And>w. E w [e] (snd (f w))) \<Longrightarrow> mirrors (explains E w0) f (log_call e f)"
proof (rule mirrorsI)
  fix w :: 'w and t assume f: "\<And>w. E w [e] (snd (f w))" and "explains E w0 w t"
  then have "fst t = w" "E w0 (snd t @ [e]) (snd (f w))"
    using append [of w0 "snd t" w "[e]" "snd (f w)"] by (cases t; simp)+
  then show "fst (f w) = fst (log_call e f t) \<and> explains E w0 (snd (f w)) (snd (log_call e f t))"
    by (cases t) (auto simp: log_call_def split: prod.splits)
qed

lemma explains_api: "api_evolves E wrap A \<Longrightarrow> api_mirrors (explains E w0) A (log_api wrap A)"
  unfolding api_mirrors_def log_api_def api.select_convs api_evolves_def
  by (intro conjI allI explains_write explains_get) simp_all

end

sublocale evolution \<subseteq> shadow: mirror "explains E w0" C "logging C" for w0
  by unfold_locales
     (simp_all add: logging_simps explains_api canaries_evolve policies_evolve deployments_evolve pods_evolve
       services_evolve virtualservices_evolve destinationrules_evolve)

context evolution begin

lemma canary_explained:
  assumes "ReconcileCanary_Reconcile jf \<lparr>client = C, scheme = sc\<rparr> nn w = (r, w')"
  obtains k where "ReconcileCanary_Reconcile jf \<lparr>client = logging C, scheme = sc\<rparr> nn (w, []) = (r, (w', k))" "E w k w'"
proof -
  have "explains E w w (w, [])" by (simp add: stay)
  with shadow.canary_runs [of w jf sc nn] assms that show ?thesis
    by (cases "ReconcileCanary_Reconcile jf \<lparr>client = logging C, scheme = sc\<rparr> nn (w, [])") (fastforce simp: mirrors_def)
qed

lemma deployment_explained:
  assumes "ReconcileDeployment_Reconcile \<lparr>client = C, scheme = sc\<rparr> nn w = (r, w')"
  obtains k where "ReconcileDeployment_Reconcile \<lparr>client = logging C, scheme = sc\<rparr> nn (w, []) = (r, (w', k))" "E w k w'"
proof -
  have "explains E w w (w, [])" by (simp add: stay)
  with shadow.deployment_runs [of w sc nn] assms that show ?thesis
    by (cases "ReconcileDeployment_Reconcile \<lparr>client = logging C, scheme = sc\<rparr> nn (w, [])") (fastforce simp: mirrors_def)
qed

end

subsection \<open>Replay\<close>

text \<open>The effect of a logged write at a server nobody else uses.\<close>

definition api_effect :: "('o, 'w) api \<Rightarrow> verb \<Rightarrow> 'o \<Rightarrow> 'w \<Rightarrow> 'w" where
  "api_effect A v x w = (case v of
     VCreate \<Rightarrow> snd (api_create A x w) | VUpdate \<Rightarrow> snd (api_update A x w)
   | VUpdateStatus \<Rightarrow> snd (api_update_status A x w) | VDelete \<Rightarrow> snd (api_delete A x w))"

fun perform :: "'w Client \<Rightarrow> event \<Rightarrow> 'w \<Rightarrow> 'w" where
  "perform C (v, KCanary x) = api_effect (canaries C) v x"
| "perform C (v, KPolicy x) = api_effect (policies C) v x"
| "perform C (v, KDeployment x) = api_effect (deployments C) v x"
| "perform C (v, KPod x) = api_effect (pods C) v x"
| "perform C (v, KService x) = api_effect (services C) v x"
| "perform C (v, KVirtualService x) = api_effect (virtualservices C) v x"
| "perform C (v, KDestinationRule x) = api_effect (destinationrules C) v x"

definition replay :: "'w Client \<Rightarrow> event list \<Rightarrow> 'w \<Rightarrow> 'w" where
  "replay C k w = fold (perform C) k w"

text \<open>A client whose reads leave the world as it is.\<close>

definition still_api :: "('o, 'w) api \<Rightarrow> bool" where
  "still_api A \<longleftrightarrow> (\<forall>k w. snd (api_get A k w) = w)"

definition still_reads :: "'w Client \<Rightarrow> bool" where
  "still_reads C \<longleftrightarrow> still_api (canaries C) \<and> still_api (policies C) \<and> still_api (deployments C) \<and>
     still_api (pods C) \<and> still_api (services C) \<and> still_api (virtualservices C) \<and> still_api (destinationrules C)"

lemma api_replay:
  assumes "still_api A" "\<And>v x. perform C (v, wrap x) = api_effect A v x"
  shows "api_evolves (\<lambda>w k w'. w' = replay C k w) wrap A"
  using assms by (auto simp: api_evolves_def still_api_def replay_def api_effect_def)

lemma replay_simps [simp]:
  "replay C [] w = w" "replay C (e # k) w = replay C k (perform C e w)" "replay C (j @ k) w = replay C k (replay C j w)"
  by (simp_all add: replay_def)

lemma replay_evolution: "still_reads C \<Longrightarrow> evolution (\<lambda>w k w'. w' = replay C k w) C"
  by unfold_locales (auto simp: still_reads_def intro!: api_replay)

lemma fakeClient_still: "still_reads fakeClient"
  by (simp add: still_reads_def still_api_def fake_api_def)

interpretation fake_replay: evolution "\<lambda>w k w'. w' = replay fakeClient k w" fakeClient
  by (rule replay_evolution [OF fakeClient_still])

subsection \<open>Interference\<close>

text \<open>
  The same server, changed by others between any two calls: \<open>env n\<close> is what they do before call
  \<open>n\<close>. The world counts the calls.
\<close>

definition interfere :: "(nat \<Rightarrow> 'w \<Rightarrow> 'w) \<Rightarrow> ('w \<Rightarrow> 'a \<times> 'w) \<Rightarrow> 'w \<times> nat \<Rightarrow> 'a \<times> ('w \<times> nat)" where
  "interfere env f = (\<lambda>(w, n). case f (env n w) of (r, w') \<Rightarrow> (r, (w', Suc n)))"

definition interfere_api :: "(nat \<Rightarrow> 'w \<Rightarrow> 'w) \<Rightarrow> ('o, 'w) api \<Rightarrow> ('o, 'w \<times> nat) api" where
  "interfere_api env A =
     \<lparr>api_get = (\<lambda>k. interfere env (api_get A k)),
      api_create = (\<lambda>x. interfere env (api_create A x)),
      api_update = (\<lambda>x. interfere env (api_update A x)),
      api_update_status = (\<lambda>x. interfere env (api_update_status A x)),
      api_delete = (\<lambda>x. interfere env (api_delete A x))\<rparr>"

definition interfering :: "(nat \<Rightarrow> 'w \<Rightarrow> 'w) \<Rightarrow> 'w Client \<Rightarrow> ('w \<times> nat) Client" where
  "interfering env C =
     \<lparr>canaries = interfere_api env (canaries C), policies = interfere_api env (policies C),
      deployments = interfere_api env (deployments C), pods = interfere_api env (pods C),
      services = interfere_api env (services C), virtualservices = interfere_api env (virtualservices C),
      destinationrules = interfere_api env (destinationrules C)\<rparr>"

text \<open>The interleavings of a log with the actions of the others.\<close>

inductive interleaved :: "'w Client \<Rightarrow> (nat \<Rightarrow> 'w \<Rightarrow> 'w) \<Rightarrow> 'w \<times> nat \<Rightarrow> event list \<Rightarrow> 'w \<times> nat \<Rightarrow> bool"
  for C env s where
  quiet: "interleaved C env s [] s"
| reading: "interleaved C env s k (w, n) \<Longrightarrow> interleaved C env s k (env n w, Suc n)"
| writing: "interleaved C env s k (w, n) \<Longrightarrow> interleaved C env s (k @ [e]) (perform C e (env n w), Suc n)"

lemma interleaved_trans:
  assumes "interleaved C env s1 k s2" "interleaved C env s2 k' s3"
  shows "interleaved C env s1 (k @ k') s3"
  using assms(2)
proof (induction rule: interleaved.induct)
  case (writing k' w n e)
  then show ?case using interleaved.writing [of C env s1 "k @ k'" w n e] by simp
qed (auto intro: assms(1) interleaved.reading)

lemma snd_interfere [simp]: "snd (interfere env f s) = (snd (f (env (snd s) (fst s))), Suc (snd s))"
  by (cases s) (simp add: interfere_def split: prod.splits)

lemma interleaved_once: "interleaved C env s [] (env (snd s) (fst s), Suc (snd s))"
    "interleaved C env s [e] (perform C e (env (snd s) (fst s)), Suc (snd s))"
  using interleaved.reading [OF interleaved.quiet, of C env "fst s" "snd s"]
    interleaved.writing [OF interleaved.quiet, of C env "fst s" "snd s" e] by simp_all

lemma api_interleaved:
  assumes "still_api A" "\<And>v x. perform C (v, wrap x) = api_effect A v x"
  shows "api_evolves (interleaved C env) wrap (interfere_api env A)"
proof -
  have "interleaved C env s [(v, wrap x)] (api_effect A v x (env (snd s) (fst s)), Suc (snd s))" for s v x
    using interleaved_once(2) [of C env s "(v, wrap x)"] assms(2) by simp
  note e = this [of _ VCreate] this [of _ VUpdate] this [of _ VUpdateStatus] this [of _ VDelete]
  then show ?thesis
    using assms(1) interleaved_once(1) [of C env]
    unfolding api_evolves_def still_api_def interfere_api_def api_effect_def
    by (simp del: split_paired_All)
qed

lemma interleaved_evolution:
  "still_reads C \<Longrightarrow> evolution (interleaved C env) (interfering env C)"
  by unfold_locales
     (auto simp: still_reads_def interfering_def intro: interleaved.quiet interleaved_trans intro!: api_interleaved)

interpretation fake_interleaved: evolution "interleaved fakeClient env" "interfering env fakeClient" for env
  by (rule interleaved_evolution [OF fakeClient_still])

text \<open>Among others that do nothing a run is the run alone.\<close>

abbreviation idle :: "nat \<Rightarrow> 'w \<Rightarrow> 'w" where
  "idle \<equiv> \<lambda>_ w. w"

lemma idle_api: "api_mirrors (\<lambda>w s. fst s = w) A (interfere_api idle A)"
  by (auto simp: api_mirrors_def mirrors_def interfere_api_def interfere_def split: prod.splits)

interpretation idle_others: mirror "\<lambda>w s. fst s = w" C "interfering idle C" for C
  by unfold_locales (simp_all add: interfering_def idle_api)

text \<open>What the others keep and the writes of the log keep, a run keeps.\<close>

lemma interleaved_keeps:
  assumes "interleaved C env s k s'"
    and "J (fst s)" "\<And>n w. J w \<Longrightarrow> J (env n w)" "\<And>e w. e \<in> set k \<Longrightarrow> J w \<Longrightarrow> J (perform C e w)"
  shows "J (fst s')"
  using assms(1,2,4)
proof (induction rule: interleaved.induct)
qed (auto intro: assms(3))

end
