(* ===== verification/KraneSystem.thy ===== *)
theory KraneSystem
  imports CanaryEffects DeployEffects Interference
begin

text \<open>
  The two controllers and the rest of the cluster as one system. A step is a run of one of the
  controllers, with everything the others do between its calls, or an action of the others alone.
  The others are users, the kubelet, the garbage collector and, seen from one controller, the
  other one.
\<close>

subsection \<open>Effects of a write on the in-memory server\<close>

lemma tracker_put_set: "tracker_put meta gr x b objs = Inr ys \<Longrightarrow> set ys \<subseteq> insert x (set objs)"
  by (induction objs arbitrary: ys) (auto split: if_splits sum.splits)

lemma tracker_put_keys:
  "tracker_put meta gr x b objs = Inr ys \<Longrightarrow>
   keys meta ys = keys meta objs \<or>
   keys meta ys = keys meta objs @ [metaKey (meta x)] \<and> metaKey (meta x) \<notin> set (keys meta objs)"
proof (induction objs arbitrary: ys)
  case (Cons y objs)
  show ?case
  proof (cases "metaKey (meta y) = metaKey (meta x)")
    case True
    with Cons.prems show ?thesis by (auto simp: metaKey_def split: if_splits)
  next
    case False
    then have "\<not> (om_Namespace (meta y) = om_Namespace (meta x) \<and> om_Name (meta y) = om_Name (meta x))"
      by (auto simp: metaKey_def)
    with Cons.prems obtain zs where "tracker_put meta gr x b objs = Inr zs" "ys = y # zs"
      by (auto split: sum.splits)
    with Cons.IH [of zs] False show ?thesis by auto
  qed
qed (auto split: if_splits)

lemma tracker_Delete_set: "tracker_Delete meta gr ns name objs = Inr ys \<Longrightarrow> set ys \<subseteq> set objs"
  by (induction objs arbitrary: ys) (auto split: if_splits sum.splits)

lemma tracker_Delete_keys:
  "tracker_Delete meta gr ns name objs = Inr ys \<Longrightarrow> distinct (keys meta objs) \<Longrightarrow> distinct (keys meta ys)"
proof (induction objs arbitrary: ys)
  case (Cons x xs)
  then show ?case
    using tracker_Delete_set [of meta gr ns name xs] by (fastforce simp: keys_def split: if_splits sum.splits)
qed simp

lemma tracker_add_keys:
  "tracker_add meta upd gr x ns b objs = Inr ys \<Longrightarrow> distinct (keys meta objs) \<Longrightarrow> distinct (keys meta ys)"
  by (auto simp: tracker_add_def Let_def split: if_splits dest!: tracker_put_keys)

context tracked_kind begin

text \<open>A write leaves the world as it was, or replaces the list of its kind.\<close>

lemma effect_cases:
  obtains "api_effect (fake_api meta upd gr wire get put) v x w = w"
  | l where "api_effect (fake_api meta upd gr wire get put) v x w = put l w"
      "distinct (keys meta (get w)) \<Longrightarrow> distinct (keys meta l)"
proof -
  have "api_effect (fake_api meta upd gr wire get put) v x w = w \<or>
    (\<exists>l. api_effect (fake_api meta upd gr wire get put) v x w = put l w \<and>
      (distinct (keys meta (get w)) \<longrightarrow> distinct (keys meta l)))"
    by (cases v)
       (auto simp: api_effect_def fake_api_def fake_write_def split: sum.splits
         dest: tracker_add_keys tracker_Delete_keys)
  then show ?thesis using that by blast
qed

lemma effect_inv:
  assumes "J w" "\<And>l. distinct (keys meta l) \<Longrightarrow> J (put l w)" "distinct (keys meta (get w))"
  shows "J (api_effect (fake_api meta upd gr wire get put) v x w)"
  by (rule effect_cases [of v x w]) (simp_all add: assms)

end

lemma perform_canaries:
  "cl_canaries (perform fakeClient (v, KPolicy p) w) = cl_canaries w"
  "cl_canaries (perform fakeClient (v, KDeployment d) w) = cl_canaries w"
  "cl_canaries (perform fakeClient (v, KPod pod) w) = cl_canaries w"
  "cl_canaries (perform fakeClient (v, KService svc) w) = cl_canaries w"
  "cl_canaries (perform fakeClient (v, KVirtualService vs) w) = cl_canaries w"
  "cl_canaries (perform fakeClient (v, KDestinationRule dr) w) = cl_canaries w"
  by (cases v; simp add: api_effect_def fake_api_def fake_write_def split: sum.splits)+

lemma perform_virtualservices:
  "cl_virtualservices (perform fakeClient (v, KCanary c) w) = cl_virtualservices w"
  "cl_virtualservices (perform fakeClient (v, KPolicy p) w) = cl_virtualservices w"
  "cl_virtualservices (perform fakeClient (v, KDeployment d) w) = cl_virtualservices w"
  "cl_virtualservices (perform fakeClient (v, KPod pod) w) = cl_virtualservices w"
  "cl_virtualservices (perform fakeClient (v, KService svc) w) = cl_virtualservices w"
  "cl_virtualservices (perform fakeClient (v, KDestinationRule dr) w) = cl_virtualservices w"
  by (cases v; simp add: api_effect_def fake_api_def fake_write_def split: sum.splits)+

lemma perform_deployments:
  "cl_deployments (perform fakeClient (v, KCanary c) w) = cl_deployments w"
  "cl_deployments (perform fakeClient (v, KPolicy p) w) = cl_deployments w"
  "cl_deployments (perform fakeClient (v, KPod pod) w) = cl_deployments w"
  "cl_deployments (perform fakeClient (v, KService svc) w) = cl_deployments w"
  "cl_deployments (perform fakeClient (v, KVirtualService vs) w) = cl_deployments w"
  "cl_deployments (perform fakeClient (v, KDestinationRule dr) w) = cl_deployments w"
  by (cases v; simp add: api_effect_def fake_api_def fake_write_def split: sum.splits)+

lemmas effect_invs =
  canary_store.effect_inv policy_store.effect_inv deployment_store.effect_inv pod_store.effect_inv
  service_store.effect_inv virtualservice_store.effect_inv destinationrule_store.effect_inv

lemma perform_consistent:
  assumes "consistent w"
  shows "consistent (perform fakeClient e w)"
proof -
  have put: "distinct (keys cn_Meta l1) \<Longrightarrow> consistent (w\<lparr>cl_canaries := l1\<rparr>)"
    "distinct (keys cpo_Meta l2) \<Longrightarrow> consistent (w\<lparr>cl_policies := l2\<rparr>)"
    "distinct (keys dp_Meta l3) \<Longrightarrow> consistent (w\<lparr>cl_deployments := l3\<rparr>)"
    "distinct (keys pod_Meta l4) \<Longrightarrow> consistent (w\<lparr>cl_pods := l4\<rparr>)"
    "distinct (keys svc_Meta l5) \<Longrightarrow> consistent (w\<lparr>cl_services := l5\<rparr>)"
    "distinct (keys vs_Meta l6) \<Longrightarrow> consistent (w\<lparr>cl_virtualservices := l6\<rparr>)"
    "distinct (keys dr_Meta l7) \<Longrightarrow> consistent (w\<lparr>cl_destinationrules := l7\<rparr>)" for l1 l2 l3 l4 l5 l6 l7
    using assms by (simp_all add: consistent_def)
  obtain v x where "e = (v, x)" by (cases e)
  then show ?thesis
    by (cases x) (simp_all add: effect_invs [where J = consistent] assms put consistent_keys)
qed

text \<open>A canary that is there after a write was there before, or has the status that was written.\<close>

lemma tracker_add_canary:
  "tracker_add cn_Meta cn_Meta_update gr x ns b objs = Inr ys \<Longrightarrow> c \<in> set ys \<Longrightarrow>
   c \<in> set objs \<or> (cn_Status c = cn_Status x \<and> cn_Spec c = cn_Spec x)"
  by (auto simp: tracker_add_def Let_def split: if_splits dest!: tracker_put_set)

lemma perform_canary:
  "c \<in> set (cl_canaries (perform fakeClient (v, KCanary x) w)) \<Longrightarrow>
   c \<in> set (cl_canaries w) \<or> cn_Status c = cn_Status x"
  by (cases v)
     (auto simp: api_effect_def fake_api_def fake_write_def split: sum.splits
       dest: tracker_add_canary tracker_Delete_set)

subsection \<open>The gates between phases\<close>

text \<open>What the status of a canary in a phase says about the phases before.\<close>

definition gated :: "CanaryStatus \<Rightarrow> bool" where
  "gated st \<longleftrightarrow>
     (cst_Progress st \<in> {CanaryProgress_Canary, CanaryProgress_Reporting, CanaryProgress_Cleanup} \<longrightarrow>
        ph_Status (cst_Testing st) = CanaryPhaseStatus_Success) \<and>
     (cst_Progress st \<in> {CanaryProgress_Reporting, CanaryProgress_Cleanup} \<longrightarrow>
        ph_Status (cst_Canary st) = CanaryPhaseStatus_Success \<and>
        ph_Status (cst_Judging st) \<in> {CanaryPhaseStatus_Success, CanaryPhaseStatus_Failure}) \<and>
     (cst_Progress st = CanaryProgress_Cleanup \<longrightarrow> ph_Status (cst_Reporting st) = CanaryPhaseStatus_Success)"

lemma gated_zero [simp]: "gated zeroStatus"
  by (simp add: gated_def zeroStatus_def)

lemma gated_in_phase: "in_phase c d \<Longrightarrow> gated (cn_Status c) \<Longrightarrow> gated (cn_Status d)"
  by (auto simp: in_phase_def past_def Let_def gated_def split: if_splits)

lemma gated_advance: "gated (cn_Status c) \<Longrightarrow> phase_done (cn_Status c) \<Longrightarrow> gated (cn_Status (advance c))"
  by (cases "progress c") (auto simp: gated_def phase_done_def advance_def Let_def)

definition gated_cluster :: "Cluster \<Rightarrow> bool" where
  "gated_cluster w \<longleftrightarrow> (\<forall>c\<in>set (cl_canaries w). gated (cn_Status c))"

text \<open>A write of a canary writes a status that passes the gates.\<close>

fun gate_write :: "event \<Rightarrow> bool" where
  "gate_write (v, KCanary c) = gated (cn_Status c)"
| "gate_write _ = True"

lemma perform_gated: "gated_cluster w \<Longrightarrow> gate_write e \<Longrightarrow> gated_cluster (perform fakeClient e w)"
proof -
  assume g: "gated_cluster w" and e: "gate_write e"
  obtain v x where ev: "e = (v, x)" by (cases e)
  show ?thesis
    using g e unfolding ev gated_cluster_def
    by (cases x) (auto simp: perform_canaries simp del: perform.simps dest!: perform_canary)
qed

lemma phase_write_gated: "phase_write c e \<Longrightarrow> gated (cn_Status c) \<Longrightarrow> gate_write e"
  by (cases "(c, e)" rule: phase_write.cases) (auto dest: gated_in_phase)

lemma provisioning_write_gated: "provisioning_write e \<Longrightarrow> gate_write e"
  by (cases e rule: provisioning_write.cases) auto

subsection \<open>Runs among others\<close>

lemma interfering_keyed: "keyed_gets C \<Longrightarrow> keyed_gets (interfering env C)"
  unfolding keyed_gets_def interfering_def interfere_api_def interfere_def
  by (simp split: prod.splits) blast

lemma interfering_echo: "status_echo C \<Longrightarrow> status_echo (interfering env C)"
  unfolding status_echo_def interfering_def interfere_api_def interfere_def
  by (simp split: prod.splits) blast

text \<open>
  A run of the canary controller among others: what it writes belongs to the canary it has read,
  and the cluster it leaves is an interleaving of these writes with the actions of the others.
\<close>

lemma canary_among_others:
  assumes nn: "nonempty_key nn"
    and run: "ReconcileCanary_Reconcile jf \<lparr>client = interfering env fakeClient, scheme = sc\<rparr> nn (w, n) = (r, s')"
  obtains k where "interleaved fakeClient env (w, n) k s'"
    "ReconcileCanary_Reconcile jf \<lparr>client = logging (interfering env fakeClient), scheme = sc\<rparr> nn ((w, n), []) = (r, (s', k))"
    "k = [] \<or> (\<exists>c k1 t. api_get (canaries fakeClient) nn (env n w) = (Inr c, env n w) \<and> k = k1 @ t \<and>
       list_all (phase_write c) k1 \<and>
       (t = [] \<or> (\<exists>d. in_phase c d \<and> phase_done (cn_Status d) \<and> t = [(VUpdateStatus, KCanary (advance d))])))"
proof -
  let ?C = "interfering env fakeClient"
  obtain k where k: "ReconcileCanary_Reconcile jf \<lparr>client = logging ?C, scheme = sc\<rparr> nn ((w, n), []) = (r, (s', k))"
    "interleaved fakeClient env (w, n) k s'"
    using run by (rule fake_interleaved.canary_explained)
  obtain g where g: "api_get (canaries fakeClient) nn (env n w) = (g, env n w)"
    by (simp add: fake_api_def)
  then have get: "api_get (canaries ?C) nn (w, n) = (g, (env n w, Suc n))"
    by (simp add: interfering_def interfere_api_def interfere_def)
  show ?thesis
  proof (cases g)
    case (Inl e)
    then have "k = []"
      using canary_run_idle [of ?C nn "(w, n)" e "(env n w, Suc n)" jf sc] get k(1) by auto
    with k show ?thesis using that by blast
  next
    case (Inr c)
    obtain k1 t where "k = k1 @ t" "list_all (phase_write c) k1"
      "t = [] \<or> (\<exists>d. in_phase c d \<and> phase_done (cn_Status d) \<and> t = [(VUpdateStatus, KCanary (advance d))])"
      using canary_run_log [of ?C nn "(w, n)" c "(env n w, Suc n)" jf sc] get Inr k(1) nn
        interfering_keyed [OF fakeClient_keyed, of env] interfering_echo [OF fakeClient_echo, of env] by auto
    with k g Inr show ?thesis using that by blast
  qed
qed

lemma deployment_among_others:
  assumes "ReconcileDeployment_Reconcile \<lparr>client = interfering env fakeClient, scheme = sc\<rparr> nn (w, n) = (r, s')"
  obtains k where "interleaved fakeClient env (w, n) k s'" "list_all provisioning_write k"
proof -
  obtain k where k: "ReconcileDeployment_Reconcile \<lparr>client = logging (interfering env fakeClient), scheme = sc\<rparr> nn ((w, n), []) = (r, (s', k))"
    "interleaved fakeClient env (w, n) k s'"
    using assms by (rule fake_interleaved.deployment_explained)
  moreover have "list_all provisioning_write k"
    using k(1) recordsE [OF deployer_log.run_logged [of "interfering env fakeClient" sc nn], of "(w, n)" "[]"] by auto
  ultimately show ?thesis using that by blast
qed

lemma canary_run_consistent:
  assumes "consistent (fst s)" "\<And>i v. consistent v \<Longrightarrow> consistent (env i v)"
    and "ReconcileCanary_Reconcile jf \<lparr>client = interfering env fakeClient, scheme = sc\<rparr> nn s = (r, s')"
  shows "consistent (fst s')"
  by (rule fake_interleaved.canary_explained [OF assms(3)])
     (rule interleaved_keeps [where J = consistent], assumption, simp_all add: assms perform_consistent)

lemma deployment_run_consistent:
  assumes "consistent (fst s)" "\<And>i v. consistent v \<Longrightarrow> consistent (env i v)"
    and "ReconcileDeployment_Reconcile \<lparr>client = interfering env fakeClient, scheme = sc\<rparr> nn s = (r, s')"
  shows "consistent (fst s')"
  by (rule fake_interleaved.deployment_explained [OF assms(3)])
     (rule interleaved_keeps [where J = consistent], assumption, simp_all add: assms perform_consistent)

subsection \<open>The system\<close>

text \<open>
  What the others may do to canaries: create new ones, remove some and change their metadata and
  specification, but not their status, which only the canary controller writes.
\<close>

definition respects_status :: "Cluster \<Rightarrow> Cluster \<Rightarrow> bool" where
  "respects_status w w' \<longleftrightarrow> (\<forall>c'\<in>set (cl_canaries w').
     cn_Status c' = zeroStatus \<or> (\<exists>c\<in>set (cl_canaries w). cn_Status c' = cn_Status c))"

text \<open>Each call of the deployment controller is such an action.\<close>

lemma provisioning_respects_status:
  "provisioning_write e \<Longrightarrow> respects_status w (perform fakeClient e w)"
  by (cases e rule: provisioning_write.cases)
     (auto simp: respects_status_def perform_canaries simp del: perform.simps dest!: perform_canary)

inductive krane_step :: "json_float \<Rightarrow> Cluster \<Rightarrow> Cluster \<Rightarrow> bool" for jf where
  deployment_run: "(\<And>i v. respects_status v (env i v)) \<Longrightarrow>
     ReconcileDeployment_Reconcile \<lparr>client = interfering env fakeClient, scheme = kraneScheme\<rparr> nn (w, n) = (r, (w', n')) \<Longrightarrow>
     krane_step jf w w'"
| canary_run: "(\<And>i v. respects_status v (env i v)) \<Longrightarrow> nonempty_key nn \<Longrightarrow>
     ReconcileCanary_Reconcile jf \<lparr>client = interfering env fakeClient, scheme = kraneScheme\<rparr> nn (w, n) = (r, (w', n')) \<Longrightarrow>
     krane_step jf w w'"
| others: "respects_status w w' \<Longrightarrow> krane_step jf w w'"

inductive_cases krane_stepE: "krane_step jf w w'"

text \<open>A run that nobody disturbs is a step.\<close>

lemma respects_refl [simp]: "respects_status w w"
  by (auto simp: respects_status_def)

lemma canary_run_idly:
  assumes "ReconcileCanary_Reconcile jf \<lparr>client = C, scheme = sc\<rparr> nn w = (r, w')"
  shows "\<exists>n. ReconcileCanary_Reconcile jf \<lparr>client = interfering idle C, scheme = sc\<rparr> nn (w, 0) = (r, (w', n))"
  using mirrors_at [OF idle_others.canary_runs _ assms, of "(w, 0)"] by auto

text \<open>If the virtual services or the deployments have changed after a run by itself, the run has logged why.\<close>

lemma run_changes:
  assumes nn: "nonempty_key nn" and run: "ReconcileCanary_Reconcile jf \<lparr>client = fakeClient, scheme = sc\<rparr> nn w = (r, w')"
  obtains s k where "ReconcileCanary_Reconcile jf \<lparr>client = logging (interfering idle fakeClient), scheme = sc\<rparr> nn ((w, 0), []) = (r, (s, k))"
    "cl_virtualservices w' \<noteq> cl_virtualservices w \<Longrightarrow> \<exists>vs. (VUpdate, KVirtualService vs) \<in> set k"
    "cl_deployments w' \<noteq> cl_deployments w \<Longrightarrow> \<exists>d. (VDelete, KDeployment d) \<in> set k"
proof -
  obtain n where "ReconcileCanary_Reconcile jf \<lparr>client = interfering idle fakeClient, scheme = sc\<rparr> nn (w, 0) = (r, (w', n))"
    using canary_run_idly [OF run] by blast
  then obtain k where i: "interleaved fakeClient idle (w, 0) k (w', n)"
    and k: "ReconcileCanary_Reconcile jf \<lparr>client = logging (interfering idle fakeClient), scheme = sc\<rparr> nn ((w, 0), []) = (r, ((w', n), k))"
    and w: "k = [] \<or> (\<exists>c k1 t. api_get (canaries fakeClient) nn w = (Inr c, w) \<and> k = k1 @ t \<and> list_all (phase_write c) k1 \<and>
       (t = [] \<or> (\<exists>d. in_phase c d \<and> phase_done (cn_Status d) \<and> t = [(VUpdateStatus, KCanary (advance d))])))"
    by (rule canary_among_others [OF nn])
  have logged: "(\<exists>c. phase_write c e) \<or> (\<exists>d. e = (VUpdateStatus, KCanary d))" if "e \<in> set k" for e
    using w that by (auto simp: list_all_iff)
  have update: "v = VUpdate" if "(v, KVirtualService vs) \<in> set k" for v vs
    using logged [OF that] by (cases v) auto
  have delete: "v = VDelete" if "(v, KDeployment d) \<in> set k" for v d
    using logged [OF that] by (cases v) auto
  show ?thesis
  proof (rule that [OF k])
    assume neq: "cl_virtualservices w' \<noteq> cl_virtualservices w"
    show "\<exists>vs. (VUpdate, KVirtualService vs) \<in> set k"
    proof (rule ccontr)
      assume "\<nexists>vs. (VUpdate, KVirtualService vs) \<in> set k"
      then have "cl_virtualservices (perform fakeClient e u) = cl_virtualservices u" if "e \<in> set k" for e u
        using that update by (cases e; cases "snd e") (auto simp: perform_virtualservices simp del: perform.simps)
      with interleaved_keeps [OF i, of "\<lambda>u. cl_virtualservices u = cl_virtualservices w"] neq show False by simp
    qed
  next
    assume neq: "cl_deployments w' \<noteq> cl_deployments w"
    show "\<exists>d. (VDelete, KDeployment d) \<in> set k"
    proof (rule ccontr)
      assume "\<nexists>d. (VDelete, KDeployment d) \<in> set k"
      then have "cl_deployments (perform fakeClient e u) = cl_deployments u" if "e \<in> set k" for e u
        using that delete by (cases e; cases "snd e") (auto simp: perform_deployments simp del: perform.simps)
      with interleaved_keeps [OF i, of "\<lambda>u. cl_deployments u = cl_deployments w"] neq show False by simp
    qed
  qed
qed

lemma deployment_run_idly:
  assumes "ReconcileDeployment_Reconcile \<lparr>client = C, scheme = sc\<rparr> nn w = (r, w')"
  shows "\<exists>n. ReconcileDeployment_Reconcile \<lparr>client = interfering idle C, scheme = sc\<rparr> nn (w, 0) = (r, (w', n))"
  using mirrors_at [OF idle_others.deployment_runs _ assms, of "(w, 0)"] by auto

lemma canary_run_alone:
  assumes "nonempty_key nn" "ReconcileCanary_Reconcile jf \<lparr>client = fakeClient, scheme = kraneScheme\<rparr> nn w = (r, w')"
  shows "krane_step jf w w'"
proof -
  from canary_run_idly [OF assms(2)] obtain n where
    "ReconcileCanary_Reconcile jf \<lparr>client = interfering idle fakeClient, scheme = kraneScheme\<rparr> nn (w, 0) = (r, (w', n))" ..
  with assms(1) show ?thesis by (intro krane_step.canary_run [where env = idle]) auto
qed

lemma deployment_run_alone:
  assumes "ReconcileDeployment_Reconcile \<lparr>client = fakeClient, scheme = kraneScheme\<rparr> nn w = (r, w')"
  shows "krane_step jf w w'"
proof -
  from deployment_run_idly [OF assms] obtain n where
    "ReconcileDeployment_Reconcile \<lparr>client = interfering idle fakeClient, scheme = kraneScheme\<rparr> nn (w, 0) = (r, (w', n))" ..
  then show ?thesis by (intro krane_step.deployment_run [where env = idle]) auto
qed

definition krane_reaches :: "json_float \<Rightarrow> Cluster \<Rightarrow> Cluster \<Rightarrow> bool" where
  "krane_reaches jf = (krane_step jf)\<^sup>*\<^sup>*"

lemma respects_gated: "respects_status w w' \<Longrightarrow> gated_cluster w \<Longrightarrow> gated_cluster w'"
  by (fastforce simp: respects_status_def gated_cluster_def)

lemma fake_get_member: "api_get (canaries fakeClient) nn w = (Inr c, w') \<Longrightarrow> c \<in> set (cl_canaries w)"
proof -
  assume "api_get (canaries fakeClient) nn w = (Inr c, w')"
  then have "filterByNamespaceAndName cn_Meta (cl_canaries w) (nn_Namespace nn) (nn_Name nn) = [c]"
    by (auto simp: fake_api_def tracker_Get_def split: list.splits)
  then have "c \<in> set (filterByNamespaceAndName cn_Meta (cl_canaries w) (nn_Namespace nn) (nn_Name nn))" by simp
  then show ?thesis by (simp add: filterByNamespaceAndName_def)
qed

lemma canary_run_gated:
  assumes env: "\<And>i v. respects_status v (env i v)" and nn: "nonempty_key nn" and g: "gated_cluster w"
    and run: "ReconcileCanary_Reconcile jf \<lparr>client = interfering env fakeClient, scheme = sc\<rparr> nn (w, n) = (r, s')"
  shows "gated_cluster (fst s')"
proof -
  from nn run obtain k where k: "interleaved fakeClient env (w, n) k s'"
    "k = [] \<or> (\<exists>c k1 t. api_get (canaries fakeClient) nn (env n w) = (Inr c, env n w) \<and> k = k1 @ t \<and>
       list_all (phase_write c) k1 \<and>
       (t = [] \<or> (\<exists>d. in_phase c d \<and> phase_done (cn_Status d) \<and> t = [(VUpdateStatus, KCanary (advance d))])))"
    by (rule canary_among_others)
  have genv: "gated_cluster (env i v)" if "gated_cluster v" for i v
    using respects_gated [OF env that] .
  have "gate_write e" if "e \<in> set k" for e
  proof -
    from k(2) that obtain c k1 t where c: "api_get (canaries fakeClient) nn (env n w) = (Inr c, env n w)"
      "k = k1 @ t" "list_all (phase_write c) k1"
      "t = [] \<or> (\<exists>d. in_phase c d \<and> phase_done (cn_Status d) \<and> t = [(VUpdateStatus, KCanary (advance d))])"
      by auto
    have "gated (cn_Status c)"
      using fake_get_member [OF c(1)] genv [OF g] by (auto simp: gated_cluster_def)
    with c that show ?thesis
      using gated_advance [OF gated_in_phase [OF _ \<open>gated (cn_Status c)\<close>]]
      by (auto simp: list_all_iff intro: phase_write_gated)
  qed
  then show ?thesis
    using interleaved_keeps [OF k(1), of gated_cluster] g genv perform_gated by simp
qed

lemma deployment_run_gated:
  assumes env: "\<And>i v. respects_status v (env i v)" and g: "gated_cluster w"
    and run: "ReconcileDeployment_Reconcile \<lparr>client = interfering env fakeClient, scheme = sc\<rparr> nn (w, n) = (r, s')"
  shows "gated_cluster (fst s')"
proof -
  from run obtain k where "interleaved fakeClient env (w, n) k s'" "list_all provisioning_write k"
    by (rule deployment_among_others)
  then show ?thesis
    using interleaved_keeps [of fakeClient env "(w, n)" k s' gated_cluster] g respects_gated [OF env] perform_gated
    by (auto simp: list_all_iff provisioning_write_gated)
qed

lemma step_gated: "krane_step jf w w' \<Longrightarrow> gated_cluster w \<Longrightarrow> gated_cluster w'"
  by (erule krane_stepE) (metis canary_run_gated deployment_run_gated respects_gated fst_conv)+

lemma reaches_gated:
  assumes "krane_reaches jf w w'" "gated_cluster w"
  shows "gated_cluster w'"
  using assms(1) unfolding krane_reaches_def
  by (induction rule: rtranclp_induct) (auto intro: assms(2) step_gated)

subsection \<open>Progress\<close>

text \<open>What the others may do here: anything that keeps every canary, with the progress it has.\<close>

abbreviation canary_at :: "Cluster \<Rightarrow> NamespacedName \<Rightarrow> Canary option" where
  "canary_at w k \<equiv> find_key cn_Meta (cl_canaries w) k"

definition keeps_progress :: "Cluster \<Rightarrow> Cluster \<Rightarrow> bool" where
  "keeps_progress w w' \<longleftrightarrow> consistent w' \<and>
     (\<forall>k c. canary_at w k = Some c \<longrightarrow> (\<exists>c'. canary_at w' k = Some c' \<and> progress c' = progress c))"

text \<open>Every canary is still there, in the phase it was in; the one of the request perhaps in the next.\<close>

definition moves_on :: "NamespacedName \<Rightarrow> Cluster \<Rightarrow> Cluster \<Rightarrow> bool" where
  "moves_on nn w w' \<longleftrightarrow> consistent w' \<and> (\<forall>k c. canary_at w k = Some c \<longrightarrow>
     (\<exists>c'. canary_at w' k = Some c' \<and> (progress c' = progress c \<or> k = nn \<and> progress c' = next_progress (progress c))))"

lemma moves_refl: "consistent w \<Longrightarrow> moves_on nn w w"
  by (simp add: moves_on_def)

lemma moves_keeps: "moves_on nn w v \<Longrightarrow> keeps_progress v v' \<Longrightarrow> moves_on nn w v'"
  unfolding moves_on_def keeps_progress_def by (metis (no_types, lifting))

lemma moves_keeps_same:
  "keeps_progress w v \<Longrightarrow> canary_at w k = Some c \<Longrightarrow> canary_at v k = Some d \<Longrightarrow> progress d = progress c"
  by (fastforce simp: keeps_progress_def)

text \<open>A write that leaves canaries alone, a new canary, and a status.\<close>

lemma keeps_other:
  "consistent v \<Longrightarrow> (\<And>c. snd e \<noteq> KCanary c) \<Longrightarrow> keeps_progress v (perform fakeClient e v)"
  using perform_consistent [of v e]
  by (cases e; cases "snd e") (auto simp: keeps_progress_def perform_canaries simp del: perform.simps)

lemma tracker_put_new: "tracker_put meta gr x False objs = Inr ys \<Longrightarrow> ys = objs @ [x]"
  by (induction objs arbitrary: ys) (auto split: if_splits sum.splits)

lemma keeps_create: "consistent v \<Longrightarrow> keeps_progress v (perform fakeClient (VCreate, KCanary x) v)"
  using perform_consistent [of v "(VCreate, KCanary x)"]
  by (auto simp: keeps_progress_def api_effect_def fake_api_def fake_write_def tracker_add_def Let_def find_key_append
      split: sum.splits if_splits dest!: tracker_put_new)

lemma tracker_put_absent:
  "find_key meta objs (metaKey (meta x)) = None \<Longrightarrow>
   tracker_put meta gr x True objs = Inl (NewNotFound gr (om_Name (meta x)))"
  by (induction objs) (auto simp: same_key split: if_splits)

lemma moves_status:
  assumes "moves_on nn w v" "legal_key nn" "metaKey (cn_Meta x) = nn"
    and "\<And>c. canary_at w nn = Some c \<Longrightarrow> progress x \<in> {progress c, next_progress (progress c)}"
  shows "moves_on nn w (perform fakeClient (VUpdateStatus, KCanary x) v)"
proof (cases "canary_at v nn")
  case None
  then have "perform fakeClient (VUpdateStatus, KCanary x) v = v"
    using assms(1-3)
    by (simp add: api_effect_def fake_api_def fake_write_def tracker_add_legal tracker_put_absent)
  with assms(1) show ?thesis by simp
next
  case (Some y)
  have "distinct (keys cn_Meta (cl_canaries v))" using assms(1) by (simp add: moves_on_def consistent_keys)
  with Some have "canary_at (perform fakeClient (VUpdateStatus, KCanary x) v) = (canary_at v)(nn \<mapsto> x)"
    using canary_store.fake_put(2) [of x v y] assms(2,3) by (simp add: api_effect_def find_key_put_at fun_eq_iff)
  moreover have "consistent (perform fakeClient (VUpdateStatus, KCanary x) v)"
    using assms(1) by (intro perform_consistent) (simp add: moves_on_def)
  ultimately show ?thesis using assms(1,4) by (fastforce simp: moves_on_def simp del: perform.simps)
qed

lemma moves_gate:
  assumes "moves_on nn w v" "legal_key nn" "metaKey (cn_Meta c0) = nn"
    and c0: "\<And>c. canary_at w nn = Some c \<Longrightarrow> progress c0 = progress c"
    and e: "phase_write c0 e \<or> (\<exists>d. in_phase c0 d \<and> e = (VUpdateStatus, KCanary (advance d)))"
  shows "moves_on nn w (perform fakeClient e v)"
proof (cases "\<exists>x. e = (VUpdateStatus, KCanary x)")
  case True
  then obtain x where x: "e = (VUpdateStatus, KCanary x)" by blast
  with e have "metaKey (cn_Meta x) = metaKey (cn_Meta c0) \<and> progress x \<in> {progress c0, next_progress (progress c0)}"
    by (auto simp: in_phase_def same_object_def)
  with assms(1-3) c0 show ?thesis unfolding x by (intro moves_status) simp_all
next
  case False
  with e have "phase_write c0 e" by blast
  with False have "snd e \<noteq> KCanary x" for x
    by (cases "(c0, e)" rule: phase_write.cases) auto
  moreover have "consistent v" using assms(1) by (simp add: moves_on_def)
  ultimately show ?thesis by (metis keeps_other moves_keeps assms(1))
qed

lemma canary_run_moves:
  assumes w: "consistent w" and nn: "nonempty_key nn"
    and env: "\<And>i v. consistent v \<Longrightarrow> keeps_progress v (env i v)"
    and run: "ReconcileCanary_Reconcile jf \<lparr>client = interfering env fakeClient, scheme = sc\<rparr> nn (w, n) = (r, s')"
  shows "moves_on nn w (fst s')"
proof -
  from nn run obtain k where k: "interleaved fakeClient env (w, n) k s'"
    "k = [] \<or> (\<exists>c k1 t. api_get (canaries fakeClient) nn (env n w) = (Inr c, env n w) \<and> k = k1 @ t \<and>
       list_all (phase_write c) k1 \<and>
       (t = [] \<or> (\<exists>d. in_phase c d \<and> phase_done (cn_Status d) \<and> t = [(VUpdateStatus, KCanary (advance d))])))"
    by (rule canary_among_others)
  have "moves_on nn w (perform fakeClient e v)" if "e \<in> set k" "moves_on nn w v" for e v
  proof -
    from k(2) that(1) obtain c k1 t where c: "api_get (canaries fakeClient) nn (env n w) = (Inr c, env n w)"
      "k = k1 @ t" "list_all (phase_write c) k1"
      "t = [] \<or> (\<exists>d. in_phase c d \<and> phase_done (cn_Status d) \<and> t = [(VUpdateStatus, KCanary (advance d))])"
      by auto
    have key: "metaKey (cn_Meta c) = nn"
      using fakeClient_keyed c(1) nn unfolding keyed_gets_def by blast
    have lk: "legal_key nn" using nn by (simp add: legal_key_def nonempty_key_def)
    have kp: "keeps_progress w (env n w)" using env w .
    then have "canary_at (env n w) nn = Some c"
      using c(1) canary_store.fake_get [OF lk, of "env n w"]
      by (auto simp: keeps_progress_def consistent_keys split: option.splits)
    then have "progress c = progress d" if "canary_at w nn = Some d" for d
      using moves_keeps_same [OF kp that] by simp
    then show ?thesis
      using that c lk key
      by (intro moves_gate [of nn w v c]) (auto simp: list_all_iff)
  qed
  moreover have "moves_on nn w (env i v)" if "moves_on nn w v" for i v
    using that by (rule moves_keeps) (use that in \<open>simp add: env moves_on_def\<close>)
  ultimately show ?thesis
    by (intro interleaved_keeps [OF k(1), of "moves_on nn w"]) (simp_all add: moves_refl w)
qed

text \<open>The deployment controller keeps every canary as it is, and so may run between the calls.\<close>

lemma provisioning_keeps_progress:
  "provisioning_write e \<Longrightarrow> consistent v \<Longrightarrow> keeps_progress v (perform fakeClient e v)"
  by (cases e rule: provisioning_write.cases) (auto intro: keeps_other keeps_create simp del: perform.simps)

end
