(* ===== verification/Namespaces.thy ===== *)
theory Namespaces
  imports Interference
begin

text \<open>
  A run stays in the namespace of its request: every object it writes is in that namespace, and
  objects elsewhere change only through others. The server's part is that \<open>Get\<close> answers with an
  object of the requested namespace and that the answer to a write carries the namespace sent.
\<close>

subsection \<open>Servers that keep namespaces\<close>

fun event_meta :: "event \<Rightarrow> ObjectMeta" where
  "event_meta (v, KCanary x) = cn_Meta x"
| "event_meta (v, KPolicy x) = cpo_Meta x"
| "event_meta (v, KDeployment x) = dp_Meta x"
| "event_meta (v, KPod x) = pod_Meta x"
| "event_meta (v, KService x) = svc_Meta x"
| "event_meta (v, KVirtualService x) = vs_Meta x"
| "event_meta (v, KDestinationRule x) = dr_Meta x"

definition within :: "string \<Rightarrow> ObjectMeta \<Rightarrow> bool" where
  "within ns m \<longleftrightarrow> om_Namespace m = ns"

definition stays :: "string \<Rightarrow> event \<Rightarrow> bool" where
  "stays ns e \<longleftrightarrow> within ns (event_meta e)"

lemma stays_simps [simp]:
  "stays ns (v, KCanary c) = within ns (cn_Meta c)" "stays ns (v, KDeployment d) = within ns (dp_Meta d)"
  "stays ns (v, KPod pod) = within ns (pod_Meta pod)" "stays ns (v, KService svc) = within ns (svc_Meta svc)"
  "stays ns (v, KVirtualService vs) = within ns (vs_Meta vs)"
  "stays ns (v, KDestinationRule dr) = within ns (dr_Meta dr)"
  by (simp_all add: stays_def)

definition scoped_api :: "('o \<Rightarrow> ObjectMeta) \<Rightarrow> string \<Rightarrow> ('o, 'w) api \<Rightarrow> bool" where
  "scoped_api meta ns A \<longleftrightarrow>
     (\<forall>k w w' x. nn_Namespace k = ns \<longrightarrow> api_get A k w = (Inr x, w') \<longrightarrow> om_Namespace (meta x) = ns) \<and>
     (\<forall>x w w' x'. api_update A x w = (Inr x', w') \<longrightarrow> om_Namespace (meta x') = om_Namespace (meta x)) \<and>
     (\<forall>x w w' x'. api_update_status A x w = (Inr x', w') \<longrightarrow> om_Namespace (meta x') = om_Namespace (meta x))"

lemma emits_scoped:
  assumes "scoped_api meta ns A"
  shows "nn_Namespace k = ns \<Longrightarrow>
      emits I P (\<lambda>x. within ns (meta x)) (callP (api_get (log_api wrap A) k))"
    "P (VUpdate, wrap x) \<Longrightarrow> within ns (meta x) \<Longrightarrow>
      emits I P (\<lambda>x. within ns (meta x)) (callP (api_update (log_api wrap A) x))"
    "P (VUpdateStatus, wrap x) \<Longrightarrow> within ns (meta x) \<Longrightarrow>
      emits I P (\<lambda>x. within ns (meta x)) (callP (api_update_status (log_api wrap A) x))"
  using assms unfolding scoped_api_def
  by (auto simp: within_def emits_def wp_simps log_api_def log_call_def split: prod.splits sum.splits)

text \<open>The kinds that the controllers read and write back.\<close>

locale scoped_server =
  fixes C :: "'w Client" and ns :: string and R :: "('w \<times> event list) Reconciler"
  assumes logs: "client R = logging C"
    and canaries_scoped: "scoped_api cn_Meta ns (canaries C)"
    and policies_scoped: "scoped_api cpo_Meta ns (policies C)"
    and deployments_scoped: "scoped_api dp_Meta ns (deployments C)"
    and pods_scoped: "scoped_api pod_Meta ns (pods C)"
    and virtualservices_scoped: "scoped_api vs_Meta ns (virtualservices C)"
begin

lemmas scoped_calls = emits_scoped [OF canaries_scoped] emits_scoped [OF policies_scoped]
  emits_scoped [OF deployments_scoped] emits_scoped [OF pods_scoped] emits_scoped [OF virtualservices_scoped]

subsubsection \<open>The canary controller\<close>

abbreviation "canary_stays \<equiv> emits (\<lambda>c. within ns (cn_Meta c)) (stays ns)"

lemma stays_canary_policy: "canary_stays (\<lambda>_. True) (ReconcileCanary_GetCanaryPolicy R)"
  unfolding ReconcileCanary_GetCanaryPolicy_def logs logging_simps by (intro emits_intros)

lemma stays_status: "(\<And>c. cn_Meta (f c) = cn_Meta c) \<Longrightarrow> canary_stays (\<lambda>_. True) (putStatus R f)"
  using canaries_scoped unfolding scoped_api_def
  by (fastforce simp: emits_def wp_simps logs log_api_def log_call_def within_def split: prod.splits sum.splits)

lemma stays_ignore: "canary_stays (\<lambda>_. True) p \<Longrightarrow> canary_stays (\<lambda>_. True) (ignoreError p)"
  unfolding ignoreError_def by (rule emits_bind [OF emits_try]) (auto intro: emits_intros)

lemma stays_init: "canary_stays (\<lambda>_. True) (reconcileCanaryAndBaseline R)"
  by (auto simp: reconcileCanaryAndBaseline_def logs intro!: emits_intros stays_status)

lemma stays_report:
  "(\<And>c. cn_Meta (f c) = cn_Meta c) \<Longrightarrow>
   canary_stays (\<lambda>_. True) (bindP memP (\<lambda>c. thenP (whenP (b c) (putStatus R f)) (retP x)))"
  by (intro emits_intros stays_status) simp_all

lemma stays_job:
  assumes "\<And>job. build = Ok job \<Longrightarrow> within ns (pod_Meta job)" "\<And>n c. cn_Meta (f n c) = cn_Meta c"
  shows "canary_stays (\<lambda>_. True) (get_or_create (pods (client R)) k (liftP build) (\<lambda>job. putStatus R (f (om_Name (pod_Meta job)))))"
  unfolding logs logging_simps
  by (rule emits_goc) (auto simp: assms intro!: emits_intros stays_status)

lemma created_in:
  "CreateTestJob R c p = Ok pod \<Longrightarrow> within ns (cn_Meta c) \<Longrightarrow> within ns (pod_Meta pod)"
  "CreateJudgeJob jf R c p = Ok pod \<Longrightarrow> within ns (cn_Meta c) \<Longrightarrow> within ns (pod_Meta pod)"
  by (drule created_job_key, simp add: metaKey_def within_def)+

lemma stays_test: "canary_stays (\<lambda>_. True) (reconcileTestJob R)"
  unfolding reconcileTestJob_def
  by (auto intro!: emits_intros emits_bind [OF stays_canary_policy] emits_bind [OF stays_job] stays_report
      simp: created_in split: prod.splits)

lemma stays_judge: "canary_stays (\<lambda>_. True) (reconcileJudgeJob jf R)"
  unfolding reconcileJudgeJob_def
  by (auto intro!: emits_intros emits_bind [OF stays_canary_policy] emits_bind [OF stays_job] stays_report
      simp: created_in split: prod.splits)

lemma canary_ns: "within ns (cn_Meta c) \<Longrightarrow> canary_namespace c = ns"
  by (simp add: within_def)

lemma stays_vs:
  "nn_Namespace k = ns \<Longrightarrow> (\<And>vs. within ns (vs_Meta vs) \<Longrightarrow> canary_stays Q (f vs)) \<Longrightarrow>
   canary_stays Q (bindP (callP (api_get (log_api KVirtualService (virtualservices C)) k)) f)"
  by (rule emits_bind [OF scoped_calls(13)])

lemmas vs_rules = emits_ret emits_if emits_when emits_then emits_bind_lift emits_bind_mem emits_write
  emits_any [OF emits_bind [OF emits_write(2)]]

lemma stays_routing: "canary_stays (\<lambda>_. True) (reconcileVirtualService R)"
  unfolding reconcileVirtualService_def logs logging_simps
  by (auto intro!: emits_bind_mem emits_bind [OF stays_canary_policy] stays_vs stays_status vs_rules simp: canary_ns)

lemma stays_reporting: "canary_stays (\<lambda>_. True) (reconcileReporting R)"
  unfolding reconcileReporting_def by (auto intro!: emits_intros stays_status stays_ignore)

lemma stays_pod_cleanup: "canary_stays (\<lambda>_. True) (cleanupPod R name ns)"
  unfolding cleanupPod_def logs logging_simps
  by (rule emits_bind [OF emits_try [OF scoped_calls(10)]]) (auto split: sum.splits intro: emits_intros)

lemma stays_deployment_cleanup: "canary_stays (\<lambda>_. True) (cleanupDeployment R name ns)"
  unfolding cleanupDeployment_def logs logging_simps
  by (rule emits_bind [OF emits_try [OF scoped_calls(7)]]) (auto split: sum.splits intro: emits_intros)

lemma stays_cleanup: "canary_stays (\<lambda>_. True) (reconcileCleanup R)"
proof -
  have "canary_stays (\<lambda>_. True) (cleanup_routes R policy)" for policy
    unfolding cleanup_routes_def logs logging_simps
    by (auto intro!: emits_bind_mem stays_vs vs_rules simp: canary_ns)
  then show ?thesis
    unfolding reconcileCleanup_def
    by (auto intro!: emits_bind_mem emits_ret emits_bind [OF stays_canary_policy] emits_then stays_pod_cleanup stays_deployment_cleanup
        stays_ignore stays_status simp: canary_ns)
qed

lemma stays_phase: "canary_stays (\<lambda>_. True) (ReconcilePhaseStatus R)"
proof -
  have "cn_Meta (snd (phase_switch c)) = cn_Meta c" for c
    by (simp add: phase_switch_def Let_def split: CanaryProgress.splits)
  then show ?thesis
    unfolding ReconcilePhaseStatus_def Let_def
    by (auto intro!: emits_intros stays_status simp: prod.case_eq_if)
qed

lemma stays_fallback:
  "canary_stays (\<lambda>_. True) p \<Longrightarrow> canary_stays (\<lambda>_. True) q \<Longrightarrow> canary_stays (\<lambda>_. True) (orFallbackCanary p q)"
  unfolding orFallbackCanary_def by (rule emits_bind [OF emits_try]) (auto intro: emits_ret split: sum.splits)

lemma stays_canary_steps: "canary_stays (\<lambda>_. True) (canarySteps jf R)"
  unfolding canarySteps_def afterInit_def
  by (intro stays_fallback stays_init stays_test stays_judge stays_routing stays_reporting stays_cleanup stays_phase
      emits_bind_mem emits_if emits_ret TrueI)

lemma canary_run_stays:
  assumes "nn_Namespace nn = ns"
  shows "records (stays ns) (\<lambda>_. True) (ReconcileCanary_Reconcile jf R nn)"
proof -
  have "emits (\<lambda>_. True) (stays ns) (\<lambda>c. within ns (cn_Meta c)) (callP (api_get (canaries (client R)) nn))"
    unfolding logs logging_simps using assms by (rule scoped_calls)
  note get = records_run [OF this TrueI]
  show ?thesis
    unfolding ReconcileCanary_Reconcile_def
    by (rule records_bind_try [OF get]) (auto intro: records_ret records_run [OF stays_canary_steps])
qed

subsubsection \<open>The deployment controller\<close>

definition mem_within :: "DeployMem \<Rightarrow> bool" where
  "mem_within m \<longleftrightarrow> within ns (dp_Meta (me_instance m)) \<and> within ns (cpo_Meta (me_policy m))"

lemma mem_ns:
  "mem_within m \<Longrightarrow> deployment_namespace (me_instance m) = ns"
  "mem_within m \<Longrightarrow> om_Namespace (cpo_Meta (me_policy m)) = ns"
  by (simp_all add: mem_within_def within_def)

lemma mem_updates [simp]:
  "mem_within m \<Longrightarrow> within ns (dp_Meta d) \<Longrightarrow> mem_within (m\<lparr>me_instance := d\<rparr>)"
  "mem_within m \<Longrightarrow> (\<And>p. cpo_Meta (f p) = cpo_Meta p) \<Longrightarrow> mem_within (me_policy_update f m)"
  "mem_within m \<Longrightarrow> within ns (dp_Meta (me_instance m))"
  by (simp_all add: mem_within_def)

lemma within_owned [simp]:
  "SetControllerReference sc kind owner obj = Ok obj' \<Longrightarrow> within ns obj' = within ns obj"
  by (simp add: within_def SetControllerReference_fields)

lemma within_mkMeta: "within ns (mkMeta name ns l)"
  by (simp add: within_def)

abbreviation "deploy_stays \<equiv> emits mem_within (stays ns)"

text \<open>An update of the deployment in memory, which its answer replaces.\<close>

lemma stays_instance:
  assumes "within ns (dp_Meta c)"
  shows "deploy_stays (\<lambda>_. True) (thenP (modmemP (me_instance_update (\<lambda>_. c)))
      (bindP (callP (api_update (log_api KDeployment (deployments C)) c))
        (\<lambda>c2. modmemP (me_instance_update (\<lambda>_. c2)))))"
  by (intro emits_then emits_modmem emits_bind [OF scoped_calls(8)]) (use assms in simp_all)

lemma stays_template: "deploy_stays (\<lambda>_. True) (reconcileCanaryDeployment R)"
  unfolding reconcileCanaryDeployment_def logs logging_simps Let_def
  by (intro emits_bind_mem emits_if emits_bind_lift emits_ret stays_instance TrueI) (simp add: mem_within_def)

lemma stays_service: "deploy_stays (\<lambda>_. True) (reconcileCanaryService R)"
proof -
  have "deploy_stays (\<lambda>x. stays ns (VCreate, KService x)) (createCanaryService R)"
    unfolding createCanaryService_def Let_def
    by (intro emits_then emits_modmem emits_bind_mem emits_bind_lift emits_ret)
       (simp_all add: within_mkMeta mem_ns)
  then show ?thesis
    unfolding reconcileCanaryService_def logs logging_simps
    by (intro emits_bind_mem emits_goc emits_ret TrueI)
qed

lemma stays_baseline: "deploy_stays (\<lambda>_. True) (reconcileBaseline R)"
proof -
  have "deploy_stays (\<lambda>x. stays ns (VCreate, KDeployment x)) (createBaselineDeployment R)"
    unfolding createBaselineDeployment_def logs logging_simps Let_def
    by (intro emits_bind_mem emits_bind_call emits_get emits_then emits_modmem emits_bind_lift emits_ret)
       (simp_all add: within_mkMeta mem_ns baseline_meta_def)
  then show ?thesis
    unfolding reconcileBaseline_def logs logging_simps Let_def
    by (intro emits_bind_mem emits_goc emits_ret TrueI)
qed

lemma stays_config: "deploy_stays (\<lambda>_. True) (reconcileCanaryConfig R)"
proof -
  have "deploy_stays (\<lambda>_. True) (get_or_create (canaries (client R)) k (retP (createCanaryConfig p c)) (\<lambda>_. retP ()))"
    if "within ns (cpo_Meta p)" for k p c
    unfolding logs logging_simps
    by (rule emits_goc) (use that in \<open>auto simp: createCanaryConfig_def within_def intro!: emits_intros\<close>)
  note goc = emits_bind [OF this]
  show ?thesis
    unfolding reconcileCanaryConfig_def Let_def
    by (intro emits_bind_mem goc emits_if emits_bind_lift emits_ret TrueI,
        simp add: mem_within_def, unfold logs logging_simps,
        intro emits_then emits_modmem emits_ret TrueI emits_bind [OF scoped_calls(8)])
       simp_all
qed

lemma stays_fallback_deployment:
  "deploy_stays (\<lambda>_. True) p \<Longrightarrow> deploy_stays (\<lambda>_. True) q \<Longrightarrow> deploy_stays (\<lambda>_. True) (orFallback p q)"
  unfolding orFallback_def by (rule emits_bind [OF emits_try]) (auto intro: emits_ret split: sum.splits)

lemma stays_deployment_steps: "deploy_stays (\<lambda>_. True) (reconcileSteps R)"
  unfolding reconcileSteps_def
  by (intro stays_fallback_deployment stays_template stays_service stays_baseline stays_config emits_ret TrueI)

lemma stays_policy:
  "within ns (dp_Meta d) \<Longrightarrow>
   emits (\<lambda>_. True) (stays ns) (\<lambda>p. within ns (cpo_Meta p)) (ReconcileDeployment_GetCanaryPolicy R d)"
  unfolding ReconcileDeployment_GetCanaryPolicy_def logs logging_simps
  by (rule scoped_calls) (simp add: within_def)

lemma stays_fetch:
  assumes "nn_Namespace nn = ns"
  shows "emits (\<lambda>_. True) (stays ns) (\<lambda>d. within ns (dp_Meta d)) (ReconcileDeployment_reconcile R nn)"
  unfolding ReconcileDeployment_reconcile_def UpdateCanaryConfigName_def logs logging_simps
  by (rule emits_bind [OF scoped_calls(7) [OF assms]], rule emits_bind [OF stays_policy], assumption,
      intro emits_if emits_bind_lift scoped_calls(8) emits_ret) (simp_all add: within_def)

lemma deployment_run_stays:
  assumes "nn_Namespace nn = ns"
  shows "records (stays ns) (\<lambda>_. True) (ReconcileDeployment_Reconcile R nn)"
  unfolding ReconcileDeployment_Reconcile_def
  by (rule records_bind_try [OF records_run [OF stays_fetch [OF assms] TrueI]],
      auto intro!: records_ret records_bind_try [OF records_run [OF stays_policy]]
        records_run [OF stays_deployment_steps] simp: mem_within_def)

end

lemma fake_scoped:
  "ns \<noteq> [] \<Longrightarrow> (\<And>x. meta (wire x) = meta x) \<Longrightarrow> scoped_api meta ns (fake_api meta upd gr wire get put)"
  by (auto simp: scoped_api_def fake_api_def fake_write_def tracker_Get_def filterByNamespaceAndName_def within_def
      split: list.splits sum.splits dest: filter_eq_ConsD)

text \<open>An empty namespace would match all of them.\<close>

interpretation scoped_fake: scoped_server fakeClient "a # as" "\<lparr>client = logging fakeClient, scheme = sc\<rparr>" for a as sc
  by unfold_locales (simp_all add: fake_scoped)

lemma interfering_scoped: "scoped_api meta ns A \<Longrightarrow> scoped_api meta ns (interfere_api env A)"
  unfolding scoped_api_def interfere_api_def interfere_def
  by (simp split: prod.splits) blast

interpretation scoped_interfering: scoped_server "interfering env fakeClient" "a # as"
    "\<lparr>client = logging (interfering env fakeClient), scheme = sc\<rparr>" for env a as sc
  by unfold_locales (simp_all add: interfering_def interfering_scoped fake_scoped)

subsection \<open>The in-memory server\<close>

text \<open>The cluster without a namespace.\<close>

definition elsewhere :: "('o \<Rightarrow> ObjectMeta) \<Rightarrow> string \<Rightarrow> 'o list \<Rightarrow> 'o list" where
  "elsewhere meta ns objs = filter (\<lambda>x. \<not> within ns (meta x)) objs"

definition outside :: "string \<Rightarrow> Cluster \<Rightarrow> Cluster" where
  "outside ns w =
     \<lparr>cl_canaries = elsewhere cn_Meta ns (cl_canaries w), cl_policies = elsewhere cpo_Meta ns (cl_policies w),
      cl_deployments = elsewhere dp_Meta ns (cl_deployments w), cl_pods = elsewhere pod_Meta ns (cl_pods w),
      cl_services = elsewhere svc_Meta ns (cl_services w),
      cl_virtualservices = elsewhere vs_Meta ns (cl_virtualservices w),
      cl_destinationrules = elsewhere dr_Meta ns (cl_destinationrules w)\<rparr>"

lemma tracker_put_elsewhere:
  "tracker_put meta gr x b objs = Inr ys \<Longrightarrow> within ns (meta x) \<Longrightarrow> elsewhere meta ns ys = elsewhere meta ns objs"
  by (induction objs arbitrary: ys) (auto simp: elsewhere_def within_def split: if_splits sum.splits)

lemma tracker_Delete_elsewhere:
  "tracker_Delete meta gr ns name objs = Inr ys \<Longrightarrow> elsewhere meta ns ys = elsewhere meta ns objs"
  by (induction objs arbitrary: ys) (auto simp: elsewhere_def within_def split: if_splits sum.splits)

lemma tracker_add_elsewhere:
  "tracker_add meta upd gr x ns b objs = Inr ys \<Longrightarrow> within ns (meta x) \<Longrightarrow> ns \<noteq> [] \<Longrightarrow>
   elsewhere meta ns ys = elsewhere meta ns objs"
  by (auto simp: tracker_add_def Let_def within_def split: if_splits intro: tracker_put_elsewhere)

lemma effect_elsewhere:
  assumes "within ns (meta x)" "ns \<noteq> []"
    and "J w" "\<And>l. elsewhere meta ns l = elsewhere meta ns (get w) \<Longrightarrow> J (put l w)"
  shows "J (api_effect (fake_api meta upd gr wire get put) v x w)"
proof -
  have "om_Namespace (meta x) = ns" using assms(1) by (simp add: within_def)
  then show ?thesis
    using assms
    by (cases v)
       (auto simp: api_effect_def fake_api_def fake_write_def split: sum.splits
         dest: tracker_add_elsewhere tracker_Delete_elsewhere)
qed

lemma outside_put:
  "elsewhere cn_Meta ns l1 = elsewhere cn_Meta ns (cl_canaries w) \<Longrightarrow> outside ns (w\<lparr>cl_canaries := l1\<rparr>) = outside ns w"
  "elsewhere cpo_Meta ns l2 = elsewhere cpo_Meta ns (cl_policies w) \<Longrightarrow> outside ns (w\<lparr>cl_policies := l2\<rparr>) = outside ns w"
  "elsewhere dp_Meta ns l3 = elsewhere dp_Meta ns (cl_deployments w) \<Longrightarrow> outside ns (w\<lparr>cl_deployments := l3\<rparr>) = outside ns w"
  "elsewhere pod_Meta ns l4 = elsewhere pod_Meta ns (cl_pods w) \<Longrightarrow> outside ns (w\<lparr>cl_pods := l4\<rparr>) = outside ns w"
  "elsewhere svc_Meta ns l5 = elsewhere svc_Meta ns (cl_services w) \<Longrightarrow> outside ns (w\<lparr>cl_services := l5\<rparr>) = outside ns w"
  "elsewhere vs_Meta ns l6 = elsewhere vs_Meta ns (cl_virtualservices w) \<Longrightarrow> outside ns (w\<lparr>cl_virtualservices := l6\<rparr>) = outside ns w"
  "elsewhere dr_Meta ns l7 = elsewhere dr_Meta ns (cl_destinationrules w) \<Longrightarrow> outside ns (w\<lparr>cl_destinationrules := l7\<rparr>) = outside ns w"
  by (simp_all add: outside_def)

lemma perform_outside:
  assumes "stays ns e" "ns \<noteq> []"
  shows "outside ns (perform fakeClient e w) = outside ns w"
proof -
  obtain v x where e: "e = (v, x)" by (cases e)
  show ?thesis
    using assms unfolding e stays_def
    by (cases x) (simp_all add: effect_elsewhere [where J = "\<lambda>u. outside ns u = outside ns w"] outside_put)
qed

subsection \<open>Runs among others\<close>

text \<open>What the others keep of the rest of the cluster, a run in the namespace keeps.\<close>

lemma interleaved_stays:
  assumes "interleaved fakeClient env s k s'" "list_all (stays ns) k" "ns \<noteq> []"
    and "J (outside ns (fst s))" "\<And>n w. J (outside ns w) \<Longrightarrow> J (outside ns (env n w))"
  shows "J (outside ns (fst s'))"
  using interleaved_keeps [OF assms(1), where J = "\<lambda>w. J (outside ns w)"] assms(2-5)
  by (simp add: list_all_iff perform_outside)

lemma canary_run_outside:
  assumes ns: "nn_Namespace nn = ns" "ns \<noteq> []"
    and run: "ReconcileCanary_Reconcile jf \<lparr>client = interfering env fakeClient, scheme = sc\<rparr> nn s = (r, s')"
    and J: "J (outside ns (fst s))" "\<And>n w. J (outside ns w) \<Longrightarrow> J (outside ns (env n w))"
  shows "J (outside ns (fst s'))"
proof -
  obtain k where k: "ReconcileCanary_Reconcile jf \<lparr>client = logging (interfering env fakeClient), scheme = sc\<rparr> nn (s, []) = (r, (s', k))"
    "interleaved fakeClient env s k s'"
    using run by (rule fake_interleaved.canary_explained)
  obtain a as where "ns = a # as" using ns(2) by (cases ns) auto
  with ns(1) have "list_all (stays ns) k"
    using recordsE [OF scoped_interfering.canary_run_stays [where nn = nn and a = a and as = as and env = env and jf = jf and sc = sc], of s "[]"] k(1) by auto
  then show ?thesis by (rule interleaved_stays [OF k(2) _ ns(2), of J]) (fact J)+
qed

lemma deployment_run_outside:
  assumes ns: "nn_Namespace nn = ns" "ns \<noteq> []"
    and run: "ReconcileDeployment_Reconcile \<lparr>client = interfering env fakeClient, scheme = sc\<rparr> nn s = (r, s')"
    and J: "J (outside ns (fst s))" "\<And>n w. J (outside ns w) \<Longrightarrow> J (outside ns (env n w))"
  shows "J (outside ns (fst s'))"
proof -
  obtain k where k: "ReconcileDeployment_Reconcile \<lparr>client = logging (interfering env fakeClient), scheme = sc\<rparr> nn (s, []) = (r, (s', k))"
    "interleaved fakeClient env s k s'"
    using run by (rule fake_interleaved.deployment_explained)
  obtain a as where "ns = a # as" using ns(2) by (cases ns) auto
  with ns(1) have "list_all (stays ns) k"
    using recordsE [OF scoped_interfering.deployment_run_stays [where nn = nn and a = a and as = as and env = env and sc = sc], of s "[]"] k(1) by auto
  then show ?thesis by (rule interleaved_stays [OF k(2) _ ns(2), of J]) (fact J)+
qed

end
