(* ===== verification/Manager.thy ===== *)
theory Manager
  imports DeployNames CanaryJobs
begin

text \<open>
  How the process starts (\<open>cmd/manager/main.go\<close>, \<open>pkg/apis/apis.go\<close>, \<open>pkg/controller/controller.go\<close>
  and the \<open>add\<close> functions of both controllers) and which requests an event of the cluster becomes
  (the watches the \<open>add\<close> functions register, with the handlers of controller-runtime).
\<close>

subsection \<open>Events and requests\<close>

datatype EventHandler =
    EnqueueRequestForObject
  | EnqueueRequestForOwner OwnerKind bool \<comment> \<open>\<open>OwnerType\<close>, \<open>IsController\<close>\<close>

datatype WatchedKind = WatchDeployment | WatchCanary | WatchPod

text \<open>\<open>c.Watch(&source.Kind{...}, handler, predicates...)\<close>.\<close>

datatype Watch = Watch WatchedKind EventHandler "(WatchEvent \<Rightarrow> bool) list"

fun object_requests :: "WatchEvent \<Rightarrow> NamespacedName list" where
  "object_requests (CreateEvent m) = [metaKey m]"
| "object_requests (UpdateEvent old new) = [metaKey old, metaKey new]"
| "object_requests (DeleteEvent m) = [metaKey m]"
| "object_requests (GenericEvent m) = [metaKey m]"

fun GetControllerOf :: "OwnerReference list \<Rightarrow> OwnerReference option" where
  "GetControllerOf [] = None"
| "GetControllerOf (r # rs) = (if or_Controller r = Some True then Some r else GetControllerOf rs)"

definition getOwnersReferences :: "bool \<Rightarrow> ObjectMeta \<Rightarrow> OwnerReference list" where
  "getOwnersReferences isController m =
     (if \<not> isController then om_OwnerReferences m
      else case GetControllerOf (om_OwnerReferences m) of None \<Rightarrow> [] | Some r \<Rightarrow> [r])"

text \<open>The loop over the references; a version that cannot be parsed gives up all of them.\<close>

fun match_owners :: "GroupVersionKind \<Rightarrow> string \<Rightarrow> OwnerReference list \<Rightarrow> NamespacedName list option" where
  "match_owners gvk ns [] = Some []"
| "match_owners gvk ns (r # rs) =
     (case ParseGroupVersion (or_APIVersion r) of
        Inl e \<Rightarrow> None
      | Inr gv \<Rightarrow> map_option (\<lambda>ks.
          if or_Kind r = gvk_Kind gvk \<and> gv_Group gv = gvk_Group gvk
          then \<lparr>nn_Namespace = ns, nn_Name = or_Name r\<rparr> # ks else ks) (match_owners gvk ns rs))"

definition getOwnerReconcileRequest :: "GroupVersionKind \<Rightarrow> bool \<Rightarrow> ObjectMeta \<Rightarrow> NamespacedName list" where
  "getOwnerReconcileRequest gvk isController m =
     (case match_owners gvk (om_Namespace m) (getOwnersReferences isController m) of None \<Rightarrow> [] | Some ks \<Rightarrow> ks)"

fun owner_requests :: "GroupVersionKind \<Rightarrow> bool \<Rightarrow> WatchEvent \<Rightarrow> NamespacedName list" where
  "owner_requests gvk b (CreateEvent m) = getOwnerReconcileRequest gvk b m"
| "owner_requests gvk b (UpdateEvent old new) = getOwnerReconcileRequest gvk b old @ getOwnerReconcileRequest gvk b new"
| "owner_requests gvk b (DeleteEvent m) = getOwnerReconcileRequest gvk b m"
| "owner_requests gvk b (GenericEvent m) = getOwnerReconcileRequest gvk b m"

text \<open>An owner type the scheme does not know makes the watch fail; it has no requests.\<close>

fun handle_event :: "Scheme \<Rightarrow> EventHandler \<Rightarrow> WatchEvent \<Rightarrow> NamespacedName list" where
  "handle_event sc EnqueueRequestForObject ev = object_requests ev"
| "handle_event sc (EnqueueRequestForOwner kind b) ev =
     (case sc kind of Inl e \<Rightarrow> [] | Inr gvk \<Rightarrow> owner_requests gvk b ev)"

fun watch_requests :: "Scheme \<Rightarrow> WatchedKind \<Rightarrow> WatchEvent \<Rightarrow> Watch \<Rightarrow> NamespacedName list" where
  "watch_requests sc kind ev (Watch k h ps) =
     (if k = kind \<and> list_all (\<lambda>p. p ev) ps then handle_event sc h ev else [])"

definition controller_requests :: "Scheme \<Rightarrow> Watch list \<Rightarrow> WatchedKind \<Rightarrow> WatchEvent \<Rightarrow> NamespacedName list" where
  "controller_requests sc ws kind ev = concat (map (watch_requests sc kind ev) ws)"

definition deployment_watches :: "Watch list" where
  "deployment_watches = [Watch WatchDeployment EnqueueRequestForObject [CanaryObjectPredicate]]"

definition canary_watches :: "Watch list" where
  "canary_watches =
     [Watch WatchCanary EnqueueRequestForObject [],
      Watch WatchPod (EnqueueRequestForOwner OwnerCanary True) []]"

lemma controller_requests_simps [simp]:
  "controller_requests sc [] kind ev = []"
  "controller_requests sc (w # ws) kind ev = watch_requests sc kind ev w @ controller_requests sc ws kind ev"
  by (simp_all add: controller_requests_def)

text \<open>An object whose one reference is a controller of the watched type.\<close>

lemma controlled_requests:
  assumes "kraneScheme kind = Inr gvk" "om_OwnerReferences m = [NewControllerRef owner gvk]"
  shows "getOwnerReconcileRequest gvk True m = [\<lparr>nn_Namespace = om_Namespace m, nn_Name = om_Name owner\<rparr>]"
proof -
  have "ParseGroupVersion (or_APIVersion (NewControllerRef owner gvk)) = Inr \<lparr>gv_Group = gvk_Group gvk, gv_Version = gvk_Version gvk\<rparr>"
    using assms(1) by (cases kind) (auto simp: NewControllerRef_def ParseGroupVersion_String)
  then show ?thesis
    using assms by (simp add: getOwnerReconcileRequest_def getOwnersReferences_def) (simp add: NewControllerRef_def)
qed

lemma job_pod_requests:
  assumes "CreateTestJob \<lparr>client = C, scheme = kraneScheme\<rparr> c p = Ok pod \<or>
      CreateJudgeJob jf \<lparr>client = C, scheme = kraneScheme\<rparr> c p = Ok pod"
  shows "getOwnerReconcileRequest \<lparr>gvk_Group = ''krane.sh'', gvk_Version = ''v1'', gvk_Kind = ''Canary''\<rparr> True (pod_Meta pod)
    = [metaKey (cn_Meta c)]"
proof -
  let ?g = "\<lparr>gvk_Group = ''krane.sh'', gvk_Version = ''v1'', gvk_Kind = ''Canary''\<rparr>"
  have "om_OwnerReferences (pod_Meta pod) = [NewControllerRef (cn_Meta c) ?g] \<and> om_Namespace (pod_Meta pod) = canary_namespace c"
    using assms
    by (auto simp: CreateTestJob_def CreateJudgeJob_def Let_def own_pod_Ok [of _ ?g])
  then show ?thesis
    using controlled_requests [of OwnerCanary ?g "pod_Meta pod" "cn_Meta c"] by (simp add: metaKey_def)
qed

subsection \<open>Start-up\<close>

text \<open>
  The libraries that \<open>main\<close> calls, on an arbitrary world: \<open>'c\<close> is the configuration of the API
  server, \<open>'m\<close> the manager.
\<close>

record ('w, 'c, 'm) Startup =
  su_namespace :: "('w, string) prog"                          \<comment> \<open>\<open>k8sutil.GetWatchNamespace\<close>\<close>
  su_config :: "('w, 'c) prog"                                 \<comment> \<open>\<open>config.GetConfig\<close>\<close>
  su_leader :: "string \<Rightarrow> ('w, unit) prog"                     \<comment> \<open>\<open>leader.Become\<close>\<close>
  su_manager :: "'c \<Rightarrow> string \<Rightarrow> string \<Rightarrow> ('w, 'm) prog"      \<comment> \<open>\<open>manager.New\<close>\<close>
  su_register :: "'m \<Rightarrow> GroupVersion \<Rightarrow> ('w, unit) prog"      \<comment> \<open>\<open>AddToScheme\<close> of a builder\<close>
  su_new :: "'m \<Rightarrow> string \<Rightarrow> ('w, unit) prog"                 \<comment> \<open>\<open>controller.New\<close>\<close>
  su_watch :: "'m \<Rightarrow> string \<Rightarrow> Watch \<Rightarrow> ('w, unit) prog"     \<comment> \<open>\<open>c.Watch\<close>\<close>
  su_metrics :: "int32 \<Rightarrow> ('w, unit) prog"                      \<comment> \<open>\<open>metrics.ExposeMetricsPort\<close>\<close>
  su_start :: "'m \<Rightarrow> ('w, unit) prog"                         \<comment> \<open>\<open>mgr.Start\<close>\<close>

text \<open>A loop over calls that returns the first error.\<close>

fun all_ok :: "('s, unit) prog list \<Rightarrow> ('s, unit) prog" where
  "all_ok [] = retP ()"
| "all_ok (p # ps) = thenP p (all_ok ps)"

definition deployment_add :: "('w, 'c, 'm) Startup \<Rightarrow> 'm \<Rightarrow> ('w, unit) prog" where
  "deployment_add S mgr =
     thenP (su_new S mgr ''deployment-controller'') (all_ok (map (su_watch S mgr ''deployment-controller'') deployment_watches))"

definition canary_add :: "('w, 'c, 'm) Startup \<Rightarrow> 'm \<Rightarrow> ('w, unit) prog" where
  "canary_add S mgr =
     thenP (su_new S mgr ''canary-controller'') (all_ok (map (su_watch S mgr ''canary-controller'') canary_watches))"

definition AddToManager :: "('w, 'c, 'm) Startup \<Rightarrow> 'm \<Rightarrow> ('w, unit) prog" where
  "AddToManager S mgr = all_ok [deployment_add S mgr, canary_add S mgr]"

definition krane_v1 :: GroupVersion where
  "krane_v1 = \<lparr>gv_Group = ''krane.sh'', gv_Version = ''v1''\<rparr>"

definition networking_v1alpha3 :: GroupVersion where
  "networking_v1alpha3 = \<lparr>gv_Group = ''networking.istio.io'', gv_Version = ''v1alpha3''\<rparr>"

definition AddToScheme :: "('w, 'c, 'm) Startup \<Rightarrow> 'm \<Rightarrow> ('w, unit) prog" where
  "AddToScheme S mgr = all_ok [su_register S mgr krane_v1, su_register S mgr networking_v1alpha3]"

definition metricsHost :: string where "metricsHost = ''0.0.0.0''"

definition metricsPort :: int32 where "metricsPort = 8383"

text \<open>\<open>if err != nil { log.Error(err, ""); os.Exit(1) }\<close> after a step.\<close>

definition orExit :: "('s, 'a) prog \<Rightarrow> ('a \<Rightarrow> ('s, int) prog) \<Rightarrow> ('s, int) prog" where
  "orExit p k = bindP (tryP p) (\<lambda>r. case r of Inl e \<Rightarrow> retP 1 | Inr x \<Rightarrow> k x)"

text \<open>\<open>main\<close>, with its exit code.\<close>

definition manager_main :: "('w, 'c, 'm) Startup \<Rightarrow> ('w, int) prog" where
  "manager_main S =
     bindP (tryP (su_namespace S)) (\<lambda>r. let namespace = (case r of Inl e \<Rightarrow> ''krane'' | Inr ns \<Rightarrow> ns) in
     orExit (su_config S) (\<lambda>cfg.
     orExit (su_leader S ''krane-lock'') (\<lambda>_.
     orExit (su_manager S cfg namespace (metricsHost @ '':'' @ Itoa (sint metricsPort))) (\<lambda>mgr.
     orExit (AddToScheme S mgr) (\<lambda>_.
     orExit (AddToManager S mgr) (\<lambda>_.
     bindP (tryP (su_metrics S metricsPort)) (\<lambda>_.
     orExit (su_start S mgr) (\<lambda>_. retP 0))))))))"

lemma run_orExit [run_simps]:
  "orExit p k s = (case p s of (Ok x, s') \<Rightarrow> k x s' | (Err e, s') \<Rightarrow> (Ok 1, s') | (Panic q, s') \<Rightarrow> (Panic q, s'))"
  by (simp add: orExit_def run_prog split: prod.splits outcome.splits)

subsection \<open>The order of the steps\<close>

text \<open>A world that records the steps attempted, and fails the ones it is told to fail.\<close>

datatype StartStep =
    ReadNamespace | ReadConfig | BecomeLeader string | NewManager string string
  | Register GroupVersion | NewController string | AddWatch string Watch | ExposeMetrics int32 | StartManager

definition attempt :: "(StartStep \<Rightarrow> error option) \<Rightarrow> StartStep \<Rightarrow> 'a \<Rightarrow> (StartStep list, 'a) prog" where
  "attempt fails st x = (\<lambda>l. (case fails st of None \<Rightarrow> Ok x | Some e \<Rightarrow> Err e, l @ [st]))"

definition recording :: "(StartStep \<Rightarrow> error option) \<Rightarrow> string \<Rightarrow> (StartStep list, unit, unit) Startup" where
  "recording fails ns =
     \<lparr>su_namespace = attempt fails ReadNamespace ns,
      su_config = attempt fails ReadConfig (),
      su_leader = (\<lambda>name. attempt fails (BecomeLeader name) ()),
      su_manager = (\<lambda>_ namespace addr. attempt fails (NewManager namespace addr) ()),
      su_register = (\<lambda>_ gv. attempt fails (Register gv) ()),
      su_new = (\<lambda>_ name. attempt fails (NewController name) ()),
      su_watch = (\<lambda>_ name w. attempt fails (AddWatch name w) ()),
      su_metrics = (\<lambda>port. attempt fails (ExposeMetrics port) ()),
      su_start = (\<lambda>_. attempt fails StartManager ())\<rparr>"

text \<open>The specification: the steps in order, up to the first mandatory one that fails.\<close>

definition startup_order :: "string \<Rightarrow> StartStep list" where
  "startup_order ns =
     [ReadNamespace, ReadConfig, BecomeLeader ''krane-lock'', NewManager ns ''0.0.0.0:8383'',
      Register krane_v1, Register networking_v1alpha3,
      NewController ''deployment-controller''] @ map (AddWatch ''deployment-controller'') deployment_watches @
     [NewController ''canary-controller''] @ map (AddWatch ''canary-controller'') canary_watches @
     [ExposeMetrics 8383, StartManager]"

fun mandatory :: "StartStep \<Rightarrow> bool" where
  "mandatory ReadNamespace = False"
| "mandatory (ExposeMetrics p) = False"
| "mandatory st = True"

fun run_order :: "(StartStep \<Rightarrow> error option) \<Rightarrow> StartStep list \<Rightarrow> int \<times> StartStep list" where
  "run_order fails [] = (0, [])"
| "run_order fails (st # sts) =
     (if mandatory st \<and> fails st \<noteq> None then (1, [st])
      else let (code, l) = run_order fails sts in (code, st # l))"

lemma metrics_address: "metricsHost @ '':'' @ Itoa (sint metricsPort) = ''0.0.0.0:8383''"
  by (simp add: metricsHost_def metricsPort_def Itoa_def dec_digits.simps char_of_def bit_nat_def)

lemma run_attempt [run_simps]:
  "attempt fails st x l = (case fails st of None \<Rightarrow> Ok x | Some e \<Rightarrow> Err e, l @ [st])"
  by (simp add: attempt_def)

text \<open>A program follows a list of steps when it runs them as \<open>run_order\<close> does.\<close>

definition follows :: "(StartStep \<Rightarrow> error option) \<Rightarrow> (StartStep list, int) prog \<Rightarrow> StartStep list \<Rightarrow> bool" where
  "follows fails p sts \<longleftrightarrow> (\<forall>l. p l = (Ok (fst (run_order fails sts)), l @ snd (run_order fails sts)))"

lemma orExit_all_ok:
  "orExit (all_ok []) k = k ()"
  "orExit (all_ok (p # ps)) k = orExit p (\<lambda>_. orExit (all_ok ps) k)"
  "orExit (thenP p q) k = orExit p (\<lambda>_. orExit q k)"
  by (auto simp: fun_eq_iff run_simps split: prod.splits outcome.splits)

lemma follows_end: "follows fails (retP 0) []"
  by (simp add: follows_def run_simps)

lemma follows_mandatory:
  "mandatory st \<Longrightarrow> follows fails (k x) sts \<Longrightarrow> follows fails (orExit (attempt fails st x) k) (st # sts)"
  by (simp add: follows_def run_simps Let_def split: prod.splits option.splits)

lemma follows_optional:
  "\<not> mandatory st \<Longrightarrow> (\<And>r. fails st = None \<and> r = Inr x \<or> fails st \<noteq> None \<and> (\<exists>e. r = Inl e) \<Longrightarrow> follows fails (k r) sts) \<Longrightarrow>
    follows fails (bindP (tryP (attempt fails st x)) k) (st # sts)"
  by (cases "fails st") (auto simp: follows_def run_simps Let_def split: prod.splits)

lemma manager_main_follows:
  "follows fails (manager_main (recording fails ns)) (startup_order (if fails ReadNamespace = None then ns else ''krane''))"
  unfolding manager_main_def metrics_address unfolding recording_def Startup.select_convs AddToScheme_def AddToManager_def
    deployment_add_def canary_add_def deployment_watches_def canary_watches_def startup_order_def list.map append.simps
    orExit_all_ok metricsPort_def Let_def
  by (intro follows_optional follows_mandatory follows_end) (auto intro!: follows_optional follows_mandatory follows_end)

end
