(* ===== verification/KraneJson.thy ===== *)
theory KraneJson
  imports IstioJson DeployResources CanaryJobs
begin

text \<open>
  The JSON tags of \<open>pkg/apis/krane/v1\<close> and of the destination rule: what a canary's specification
  and status and a policy's specification become on their way to the server and back. \<open>Ports\<close> and
  \<open>DestinationRule\<close> of a policy have no tag and keep the names they have in Go.
\<close>

subsection \<open>Enumerations, integers and slices that may be nil\<close>

definition enum_codec :: "('a \<Rightarrow> string) \<Rightarrow> (string \<Rightarrow> 'a) \<Rightarrow> 'a codec" where
  "enum_codec str val =
     \<lparr>co_encode = (\<lambda>x. Some (JString (str x))),
      co_decode = (\<lambda>j. map_option val (co_decode string_codec j)),
      co_isEmpty = (\<lambda>x. str x = []), co_zero = val []\<rparr>"

fun mode_string :: "BaselineMode \<Rightarrow> string" where
  "mode_string BaselineModeUnset = []"
| "mode_string BaselineModeNew = ''NEW''"
| "mode_string BaselineModeOld = ''OLD''"
| "mode_string (BaselineModeOther s) = s"

definition mode_of_string :: "string \<Rightarrow> BaselineMode" where
  "mode_of_string s =
     (if s = [] then BaselineModeUnset else if s = ''NEW'' then BaselineModeNew
      else if s = ''OLD'' then BaselineModeOld else BaselineModeOther s)"

definition int64_codec :: "int64 codec" where
  "int64_codec =
     \<lparr>co_encode = (\<lambda>w. Some (JNumber (Itoa (sint w)))),
      co_decode = (\<lambda>j. case j of
          JNull \<Rightarrow> Some 0
        | JNumber s \<Rightarrow> (case read_signed s of
              None \<Rightarrow> None
            | Some i \<Rightarrow> if - (2 ^ 63) \<le> i \<and> i < 2 ^ 63 then Some (word_of_int i) else None)
        | _ \<Rightarrow> None),
      co_isEmpty = (\<lambda>w. w = 0), co_zero = 0\<rparr>"

definition nil_slice_codec :: "'a codec \<Rightarrow> 'a list option codec" where
  "nil_slice_codec c =
     \<lparr>co_encode = (\<lambda>xs. case xs of None \<Rightarrow> Some JNull | Some ys \<Rightarrow> map_option JArray (all_of (map (co_encode c) ys))),
      co_decode = (\<lambda>j. case j of
          JNull \<Rightarrow> Some None | JArray js \<Rightarrow> map_option Some (all_of (map (co_decode c) js)) | _ \<Rightarrow> None),
      co_isEmpty = (\<lambda>xs. slice_length xs = 0), co_zero = None\<rparr>"

lemma co_zero_more [simp]:
  "co_zero (enum_codec str val) = val []" "co_zero int64_codec = 0" "co_zero (nil_slice_codec c) = None"
  by (simp_all add: enum_codec_def int64_codec_def nil_slice_codec_def)

interpretation progress_json: value_codec "enum_codec progress_string progress_of_string"
    "\<lambda>p. progress_of_string (progress_string p) = p" "\<lambda>p. p"
  by unfold_locales (auto simp: enum_codec_def string_codec_def)

interpretation phase_status_json: value_codec "enum_codec phase_status_string phase_status_of_string"
    "\<lambda>p. phase_status_of_string (phase_status_string p) = p" "\<lambda>p. p"
  by unfold_locales (auto simp: enum_codec_def string_codec_def)

interpretation mode_json: value_codec "enum_codec mode_string mode_of_string"
    "\<lambda>p. mode_of_string (mode_string p) = p" "\<lambda>p. p"
  by unfold_locales (auto simp: enum_codec_def string_codec_def)

interpretation int64_json: value_codec int64_codec "\<lambda>_. True" "\<lambda>w. w"
proof unfold_locales
  fix w :: int64
  show "\<exists>j. co_encode int64_codec w = Some j \<and> co_decode int64_codec j = Some w"
    using sint_greater_eq [of w] sint_less [of w] by (simp add: int64_codec_def read_Itoa_signed)
qed (simp_all add: int64_codec_def)

context codec begin

lemma nil_slice:
  "codec (nil_slice_codec c) (\<lambda>xs. xs \<noteq> Some [] \<and> (case xs of None \<Rightarrow> True | Some ys \<Rightarrow> list_all ok ys))
     (map_option (map norm))"
proof unfold_locales
  fix xs assume xs: "xs \<noteq> Some [] \<and> (case xs of None \<Rightarrow> True | Some ys \<Rightarrow> list_all ok ys)"
  show "\<exists>j. co_encode (nil_slice_codec c) xs = Some j \<and> co_decode (nil_slice_codec c) j = Some (map_option (map norm) xs)"
  proof (cases xs)
    case (Some ys)
    with xs all_of_round [of ys] show ?thesis by (auto simp: nil_slice_codec_def)
  qed (simp add: nil_slice_codec_def)
qed (auto simp: nil_slice_codec_def slice_length_def all_of_stable split: option.splits json.splits)

end

lemmas more_fills [json_fill] =
  progress_json.fill_field phase_status_json.fill_field mode_json.fill_field int64_json.fill_field

subsection \<open>Canary\<close>

definition CanaryConfigPhase_codec :: "CanaryConfigPhase codec" where
  "CanaryConfigPhase_codec = struct_codec
     [field ''podName'' string_codec ph_PodName (\<lambda>x s. s\<lparr>ph_PodName := x\<rparr>),
      field ''status'' (enum_codec phase_status_string phase_status_of_string) ph_Status (\<lambda>x s. s\<lparr>ph_Status := x\<rparr>),
      field ''message'' string_codec ph_Message (\<lambda>x s. s\<lparr>ph_Message := x\<rparr>)]
     zeroPhase"

definition known_phase :: "CanaryConfigPhase \<Rightarrow> bool" where
  "known_phase p \<longleftrightarrow> phase_status_of_string (phase_status_string (ph_Status p)) = ph_Status p"

lemma unset_of_empty [simp]:
  "phase_status_of_string [] = CanaryPhaseStatus_Unset" "progress_of_string [] = CanaryProgress_Unset"
  "mode_of_string [] = BaselineModeUnset"
  by (simp_all add: phase_status_of_string_def progress_of_string_def mode_of_string_def)

interpretation CanaryConfigPhase_json: value_codec CanaryConfigPhase_codec known_phase "\<lambda>s. s"
  unfolding CanaryConfigPhase_codec_def
  by (rule struct_distinct) (simp_all add: json_fill known_phase_def zeroPhase_def)

lemmas CanaryConfigPhase_fills [json_fill] = CanaryConfigPhase_json.fill_field

definition CanaryStatus_codec :: "CanaryStatus codec" where
  "CanaryStatus_codec = struct_codec
     [field ''progress'' (enum_codec progress_string progress_of_string) cst_Progress (\<lambda>x s. s\<lparr>cst_Progress := x\<rparr>),
      field ''initialization'' CanaryConfigPhase_codec cst_Initialization (\<lambda>x s. s\<lparr>cst_Initialization := x\<rparr>),
      field ''testing'' CanaryConfigPhase_codec cst_Testing (\<lambda>x s. s\<lparr>cst_Testing := x\<rparr>),
      field ''canary'' CanaryConfigPhase_codec cst_Canary (\<lambda>x s. s\<lparr>cst_Canary := x\<rparr>),
      field ''judging'' CanaryConfigPhase_codec cst_Judging (\<lambda>x s. s\<lparr>cst_Judging := x\<rparr>),
      field ''reporting'' CanaryConfigPhase_codec cst_Reporting (\<lambda>x s. s\<lparr>cst_Reporting := x\<rparr>),
      field ''cleanup'' CanaryConfigPhase_codec cst_Cleanup (\<lambda>x s. s\<lparr>cst_Cleanup := x\<rparr>)]
     zeroStatus"

definition known_status :: "CanaryStatus \<Rightarrow> bool" where
  "known_status s \<longleftrightarrow> progress_of_string (progress_string (cst_Progress s)) = cst_Progress s \<and>
     known_phase (cst_Initialization s) \<and> known_phase (cst_Testing s) \<and> known_phase (cst_Canary s) \<and>
     known_phase (cst_Judging s) \<and> known_phase (cst_Reporting s) \<and> known_phase (cst_Cleanup s)"

lemma co_zero_phase [simp]: "co_zero CanaryConfigPhase_codec = zeroPhase"
  by (simp add: CanaryConfigPhase_codec_def)

interpretation CanaryStatus_json: value_codec CanaryStatus_codec known_status "\<lambda>s. s"
  unfolding CanaryStatus_codec_def
  by (rule struct_distinct) (simp_all add: json_fill known_status_def zeroStatus_def)

definition CanarySpecDeployments_codec :: "CanarySpecDeployments codec" where
  "CanarySpecDeployments_codec = struct_codec
     [field ''canary'' string_codec csd_Canary (\<lambda>x s. s\<lparr>csd_Canary := x\<rparr>),
      field ''baseline'' string_codec csd_Baseline (\<lambda>x s. s\<lparr>csd_Baseline := x\<rparr>),
      field ''base'' string_codec csd_Base (\<lambda>x s. s\<lparr>csd_Base := x\<rparr>)]
     \<lparr>csd_Canary = [], csd_Baseline = [], csd_Base = []\<rparr>"

interpretation CanarySpecDeployments_json: value_codec CanarySpecDeployments_codec "\<lambda>_. True" "\<lambda>s. s"
  unfolding CanarySpecDeployments_codec_def by (rule struct_distinct) (simp_all add: json_fill)

lemmas CanarySpecDeployments_fills [json_fill] = CanarySpecDeployments_json.fill_field

lemma co_zero_deployments [simp]:
  "co_zero CanarySpecDeployments_codec = \<lparr>csd_Canary = [], csd_Baseline = [], csd_Base = []\<rparr>"
  by (simp add: CanarySpecDeployments_codec_def)

definition CanarySpec_codec :: "CanarySpec codec" where
  "CanarySpec_codec = struct_codec
     [field ''policy'' string_codec csp_Policy (\<lambda>x s. s\<lparr>csp_Policy := x\<rparr>),
      field ''deployments'' CanarySpecDeployments_codec csp_Deployments (\<lambda>x s. s\<lparr>csp_Deployments := x\<rparr>)]
     \<lparr>csp_Policy = [], csp_Deployments = \<lparr>csd_Canary = [], csd_Baseline = [], csd_Base = []\<rparr>\<rparr>"

interpretation CanarySpec_json: value_codec CanarySpec_codec "\<lambda>_. True" "\<lambda>s. s"
  unfolding CanarySpec_codec_def by (rule struct_distinct) (simp_all add: json_fill)

subsection \<open>CanaryPolicy\<close>

definition TestSpecBoundary_codec :: "TestSpecBoundary codec" where
  "TestSpecBoundary_codec = struct_codec
     [field ''time'' string_codec tsb_Time (\<lambda>x s. s\<lparr>tsb_Time := x\<rparr>),
      field ''requests'' int64_codec tsb_Requests (\<lambda>x s. s\<lparr>tsb_Requests := x\<rparr>)]
     \<lparr>tsb_Time = [], tsb_Requests = 0\<rparr>"

interpretation TestSpecBoundary_json: value_codec TestSpecBoundary_codec "\<lambda>_. True" "\<lambda>s. s"
  unfolding TestSpecBoundary_codec_def by (rule struct_distinct) (simp_all add: json_fill)

definition TestSpec_codec :: "TestSpec codec" where
  "TestSpec_codec = struct_codec
     [field ''image'' string_codec ts_Image (\<lambda>x s. s\<lparr>ts_Image := x\<rparr>),
      field ''cmd'' (slice_codec string_codec) ts_Cmd (\<lambda>x s. s\<lparr>ts_Cmd := x\<rparr>),
      field ''boundary'' TestSpecBoundary_codec ts_Boundary (\<lambda>x s. s\<lparr>ts_Boundary := x\<rparr>)]
     \<lparr>ts_Image = [], ts_Cmd = [], ts_Boundary = \<lparr>tsb_Time = [], tsb_Requests = 0\<rparr>\<rparr>"

text \<open>A struct with the one field \<open>Time\<close>, which the model keeps as the string.\<close>

definition JudgeSpecBoundary_codec :: "string codec" where
  "JudgeSpecBoundary_codec = struct_codec [field ''time'' string_codec (\<lambda>s. s) (\<lambda>x s. x)] []"

interpretation JudgeSpecBoundary_json: value_codec JudgeSpecBoundary_codec "\<lambda>_. True" "\<lambda>s. s"
  unfolding JudgeSpecBoundary_codec_def by (rule struct_distinct) (simp_all add: json_fill)

definition ThresholdMetric_codec :: "ThresholdMetric codec" where
  "ThresholdMetric_codec = struct_codec
     [field ''metric'' string_codec thm_Metric (\<lambda>x s. s\<lparr>thm_Metric := x\<rparr>),
      field ''value'' string_codec thm_Value (\<lambda>x s. s\<lparr>thm_Value := x\<rparr>)]
     \<lparr>thm_Metric = [], thm_Value = []\<rparr>"

interpretation threshold_json: value_codec ThresholdMetric_codec "\<lambda>_. True" "\<lambda>s. s"
  unfolding ThresholdMetric_codec_def by (rule struct_distinct) (simp_all add: json_fill)

definition DiffMetric_codec :: "json_float \<Rightarrow> (string \<Rightarrow> float64 option) \<Rightarrow> DiffMetric codec" where
  "DiffMetric_codec jf pf = struct_codec
     [field ''metric'' string_codec dm_Metric (\<lambda>x s. s\<lparr>dm_Metric := x\<rparr>),
      field ''container'' string_codec dm_Container (\<lambda>x s. s\<lparr>dm_Container := x\<rparr>),
      field ''diff'' (float_codec jf pf) dm_Diff (\<lambda>x s. s\<lparr>dm_Diff := x\<rparr>)]
     \<lparr>dm_Metric = [], dm_Container = [], dm_Diff = 0\<rparr>"

definition DiffMetric_writable :: "json_float \<Rightarrow> DiffMetric \<Rightarrow> bool" where
  "DiffMetric_writable jf d \<longleftrightarrow> jf (dm_Diff d) \<noteq> None \<and> dm_Diff d \<noteq> 0x8000000000000000"

lemma DiffMetric_laws:
  "float_text jf pf \<Longrightarrow> value_codec (DiffMetric_codec jf pf) (DiffMetric_writable jf) (\<lambda>s. s)"
  unfolding DiffMetric_codec_def by (rule struct_distinct) (simp_all add: json_fill DiffMetric_writable_def)

lemmas policy_fills [json_fill] =
  TestSpecBoundary_json.fill_field JudgeSpecBoundary_json.fill_field
  codec.fill_field [OF threshold_json.nil_slice, unfolded ident_simps]
  codec.fill_field [OF codec.nil_slice [OF value_codec.value_is_codec [OF DiffMetric_laws]]]

lemma co_zero_boundaries [simp]:
  "co_zero TestSpecBoundary_codec = \<lparr>tsb_Time = [], tsb_Requests = 0\<rparr>" "co_zero JudgeSpecBoundary_codec = []"
  by (simp_all add: TestSpecBoundary_codec_def JudgeSpecBoundary_codec_def)

interpretation TestSpec_json: value_codec TestSpec_codec "\<lambda>_. True" "\<lambda>s. s"
  unfolding TestSpec_codec_def by (rule struct_distinct) (simp_all add: json_fill)

definition zeroJudgeSpec :: JudgeSpec where
  "zeroJudgeSpec = \<lparr>js_Image = [], js_Cmd = [], js_DiffMetrics = None, js_ThresholdMetrics = None, js_Boundary_Time = []\<rparr>"

definition JudgeSpec_codec :: "json_float \<Rightarrow> (string \<Rightarrow> float64 option) \<Rightarrow> JudgeSpec codec" where
  "JudgeSpec_codec jf pf = struct_codec
     [field ''image'' string_codec js_Image (\<lambda>x s. s\<lparr>js_Image := x\<rparr>),
      field ''cmd'' (slice_codec string_codec) js_Cmd (\<lambda>x s. s\<lparr>js_Cmd := x\<rparr>),
      field ''diffMetrics'' (nil_slice_codec (DiffMetric_codec jf pf)) js_DiffMetrics (\<lambda>x s. s\<lparr>js_DiffMetrics := x\<rparr>),
      field ''thresholdMetrics'' (nil_slice_codec ThresholdMetric_codec) js_ThresholdMetrics
        (\<lambda>x s. s\<lparr>js_ThresholdMetrics := x\<rparr>),
      field ''boundary'' JudgeSpecBoundary_codec js_Boundary_Time (\<lambda>x s. s\<lparr>js_Boundary_Time := x\<rparr>)]
     zeroJudgeSpec"

definition JudgeSpec_writable :: "json_float \<Rightarrow> JudgeSpec \<Rightarrow> bool" where
  "JudgeSpec_writable jf s \<longleftrightarrow> js_DiffMetrics s \<noteq> Some [] \<and> js_ThresholdMetrics s \<noteq> Some [] \<and>
     (case js_DiffMetrics s of None \<Rightarrow> True | Some ds \<Rightarrow> list_all (DiffMetric_writable jf) ds)"

lemma JudgeSpec_json:
  "float_text jf pf \<Longrightarrow> value_codec (JudgeSpec_codec jf pf) (JudgeSpec_writable jf) (\<lambda>s. s)"
  unfolding JudgeSpec_codec_def
  by (rule struct_distinct) (simp_all add: json_fill JudgeSpec_writable_def zeroJudgeSpec_def list.map_ident)

definition Subset_codec :: "Subset codec" where
  "Subset_codec = struct_codec
     [field ''name'' string_codec su_Name (\<lambda>x s. s\<lparr>su_Name := x\<rparr>),
      field ''labels'' (map_codec string_codec) su_Labels (\<lambda>x s. s\<lparr>su_Labels := x\<rparr>)]
     \<lparr>su_Name = [], su_Labels = None\<rparr>"

interpretation Subset_json: value_codec Subset_codec "\<lambda>s. writable_map (su_Labels s)" "\<lambda>s. s"
  unfolding Subset_codec_def by (rule struct_distinct) (simp_all add: json_fill)

lemmas Subset_fills [json_fill] = codec.fill_field [OF Subset_json.pointer.slice]

definition DestinationRuleSpec_codec :: "DestinationRuleSpec codec" where
  "DestinationRuleSpec_codec = struct_codec
     [field ''host'' string_codec drs_Host (\<lambda>x s. s\<lparr>drs_Host := x\<rparr>),
      field ''subsets'' (slice_codec (ptr_codec Subset_codec)) drs_Subsets (\<lambda>x s. s\<lparr>drs_Subsets := x\<rparr>)]
     \<lparr>drs_Host = [], drs_Subsets = []\<rparr>"

definition DestinationRuleSpec_writable :: "DestinationRuleSpec \<Rightarrow> bool" where
  "DestinationRuleSpec_writable s \<longleftrightarrow> list_all (case_option True (\<lambda>u. writable_map (su_Labels u))) (drs_Subsets s)"

interpretation DestinationRuleSpec_json: value_codec DestinationRuleSpec_codec DestinationRuleSpec_writable "\<lambda>s. s"
  unfolding DestinationRuleSpec_codec_def
  by (rule struct_distinct) (simp_all add: json_fill DestinationRuleSpec_writable_def)

lemmas policy_parts [json_fill] =
  TestSpec_json.fill_field codec.fill_field [OF value_codec.value_is_codec [OF JudgeSpec_json]]
  DestinationRuleSpec_json.fill_untagged codec.fill_untagged [OF codec.slice]

lemma co_zero_specs [simp]:
  "co_zero TestSpec_codec
     = \<lparr>ts_Image = [], ts_Cmd = [], ts_Boundary = \<lparr>tsb_Time = [], tsb_Requests = 0\<rparr>\<rparr>"
  "co_zero (JudgeSpec_codec jf pf) = zeroJudgeSpec"
  by (simp_all add: TestSpec_codec_def JudgeSpec_codec_def)

text \<open>The codec of the ports, a type of Kubernetes, is a parameter.\<close>

definition CanaryPolicySpec_codec ::
    "json_float \<Rightarrow> (string \<Rightarrow> float64 option) \<Rightarrow> ServicePort codec \<Rightarrow> CanaryPolicySpec codec" where
  "CanaryPolicySpec_codec jf pf port = struct_codec
     [field ''base'' string_codec cps_Base (\<lambda>x s. s\<lparr>cps_Base := x\<rparr>),
      field ''virtualService'' string_codec cps_VirtualService (\<lambda>x s. s\<lparr>cps_VirtualService := x\<rparr>),
      field ''service'' string_codec cps_Service (\<lambda>x s. s\<lparr>cps_Service := x\<rparr>),
      field ''baselineMode'' (enum_codec mode_string mode_of_string) cps_BaselineMode (\<lambda>x s. s\<lparr>cps_BaselineMode := x\<rparr>),
      untagged ''DestinationRule'' DestinationRuleSpec_codec cps_DestinationRule (\<lambda>x s. s\<lparr>cps_DestinationRule := x\<rparr>),
      untagged ''Ports'' (slice_codec port) cps_Ports (\<lambda>x s. s\<lparr>cps_Ports := x\<rparr>),
      field ''test'' TestSpec_codec cps_TestSpec (\<lambda>x s. s\<lparr>cps_TestSpec := x\<rparr>),
      field ''judge'' (JudgeSpec_codec jf pf) cps_JudgeSpec (\<lambda>x s. s\<lparr>cps_JudgeSpec := x\<rparr>)]
     \<lparr>cps_Base = [], cps_VirtualService = [], cps_Service = [], cps_BaselineMode = BaselineModeUnset,
      cps_DestinationRule = \<lparr>drs_Host = [], drs_Subsets = []\<rparr>, cps_Ports = [],
      cps_TestSpec = \<lparr>ts_Image = [], ts_Cmd = [], ts_Boundary = \<lparr>tsb_Time = [], tsb_Requests = 0\<rparr>\<rparr>,
      cps_JudgeSpec = zeroJudgeSpec\<rparr>"

definition CanaryPolicySpec_writable :: "json_float \<Rightarrow> CanaryPolicySpec \<Rightarrow> bool" where
  "CanaryPolicySpec_writable jf s \<longleftrightarrow> mode_of_string (mode_string (cps_BaselineMode s)) = cps_BaselineMode s \<and>
     DestinationRuleSpec_writable (cps_DestinationRule s) \<and> JudgeSpec_writable jf (cps_JudgeSpec s)"

lemma CanaryPolicySpec_json:
  assumes "float_text jf pf" "codec port (\<lambda>_. True) (\<lambda>p. p)"
  shows "value_codec (CanaryPolicySpec_codec jf pf port) (CanaryPolicySpec_writable jf) (\<lambda>s. s)"
  unfolding CanaryPolicySpec_codec_def
  by (rule struct_distinct)
    (use assms in \<open>simp_all add: json_fill CanaryPolicySpec_writable_def codec.fill_untagged [OF codec.slice [OF assms(2)]]\<close>)

text \<open>A document without the key of a field leaves the field as it is.\<close>

lemma decode_fields_keep:
  assumes "decode_fields b ms s = Some s'"
    and "\<And>k j f t t'. (k, j) \<in> set ms \<Longrightarrow> b k = Some f \<Longrightarrow> fd_decode f j t = Some t' \<Longrightarrow> g t' = g t"
  shows "g s' = g s"
  using assms
proof (induction ms arbitrary: s)
  case (Cons m ms)
  obtain k j where m: "m = (k, j)" by (cases m)
  show ?case
  proof (cases "b k")
    case None
    with Cons.prems(1) m have "decode_fields b ms s = Some s'" by simp
    then show ?thesis using Cons.IH Cons.prems(2) by (metis list.set_intros(2))
  next
    case (Some f)
    with Cons.prems(1) m obtain t where t: "fd_decode f j s = Some t" "decode_fields b ms t = Some s'"
      by (auto split: option.splits)
    have "g t = g s" using Cons.prems(2) [of k j f s t] Some t(1) m by simp
    then show ?thesis using Cons.IH [OF t(2)] Cons.prems(2) by (metis list.set_intros(2))
  qed
qed simp

definition unread :: "('s \<Rightarrow> 'b) \<Rightarrow> string set \<Rightarrow> 's field \<Rightarrow> bool" where
  "unread g K f \<longleftrightarrow> fd_name f \<notin> K \<or> (\<forall>j s s'. fd_decode f j s = Some s' \<longrightarrow> g s' = g s)"

lemma unread_field:
  "unread g K (field n c get upd) \<longleftrightarrow> n \<notin> K \<or> (\<forall>j x s. co_decode c j = Some x \<longrightarrow> g (upd x s) = g s)"
  "unread g K (untagged n c get upd) \<longleftrightarrow> n \<notin> K \<or> (\<forall>j x s. co_decode c j = Some x \<longrightarrow> g (upd x s) = g s)"
  by (auto simp: unread_def field_def untagged_def)

lemma decode_without:
  assumes "co_decode (struct_codec fs zero) (JObject ms) = Some s" "list_all (unread g (fst ` set ms)) fs"
  shows "g s = g zero"
proof -
  have "decode_fields (bound fs) ms zero = Some s" using assms(1) by (simp add: struct_codec_def)
  then show ?thesis
  proof (rule decode_fields_keep)
    fix k j f t t' assume f: "(k, j) \<in> set ms" "bound fs k = Some f" "fd_decode f j t = Some t'"
    then have "f \<in> set fs" "fd_name f \<in> fst ` set ms" using bound_in [of fs k f] by force+
    with assms(2) f(3) show "g t' = g t" unfolding list_all_iff unread_def by metis
  qed
qed

end
