(* ===== verification/ApiDocuments.thy ===== *)
theory ApiDocuments
  imports KraneJson DemoCluster
begin

text \<open>
  What the JSON tags mean for the program: what a canary, a virtual service and a policy are after
  they have passed the server, and what krane reads of the documents in \<open>src/example\<close>.
\<close>

subsection \<open>The documents of the example\<close>

definition example_vs_json :: json where
  "example_vs_json = JObject
     [(''hosts'', JArray [JString ''*'']), (''gateways'', JArray [JString ''krane-gw'']),
      (''http'', JArray [JObject
        [(''match'', JArray [JObject [(''uri'', JObject [(''prefix'', JString ''/'')])]]),
         (''route'', JArray [JObject [(''destination'', JObject
            [(''host'', JString ''aggregator-svc''), (''subset'', JString ''stable'')])]])]])]"

definition example_policy_json :: "(string \<times> json) list" where
  "example_policy_json =
     [(''base'', JString ''aggregator-deployment''), (''virtualService'', JString ''aggregator-vs''),
      (''service'', JString ''aggregator-svc''), (''baselineMode'', JString ''NEW''),
      (''ports'', JArray [JObject [(''port'', JNumber ''80''), (''name'', JString ''default''), (''protocol'', JString ''TCP'')]]),
      (''test'', JObject
        [(''image'', JString ''gcr.io/petomalina/aggregator-testjob:v1''), (''boundary'', JObject [(''requests'', JNumber ''600'')])]),
      (''judge'', JObject
        [(''image'', JString ''gcr.io/petomalina/aggregator-judge:v1''), (''boundary'', JObject [(''time'', JString ''10m'')]),
         (''diffMetrics'', JArray [JObject
            [(''metric'', JString ''container_cpu_system_seconds_total''), (''container'', JString ''aggregator''),
             (''diff'', JNumber ''0.05'')]])])]"

text \<open>What the route of the example says, and what a document without its prefix says.\<close>

definition example_vs :: "string \<Rightarrow> VirtualServiceSpec" where
  "example_vs p =
     \<lparr>vss_Hosts = [''*''], vss_Gateways = [''krane-gw''],
      vss_Http = [Some \<lparr>hr_Match = [Some (example_match p)],
        hr_Route = [Some \<lparr>rd_Destination = Some \<lparr>de_Host = ''aggregator-svc'', de_Subset = ''stable'', de_Port = None\<rparr>,
          rd_Weight = 0, rd_RemoveResponseHeaders = [], rd_AppendResponseHeaders = None, rd_RemoveRequestHeaders = [],
          rd_AppendRequestHeaders = None, rd_Headers = None\<rparr>],
        hr_Redirect = None, hr_Rewrite = None, hr_WebsocketUpgrade = False, hr_Timeout = [], hr_Retries = None,
        hr_Fault = None, hr_Mirror = None, hr_CorsPolicy = None, hr_AppendHeaders = None, hr_RemoveResponseHeaders = [],
        hr_AppendResponseHeaders = None, hr_RemoveRequestHeaders = [], hr_AppendRequestHeaders = None, hr_Headers = None\<rparr>],
      vss_Tls = [], vss_Tcp = [], vss_ExportTo = []\<rparr>"

lemma decode_wrapped:
  "co_decode (slice_codec c) (JArray js) = all_of (map (co_decode c) js)"
  "j \<noteq> JNull \<Longrightarrow> co_decode (ptr_codec c) j = map_option Some (co_decode c j)"
  "co_decode string_codec (JString s) = Some s"
  by (simp_all add: slice_codec_def ptr_codec_def string_codec_def)

lemma decode_field: "fd_decode (field n c get upd) j s = map_option (\<lambda>x. upd x s) (co_decode c j)"
  by (simp add: field_def)

lemma example_uri_read: "co_decode StringMatch_codec (JObject [(''prefix'', JString s)]) = Some \<lparr>sm_Exact = [], sm_Prefix = [], sm_Regex = []\<rparr>"
  by (simp add: StringMatch_codec_def struct_codec_def bound_def bind_field_def)

lemma example_vs_read: "co_decode (VirtualServiceSpec_codec jf pf) example_vs_json = Some (example_vs [])"
  by (simp add: VirtualServiceSpec_codec_def HTTPRoute_codec_def HTTPMatchRequest_codec_def
    HTTPRouteDestination_codec_def Destination_codec_def example_vs_json_def decode_struct decode_field decode_wrapped
    example_uri_read example_vs_def example_match_def)

text \<open>Written back, with or without the canary's route, the match has lost its prefix.\<close>

definition example_vs_written :: json where
  "example_vs_written = JObject
     [(''hosts'', JArray [JString ''*'']), (''gateways'', JArray [JString ''krane-gw'']),
      (''http'', JArray [JObject
        [(''match'', JArray [JObject [(''uri'', JObject [])]]),
         (''route'', JArray [JObject [(''destination'', JObject
            [(''host'', JString ''aggregator-svc''), (''subset'', JString ''stable'')])]])]])]"

declare encode_fields.simps(2) [simp del]

lemma encode_wrapped:
  "co_encode (slice_codec c) (x # xs) = map_option JArray (all_of (map (co_encode c) (x # xs)))"
  "co_encode (ptr_codec c') (Some y) = co_encode c' y" "co_encode string_codec s = Some (JString s)"
  "co_isEmpty (slice_codec c) xs = (xs = [])" "co_isEmpty (ptr_codec c') p = (p = None)" "co_isEmpty string_codec s = (s = [])"
  "co_isEmpty bool_codec b = (\<not> b)" "co_isEmpty int32_codec i = (i = 0)" "co_isEmpty uint32_codec u = (u = 0)"
  "co_isEmpty (map_codec c'') None"
  by (simp_all add: slice_codec_def ptr_codec_def string_codec_def bool_codec_def int32_codec_def uint32_codec_def map_codec_def)

lemma example_uri_written: "co_encode StringMatch_codec \<lparr>sm_Exact = [], sm_Prefix = p, sm_Regex = r\<rparr> = Some (JObject [])"
  by (simp add: StringMatch_codec_def struct_codec_def written_def encode_fields_field encode_wrapped)

lemma example_vs_prefix_lost: "co_encode (VirtualServiceSpec_codec jf pf) (example_vs p) = Some example_vs_written"
  by (simp add: VirtualServiceSpec_codec_def HTTPRoute_codec_def HTTPMatchRequest_codec_def
    HTTPRouteDestination_codec_def Destination_codec_def example_vs_written_def encode_struct encode_fields_field encode_wrapped
    example_uri_written example_vs_def example_match_def)

text \<open>The policy of the example: its ports are not read.\<close>

definition example_policy :: CanaryPolicySpec where
  "example_policy =
     \<lparr>cps_Base = ''aggregator-deployment'', cps_VirtualService = ''aggregator-vs'', cps_Service = ''aggregator-svc'',
      cps_BaselineMode = BaselineModeNew, cps_DestinationRule = \<lparr>drs_Host = [], drs_Subsets = []\<rparr>, cps_Ports = [],
      cps_TestSpec = \<lparr>ts_Image = ''gcr.io/petomalina/aggregator-testjob:v1'', ts_Cmd = [],
        ts_Boundary = \<lparr>tsb_Time = [], tsb_Requests = 600\<rparr>\<rparr>,
      cps_JudgeSpec = \<lparr>js_Image = ''gcr.io/petomalina/aggregator-judge:v1'', js_Cmd = [],
        js_DiffMetrics = Some [\<lparr>dm_Metric = ''container_cpu_system_seconds_total'', dm_Container = ''aggregator'',
          dm_Diff = 0x3FA999999999999A\<rparr>],
        js_ThresholdMetrics = None, js_Boundary_Time = ''10m''\<rparr>\<rparr>"

definition example_float :: "string \<Rightarrow> float64 option" where
  "example_float s = (if s = ''0.05'' then Some 0x3FA999999999999A else None)"

definition example_text :: json_float where
  "example_text x = (if x = 0x3FA999999999999A then Some ''0.05'' else None)"

lemma decode_wrapped_more:
  "co_decode (enum_codec str val) (JString s) = Some (val s)"
  "co_decode int64_codec (JNumber ''600'') = Some 600"
  "co_decode (float_codec jf pf) (JNumber s) = pf s"
  "co_decode (nil_slice_codec c) (JArray js) = map_option Some (all_of (map (co_decode c) js))"
  by (simp_all add: enum_codec_def string_codec_def int64_codec_def float_codec_def nil_slice_codec_def
      read_signed_def read_unsigned_def is_digit_def)

lemma example_policy_read:
  "co_decode (CanaryPolicySpec_codec jf example_float port) (JObject example_policy_json) = Some example_policy"
  by (simp add: CanaryPolicySpec_codec_def TestSpec_codec_def TestSpecBoundary_codec_def JudgeSpec_codec_def
    DiffMetric_codec_def JudgeSpecBoundary_codec_def example_policy_json_def decode_struct decode_field decode_wrapped
    decode_wrapped_more mode_of_string_def example_float_def zeroJudgeSpec_def example_policy_def)

text \<open>A codec for ports; what the model has of no other use is a list of pairs.\<close>

definition opaque_codec :: "opaque codec" where
  "opaque_codec =
     \<lparr>co_encode = (\<lambda>r. Some (JArray (map (\<lambda>(a, b). JArray [JString a, JString b]) r))),
      co_decode = (\<lambda>j. case j of
          JNull \<Rightarrow> Some []
        | JArray js \<Rightarrow> all_of (map (\<lambda>j. case j of JArray [JString a, JString b] \<Rightarrow> Some (a, b) | _ \<Rightarrow> None) js)
        | _ \<Rightarrow> None),
      co_isEmpty = (\<lambda>r. r = []), co_zero = []\<rparr>"

interpretation opaque_json: value_codec opaque_codec "\<lambda>_. True" "\<lambda>r. r"
proof unfold_locales
  fix r
  show "\<exists>j. co_encode opaque_codec r = Some j \<and> co_decode opaque_codec j = Some r"
    unfolding opaque_codec_def by (induction r) auto
qed (simp_all add: opaque_codec_def)

definition example_port :: "ServicePort codec" where
  "example_port = struct_codec
     [field ''name'' string_codec sp_Name (\<lambda>x s. s\<lparr>sp_Name := x\<rparr>),
      field ''protocol'' string_codec sp_Protocol (\<lambda>x s. s\<lparr>sp_Protocol := x\<rparr>),
      field ''port'' int32_codec sp_Port (\<lambda>x s. s\<lparr>sp_Port := x\<rparr>),
      field ''rest'' opaque_codec sp_rest (\<lambda>x s. s\<lparr>sp_rest := x\<rparr>)]
     \<lparr>sp_Name = [], sp_Protocol = [], sp_Port = 0, sp_rest = []\<rparr>"

lemma co_zero_opaque [simp]: "co_zero opaque_codec = []"
  by (simp add: opaque_codec_def)

interpretation example_port_json: value_codec example_port "\<lambda>_. True" "\<lambda>s. s"
  unfolding example_port_def by (rule struct_distinct) (simp_all add: json_fill opaque_json.fill_field)

subsection \<open>Properties\<close>

text \<open>
  C20. A virtual service krane writes is read back with the prefixes and the regular expressions of
  its HTTP matches cleared and everything else as it was, because the fields \<open>Prefix\<close> and \<open>Regex\<close>
  of \<open>StringMatch\<close> have the same tag; and no document krane reads gives it a prefix or a regular
  expression, so that writing what was read changes nothing more. (Floats are read back from their
  text, and maps are nil or not empty.)
\<close>

theorem virtual_service_passes_server:
  assumes "float_text jf pf"
  shows "(VirtualServiceSpec_writable jf s \<longrightarrow>
      (\<exists>j. co_encode (VirtualServiceSpec_codec jf pf) s = Some j \<and>
           co_decode (VirtualServiceSpec_codec jf pf) j = Some (VirtualServiceSpec_kept s))) \<and>
    (co_decode (VirtualServiceSpec_codec jf pf) d = Some s \<longrightarrow> VirtualServiceSpec_kept s = s)"
proof -
  have c: "codec (VirtualServiceSpec_codec jf pf) (VirtualServiceSpec_writable jf) VirtualServiceSpec_kept"
    using VirtualServiceSpec_json [OF assms] by (rule value_codec.value_is_codec)
  show ?thesis using codec.round_trip [OF c] codec.stable [OF c] by blast
qed

lemma no_headers: "codec.map_ok (\<lambda>p :: StringMatch option. True) None"
  using StringMatch_json.pointer.map_ok_def [of None] by simp

theorem virtual_service_passes_server_witness:
  "(\<exists>j. co_encode (VirtualServiceSpec_codec (\<lambda>x. if x = 0 then Some ''0'' else None) (\<lambda>t. Some 0)) (example_vs ''/'') = Some j \<and>
     co_decode (VirtualServiceSpec_codec (\<lambda>x. if x = 0 then Some ''0'' else None) (\<lambda>t. Some 0)) j = Some (example_vs [])) \<and>
   VirtualServiceSpec_kept (example_vs []) = example_vs []"
proof -
  have "VirtualServiceSpec_kept (example_vs ''/'') = example_vs []"
    by (simp add: VirtualServiceSpec_kept_def HTTPRoute_kept_def HTTPMatchRequest_kept_def StringMatch_kept_def
      example_vs_def example_match_def)
  moreover have "VirtualServiceSpec_writable jf (example_vs ''/'')" for jf
    by (simp add: VirtualServiceSpec_writable_def HTTPRoute_writable_def HTTPMatchRequest_writable_def
      HTTPRouteDestination_writable_def no_headers writable_map_def example_vs_def example_match_def)
  moreover have f: "float_text (\<lambda>x. if x = 0 then Some ''0'' else None) (\<lambda>t. Some 0)"
    by (simp add: float_text_def)
  ultimately show ?thesis
    using virtual_service_passes_server [OF f, of "example_vs ''/''"]
      virtual_service_passes_server [OF f, of "example_vs []" example_vs_json]
    by (simp only: example_vs_read)
qed

text \<open>
  C22. The types of krane itself pass the server unchanged: a canary's specification and status,
  and a policy's specification, provided that the enumerations are built from their strings, the
  floats have a text, the maps and metrics are nil or not empty, and ports pass it unchanged.
\<close>

theorem krane_types_pass_server:
  assumes "float_text jf pf" "codec port (\<lambda>_. True) (\<lambda>p. p)"
  shows "(\<exists>j. co_encode CanarySpec_codec sp = Some j \<and> co_decode CanarySpec_codec j = Some sp) \<and>
    (known_status st \<longrightarrow> (\<exists>j. co_encode CanaryStatus_codec st = Some j \<and> co_decode CanaryStatus_codec j = Some st)) \<and>
    (CanaryPolicySpec_writable jf pol \<longrightarrow>
      (\<exists>j. co_encode (CanaryPolicySpec_codec jf pf port) pol = Some j \<and>
           co_decode (CanaryPolicySpec_codec jf pf port) j = Some pol))"
  using CanarySpec_json.round_trip CanaryStatus_json.round_trip
    codec.round_trip [OF value_codec.value_is_codec [OF CanaryPolicySpec_json [OF assms]]]
  by blast

theorem krane_types_pass_server_witness:
  "(\<exists>j. co_encode CanarySpec_codec (cn_Spec demo_canary) = Some j \<and> co_decode CanarySpec_codec j = Some (cn_Spec demo_canary)) \<and>
   (\<exists>j. co_encode CanaryStatus_codec (cn_Status demo_canary) = Some j \<and> co_decode CanaryStatus_codec j = Some (cn_Status demo_canary)) \<and>
   (\<exists>j. co_encode (CanaryPolicySpec_codec example_text example_float example_port) example_policy = Some j \<and>
        co_decode (CanaryPolicySpec_codec example_text example_float example_port) j = Some example_policy)"
proof -
  have "float_text example_text example_float"
    by (simp add: float_text_def example_text_def example_float_def)
  moreover have "known_status (cn_Status demo_canary)"
    by (simp add: demo_canary_def createCanaryConfig_def known_status_def known_phase_def zeroStatus_def zeroPhase_def)
  moreover have "CanaryPolicySpec_writable example_text example_policy"
    by (simp add: CanaryPolicySpec_writable_def DestinationRuleSpec_writable_def JudgeSpec_writable_def DiffMetric_writable_def
      example_policy_def example_text_def mode_of_string_def)
  ultimately show ?thesis
    using krane_types_pass_server [OF _ example_port_json.value_is_codec] by blast
qed

text \<open>
  C25. The field \<open>Ports\<close> of a policy has no tag, and the reader of the server's documents minds the
  case of keys: a policy whose document does not have the key \<open>Ports\<close>, whatever it says of
  \<open>ports\<close>, has no ports, and the service created for its canary gets the one default port.
\<close>

theorem policy_ports_need_the_go_name:
  assumes "co_decode (CanaryPolicySpec_codec jf pf port) (JObject ms) = Some sp" "''Ports'' \<notin> fst ` set ms"
    and "cpo_Spec (me_policy m) = sp" "createCanaryService R (m, w) = (Ok svc, t)"
  shows "cps_Ports sp = [] \<and> svc_Ports svc = defaultPorts"
proof -
  have "cps_Ports sp = []" using assms(1,2) 
    unfolding CanaryPolicySpec_codec_def by (auto dest!: decode_without [where g = cps_Ports] simp: unread_field)
  with assms(3,4) show ?thesis
    by (auto simp: createCanaryService_def run_simps default_ports_def split: outcome.splits)
qed

theorem policy_ports_need_the_go_name_witness:
  "cps_Ports example_policy = [] \<and>
   (\<exists>svc t. createCanaryService \<lparr>client = fakeClient, scheme = kraneScheme\<rparr>
      (\<lparr>me_instance = demo_deployment, me_policy = \<lparr>cpo_Meta = mkMeta ''my-app'' ''krane'' None, cpo_Spec = example_policy\<rparr>\<rparr>,
       demo_cluster) = (Ok svc, t) \<and> svc_Ports svc = defaultPorts)"
proof -
  have "''Ports'' \<notin> fst ` set example_policy_json" by (simp add: example_policy_json_def)
  note ports = policy_ports_need_the_go_name [OF example_policy_read [of "\<lambda>_. None" example_port] this]
  have "\<exists>svc t. createCanaryService \<lparr>client = fakeClient, scheme = kraneScheme\<rparr>
      (\<lparr>me_instance = demo_deployment, me_policy = \<lparr>cpo_Meta = mkMeta ''my-app'' ''krane'' None, cpo_Spec = example_policy\<rparr>\<rparr>,
       demo_cluster) = (Ok svc, t)"
    by (simp add: createCanaryService_def run_simps SetControllerReference_fresh demo_deployment_def)
  then obtain svc t where "createCanaryService \<lparr>client = fakeClient, scheme = kraneScheme\<rparr>
      (\<lparr>me_instance = demo_deployment, me_policy = \<lparr>cpo_Meta = mkMeta ''my-app'' ''krane'' None, cpo_Spec = example_policy\<rparr>\<rparr>,
       demo_cluster) = (Ok svc, t)" by blast
  with ports [OF _ this] show ?thesis by auto
qed

end
