(* ===== verification/JsonText.thy ===== *)
theory JsonText
  imports JsonTags CanaryJobs
begin

text \<open>
  The text of JSON documents: how \<open>encoding/json\<close> writes a document (strings are escaped by
  \<open>json_escape\<close>) and how its scanner and \<open>unquote\<close> read one, with all escapes and numbers of the
  grammar. Characters are bytes; bytes that are no valid UTF-8, which the reader would replace, are
  taken as they are. The parser is given fuel for its depth and its loops; \<open>parse_fuel\<close> shows that
  what \<open>parse_json\<close> gives it is always enough.
\<close>

subsection \<open>Writing\<close>

fun render :: "json \<Rightarrow> string" where
  "render JNull = ''null''"
| "render (JBool b) = (if b then ''true'' else ''false'')"
| "render (JNumber s) = s"
| "render (JString s) = json_string s"
| "render (JArray js) = json_array (map render js)"
| "render (JObject ms) = json_object (map (\<lambda>m. (fst m, render (snd m))) ms)"

subsection \<open>Strings\<close>

definition is_space :: "char \<Rightarrow> bool" where
  "is_space c \<longleftrightarrow> (of_char c :: nat) \<in> {32, 9, 10, 13}"

definition skip_space :: "string \<Rightarrow> string" where
  "skip_space s = dropWhile is_space s"

definition hex_value :: "char \<Rightarrow> nat option" where
  "hex_value c =
     (let n = of_char c in
      if 48 \<le> n \<and> n \<le> 57 then Some (n - 48)
      else if 97 \<le> n \<and> n \<le> 102 then Some (n - 87)
      else if 65 \<le> n \<and> n \<le> 70 then Some (n - 55) else None)"

text \<open>\<open>getu4\<close>: four hexadecimal digits after \<open>\u\<close>.\<close>

fun getu4 :: "string \<Rightarrow> (nat \<times> string) option" where
  "getu4 (a # b # c # d # s) =
     (case (hex_value a, hex_value b, hex_value c, hex_value d) of
        (Some w, Some x, Some y, Some z) \<Rightarrow> Some (16 * (16 * (16 * w + x) + y) + z, s)
      | _ \<Rightarrow> None)"
| "getu4 _ = None"

definition encode_rune :: "nat \<Rightarrow> string" where
  "encode_rune r =
     (if r < 0x80 then [char_of r]
      else if r < 0x800 then [char_of (0xC0 + r div 64), char_of (0x80 + r mod 64)]
      else if r < 0x10000
        then [char_of (0xE0 + r div 4096), char_of (0x80 + r div 64 mod 64), char_of (0x80 + r mod 64)]
      else [char_of (0xF0 + r div 262144), char_of (0x80 + r div 4096 mod 64), char_of (0x80 + r div 64 mod 64),
            char_of (0x80 + r mod 64)])"

text \<open>
  A \<open>\u\<close> escape; a surrogate needs its second half right behind it, and is the replacement
  character otherwise.
\<close>

definition unicode_escape :: "string \<Rightarrow> (string \<times> string) option" where
  "unicode_escape s =
     (case getu4 s of
        None \<Rightarrow> None
      | Some (r, rest) \<Rightarrow>
          if r < 0xD800 \<or> 0xE000 \<le> r then Some (encode_rune r, rest)
          else (case (if take 2 rest = [CHR 0x5C, CHR ''u''] then getu4 (drop 2 rest) else None) of
                  None \<Rightarrow> Some (encode_rune 0xFFFD, rest)
                | Some (r2, rest2) \<Rightarrow>
                    if r < 0xDC00 \<and> 0xDC00 \<le> r2 \<and> r2 < 0xE000
                    then Some (encode_rune (0x10000 + 0x400 * (r - 0xD800) + (r2 - 0xDC00)), rest2)
                    else Some (encode_rune 0xFFFD, rest)))"

fun read_escape :: "string \<Rightarrow> (string \<times> string) option" where
  "read_escape [] = None"
| "read_escape (e # s) =
     (if e = CHR 0x22 \<or> e = CHR 0x5C \<or> e = CHR ''/'' then Some ([e], s)
      else if e = CHR ''b'' then Some ([CHR 0x08], s)
      else if e = CHR ''f'' then Some ([CHR 0x0C], s)
      else if e = CHR ''n'' then Some ([CHR 0x0A], s)
      else if e = CHR ''r'' then Some ([CHR 0x0D], s)
      else if e = CHR ''t'' then Some ([CHR 0x09], s)
      else if e = CHR ''u'' then unicode_escape s else None)"

lemma getu4_shorter: "getu4 s = Some (r, t) \<Longrightarrow> length t < length s"
  by (induction s rule: getu4.induct) (auto split: option.splits)

lemma read_escape_shorter: "read_escape s = Some (e, t) \<Longrightarrow> length t < length s"
proof (induction s rule: read_escape.induct)
  case (2 c s)
  have "length t' < length s" if "unicode_escape s = Some (e', t')" for e' t'
    using that getu4_shorter [of s] getu4_shorter [of "drop 2 r" for r]
    unfolding unicode_escape_def by (fastforce split: option.splits if_splits)
  with 2 show ?case by (auto split: if_splits)
qed simp

text \<open>The rest of a string literal behind its opening quote.\<close>

function parse_chars :: "string \<Rightarrow> (string \<times> string) option" where
  "parse_chars [] = None"
| "parse_chars (c # s) =
     (if c = CHR 0x22 then Some ([], s)
      else if c = CHR 0x5C
        then (case read_escape s of
                None \<Rightarrow> None | Some (e, t) \<Rightarrow> map_option (\<lambda>(x, r). (e @ x, r)) (parse_chars t))
      else if (of_char c :: nat) < 32 then None
      else map_option (\<lambda>(x, r). (c # x, r)) (parse_chars s))"
  by pat_completeness auto

termination
  by (relation "measure length") (auto dest: read_escape_shorter)

declare parse_chars.simps [simp del]

lemma parse_chars_shorter: "parse_chars s = Some (x, t) \<Longrightarrow> length t < length s"
proof (induction s arbitrary: x t rule: parse_chars.induct)
  case (2 c s)
  then show ?case
    by (auto simp: parse_chars.simps dest: read_escape_shorter less_trans split: if_splits option.splits)
      (metis Suc_lessI less_Suc_eq less_trans read_escape_shorter)+
qed (simp add: parse_chars.simps)

lemma hex_value_digit: "n < 16 \<Longrightarrow> hex_value (hex_digit n) = Some n"
  by (auto simp: hex_value_def hex_digit_def of_char_of)

lemma char_codes: "char_of (10 :: nat) = CHR 0x0A" "char_of (13 :: nat) = CHR 0x0D" "char_of (9 :: nat) = CHR 0x09"
  using char_of_char [where 'a = nat, of "CHR 0x0A"] char_of_char [where 'a = nat, of "CHR 0x0D"]
    char_of_char [where 'a = nat, of "CHR 0x09"] by simp_all

lemma parse_escaped: "parse_chars (json_escape c @ s) = map_option (\<lambda>(x, r). (c # x, r)) (parse_chars s)"
proof -
  let ?n = "of_char c :: nat"
  consider (quote) "c = CHR 0x22 \<or> c = CHR 0x5C" | (short) "?n \<in> {10, 13, 9}"
    | (hex) "?n < 32 \<or> c \<in> {CHR ''<'', CHR ''>'', CHR ''&''}" "c \<noteq> CHR 0x22" "c \<noteq> CHR 0x5C" "?n \<notin> {10, 13, 9}"
    | (plain) "\<not> ?n < 32" "c \<notin> {CHR ''<'', CHR ''>'', CHR ''&'', CHR 0x22, CHR 0x5C}"
    by blast
  then show ?thesis
  proof cases
    case short
    then have "c \<in> {CHR 0x0A, CHR 0x0D, CHR 0x09}" by (metis (no_types, lifting) char_of_char empty_iff insert_iff char_codes)
    then show ?thesis by (auto simp: json_escape_def parse_chars.simps)
  next
    case hex
    then have e: "json_escape c = [CHR 0x5C, CHR ''u'', CHR ''0'', CHR ''0'', hex_digit (?n div 16), hex_digit (?n mod 16)]"
      by (auto simp: json_escape_def Let_def)
    have n: "?n < 128" using hex by auto
    have "hex_value (CHR ''0'') = Some 0" by (simp add: hex_value_def)
    then have "read_escape (tl (json_escape c) @ s) = Some ([c], s)"
      using n hex_value_digit [of "?n div 16"] hex_value_digit [of "?n mod 16"]
      by (simp add: e unicode_escape_def encode_rune_def)
    then show ?thesis by (simp add: e parse_chars.simps)
  qed (auto simp: json_escape_def parse_chars.simps Let_def)
qed

lemma parse_string: "parse_chars (concat (map json_escape x) @ CHR 0x22 # r) = Some (x, r)"
  by (induction x) (simp_all add: parse_chars.simps parse_escaped)

subsection \<open>Numbers\<close>

definition number_int :: "string \<Rightarrow> string option" where
  "number_int s =
     (case s of
        [] \<Rightarrow> None
      | c # cs \<Rightarrow> if c = CHR ''0'' then Some cs else if is_digit c then Some (dropWhile is_digit cs) else None)"

definition number_frac :: "string \<Rightarrow> string option" where
  "number_frac s =
     (case s of
        [] \<Rightarrow> Some []
      | c # cs \<Rightarrow> if c \<noteq> CHR ''.'' then Some s
                  else if cs \<noteq> [] \<and> is_digit (hd cs) then Some (dropWhile is_digit cs) else None)"

definition number_exp :: "string \<Rightarrow> string option" where
  "number_exp s =
     (case s of
        [] \<Rightarrow> Some []
      | c # cs \<Rightarrow> if c \<noteq> CHR ''e'' \<and> c \<noteq> CHR ''E'' then Some s
                  else let ds = (if cs \<noteq> [] \<and> (hd cs = CHR ''+'' \<or> hd cs = CHR ''-'') then tl cs else cs)
                       in if ds \<noteq> [] \<and> is_digit (hd ds) then Some (dropWhile is_digit ds) else None)"

definition json_number :: "string \<Rightarrow> bool" where
  "json_number s \<longleftrightarrow>
     Option.bind (number_int (if s \<noteq> [] \<and> hd s = CHR ''-'' then tl s else s))
       (\<lambda>t. Option.bind (number_frac t) number_exp) = Some []"

definition number_char :: "char \<Rightarrow> bool" where
  "number_char c \<longleftrightarrow> is_digit c \<or> c \<in> {CHR ''-'', CHR ''+'', CHR ''.'', CHR ''e'', CHR ''E''}"

lemma digits_are_number_chars: "list_all number_char (dropWhile is_digit s) \<Longrightarrow> list_all number_char s"
  by (induction s) (auto simp: number_char_def split: if_splits)

lemma number_int_chars: "number_int s = Some t \<Longrightarrow> list_all number_char t \<Longrightarrow> list_all number_char s \<and> s \<noteq> []"
  using digits_are_number_chars by (auto simp: number_int_def number_char_def is_digit_def split: list.splits if_splits)

lemma number_frac_chars: "number_frac s = Some t \<Longrightarrow> list_all number_char t \<Longrightarrow> list_all number_char s"
  using digits_are_number_chars [of "tl s"]
  by (auto simp: number_frac_def split: list.splits if_splits) (simp_all add: number_char_def)

lemma number_exp_chars:
  assumes "number_exp s = Some t" "list_all number_char t"
  shows "list_all number_char s"
proof (cases s)
  case (Cons c cs)
  have d: "list_all number_char (dropWhile is_digit ds) \<Longrightarrow> ds = cs \<or> ds = tl cs \<and> (hd cs = CHR ''+'' \<or> hd cs = CHR ''-'')
      \<Longrightarrow> list_all number_char cs" for ds
    using digits_are_number_chars [of ds] by (cases cs) (auto simp: number_char_def)
  show ?thesis
    using assms d [of cs] d [of "tl cs"] Cons
    by (auto simp: number_exp_def Let_def split: if_splits) (simp_all add: number_char_def)
qed simp

lemma json_number_chars:
  assumes "json_number s"
  shows "list_all number_char s \<and> s \<noteq> []"
proof -
  let ?s = "if s \<noteq> [] \<and> hd s = CHR ''-'' then tl s else s"
  from assms obtain t u where "number_int ?s = Some t" "number_frac t = Some u" "number_exp u = Some []"
    unfolding json_number_def by (auto simp: bind_eq_Some_conv)
  moreover from this(3) have "list_all number_char u" by (rule number_exp_chars) simp
  ultimately have "list_all number_char ?s \<and> ?s \<noteq> []"
    using number_frac_chars [of t u] number_int_chars [of ?s t] by blast
  then show ?thesis by (cases s; cases "hd s = CHR ''-''") (simp_all add: number_char_def)
qed

subsection \<open>Values\<close>

definition parse_literal :: "string \<Rightarrow> (json \<times> string) option" where
  "parse_literal s =
     (if take 4 s = ''null'' then Some (JNull, drop 4 s)
      else if take 4 s = ''true'' then Some (JBool True, drop 4 s)
      else if take 5 s = ''false'' then Some (JBool False, drop 5 s)
      else let n = takeWhile number_char s
           in if json_number n then Some (JNumber n, dropWhile number_char s) else None)"

text \<open>The rest of an array behind \<open>[\<close> and of an object behind \<open>{\<close>, when they are not empty.\<close>

fun parse_value :: "nat \<Rightarrow> string \<Rightarrow> (json \<times> string) option"
and parse_elements :: "nat \<Rightarrow> string \<Rightarrow> (json list \<times> string) option"
and parse_members :: "nat \<Rightarrow> string \<Rightarrow> ((string \<times> json) list \<times> string) option" where
  "parse_value 0 s = None"
| "parse_value (Suc n) s =
     (case skip_space s of
        [] \<Rightarrow> None
      | c # cs \<Rightarrow>
          if c = CHR 0x22 then map_option (\<lambda>(x, r). (JString x, r)) (parse_chars cs)
          else if c = CHR ''['' then
            (if skip_space cs \<noteq> [] \<and> hd (skip_space cs) = CHR '']'' then Some (JArray [], tl (skip_space cs))
             else map_option (\<lambda>(js, r). (JArray js, r)) (parse_elements n cs))
          else if c = CHR ''{'' then
            (if skip_space cs \<noteq> [] \<and> hd (skip_space cs) = CHR ''}'' then Some (JObject [], tl (skip_space cs))
             else map_option (\<lambda>(ms, r). (JObject ms, r)) (parse_members n cs))
          else parse_literal (c # cs))"
| "parse_elements 0 s = None"
| "parse_elements (Suc n) s =
     (case parse_value n s of
        None \<Rightarrow> None
      | Some (j, r) \<Rightarrow>
          (case skip_space r of
             [] \<Rightarrow> None
           | d # r' \<Rightarrow>
               if d = CHR '']'' then Some ([j], r')
               else if d = CHR '','' then map_option (\<lambda>(js, t). (j # js, t)) (parse_elements n r')
               else None))"
| "parse_members 0 s = None"
| "parse_members (Suc n) s =
     (case skip_space s of
        [] \<Rightarrow> None
      | q # cs \<Rightarrow> if q \<noteq> CHR 0x22 then None else
          (case parse_chars cs of
             None \<Rightarrow> None
           | Some (k, r) \<Rightarrow>
               (case skip_space r of
                  [] \<Rightarrow> None
                | e # r1 \<Rightarrow> if e \<noteq> CHR '':'' then None else
                    (case parse_value n r1 of
                       None \<Rightarrow> None
                     | Some (j, r2) \<Rightarrow>
                         (case skip_space r2 of
                            [] \<Rightarrow> None
                          | d # r3 \<Rightarrow>
                              if d = CHR ''}'' then Some ([(k, j)], r3)
                              else if d = CHR '','' then map_option (\<lambda>(ms, t). ((k, j) # ms, t)) (parse_members n r3)
                              else None)))))"

text \<open>\<open>json.Unmarshal\<close> up to the tree: one value, and white space around it.\<close>

definition parse_json :: "string \<Rightarrow> json option" where
  "parse_json s =
     (case parse_value (2 * length s) s of
        None \<Rightarrow> None | Some (j, r) \<Rightarrow> if skip_space r = [] then Some j else None)"

text \<open>A value is at least one character, and the parser does not read behind it.\<close>

lemma skip_space_length: "length (skip_space s) \<le> length s"
  by (simp add: skip_space_def length_dropWhile_le)

lemma skip_space_shorter: "skip_space s = c # cs \<Longrightarrow> length cs < length s"
  using skip_space_length [of s] by simp

lemma parse_literal_shorter: "parse_literal s = Some (j, r) \<Longrightarrow> length r < length s"
proof -
  have "length (dropWhile number_char s) < length s" if "takeWhile number_char s \<noteq> []"
    using that by (cases s) (auto simp: length_dropWhile_le le_imp_less_Suc split: if_splits)
  then show "parse_literal s = Some (j, r) \<Longrightarrow> length r < length s"
    using json_number_chars [of "takeWhile number_char s"] take_Nil [of 4]
    by (cases s) (auto simp: parse_literal_def Let_def split: if_splits)
qed

lemma parse_elements_Some:
  assumes "parse_elements (Suc n) s = Some (js, r)"
  obtains j r1 d r2 where "parse_value n s = Some (j, r1)" "skip_space r1 = d # r2"
    "d = CHR '']'' \<and> js = [j] \<and> r = r2 \<or> (\<exists>js'. parse_elements n r2 = Some (js', r))"
  using assms by (auto split: option.splits list.splits if_splits)

lemma parse_members_Some:
  assumes "parse_members (Suc n) s = Some (ms, r)"
  obtains q cs k r0 e r1 j r2 d r3 where "skip_space s = q # cs" "parse_chars cs = Some (k, r0)" "skip_space r0 = e # r1"
    "parse_value n r1 = Some (j, r2)" "skip_space r2 = d # r3"
    "d = CHR ''}'' \<and> ms = [(k, j)] \<and> r = r3 \<or> (\<exists>ms'. parse_members n r3 = Some (ms', r))"
  using assms by (auto split: option.splits list.splits if_splits)

lemma parse_value_Some:
  assumes "parse_value (Suc n) s = Some (j, r)"
  obtains c cs where "skip_space s = c # cs"
    "(\<exists>x. parse_chars cs = Some (x, r)) \<or> r = tl (skip_space cs) \<and> skip_space cs \<noteq> [] \<or>
     (\<exists>js. parse_elements n cs = Some (js, r)) \<or> (\<exists>ms. parse_members n cs = Some (ms, r)) \<or>
     parse_literal (c # cs) = Some (j, r)"
  using assms by (auto split: list.splits if_splits)

lemma parse_shorter:
  "parse_value n s = Some (j, r) \<Longrightarrow> length r < length s"
  "parse_elements n s = Some (js, r) \<Longrightarrow> length r < length s"
  "parse_members n s = Some (ms, r) \<Longrightarrow> length r < length s"
proof (induction n arbitrary: s j r js ms)
  case (Suc n)
  {
    case 1
    then show ?case
    proof (cases rule: parse_value_Some)
      case (1 c cs)
      have "length cs < length s" using 1(1) by (rule skip_space_shorter)
      moreover have "length (tl (skip_space cs)) \<le> length cs" using skip_space_length [of cs] by simp
      ultimately show ?thesis
        using 1(2) parse_chars_shorter [of cs] Suc(2,3) parse_literal_shorter [of "c # cs"]
          skip_space_length [of s] 1(1) by fastforce
    qed
  next
    case 2
    then show ?case
    proof (cases rule: parse_elements_Some)
      case (1 j r1 d r2)
      have "length r2 < length s" using Suc(1) [OF 1(1)] skip_space_shorter [OF 1(2)] by simp
      with 1(3) Suc(2) [of r2 _ r] show ?thesis by fastforce
    qed
  next
    case 3
    then show ?case
    proof (cases rule: parse_members_Some)
      case (1 q cs k r0 e r1 j r2 d r3)
      have "length r3 < length s"
        using skip_space_shorter [OF 1(1)] parse_chars_shorter [OF 1(2)] skip_space_shorter [OF 1(3)] Suc(1) [OF 1(4)]
          skip_space_shorter [OF 1(5)] by simp
      with 1(6) Suc(3) [of r3 _ r] show ?thesis by fastforce
    qed
  }
qed simp_all

text \<open>More fuel than \<open>parse_json\<close> has does not change its answer.\<close>

lemma parse_fuel:
  "2 * length s \<le> n \<Longrightarrow> parse_value (Suc n) s = parse_value n s"
  "2 * length s + 1 \<le> n \<Longrightarrow> parse_elements (Suc n) s = parse_elements n s"
  "2 * length s + 1 \<le> n \<Longrightarrow> parse_members (Suc n) s = parse_members n s"
proof (induction n arbitrary: s)
  case (Suc n)
  {
    case 1
    have "parse_elements (Suc n) cs = parse_elements n cs \<and> parse_members (Suc n) cs = parse_members n cs"
      if "skip_space s = c # cs" for c cs
      using 1 skip_space_shorter [OF that] by (intro conjI Suc(2,3)) simp_all
    then show ?case by (cases "skip_space s") (simp_all only: parse_value.simps list.case)
  next
    case 2
    have v: "parse_value (Suc n) s = parse_value n s" using 2 by (intro Suc(1)) simp
    have e: "parse_elements (Suc n) r2 = parse_elements n r2"
      if "parse_value n s = Some (j, r1)" "skip_space r1 = d # r2" for j r1 d r2
      using 2 parse_shorter(1) [OF that(1)] skip_space_shorter [OF that(2)] by (intro Suc(2)) simp
    show ?case unfolding parse_elements.simps(2) [of "Suc n"] parse_elements.simps(2) [of n] v
      using e by (auto split: option.splits list.splits)
  next
    case 3
    have v: "parse_value (Suc n) r1 = parse_value n r1 \<and>
        (\<forall>j r2 d r3. parse_value n r1 = Some (j, r2) \<longrightarrow> skip_space r2 = d # r3 \<longrightarrow> parse_members (Suc n) r3 = parse_members n r3)"
      if h: "skip_space s = q # cs" "parse_chars cs = Some (k, r0)" "skip_space r0 = e # r1" for q cs k r0 e r1
    proof (intro conjI allI impI)
      have l: "length r1 < length s"
        using skip_space_shorter [OF h(1)] parse_chars_shorter [OF h(2)] skip_space_shorter [OF h(3)] by simp
      then show "parse_value (Suc n) r1 = parse_value n r1" using 3 by (intro Suc(1)) simp
      fix j r2 d r3 assume "parse_value n r1 = Some (j, r2)" "skip_space r2 = d # r3"
      then show "parse_members (Suc n) r3 = parse_members n r3"
        using 3 l parse_shorter(1) [of n r1 j r2] skip_space_shorter [of r2 d r3] by (intro Suc(3)) simp
    qed
    show ?case unfolding parse_members.simps(2) [of "Suc n"] parse_members.simps(2) [of n]
      using v by (auto split: option.splits list.splits)
  }
qed (simp_all add: skip_space_def)

subsection \<open>What is written is read back\<close>

fun numbers_ok :: "json \<Rightarrow> bool" where
  "numbers_ok (JNumber s) = json_number s"
| "numbers_ok (JArray js) = list_all numbers_ok js"
| "numbers_ok (JObject ms) = list_all (\<lambda>m. numbers_ok (snd m)) ms"
| "numbers_ok j = True"

lemma skip_nonspace [simp]: "\<not> is_space c \<Longrightarrow> skip_space (c # s) = c # s"
  by (simp add: skip_space_def)

lemma not_spaces [simp]:
  "\<not> is_space CHR 0x22" "\<not> is_space CHR ''[''" "\<not> is_space CHR ''{''" "\<not> is_space CHR '']''"
  "\<not> is_space CHR ''}''" "\<not> is_space CHR '',''" "\<not> is_space CHR '':''"
  by (simp_all add: is_space_def)

lemma number_char_simps [simp]:
  "\<not> number_char CHR 0x22" "\<not> number_char CHR '',''" "\<not> number_char CHR '']''" "\<not> number_char CHR ''}''"
  by (simp_all add: number_char_def is_digit_def)

lemma render_head:
  assumes "numbers_ok j"
  shows "\<exists>c cs. render j = c # cs \<and> \<not> is_space c \<and> c \<noteq> CHR '']'' \<and> c \<noteq> CHR ''}''"
proof (cases j)
  case (JNumber s)
  with assms json_number_chars [of s] obtain c cs where "s = c # cs" "number_char c" by (cases s) auto
  with JNumber show ?thesis by (auto simp: number_char_def is_digit_def is_space_def)
qed (auto simp: json_string_def json_array_def json_object_def is_space_def)

definition reads_back :: "json \<Rightarrow> bool" where
  "reads_back j \<longleftrightarrow> (\<forall>n r. (r = [] \<or> \<not> number_char (hd r)) \<longrightarrow> 2 * length (render j) \<le> n \<longrightarrow>
     parse_value n (render j @ r) = Some (j, r))"

lemma reads_backD:
  "reads_back j \<Longrightarrow> r = [] \<or> \<not> number_char (hd r) \<Longrightarrow> 2 * length (render j) \<le> n \<Longrightarrow>
   parse_value n (render j @ r) = Some (j, r)"
  unfolding reads_back_def by blast

lemma reads_backI:
  assumes "\<And>m r. r = [] \<or> \<not> number_char (hd r) \<Longrightarrow> 2 * length (render j) \<le> Suc m \<Longrightarrow>
    parse_value (Suc m) (render j @ r) = Some (j, r)" and "render j \<noteq> []"
  shows "reads_back j"
  unfolding reads_back_def
proof (intro allI impI)
  fix n r assume "r = [] \<or> \<not> number_char (hd r)" "2 * length (render j) \<le> n"
  with assms show "parse_value n (render j @ r) = Some (j, r)" by (cases n) simp_all
qed

lemma parse_rendered_elements:
  "js \<noteq> [] \<Longrightarrow> list_all reads_back js \<Longrightarrow> 2 * length (join '','' (map render js)) + 3 \<le> n \<Longrightarrow>
   parse_elements n (join '','' (map render js) @ CHR '']'' # r) = Some (js, r)"
proof (induction js arbitrary: n rule: induct_list012)
  case (2 j)
  then obtain m where "n = Suc m" by (cases n) auto
  with 2 show ?case by (simp add: reads_backD)
next
  case (3 j k js)
  then obtain m where n: "n = Suc m" by (cases n) auto
  let ?t = "join '','' (map render (k # js)) @ CHR '']'' # r"
  have "parse_value m (render j @ CHR '','' # ?t) = Some (j, CHR '','' # ?t)"
    using 3(4,5) n by (intro reads_backD) simp_all
  moreover have "parse_elements m ?t = Some (k # js, r)"
    using 3(4,5) n by (intro 3(2)) simp_all
  ultimately show ?case by (simp add: n)
qed simp

lemma parse_rendered_members:
  "ms \<noteq> [] \<Longrightarrow> list_all (\<lambda>m. reads_back (snd m)) ms \<Longrightarrow>
   2 * length (join '','' (map (\<lambda>m. json_string (fst m) @ '':'' @ render (snd m)) ms)) + 3 \<le> n \<Longrightarrow>
   parse_members n (join '','' (map (\<lambda>m. json_string (fst m) @ '':'' @ render (snd m)) ms) @ CHR ''}'' # r) = Some (ms, r)"
proof (induction ms arbitrary: n rule: induct_list012)
  case (2 e)
  then obtain m where "n = Suc m" by (cases n) auto
  with 2 show ?case by (simp add: json_string_def parse_string reads_backD)
next
  case (3 e f ms)
  then obtain m where n: "n = Suc m" by (cases n) auto
  let ?t = "join '','' (map (\<lambda>m. json_string (fst m) @ '':'' @ render (snd m)) (f # ms)) @ CHR ''}'' # r"
  have "parse_value m (render (snd e) @ CHR '','' # ?t) = Some (snd e, CHR '','' # ?t)"
    using 3(4,5) n by (intro reads_backD) simp_all
  moreover have "parse_members m ?t = Some (f # ms, r)"
    using 3(4,5) n by (intro 3(2)) simp_all
  ultimately show ?case by (simp add: n json_string_def parse_string)
qed simp

lemma parse_rendered_number:
  assumes "json_number s" "r = [] \<or> \<not> number_char (hd r)"
  shows "parse_literal (s @ r) = Some (JNumber s, r)"
proof -
  have a: "list_all number_char s" "s \<noteq> []" using json_number_chars [OF assms(1)] by auto
  then obtain c cs where c: "s = c # cs" "number_char c" by (cases s) auto
  then have "c \<notin> {CHR ''n'', CHR ''t'', CHR ''f''}" by (auto simp: number_char_def is_digit_def)
  then have l: "take 4 (s @ r) \<noteq> ''null''" "take 4 (s @ r) \<noteq> ''true''" "take 5 (s @ r) \<noteq> ''false''"
    by (auto simp: c take_Cons')
  have "takeWhile number_char (s @ r) = s \<and> dropWhile number_char (s @ r) = r"
    using a(1) assms(2) by (cases r) (simp_all add: list_all_iff takeWhile_append dropWhile_append)
  with l assms(1) show ?thesis by (simp add: parse_literal_def Let_def)
qed

lemma rendered_reads_back: "numbers_ok j \<Longrightarrow> reads_back j"
proof (induction j)
  case (JNumber s)
  then obtain c cs where s: "s = c # cs" "number_char c" using json_number_chars [of s] by (cases s) auto
  then have c: "s = c # cs" "\<not> is_space c" "c \<notin> {CHR 0x22, CHR ''['', CHR ''{''}"
    by (auto simp: number_char_def is_digit_def is_space_def)
  show ?case
  proof (rule reads_backI)
    fix m r assume "r = [] \<or> \<not> number_char (hd r)"
    with parse_rendered_number [of s r] JNumber c
    show "parse_value (Suc m) (render (JNumber s) @ r) = Some (JNumber s, r)" by simp
  qed (simp add: s)
next
  case (JArray js)
  then have ok: "list_all reads_back js" by (auto simp: list_all_iff)
  show ?case
  proof (rule reads_backI)
    fix m r assume n: "2 * length (render (JArray js)) \<le> Suc m"
    show "parse_value (Suc m) (render (JArray js) @ r) = Some (JArray js, r)"
    proof (cases js)
      case (Cons k ks)
      with JArray.prems obtain c cs where h: "render k = c # cs" "\<not> is_space c" "c \<noteq> CHR '']''"
        using render_head [of k] by auto
      then obtain ds where "join '','' (map render js) = c # ds" by (cases ks) (auto simp: Cons)
      with h parse_rendered_elements [OF _ ok, of m r] n Cons show ?thesis by (simp add: json_array_def)
    qed (simp add: json_array_def)
  qed (simp add: json_array_def)
next
  case (JObject ms)
  have "snd m \<in> Basic_BNFs.snds m" for m :: "string \<times> json" by (cases m) (simp add: snds.simps)
  with JObject have ok: "list_all (\<lambda>m. reads_back (snd m)) ms" by (simp add: list_all_iff)
  let ?f = "\<lambda>m. json_string (fst m) @ '':'' @ render (snd m)"
  have doc: "render (JObject ms) = CHR ''{'' # join '','' (map ?f ms) @ [CHR ''}'']"
    by (simp add: json_object_def comp_def)
  show ?case
  proof (rule reads_backI)
    fix m r assume n: "2 * length (render (JObject ms)) \<le> Suc m"
    show "parse_value (Suc m) (render (JObject ms) @ r) = Some (JObject ms, r)"
    proof (cases ms)
      case (Cons k ks)
      then obtain ds where d: "join '','' (map ?f ms) = CHR 0x22 # ds" by (cases ks) (auto simp: json_string_def)
      then have rd: "render (JObject ms) = CHR ''{'' # CHR 0x22 # ds @ [CHR ''}'']" by (simp only: doc) simp
      have "parse_members m (CHR 0x22 # ds @ CHR ''}'' # r) = Some (ms, r)"
        using parse_rendered_members [OF _ ok, of m r] n Cons unfolding d rd by simp
      then show ?thesis unfolding rd by simp
    qed (simp add: json_object_def)
  qed (simp add: json_object_def)
qed (auto intro!: reads_backI simp: json_string_def parse_string parse_literal_def is_space_def split: if_splits)

theorem parse_json_render: "numbers_ok j \<Longrightarrow> parse_json (render j) = Some j"
  using reads_backD [OF rendered_reads_back, of j "[]"] by (simp add: parse_json_def skip_space_def)

end
