(* ===== verification/JudgeInput.thy ===== *)
theory JudgeInput
  imports JsonText KraneJson ExampleJobs
begin

text \<open>
  How the judge gets its metrics: the controller's \<open>json.Marshal\<close> in \<open>CreateJudgeJob\<close> writes the
  text of the documents of \<open>KraneJson\<close>, and the two \<open>json.Unmarshal\<close> of \<open>example/judge/main.go\<close>
  read them. This discharges the hypothesis \<open>decodes\<close> of the theorems about the judge.
\<close>

subsection \<open>What the controller writes\<close>

lemma DiffMetric_text: "DiffMetric_json jf d = map_option render (co_encode (DiffMetric_codec jf pf) d)"
  by (simp add: DiffMetric_codec_def encode_struct encode_fields_field string_codec_def float_codec_def
      DiffMetric_json_def Let_def float_is_zero_def option.map_comp comp_def del: encode_fields.simps(2)
      split: option.splits)

lemma all_some_all_of: "all_some = all_of"
proof
  show "all_some xs = all_of xs" for xs :: "'a option list" by (induction xs rule: all_some.induct) simp_all
qed

lemma all_of_map_option: "all_of (map (\<lambda>x. map_option f (g x)) xs) = map_option (map f) (all_of (map g xs))"
proof (induction xs)
  case (Cons x xs)
  then show ?case by (cases "g x") (simp_all add: option.map_comp comp_def)
qed simp

lemma marshal_text:
  "marshal_DiffMetrics jf s =
     (case co_encode (nil_slice_codec (DiffMetric_codec jf pf)) s of None \<Rightarrow> [] | Some j \<Rightarrow> render j)"
proof -
  have "DiffMetric_json jf = (\<lambda>d. map_option render (co_encode (DiffMetric_codec jf pf) d))"
    using DiffMetric_text [of jf _ pf] by (rule ext)
  then have "all_some (map (DiffMetric_json jf) ds) = map_option (map render) (all_of (map (co_encode (DiffMetric_codec jf pf)) ds))" for ds
    by (simp add: all_some_all_of all_of_map_option)
  then show ?thesis
    by (cases s) (auto simp: marshal_DiffMetrics_def nil_slice_codec_def split: option.splits)
qed

subsection \<open>What the judge reads\<close>

text \<open>
  \<open>encoding/json\<close> compares keys without their case; for the names of these fields, which have
  neither \<open>k\<close> nor \<open>s\<close>, that is a matter of ASCII letters.
\<close>

definition fold_char :: "char \<Rightarrow> char" where
  "fold_char c = (let n = of_char c :: nat in if 65 \<le> n \<and> n \<le> 90 then char_of (n + 32) else c)"

definition equalFold :: "string \<Rightarrow> string \<Rightarrow> bool" where
  "equalFold s t \<longleftrightarrow> map fold_char s = map fold_char t"

fun assign_string :: "json \<Rightarrow> string \<Rightarrow> string option" where
  "assign_string JNull old = Some old"
| "assign_string (JString s) old = Some s"
| "assign_string _ old = None"

fun assign_float :: "(string \<Rightarrow> float64 option) \<Rightarrow> json \<Rightarrow> float64 \<Rightarrow> float64 option" where
  "assign_float pf JNull old = Some old"
| "assign_float pf (JNumber s) old = pf s"
| "assign_float pf _ old = None"

definition diff_field :: "(string \<Rightarrow> float64 option) \<Rightarrow> string \<Rightarrow> json \<Rightarrow> DiffMetric \<Rightarrow> DiffMetric option" where
  "diff_field pf k j d =
     (if equalFold k ''metric'' then map_option (\<lambda>x. d\<lparr>dm_Metric := x\<rparr>) (assign_string j (dm_Metric d))
      else if equalFold k ''container'' then map_option (\<lambda>x. d\<lparr>dm_Container := x\<rparr>) (assign_string j (dm_Container d))
      else if equalFold k ''diff'' then map_option (\<lambda>x. d\<lparr>dm_Diff := x\<rparr>) (assign_float pf j (dm_Diff d))
      else Some d)"

definition threshold_field :: "string \<Rightarrow> json \<Rightarrow> ThresholdMetric \<Rightarrow> ThresholdMetric option" where
  "threshold_field k j t =
     (if equalFold k ''metric'' then map_option (\<lambda>x. t\<lparr>thm_Metric := x\<rparr>) (assign_string j (thm_Metric t))
      else if equalFold k ''value'' then map_option (\<lambda>x. t\<lparr>thm_Value := x\<rparr>) (assign_string j (thm_Value t))
      else Some t)"

fun assign_members :: "(string \<Rightarrow> json \<Rightarrow> 's \<Rightarrow> 's option) \<Rightarrow> (string \<times> json) list \<Rightarrow> 's \<Rightarrow> 's option" where
  "assign_members f [] s = Some s"
| "assign_members f ((k, j) # ms) s = (case f k j s of None \<Rightarrow> None | Some t \<Rightarrow> assign_members f ms t)"

definition assign_struct :: "(string \<Rightarrow> json \<Rightarrow> 's \<Rightarrow> 's option) \<Rightarrow> 's \<Rightarrow> json \<Rightarrow> 's option" where
  "assign_struct f zero j = (case j of JNull \<Rightarrow> Some zero | JObject ms \<Rightarrow> assign_members f ms zero | _ \<Rightarrow> None)"

text \<open>\<open>json.Unmarshal\<close> into a slice of structs; the text of the error is left out.\<close>

definition unmarshal_slice :: "(json \<Rightarrow> 's option) \<Rightarrow> string \<Rightarrow> string + 's list" where
  "unmarshal_slice f text =
     (case parse_json text of
        Some JNull \<Rightarrow> Inr []
      | Some (JArray js) \<Rightarrow> (case all_of (map f js) of None \<Rightarrow> Inl ''json'' | Some xs \<Rightarrow> Inr xs)
      | _ \<Rightarrow> Inl ''json'')"

definition unmarshal_diffs :: "(string \<Rightarrow> float64 option) \<Rightarrow> string \<Rightarrow> string + DiffMetric list" where
  "unmarshal_diffs pf =
     unmarshal_slice (assign_struct (diff_field pf) \<lparr>dm_Metric = [], dm_Container = [], dm_Diff = 0\<rparr>)"

definition unmarshal_thresholds :: "string \<Rightarrow> string + ThresholdMetric list" where
  "unmarshal_thresholds = unmarshal_slice (assign_struct threshold_field \<lparr>thm_Metric = [], thm_Value = []\<rparr>)"

subsection \<open>From the policy to the judge\<close>

text \<open>What is assumed of the texts of floats: numbers of JSON, which read back.\<close>

definition number_text :: "json_float \<Rightarrow> (string \<Rightarrow> float64 option) \<Rightarrow> bool" where
  "number_text jf pf \<longleftrightarrow> (\<forall>x s. jf x = Some s \<longrightarrow> json_number s \<and> pf s = Some x)"

definition as_threshold :: "DiffMetric \<Rightarrow> ThresholdMetric" where
  "as_threshold d = \<lparr>thm_Metric = dm_Metric d, thm_Value = []\<rparr>"

lemma folds [simp]:
  "equalFold ''metric'' ''metric''" "\<not> equalFold ''container'' ''metric''" "\<not> equalFold ''diff'' ''metric''"
  "equalFold ''container'' ''container''" "\<not> equalFold ''diff'' ''container''" "equalFold ''diff'' ''diff''"
  "\<not> equalFold ''container'' ''value''" "\<not> equalFold ''diff'' ''value''"
  by (simp_all add: equalFold_def fold_char_def)

lemma DiffMetric_read:
  assumes "number_text jf pf" "DiffMetric_writable jf d"
  obtains j where "co_encode (DiffMetric_codec jf pf) d = Some j" "numbers_ok j"
    "assign_struct (diff_field pf) \<lparr>dm_Metric = [], dm_Container = [], dm_Diff = 0\<rparr> j = Some d"
    "assign_struct threshold_field \<lparr>thm_Metric = [], thm_Value = []\<rparr> j = Some (as_threshold d)"
proof -
  obtain t where t: "jf (dm_Diff d) = Some t" "json_number t" "pf t = Some (dm_Diff d)"
    using assms by (auto simp: number_text_def DiffMetric_writable_def)
  let ?ms = "(if dm_Metric d = [] then [] else [(''metric'', JString (dm_Metric d))]) @
     (if dm_Container d = [] then [] else [(''container'', JString (dm_Container d))]) @
     (if dm_Diff d = 0 then [] else [(''diff'', JNumber t)])"
  show ?thesis
  proof (rule that [of "JObject ?ms"])
    show "co_encode (DiffMetric_codec jf pf) d = Some (JObject ?ms)"
      using t(1) assms(2)
      by (simp add: DiffMetric_codec_def encode_struct encode_fields_field string_codec_def float_codec_def
          DiffMetric_writable_def del: encode_fields.simps(2))
  qed (use t in \<open>simp_all add: assign_struct_def diff_field_def threshold_field_def as_threshold_def\<close>)
qed

lemma DiffMetrics_read:
  assumes "number_text jf pf" "list_all (DiffMetric_writable jf) ds"
  obtains js where "all_of (map (co_encode (DiffMetric_codec jf pf)) ds) = Some js" "list_all numbers_ok js"
    "all_of (map (assign_struct (diff_field pf) \<lparr>dm_Metric = [], dm_Container = [], dm_Diff = 0\<rparr>) js) = Some ds"
    "all_of (map (assign_struct threshold_field \<lparr>thm_Metric = [], thm_Value = []\<rparr>) js) = Some (map as_threshold ds)"
  using assms(2)
proof (induction ds arbitrary: thesis)
  case (Cons d ds)
  obtain j where j: "co_encode (DiffMetric_codec jf pf) d = Some j" "numbers_ok j"
    "assign_struct (diff_field pf) \<lparr>dm_Metric = [], dm_Container = [], dm_Diff = 0\<rparr> j = Some d"
    "assign_struct threshold_field \<lparr>thm_Metric = [], thm_Value = []\<rparr> j = Some (as_threshold d)"
    using DiffMetric_read [OF assms(1), of d] Cons.prems(2) by auto
  obtain js where "all_of (map (co_encode (DiffMetric_codec jf pf)) ds) = Some js" "list_all numbers_ok js"
    "all_of (map (assign_struct (diff_field pf) \<lparr>dm_Metric = [], dm_Container = [], dm_Diff = 0\<rparr>) js) = Some ds"
    "all_of (map (assign_struct threshold_field \<lparr>thm_Metric = [], thm_Value = []\<rparr>) js) = Some (map as_threshold ds)"
    using Cons.IH Cons.prems(2) by auto
  with j show ?case by (intro Cons.prems(1) [of "j # js"]) simp_all
qed simp

lemma marshalled_metrics_read:
  assumes "number_text jf pf" "list_all (DiffMetric_writable jf) ds"
  shows "marshal_DiffMetrics jf (Some ds) \<noteq> []" "unmarshal_diffs pf (marshal_DiffMetrics jf (Some ds)) = Inr ds"
    "unmarshal_thresholds (marshal_DiffMetrics jf (Some ds)) = Inr (map as_threshold ds)"
proof -
  from DiffMetrics_read [OF assms] obtain js where js:
    "all_of (map (co_encode (DiffMetric_codec jf pf)) ds) = Some js" "list_all numbers_ok js"
    "all_of (map (assign_struct (diff_field pf) \<lparr>dm_Metric = [], dm_Container = [], dm_Diff = 0\<rparr>) js) = Some ds"
    "all_of (map (assign_struct threshold_field \<lparr>thm_Metric = [], thm_Value = []\<rparr>) js) = Some (map as_threshold ds)"
    by blast
  have m: "marshal_DiffMetrics jf (Some ds) = render (JArray js)"
    by (simp add: marshal_text [of jf _ pf] nil_slice_codec_def js(1))
  moreover have "parse_json (render (JArray js)) = Some (JArray js)"
    using js(2) by (intro parse_json_render) simp
  ultimately show "unmarshal_diffs pf (marshal_DiffMetrics jf (Some ds)) = Inr ds"
    "unmarshal_thresholds (marshal_DiffMetrics jf (Some ds)) = Inr (map as_threshold ds)"
    by (simp_all only: unmarshal_diffs_def unmarshal_thresholds_def unmarshal_slice_def option.case json.case js(3,4))
  show "marshal_DiffMetrics jf (Some ds) \<noteq> []" by (simp add: m json_array_def)
qed

lemma marshalled_nil_read: "unmarshal_thresholds (marshal_DiffMetrics jf None) = Inr []"
  using parse_json_render [of JNull]
  by (simp add: marshal_DiffMetrics_def unmarshal_thresholds_def unmarshal_slice_def)

text \<open>The hypothesis of the theorems about the judge, for the judge's own readers.\<close>

lemma judge_decodes:
  assumes "number_text jf pf" "JudgeSpec_writable jf js"
  shows "decodes jf js (unmarshal_diffs pf) unmarshal_thresholds"
proof (cases "js_DiffMetrics js")
  case None
  then show ?thesis by (simp add: decodes_def slice_length_def marshalled_nil_read)
next
  case (Some ds)
  with assms(2) have "list_all (DiffMetric_writable jf) ds" by (simp add: JudgeSpec_writable_def)
  from marshalled_metrics_read [OF assms(1) this] show ?thesis
    by (simp add: decodes_def Some diff_metrics_def)
qed

end
