(* ===== verification/WorkQueue.thy ===== *)
theory WorkQueue
  imports ClientApi
begin

text \<open>
  The work queue of a controller: \<open>Type\<close>, \<open>delayingType\<close> and \<open>rateLimitingType\<close> of
  \<open>client-go/util/workqueue\<close>, each a record that extends the one it embeds, and the turn a worker of
  controller-runtime takes (\<open>processNextWorkItem\<close>). A method that holds the queue's lock is one
  function; the goroutine \<open>waitingLoop\<close> is the two steps of its loop. Times and durations are
  nanoseconds. The channel to that loop is a list without bound (a full one only delays the
  sender), and metrics are left out.
\<close>

subsection \<open>The queue\<close>

record 'a Type =
  wq_queue :: "'a list"
  wq_dirty :: "'a set"
  wq_processing :: "'a set"
  wq_shuttingDown :: bool

definition queue_Add :: "'a \<Rightarrow> ('a, 'm) Type_scheme \<Rightarrow> ('a, 'm) Type_scheme" where
  "queue_Add item q =
     (if wq_shuttingDown q then q
      else if item \<in> wq_dirty q then q
      else let q1 = q\<lparr>wq_dirty := insert item (wq_dirty q)\<rparr>
           in if item \<in> wq_processing q then q1 else q1\<lparr>wq_queue := wq_queue q @ [item]\<rparr>)"

text \<open>\<open>Get\<close>: None while it blocks, otherwise the item, or nil and the mark of the shutdown.\<close>

definition queue_Get :: "('a, 'm) Type_scheme \<Rightarrow> (('a option \<times> bool) \<times> ('a, 'm) Type_scheme) option" where
  "queue_Get q =
     (case wq_queue q of
        [] \<Rightarrow> if wq_shuttingDown q then Some ((None, True), q) else None
      | item # rest \<Rightarrow>
          Some ((Some item, False),
            q\<lparr>wq_queue := rest, wq_processing := insert item (wq_processing q), wq_dirty := wq_dirty q - {item}\<rparr>))"

definition queue_Done :: "'a \<Rightarrow> ('a, 'm) Type_scheme \<Rightarrow> ('a, 'm) Type_scheme" where
  "queue_Done item q =
     (let q1 = q\<lparr>wq_processing := wq_processing q - {item}\<rparr>
      in if item \<in> wq_dirty q1 then q1\<lparr>wq_queue := wq_queue q1 @ [item]\<rparr> else q1)"

definition queue_ShutDown :: "('a, 'm) Type_scheme \<Rightarrow> ('a, 'm) Type_scheme" where
  "queue_ShutDown q = q\<lparr>wq_shuttingDown := True\<rparr>"

subsection \<open>Delays\<close>

text \<open>
  \<open>dq_waiting\<close> is the heap with its map of known entries: at most one entry per item, by time.
\<close>

record 'a delayingType = "'a Type" +
  dq_waitingForAdd :: "('a \<times> int) list"
  dq_waiting :: "('a \<times> int) list"

definition queue_AddAfter :: "int \<Rightarrow> 'a \<Rightarrow> int \<Rightarrow> ('a, 'm) delayingType_scheme \<Rightarrow> ('a, 'm) delayingType_scheme" where
  "queue_AddAfter now item duration q =
     (if wq_shuttingDown q then q
      else if duration \<le> 0 then queue_Add item q
      else q\<lparr>dq_waitingForAdd := dq_waitingForAdd q @ [(item, now + duration)]\<rparr>)"

text \<open>\<open>insert\<close>: an entry that is known only gets its time moved forward.\<close>

definition insert_waiting :: "'a \<times> int \<Rightarrow> ('a \<times> int) list \<Rightarrow> ('a \<times> int) list" where
  "insert_waiting entry ws =
     (case map_of ws (fst entry) of
        None \<Rightarrow> insort_key snd entry ws
      | Some readyAt \<Rightarrow>
          if snd entry < readyAt then insort_key snd entry (filter (\<lambda>e. fst e \<noteq> fst entry) ws) else ws)"

text \<open>The two steps of \<open>waitingLoop\<close>: the ready entries are added, and one entry is received.\<close>

fun add_ready :: "int \<Rightarrow> ('a \<times> int) list \<Rightarrow> ('a, 'm) delayingType_scheme \<Rightarrow> ('a, 'm) delayingType_scheme" where
  "add_ready now [] q = q\<lparr>dq_waiting := []\<rparr>"
| "add_ready now ((item, readyAt) # ws) q =
     (if now < readyAt then q\<lparr>dq_waiting := (item, readyAt) # ws\<rparr> else add_ready now ws (queue_Add item q))"

definition loop_ready :: "int \<Rightarrow> ('a, 'm) delayingType_scheme \<Rightarrow> ('a, 'm) delayingType_scheme" where
  "loop_ready now q = add_ready now (dq_waiting q) q"

definition loop_receive :: "int \<Rightarrow> ('a, 'm) delayingType_scheme \<Rightarrow> ('a, 'm) delayingType_scheme" where
  "loop_receive now q =
     (case dq_waitingForAdd q of
        [] \<Rightarrow> q
      | (item, readyAt) # es \<Rightarrow>
          let q1 = q\<lparr>dq_waitingForAdd := es\<rparr>
          in if now < readyAt then q1\<lparr>dq_waiting := insert_waiting (item, readyAt) (dq_waiting q1)\<rparr>
             else queue_Add item q1)"

subsection \<open>Rate limits\<close>

record 'a rateLimitingType = "'a delayingType" +
  rl_failures :: "'a \<Rightarrow> nat"

text \<open>
  \<open>ItemExponentialFailureRateLimiter.When\<close>: the backoff is a \<open>float64\<close>, exact for the base of the
  default limiter; one beyond \<open>math.MaxInt64\<close> (rounded to \<open>2 ^ 63\<close>) is cut off before it becomes a
  duration.
\<close>

definition exponential_When :: "int \<Rightarrow> int \<Rightarrow> nat \<Rightarrow> int" where
  "exponential_When baseDelay maxDelay exp =
     (let backoff = baseDelay * 2 ^ exp
      in if backoff > 2 ^ 63 then maxDelay
         else let calculated = backoff in if calculated > maxDelay then maxDelay else calculated)"

definition max_When :: "int list \<Rightarrow> int" where
  "max_When delays = foldl (\<lambda>ret curr. if curr > ret then curr else ret) 0 delays"

definition Millisecond :: int where
  "Millisecond = 1000000"

text \<open>
  \<open>DefaultControllerRateLimiter\<close>; what the token bucket, a library, answers is a parameter.
\<close>

definition limiter_When :: "int \<Rightarrow> 'a \<Rightarrow> ('a, 'm) rateLimitingType_scheme \<Rightarrow> int \<times> ('a, 'm) rateLimitingType_scheme" where
  "limiter_When bucket item q =
     (max_When [exponential_When (5 * Millisecond) (1000 * Second) (rl_failures q item), bucket],
      q\<lparr>rl_failures := (rl_failures q)(item := rl_failures q item + 1)\<rparr>)"

definition queue_AddRateLimited :: "int \<Rightarrow> int \<Rightarrow> 'a \<Rightarrow> ('a, 'm) rateLimitingType_scheme \<Rightarrow> ('a, 'm) rateLimitingType_scheme" where
  "queue_AddRateLimited now bucket item q =
     (let (delay, q1) = limiter_When bucket item q in queue_AddAfter now item delay q1)"

definition queue_Forget :: "'a \<Rightarrow> ('a, 'm) rateLimitingType_scheme \<Rightarrow> ('a, 'm) rateLimitingType_scheme" where
  "queue_Forget item q = q\<lparr>rl_failures := (rl_failures q)(item := 0)\<rparr>"

definition NewRateLimitingQueue :: "'a rateLimitingType" where
  "NewRateLimitingQueue =
     \<lparr>wq_queue = [], wq_dirty = {}, wq_processing = {}, wq_shuttingDown = False,
      dq_waitingForAdd = [], dq_waiting = [], rl_failures = (\<lambda>_. 0)\<rparr>"

subsection \<open>A worker's turn\<close>

text \<open>
  What \<open>processNextWorkItem\<close> does with the answer of \<open>Reconcile\<close>, and what it returns; \<open>Done\<close> is
  deferred. A panic is not recovered (\<open>HandleCrash\<close> panics again): the process ends, which is None.
\<close>

definition requeue :: "int \<Rightarrow> int \<Rightarrow> 'a \<Rightarrow> (Result \<times> error option) outcome \<Rightarrow> ('a, 'm) rateLimitingType_scheme
    \<Rightarrow> (bool \<times> ('a, 'm) rateLimitingType_scheme) option" where
  "requeue now bucket req answer q =
     (case answer of
        Panic p \<Rightarrow> None
      | Err e \<Rightarrow> Some (False, queue_Done req (queue_AddRateLimited now bucket req q))
      | Ok (result, Some e) \<Rightarrow> Some (False, queue_Done req (queue_AddRateLimited now bucket req q))
      | Ok (result, None) \<Rightarrow>
          Some (True, queue_Done req
            (if rs_RequeueAfter result > 0 then queue_AddAfter now req (rs_RequeueAfter result) q
             else if rs_Requeue result then queue_AddRateLimited now bucket req q
             else queue_Forget req q)))"

text \<open>It waits, it brings the process down, or it returns whether the worker goes on at once.\<close>

datatype work = Blocked | Crashed | Returned bool

definition processNextWorkItem :: "('a \<Rightarrow> ('w, Result \<times> error option) prog) \<Rightarrow> int \<Rightarrow> int
    \<Rightarrow> ('a, 'm) rateLimitingType_scheme \<times> 'w \<Rightarrow> work \<times> ('a, 'm) rateLimitingType_scheme \<times> 'w" where
  "processNextWorkItem run now bucket = (\<lambda>(q, w).
     case queue_Get q of
       None \<Rightarrow> (Blocked, (q, w))
     | Some ((None, shutdown), q1) \<Rightarrow> (Returned False, (q1, w))
     | Some ((Some req, shutdown), q1) \<Rightarrow>
         (case run req w of (answer, w1) \<Rightarrow>
            (case requeue now bucket req answer q1 of
               None \<Rightarrow> (Crashed, (q1, w1))
             | Some (goOn, q2) \<Rightarrow> (Returned goOn, (q2, w1)))))"

subsection \<open>The contract of a work queue\<close>

text \<open>
  What a queue promises: \<open>pending\<close> are the items that are to be handed out, \<open>line\<close> those that are
  next, in order, and \<open>busy\<close> those that are with a worker.
\<close>

locale work_queue =
  fixes inv :: "'q \<Rightarrow> bool" and pending busy :: "'q \<Rightarrow> 'a set" and line :: "'q \<Rightarrow> 'a list"
    and add :: "'a \<Rightarrow> 'q \<Rightarrow> 'q" and take :: "'q \<Rightarrow> ('a \<times> 'q) option" and release :: "'a \<Rightarrow> 'q \<Rightarrow> 'q"
  assumes add_law: "inv q \<Longrightarrow> inv (add x q) \<and> pending (add x q) = insert x (pending q) \<and> busy (add x q) = busy q"
    and take_law: "inv q \<Longrightarrow> take q = Some (x, q') \<Longrightarrow> inv q' \<and> x \<notin> busy q \<and> busy q' = insert x (busy q) \<and>
      pending q - {x} \<subseteq> pending q' \<and> pending q' \<subseteq> pending q \<and> line q = x # line q'"
    and release_law: "inv q \<Longrightarrow> x \<in> busy q \<Longrightarrow>
      inv (release x q) \<and> pending (release x q) = pending q \<and> busy (release x q) = busy q - {x}"
    and in_line: "\<exists>zs. line (add x q) = line q @ zs" "\<exists>zs. line (release x q) = line q @ zs"

text \<open>A queue that also takes items for later, and hands them on as time goes by.\<close>

locale delayed_queue = work_queue +
  fixes later :: "int \<Rightarrow> 'b \<Rightarrow> int \<Rightarrow> 'a \<Rightarrow> 'a" and tick :: "int \<Rightarrow> 'a \<Rightarrow> 'a"
  assumes later_law: "inv q \<Longrightarrow> inv (later now x d q) \<and> pending (later now x d q) = insert x (pending q) \<and>
      busy (later now x d q) = busy q"
    and tick_law: "inv q \<Longrightarrow> inv (tick now q) \<and> pending (tick now q) = pending q \<and> busy (tick now q) = busy q"
    and in_line_later: "\<exists>zs. line (later now x d q) = line q @ zs" "\<exists>zs. line (tick now q) = line q @ zs"

text \<open>
  A history of calls by event handlers, workers and the clock, with the items that were handed out
  in it, in order. Workers release what they hold.
\<close>

datatype 'a queue_op = OpAdd 'a | OpLater int int 'a | OpTick int | OpTake | OpRelease 'a

fun history :: "('q \<Rightarrow> 'a set) \<Rightarrow> ('a \<Rightarrow> 'q \<Rightarrow> 'q) \<Rightarrow> ('q \<Rightarrow> ('a \<times> 'q) option) \<Rightarrow> ('a \<Rightarrow> 'q \<Rightarrow> 'q) \<Rightarrow>
    (int \<Rightarrow> 'a \<Rightarrow> int \<Rightarrow> 'q \<Rightarrow> 'q) \<Rightarrow> (int \<Rightarrow> 'q \<Rightarrow> 'q) \<Rightarrow> 'a queue_op list \<Rightarrow> 'q \<Rightarrow> 'q \<times> 'a list" where
  "history busy add pop release later tick [] q = (q, [])"
| "history busy add pop release later tick (op # ops) q =
     (let go = history busy add pop release later tick ops in
      case op of
        OpAdd x \<Rightarrow> go (add x q)
      | OpLater now d x \<Rightarrow> go (later now x d q)
      | OpTick now \<Rightarrow> go (tick now q)
      | OpRelease x \<Rightarrow> go (if x \<in> busy q then release x q else q)
      | OpTake \<Rightarrow> (case pop q of None \<Rightarrow> go q | Some (x, q') \<Rightarrow> (case go q' of (r, xs) \<Rightarrow> (r, x # xs))))"

context delayed_queue begin

abbreviation run where "run \<equiv> history busy add take release later tick"

text \<open>One call, as an item for the history and the queue after it.\<close>

lemma run_Cons:
  assumes "inv q"
  obtains out q1 zs where "run (op # ops) q = (fst (run ops q1), out @ snd (run ops q1))" "inv q1"
    "pending q \<subseteq> pending q1 \<union> set out" "line q @ zs = out @ line q1"
    "\<And>x. op = OpAdd x \<or> (\<exists>now d. op = OpLater now d x) \<Longrightarrow> x \<in> pending q1"
proof (cases op)
  case (OpAdd x)
  show ?thesis using add_law [OF assms, of x] in_line(1) [of x q] that [of "add x q" "[]"] by (auto simp: OpAdd subset_insertI)
next
  case (OpLater now d x)
  show ?thesis
    using later_law [OF assms, of now x d] in_line_later(1) [of now x d q] that [of "later now x d q" "[]"]
    by (auto simp: OpLater subset_insertI)
next
  case (OpTick now)
  show ?thesis
    using tick_law [OF assms, of now] in_line_later(2) [of now q] that [of "tick now q" "[]"] by (auto simp: OpTick)
next
  case (OpRelease x)
  show ?thesis
  proof (cases "x \<in> busy q")
    case True
    then show ?thesis
      using release_law [OF assms, of x] in_line(2) [of x q] that [of "release x q" "[]"] by (auto simp: OpRelease)
  qed (use assms that [of q "[]"] in \<open>simp add: OpRelease\<close>)
next
  case OpTake
  show ?thesis
  proof (cases "take q")
    case (Some p)
    obtain y q' where p: "take q = Some (y, q')" using Some by (cases p) auto
    show ?thesis
      using take_law [OF assms p] p that [of q' "[y]" "[]"] by (cases "run ops q'") (auto simp: OpTake)
  qed (use assms that [of q "[]" "[]"] in \<open>simp add: OpTake\<close>)
qed

lemma run_inv: "inv q \<Longrightarrow> inv (fst (run ops q))"
proof (induction ops arbitrary: q)
  case (Cons op ops)
  from run_Cons [OF Cons.prems, of op ops] Cons.IH show ?case by (metis fst_conv)
qed simp

text \<open>What waits in line is handed out first, in that order; later calls only join the end.\<close>

lemma run_in_order: "inv q \<Longrightarrow> \<exists>zs. snd (run ops q) @ line (fst (run ops q)) = line q @ zs"
proof (induction ops arbitrary: q)
  case (Cons op ops)
  obtain out q1 zs where r: "run (op # ops) q = (fst (run ops q1), out @ snd (run ops q1))" "inv q1"
    "line q @ zs = out @ line q1"
    using run_Cons [OF Cons.prems, of op ops] by metis
  obtain ys where "snd (run ops q1) @ line (fst (run ops q1)) = line q1 @ ys" using Cons.IH [OF r(2)] by blast
  then have "snd (run (op # ops) q) @ line (fst (run (op # ops) q)) = out @ line q1 @ ys" by (simp add: r(1) del: history.simps)
  also have "\<dots> = line q @ zs @ ys" using r(3) by (metis append_assoc)
  finally show ?case by blast
qed simp

text \<open>What is pending stays so until it is handed out, and what is added becomes pending.\<close>

lemma run_serves: "inv q \<Longrightarrow> pending q \<subseteq> pending (fst (run ops q)) \<union> set (snd (run ops q))"
proof (induction ops arbitrary: q)
  case (Cons op ops)
  obtain out q1 where r: "run (op # ops) q = (fst (run ops q1), out @ snd (run ops q1))" "inv q1"
    "pending q \<subseteq> pending q1 \<union> set out"
    using run_Cons [OF Cons.prems, of op ops] by metis
  with Cons.IH [OF r(2)] show ?case by (auto simp del: history.simps)
qed simp

lemma run_served:
  "inv q \<Longrightarrow> OpAdd x \<in> set ops \<or> (\<exists>now d. OpLater now d x \<in> set ops) \<Longrightarrow>
   x \<in> pending (fst (run ops q)) \<union> set (snd (run ops q))"
proof (induction ops arbitrary: q)
  case (Cons op ops)
  obtain out q1 where r: "run (op # ops) q = (fst (run ops q1), out @ snd (run ops q1))" "inv q1"
    "op = OpAdd x \<or> (\<exists>now d. op = OpLater now d x) \<Longrightarrow> x \<in> pending q1"
    using run_Cons [OF Cons.prems(1), of op ops] by metis
  show ?case
  proof (cases "op = OpAdd x \<or> (\<exists>now d. op = OpLater now d x)")
    case True
    with r run_serves [OF r(2), of ops] show ?thesis by (auto simp del: history.simps)
  next
    case False
    with Cons.prems(2) have "OpAdd x \<in> set ops \<or> (\<exists>now d. OpLater now d x \<in> set ops)" by auto
    from Cons.IH [OF r(2) this] show ?thesis by (auto simp: r(1) simp del: history.simps)
  qed
qed simp

text \<open>No item is with two workers.\<close>

lemma no_two_workers:
  assumes "inv q" "take (fst (run ops q)) = Some (x, q')"
  shows "x \<notin> busy (fst (run ops q))"
  using take_law [OF run_inv [OF assms(1)] assms(2)] by simp

text \<open>An item that a worker puts back while it holds it is there again when it lets it go.\<close>

lemma put_back:
  assumes "inv q" "x \<in> busy q"
  shows "inv (release x (later now x d q)) \<and> pending (release x (later now x d q)) = insert x (pending q) \<and>
    busy (release x (later now x d q)) = busy q - {x}"
  using later_law [OF assms(1), of now x d] release_law [of "later now x d q" x] assms(2) by simp

end

subsection \<open>The queue keeps the contract\<close>

definition queue_inv :: "('a, 'm) delayingType_scheme \<Rightarrow> bool" where
  "queue_inv q \<longleftrightarrow> \<not> wq_shuttingDown q \<and> distinct (wq_queue q) \<and> set (wq_queue q) = wq_dirty q - wq_processing q \<and>
     distinct (map fst (dq_waiting q)) \<and> sorted (map snd (dq_waiting q))"

definition pending :: "('a, 'm) delayingType_scheme \<Rightarrow> 'a set" where
  "pending q = wq_dirty q \<union> fst ` set (dq_waitingForAdd q) \<union> fst ` set (dq_waiting q)"

definition take_item :: "('a, 'm) Type_scheme \<Rightarrow> ('a \<times> ('a, 'm) Type_scheme) option" where
  "take_item q = (case queue_Get q of Some ((Some x, shutdown), q') \<Rightarrow> Some (x, q') | _ \<Rightarrow> None)"

lemma queue_Add_fields [simp]:
  "wq_processing (queue_Add x q) = wq_processing q" "wq_shuttingDown (queue_Add x q) = wq_shuttingDown q"
  "dq_waitingForAdd (queue_Add x d) = dq_waitingForAdd d" "dq_waiting (queue_Add x d) = dq_waiting d"
  "rl_failures (queue_Add x r) = rl_failures r"
  "\<not> wq_shuttingDown q \<Longrightarrow> wq_dirty (queue_Add x q) = insert x (wq_dirty q)"
  by (auto simp: queue_Add_def Let_def)

lemma queue_Add_inv: "queue_inv q \<Longrightarrow> queue_inv (queue_Add x q)"
  by (auto simp: queue_inv_def queue_Add_def Let_def)

lemma queue_Add_pending: "queue_inv q \<Longrightarrow> pending (queue_Add x q) = insert x (pending q)"
  by (simp add: pending_def queue_inv_def)

lemma queue_Done_fields [simp]:
  "wq_processing (queue_Done x q) = wq_processing q - {x}" "wq_dirty (queue_Done x q) = wq_dirty q"
  "dq_waitingForAdd (queue_Done x d) = dq_waitingForAdd d" "dq_waiting (queue_Done x d) = dq_waiting d"
  "rl_failures (queue_Done x r) = rl_failures r"
  by (auto simp: queue_Done_def Let_def)

lemma queue_Done_pending [simp]: "pending (queue_Done x q) = pending q"
  by (simp add: pending_def)

text \<open>\<open>Done\<close> is called for an item that was handed out; for another one it could double an entry.\<close>

lemma queue_Done_inv: "queue_inv q \<Longrightarrow> x \<in> wq_processing q \<Longrightarrow> queue_inv (queue_Done x q)"
  by (auto simp: queue_inv_def queue_Done_def Let_def)

lemma queue_Get_Some:
  "take_item q = Some (x, q') \<longleftrightarrow> (\<exists>rest. wq_queue q = x # rest \<and>
     q' = q\<lparr>wq_queue := rest, wq_processing := insert x (wq_processing q), wq_dirty := wq_dirty q - {x}\<rparr>)"
  by (auto simp: take_item_def queue_Get_def split: list.splits option.splits)

lemma distinct_insort: "distinct (map fst (insort_key snd e ws)) \<longleftrightarrow> fst e \<notin> fst ` set ws \<and> distinct (map fst ws)"
  by (induction ws) (auto simp: set_insort_key)

lemma insert_waiting_keys: "fst ` set (insert_waiting e ws) = insert (fst e) (fst ` set ws)"
proof (cases "map_of ws (fst e)")
  case (Some r)
  then have "(fst e, r) \<in> set ws" by (rule map_of_SomeD)
  then have "fst e \<in> fst ` set ws" by (metis fst_conv image_eqI)
  with Some show ?thesis by (auto simp: insert_waiting_def set_insort_key)
qed (auto simp: insert_waiting_def set_insort_key)

lemma insert_waiting_ok:
  "distinct (map fst ws) \<Longrightarrow> sorted (map snd ws) \<Longrightarrow>
   distinct (map fst (insert_waiting e ws)) \<and> sorted (map snd (insert_waiting e ws))"
  by (auto simp: insert_waiting_def distinct_insort sorted_insort_key sorted_filter distinct_map_filter
      map_of_eq_None_iff split: option.splits)

lemma add_ready_fields:
  "\<not> wq_shuttingDown q \<Longrightarrow>
   dq_waiting (add_ready now ws q) = dropWhile (\<lambda>e. snd e \<le> now) ws \<and>
   wq_dirty (add_ready now ws q) = wq_dirty q \<union> fst ` set (takeWhile (\<lambda>e. snd e \<le> now) ws)"
proof (induction now ws q rule: add_ready.induct)
  case (2 now item readyAt ws q)
  then show ?case by (cases "now < readyAt") simp_all
qed simp

lemma add_ready_keeps [simp]:
  "wq_processing (add_ready now ws q) = wq_processing q" "wq_shuttingDown (add_ready now ws q) = wq_shuttingDown q"
  "dq_waitingForAdd (add_ready now ws q) = dq_waitingForAdd q"
  by (induction now ws q rule: add_ready.induct) simp_all

lemma add_ready_failures [simp]: "rl_failures (add_ready now ws q) = rl_failures q"
  by (induction now ws q rule: add_ready.induct) simp_all

lemma loop_ready_fields:
  assumes "queue_inv q"
  shows "wq_processing (loop_ready now q) = wq_processing q" "pending (loop_ready now q) = pending q"
    "queue_inv (loop_ready now q)"
proof -
  let ?P = "\<lambda>e. snd e \<le> now" and ?ws = "dq_waiting q"
  have sd: "\<not> wq_shuttingDown q" using assms by (simp add: queue_inv_def)
  note f = add_ready_fields [OF sd, of now ?ws]
  show "wq_processing (loop_ready now q) = wq_processing q" by (simp add: loop_ready_def)
  have "set ?ws = set (takeWhile ?P ?ws) \<union> set (dropWhile ?P ?ws)"
    by (metis set_append takeWhile_dropWhile_id)
  then show "pending (loop_ready now q) = pending q"
    using f by (auto simp: loop_ready_def pending_def)
  have "distinct (wq_queue (add_ready now ws q)) \<and>
      set (wq_queue (add_ready now ws q)) = wq_dirty (add_ready now ws q) - wq_processing q"
    if "\<not> wq_shuttingDown q" "distinct (wq_queue q)" "set (wq_queue q) = wq_dirty q - wq_processing q" for ws
    using that
  proof (induction now ws q rule: add_ready.induct)
    case (2 now item readyAt ws q)
    have "distinct (wq_queue (queue_Add item q)) \<and> set (wq_queue (queue_Add item q)) = wq_dirty (queue_Add item q) - wq_processing q"
      using 2(2-) by (auto simp: queue_Add_def Let_def)
    with 2 show ?case by simp
  qed simp
  from this [of ?ws] assms f show "queue_inv (loop_ready now q)"
    by (simp add: queue_inv_def loop_ready_def dropWhile_eq_drop flip: drop_map)
qed

lemma loop_receive_fields:
  assumes "queue_inv q"
  shows "wq_processing (loop_receive now q) = wq_processing q" "pending (loop_receive now q) = pending q"
    "queue_inv (loop_receive now q)"
proof -
  have "queue_inv (queue_Add x (q\<lparr>dq_waitingForAdd := es\<rparr>))" for x es
    using assms by (intro queue_Add_inv) (simp add: queue_inv_def)
  moreover have "\<not> wq_shuttingDown q" using assms by (simp add: queue_inv_def)
  ultimately show "wq_processing (loop_receive now q) = wq_processing q" "pending (loop_receive now q) = pending q"
    "queue_inv (loop_receive now q)"
    using assms insert_waiting_ok [of "dq_waiting q"]
    by (auto simp: loop_receive_def Let_def pending_def insert_waiting_keys queue_inv_def split: list.splits)
qed

lemma queue_AddAfter_fields:
  assumes "queue_inv q"
  shows "wq_processing (queue_AddAfter now x d q) = wq_processing q"
    "pending (queue_AddAfter now x d q) = insert x (pending q)" "queue_inv (queue_AddAfter now x d q)"
  using assms queue_Add_pending [OF assms] queue_Add_inv [OF assms]
  by (auto simp: queue_AddAfter_def pending_def queue_inv_def)

lemma take_item_fields:
  assumes "queue_inv q" "take_item q = Some (x, q')"
  shows "queue_inv q'" "x \<notin> wq_processing q" "wq_processing q' = insert x (wq_processing q)"
    "pending q - {x} \<subseteq> pending q'" "pending q' \<subseteq> pending q" "wq_dirty q' = wq_dirty q - {x}"
proof -
  obtain rest where r: "wq_queue q = x # rest"
    "q' = q\<lparr>wq_queue := rest, wq_processing := insert x (wq_processing q), wq_dirty := wq_dirty q - {x}\<rparr>"
    using assms(2) by (auto simp: queue_Get_Some)
  have s: "x \<in> wq_dirty q" "x \<notin> wq_processing q" "x \<notin> set rest" "insert x (set rest) = wq_dirty q - wq_processing q"
    using assms(1) r(1) by (auto simp: queue_inv_def)
  then have "set rest = wq_dirty q - {x} - insert x (wq_processing q)" by blast
  then show "queue_inv q'" using assms(1) r by (simp add: queue_inv_def)
  show "x \<notin> wq_processing q" by (rule s)
  show "wq_processing q' = insert x (wq_processing q)" "wq_dirty q' = wq_dirty q - {x}"
    "pending q - {x} \<subseteq> pending q'" "pending q' \<subseteq> pending q"
    by (auto simp: r(2) pending_def)
qed

text \<open>Nothing that joins the line passes what is in it.\<close>

definition joins :: "'a list \<Rightarrow> 'a list \<Rightarrow> bool" where
  "joins xs ys \<longleftrightarrow> (\<exists>zs. ys = xs @ zs)"

lemma joins_refl [simp]: "joins xs xs"
  and joins_end [simp]: "joins xs (xs @ zs)"
  by (simp_all add: joins_def)

lemma joins_trans: "joins xs ys \<Longrightarrow> joins ys zs \<Longrightarrow> joins xs zs"
  by (auto simp: joins_def)

lemma queue_Add_joins: "joins (wq_queue q) (wq_queue (queue_Add x q))"
  by (simp add: queue_Add_def Let_def)

lemma queue_Done_joins: "joins (wq_queue q) (wq_queue (queue_Done x q))"
  by (simp add: queue_Done_def Let_def)

lemma queue_AddAfter_joins: "joins (wq_queue q) (wq_queue (queue_AddAfter now x d q))"
  by (simp add: queue_AddAfter_def queue_Add_joins)

lemma add_ready_joins: "joins (wq_queue q) (wq_queue (add_ready now ws q))"
proof (induction now ws q rule: add_ready.induct)
  case (2 now item readyAt ws q)
  then show ?case by (auto intro: joins_trans [OF queue_Add_joins])
qed simp

lemma loop_receive_joins: "joins (wq_queue q) (wq_queue (loop_receive now q))"
proof -
  have "joins (wq_queue q) (wq_queue (queue_Add x (q\<lparr>dq_waitingForAdd := es\<rparr>)))" for x es
    using queue_Add_joins [of "q\<lparr>dq_waitingForAdd := es\<rparr>" x] by simp
  then show ?thesis by (simp add: loop_receive_def Let_def split: list.splits)
qed

text \<open>A round of \<open>waitingLoop\<close> that receives an entry.\<close>

definition queue_tick :: "int \<Rightarrow> ('a, 'm) delayingType_scheme \<Rightarrow> ('a, 'm) delayingType_scheme" where
  "queue_tick now q = loop_receive now (loop_ready now q)"

lemma queue_tick_joins: "joins (wq_queue q) (wq_queue (queue_tick now q))"
  unfolding queue_tick_def loop_ready_def by (rule joins_trans [OF add_ready_joins loop_receive_joins])

interpretation rate_queue: delayed_queue queue_inv pending wq_processing wq_queue queue_Add take_item queue_Done
    queue_AddAfter queue_tick
proof unfold_locales
  show "queue_inv (queue_Done x q) \<and> pending (queue_Done x q) = pending q \<and>
      wq_processing (queue_Done x q) = wq_processing q - {x}"
    if "queue_inv q" "x \<in> wq_processing q" for x and q :: "('a, 'b) delayingType_scheme"
    using queue_Done_inv [OF that] by (simp add: pending_def)
  show "queue_inv q' \<and> x \<notin> wq_processing q \<and> wq_processing q' = insert x (wq_processing q) \<and>
      pending q - {x} \<subseteq> pending q' \<and> pending q' \<subseteq> pending q \<and> wq_queue q = x # wq_queue q'"
    if "queue_inv q" "take_item q = Some (x, q')" for x and q q' :: "('a, 'b) delayingType_scheme"
    using take_item_fields [OF that] that(2) by (auto simp: queue_Get_Some)
  show "queue_inv (queue_tick now q) \<and> pending (queue_tick now q) = pending q \<and>
      wq_processing (queue_tick now q) = wq_processing q"
    if "queue_inv q" for now and q :: "('a, 'b) delayingType_scheme"
    using loop_ready_fields [OF that, of now] loop_receive_fields [of "loop_ready now q" now]
    by (simp add: queue_tick_def)
qed (simp_all add: queue_Add_inv queue_Add_pending queue_AddAfter_fields queue_Add_joins queue_Done_joins
    queue_AddAfter_joins queue_tick_joins flip: joins_def)

text \<open>A history of the queue of a controller.\<close>

definition queue_history :: "'a queue_op list \<Rightarrow> ('a, 'm) delayingType_scheme \<Rightarrow> ('a, 'm) delayingType_scheme \<times> 'a list" where
  "queue_history = history wq_processing queue_Add take_item queue_Done queue_AddAfter queue_tick"

subsection \<open>How long a delay is\<close>

text \<open>
  The default limiter waits at least 5 milliseconds, twice as long after each failure that is
  counted, and no longer than 1000 seconds, unless the bucket asks for more.
\<close>

lemma limiter_delay:
  "fst (limiter_When bucket item q) = max (min (5 * Millisecond * 2 ^ rl_failures q item) (1000 * Second)) bucket"
proof -
  have "(1000::int) * Second < 2 ^ 63" by (simp add: Second_def)
  then show ?thesis
    by (auto simp: limiter_When_def max_When_def exponential_When_def Let_def Millisecond_def Second_def)
qed

lemma limiter_positive: "fst (limiter_When bucket item q) > 0"
proof -
  have "0 < 5 * Millisecond * (2::int) ^ n" for n by (simp add: Millisecond_def)
  then show ?thesis unfolding limiter_delay by (simp add: less_max_iff_disj Second_def)
qed

lemma AddRateLimited_after:
  "queue_AddRateLimited now bucket x q = queue_AddAfter now x (fst (limiter_When bucket x q)) (snd (limiter_When bucket x q))"
  by (simp add: queue_AddRateLimited_def split: prod.splits)

lemma limiter_queue: "snd (limiter_When bucket x q) = q\<lparr>rl_failures := (rl_failures q)(x := rl_failures q x + 1)\<rparr>"
  by (simp add: limiter_When_def)

lemma AddRateLimited_entry:
  assumes "\<not> wq_shuttingDown q"
  shows "queue_AddRateLimited now bucket x q = q\<lparr>rl_failures := (rl_failures q)(x := rl_failures q x + 1),
    dq_waitingForAdd := dq_waitingForAdd q @
      [(x, now + max (min (5 * Millisecond * 2 ^ rl_failures q x) (1000 * Second)) bucket)]\<rparr>"
proof -
  have "\<not> fst (limiter_When bucket x q) \<le> 0" using limiter_positive [of bucket x q] by simp
  with assms show ?thesis by (simp add: AddRateLimited_after queue_AddAfter_def limiter_queue) (simp add: limiter_delay)
qed

text \<open>An entry that is received is in line as soon as its time has come.\<close>

lemma due_entry_in_line:
  assumes "queue_inv q" "(x, t) \<in> set (dq_waiting q)" "t \<le> now"
  shows "x \<in> wq_dirty (loop_ready now q)"
proof -
  let ?P = "\<lambda>e. snd e \<le> now"
  have sd: "\<not> wq_shuttingDown q" and sorted: "sorted (map snd (dq_waiting q))"
    using assms(1) by (simp_all add: queue_inv_def)
  have "(x, t) \<in> set (takeWhile ?P ws)" if "sorted (map snd ws)" "(x, t) \<in> set ws" for ws :: "('a \<times> int) list"
    using that assms(3) by (induction ws) auto
  from this [OF sorted assms(2)] add_ready_fields [OF sd, of now "dq_waiting q"] show ?thesis
    by (force simp: loop_ready_def)
qed

text \<open>
  A round of \<open>waitingLoop\<close> receives all that has been sent. What is due then is in line, or is
  handed out again as soon as its worker is done with it.
\<close>

definition loop_drain :: "int \<Rightarrow> ('a, 'm) delayingType_scheme \<Rightarrow> ('a, 'm) delayingType_scheme" where
  "loop_drain now q = (loop_receive now ^^ length (dq_waitingForAdd q)) q"

lemma loop_drain_Nil [simp]: "dq_waitingForAdd q = [] \<Longrightarrow> loop_drain now q = q"
  by (simp add: loop_drain_def)

lemma loop_receive_rest [simp]: "dq_waitingForAdd (loop_receive now q) = tl (dq_waitingForAdd q)"
  by (simp add: loop_receive_def Let_def split: list.splits)

lemma loop_receive_dirty: "queue_inv q \<Longrightarrow> wq_dirty q \<subseteq> wq_dirty (loop_receive now q)"
  by (auto simp: loop_receive_def Let_def queue_inv_def split: list.splits)

lemma drained:
  "queue_inv q \<Longrightarrow> \<forall>e\<in>set (dq_waitingForAdd q). snd e \<le> now \<Longrightarrow> n = length (dq_waitingForAdd q) \<Longrightarrow>
   queue_inv ((loop_receive now ^^ n) q) \<and> dq_waiting ((loop_receive now ^^ n) q) = dq_waiting q \<and>
   wq_dirty q \<union> fst ` set (dq_waitingForAdd q) \<subseteq> wq_dirty ((loop_receive now ^^ n) q)"
proof (induction n arbitrary: q)
  case (Suc n)
  obtain x t es where e: "dq_waitingForAdd q = (x, t) # es" using Suc.prems(3) by (cases "dq_waitingForAdd q") auto
  let ?q = "loop_receive now q"
  have due: "t \<le> now" "\<forall>e\<in>set es. snd e \<le> now" using Suc.prems(2) e by auto
  have fields: "wq_dirty ?q = insert x (wq_dirty q)" "dq_waiting ?q = dq_waiting q" "dq_waitingForAdd ?q = es"
    using Suc.prems(1) e due by (simp_all add: loop_receive_def Let_def queue_inv_def)
  have "\<forall>e\<in>set (dq_waitingForAdd ?q). snd e \<le> now" "n = length (dq_waitingForAdd ?q)"
    using fields due Suc.prems(3) e by simp_all
  from Suc.IH [OF loop_receive_fields(3) [OF Suc.prems(1)] this] fields e show ?case
    by (auto simp: funpow_Suc_right simp del: funpow.simps)
qed simp

lemma due_is_in_line:
  assumes q: "queue_inv q" and x: "x \<in> pending q" and due: "\<forall>e\<in>set (dq_waitingForAdd q @ dq_waiting q). snd e \<le> now"
  shows "x \<in> set (wq_queue (loop_ready now (loop_drain now q))) \<union> wq_processing q"
proof -
  let ?q = "loop_drain now q"
  have in1: "\<forall>e\<in>set (dq_waitingForAdd q). snd e \<le> now" using due by simp
  have d: "queue_inv ?q" "dq_waiting ?q = dq_waiting q" "wq_dirty q \<union> fst ` set (dq_waitingForAdd q) \<subseteq> wq_dirty ?q"
    using drained [OF q in1 refl, folded loop_drain_def] by blast+
  have "\<not> wq_shuttingDown ?q" using d(1) by (simp add: queue_inv_def)
  from add_ready_fields [OF this, of now "dq_waiting ?q"]
  have "wq_dirty (loop_ready now ?q) = wq_dirty ?q \<union> fst ` set (dq_waiting q)"
    using due d(2) by (simp add: loop_ready_def takeWhile_eq_all_conv [THEN iffD2])
  then have "x \<in> wq_dirty (loop_ready now ?q)" using x d(3) by (auto simp: pending_def)
  moreover have "queue_inv (loop_ready now ?q)" by (rule loop_ready_fields [OF d(1)])
  moreover have "wq_processing (loop_ready now ?q) = wq_processing q"
  proof -
    have "wq_processing ((loop_receive now ^^ n) q) = wq_processing q" for n
      by (induction n) (simp_all add: loop_receive_def Let_def split: list.splits)
    then show ?thesis by (simp add: loop_ready_def loop_drain_def)
  qed
  ultimately show ?thesis by (auto simp: queue_inv_def)
qed

end
