(* ===== verification/Workers.thy ===== *)
theory Workers
  imports WorkQueue RunResults KraneSystem CanaryLife
begin

text \<open>
  A controller at work: event handlers fill its queue, its worker takes a request at a time, runs
  \<open>Reconcile\<close> and puts the request back as the answer asks for, while time passes and others change
  the cluster. What becomes of a request of either controller of Krane, and what a worker that is
  left alone makes of a canary.
\<close>

subsection \<open>What an answer does to the queue\<close>

type_synonym answer = "(Result \<times> error option) outcome"

text \<open>The answers after which a request is tried again.\<close>

definition asks_again :: "answer \<Rightarrow> bool" where
  "asks_again r = (case r of Ok (res, err) \<Rightarrow> err \<noteq> None \<or> rs_RequeueAfter res > 0 \<or> rs_Requeue res | Err e \<Rightarrow> True | Panic p \<Rightarrow> True)"

lemma Forget_fields [simp]:
  "pending (queue_Forget x q) = pending q" "wq_processing (queue_Forget x q) = wq_processing q"
  "queue_inv (queue_Forget x q) = queue_inv q"
  by (simp_all add: queue_Forget_def pending_def queue_inv_def)

lemma limiter_fields [simp]:
  "pending (snd (limiter_When b x q)) = pending q" "wq_processing (snd (limiter_When b x q)) = wq_processing q"
  "queue_inv (snd (limiter_When b x q)) = queue_inv q"
  by (simp_all add: limiter_queue pending_def queue_inv_def)

lemma requeue_cases:
  assumes "requeue now bucket x r q = Some (go_on, q')"
  obtains now' d q1 where "q' = queue_Done x (queue_AddAfter now' x d q1)" "pending q1 = pending q"
    "wq_processing q1 = wq_processing q" "queue_inv q1 = queue_inv q"
  | "q' = queue_Done x (queue_Forget x q)" "\<not> asks_again r"
  using assms
  by (auto simp: requeue_def asks_again_def AddRateLimited_after split: outcome.splits option.splits if_splits)

lemma requeue_fields:
  assumes "queue_inv q" "x \<in> wq_processing q" "requeue now bucket x r q = Some (go_on, q')"
  shows "queue_inv q'" "wq_processing q' = wq_processing q - {x}" "pending q \<subseteq> pending q'"
    "pending q' \<subseteq> insert x (pending q)" "asks_again r \<Longrightarrow> x \<in> pending q'"
proof -
  have "queue_inv q' \<and> wq_processing q' = wq_processing q - {x} \<and> pending q \<subseteq> pending q' \<and>
      pending q' \<subseteq> insert x (pending q) \<and> (asks_again r \<longrightarrow> x \<in> pending q')"
    using assms(3)
  proof (cases rule: requeue_cases)
    case (1 now' d q1)
    with assms(1,2) rate_queue.put_back [of q1 x now' d] show ?thesis by auto
  next
    case 2
    with assms(1,2) queue_Done_inv [of "queue_Forget x q" x] show ?thesis by (simp add: subset_insertI)
  qed
  then show "queue_inv q'" "wq_processing q' = wq_processing q - {x}" "pending q \<subseteq> pending q'"
    "pending q' \<subseteq> insert x (pending q)" "asks_again r \<Longrightarrow> x \<in> pending q'" by simp_all
qed

subsection \<open>A controller with its worker\<close>

text \<open>\<open>sy_held\<close> is the request the worker has.\<close>

record ('a, 'w) system =
  sy_queue :: "'a rateLimitingType"
  sy_world :: 'w
  sy_held :: "'a option"

text \<open>
  \<open>ok\<close> are the requests that events can ask for; \<open>runs\<close> relates a request and a world to the answers and
  worlds of its runs; \<open>others\<close> is what happens to the world between two runs.
\<close>

inductive worker_step :: "('a \<Rightarrow> bool) \<Rightarrow> ('a \<Rightarrow> 'w \<Rightarrow> answer \<Rightarrow> 'w \<Rightarrow> bool) \<Rightarrow> ('w \<Rightarrow> 'w \<Rightarrow> bool) \<Rightarrow>
    ('a, 'w) system \<Rightarrow> ('a, 'w) system \<Rightarrow> bool" for ok runs others where
  event: "ok x \<Longrightarrow> worker_step ok runs others s (s\<lparr>sy_queue := queue_Add x (sy_queue s)\<rparr>)"
| ready: "worker_step ok runs others s (s\<lparr>sy_queue := loop_ready now (sy_queue s)\<rparr>)"
| receive: "worker_step ok runs others s (s\<lparr>sy_queue := loop_receive now (sy_queue s)\<rparr>)"
| others: "others (sy_world s) w \<Longrightarrow> worker_step ok runs others s (s\<lparr>sy_world := w\<rparr>)"
| start: "sy_held s = None \<Longrightarrow> take_item (sy_queue s) = Some (x, q) \<Longrightarrow>
    worker_step ok runs others s (s\<lparr>sy_queue := q, sy_held := Some x\<rparr>)"
| finish: "sy_held s = Some x \<Longrightarrow> runs x (sy_world s) r w \<Longrightarrow> requeue now bucket x r (sy_queue s) = Some (go_on, q) \<Longrightarrow>
    worker_step ok runs others s (s\<lparr>sy_queue := q, sy_world := w, sy_held := None\<rparr>)"

abbreviation worker_reaches where
  "worker_reaches ok runs others \<equiv> (worker_step ok runs others)\<^sup>*\<^sup>*"

definition fit :: "('a \<Rightarrow> bool) \<Rightarrow> ('a, 'w) system \<Rightarrow> bool" where
  "fit ok s \<longleftrightarrow> queue_inv (sy_queue s) \<and> wq_processing (sy_queue s) = set_option (sy_held s) \<and>
     (\<forall>x\<in>pending (sy_queue s) \<union> set_option (sy_held s). ok x)"

definition cared_for :: "'a \<Rightarrow> ('a, 'w) system \<Rightarrow> bool" where
  "cared_for x s \<longleftrightarrow> x \<in> pending (sy_queue s) \<or> sy_held s = Some x"

lemma fit_step: "worker_step ok runs others s t \<Longrightarrow> fit ok s \<Longrightarrow> fit ok t"
proof (induction rule: worker_step.induct)
  case (event y s)
  then show ?case
    using queue_Add_pending [of "sy_queue s" y] queue_Add_inv [of "sy_queue s" y] by (simp add: fit_def)
next
  case (start s y q)
  then have k: "queue_inv (sy_queue s)" "wq_processing (sy_queue s) = {}" "\<forall>z\<in>pending (sy_queue s). ok z"
    by (simp_all add: fit_def)
  note f = take_item_fields [OF k(1) start(2)]
  have "y \<in> pending (sy_queue s)" using start(2) k(1) by (auto simp: queue_Get_Some pending_def queue_inv_def)
  then have "ok y" "\<forall>z\<in>pending q. ok z" using k(3) f(5) by blast+
  with f(1,3) k(2) show ?case by (simp add: fit_def)
next
  case (finish s y r w now bucket go_on q)
  then have k: "queue_inv (sy_queue s)" "y \<in> wq_processing (sy_queue s)" "ok y"
    "wq_processing (sy_queue s) = {y}" "\<forall>z\<in>pending (sy_queue s). ok z"
    by (auto simp: fit_def)
  note f = requeue_fields [OF k(1,2) finish(3)]
  then have "\<forall>z\<in>pending q. ok z" using k(3,5) by blast
  with f(1,2) k(4) show ?case by (simp add: fit_def)
qed (simp_all add: fit_def loop_ready_fields loop_receive_fields)

lemma fit_reaches: "worker_reaches ok runs others s t \<Longrightarrow> fit ok s \<Longrightarrow> fit ok t"
  by (induction rule: rtranclp.induct) (auto intro: fit_step)

text \<open>A request that nobody asks for and that is not in the queue is not run.\<close>

lemma not_cared_for:
  assumes "worker_reaches (\<lambda>y. y \<noteq> x) runs others s t" "fit (\<lambda>y. y \<noteq> x) s"
  shows "\<not> cared_for x t"
  using fit_reaches [OF assms] by (auto simp: fit_def cared_for_def)

text \<open>A request that no answer lets go, while its object is there.\<close>

locale persistent_request =
  fixes ok :: "'a \<Rightarrow> bool" and runs :: "'a \<Rightarrow> 'w \<Rightarrow> answer \<Rightarrow> 'w \<Rightarrow> bool" and others :: "'w \<Rightarrow> 'w \<Rightarrow> bool"
    and present :: "'w \<Rightarrow> bool" and x :: 'a
  assumes runs_law: "present w \<Longrightarrow> ok y \<Longrightarrow> runs y w r w' \<Longrightarrow> present w'"
    and others_law: "present w \<Longrightarrow> others w w' \<Longrightarrow> present w'"
    and again_law: "present w \<Longrightarrow> ok x \<Longrightarrow> runs x w r w' \<Longrightarrow> asks_again r"

context persistent_request begin

definition kept :: "('a, 'w) system \<Rightarrow> bool" where
  "kept s \<longleftrightarrow> fit ok s \<and> present (sy_world s) \<and> cared_for x s"

lemma kept_step:
  assumes "worker_step ok runs others s t" "kept s"
  shows "kept t"
proof -
  have fit: "fit ok s" "fit ok t" using assms fit_step by (auto simp: kept_def)
  have p: "present (sy_world s)" and c: "cared_for x s" using assms(2) by (simp_all add: kept_def)
  have pres: "present (sy_world t)"
    using assms(1)
  proof (cases rule: worker_step.cases)
    case (finish y r w now bucket go_on q)
    moreover have "ok y" using fit(1) finish(2) by (simp add: fit_def)
    ultimately show ?thesis using runs_law [OF p] by simp
  qed (simp_all add: p others_law [OF p])
  have "cared_for x t"
    using assms(1)
  proof (cases rule: worker_step.cases)
    case (start y q)
    have "pending (sy_queue s) - {y} \<subseteq> pending q"
      using take_item_fields(4) [OF _ start(3)] fit(1) by (simp add: fit_def)
    then show ?thesis using c by (auto simp: start(1,2) cared_for_def)
  next
    case (finish y r w now bucket go_on q)
    have k: "queue_inv (sy_queue s)" "y \<in> wq_processing (sy_queue s)" "ok y" "present (sy_world s)"
      "x \<in> pending (sy_queue s) \<or> x = y"
      using fit(1) p c finish(2) by (auto simp: fit_def cared_for_def)
    note f = requeue_fields [OF k(1,2) finish(4)]
    have "x \<in> pending q" using f(3,5) k(3-5) again_law [of "sy_world s" r w] finish(3) by blast
    then show ?thesis by (simp add: cared_for_def finish(1))
  qed (use c fit(1) in \<open>auto simp: cared_for_def fit_def queue_Add_pending loop_ready_fields loop_receive_fields\<close>)
  with fit(2) pres show ?thesis by (simp add: kept_def)
qed

lemma kept_for_ever: "worker_reaches ok runs others s t \<Longrightarrow> kept s \<Longrightarrow> kept t"
  by (induction rule: rtranclp.induct) (auto intro: kept_step)

end

subsection \<open>The process ends\<close>

text \<open>
  A run that panics ends the process, and with it the queue; it may also end between two runs, say
  because the other controller panics or the node goes down. \<open>restart w\<close> is the queue of the next
  process once its informers have listed the world \<open>w\<close>.
\<close>

inductive process_step :: "('a \<Rightarrow> bool) \<Rightarrow> ('a \<Rightarrow> 'w \<Rightarrow> answer \<Rightarrow> 'w \<Rightarrow> bool) \<Rightarrow> ('w \<Rightarrow> 'w \<Rightarrow> bool) \<Rightarrow>
    ('w \<Rightarrow> 'a rateLimitingType) \<Rightarrow> ('a, 'w) system \<Rightarrow> ('a, 'w) system \<Rightarrow> bool" for ok runs others restart where
  works: "worker_step ok runs others s t \<Longrightarrow> process_step ok runs others restart s t"
| panics: "sy_held s = Some x \<Longrightarrow> runs x (sy_world s) (Panic p) w \<Longrightarrow>
    process_step ok runs others restart s \<lparr>sy_queue = restart w, sy_world = w, sy_held = None\<rparr>"
| dies: "others (sy_world s) w \<Longrightarrow>
    process_step ok runs others restart s \<lparr>sy_queue = restart w, sy_world = w, sy_held = None\<rparr>"

text \<open>A restart that asks for the request again, if its object is there.\<close>

locale restarted_request = persistent_request ok runs others present x
  for ok :: "'a \<Rightarrow> bool" and runs others and present :: "'w \<Rightarrow> bool" and x +
  fixes restart :: "'w \<Rightarrow> 'a rateLimitingType"
  assumes restart_law: "queue_inv (restart w)" "wq_processing (restart w) = {}" "y \<in> pending (restart w) \<Longrightarrow> ok y"
    and listed_law: "present w \<Longrightarrow> ok x \<Longrightarrow> x \<in> pending (restart w)"

context restarted_request begin

lemma kept_restart: "present w \<Longrightarrow> ok x \<Longrightarrow> kept \<lparr>sy_queue = restart w, sy_world = w, sy_held = None\<rparr>"
  using restart_law listed_law by (simp add: kept_def fit_def cared_for_def)

lemma kept_ok: "kept s \<Longrightarrow> ok x"
  by (auto simp: kept_def fit_def cared_for_def)

lemma kept_process:
  assumes "process_step ok runs others restart s t" "kept s"
  shows "kept t"
  using assms(1)
proof (cases rule: process_step.cases)
  case works
  then show ?thesis using assms(2) by (rule kept_step)
next
  case (panics y p w)
  moreover have "ok y" "present (sy_world s)" using panics(2) assms(2) by (auto simp: kept_def fit_def)
  ultimately show ?thesis using runs_law kept_restart kept_ok [OF assms(2)] by blast
next
  case (dies w)
  have "present w" using others_law [OF _ dies(2)] assms(2) by (simp add: kept_def)
  then show ?thesis unfolding dies(1) using kept_ok [OF assms(2)] by (rule kept_restart)
qed

lemma kept_through: "(process_step ok runs others restart)\<^sup>*\<^sup>* s t \<Longrightarrow> kept s \<Longrightarrow> kept t"
  by (induction rule: rtranclp.induct) (auto intro: kept_process)

end

subsection \<open>The canary controller\<close>

text \<open>The runs of the canary controller while others act between its calls.\<close>

definition canary_answers :: "json_float \<Rightarrow> NamespacedName \<Rightarrow> Cluster \<Rightarrow> answer \<Rightarrow> Cluster \<Rightarrow> bool" where
  "canary_answers jf nn w r w' \<longleftrightarrow> (\<exists>env n. (\<forall>i v. consistent v \<longrightarrow> keeps_progress v (env i v)) \<and>
     ReconcileCanary_Reconcile jf \<lparr>client = interfering env fakeClient, scheme = kraneScheme\<rparr> nn (w, 0) = (r, (w', n)))"

definition canary_present :: "NamespacedName \<Rightarrow> Cluster \<Rightarrow> bool" where
  "canary_present nn w \<longleftrightarrow> consistent w \<and> canary_at w nn \<noteq> None"

text \<open>The answer of a run that reads its canary.\<close>

lemma run_reads:
  assumes "api_get (canaries (client R)) nn w = (Inr c, w0)"
  shows "retried (fst (ReconcileCanary_Reconcile jf R nn w))"
proof -
  have "fst (ReconcileCanary_Reconcile jf R nn w) = fst (canarySteps jf R (c, w0))"
    using assms by (simp add: ReconcileCanary_Reconcile_def run_simps split: prod.splits)
  with retried_run [of jf R "(c, w0)"] show ?thesis by simp
qed

lemma retried_asks: "retried r \<Longrightarrow> asks_again r"
  by (auto simp: retried_def asks_again_def requeue_after_5s_def Second_def)

lemma canary_answers_again:
  assumes "canary_present nn w" "nonempty_key nn" "canary_answers jf nn w r w'"
  shows "asks_again r"
proof -
  obtain env n where env: "\<And>i v. consistent v \<Longrightarrow> keeps_progress v (env i v)"
    and run: "ReconcileCanary_Reconcile jf \<lparr>client = interfering env fakeClient, scheme = kraneScheme\<rparr> nn (w, 0) = (r, (w', n))"
    using assms(3) by (auto simp: canary_answers_def)
  have "keeps_progress w (env 0 w)" using env assms(1) by (simp add: canary_present_def)
  then obtain c where "canary_at (env 0 w) nn = Some c" "consistent (env 0 w)"
    using assms(1) by (auto simp: canary_present_def keeps_progress_def)
  then have "api_get (canaries fakeClient) nn (env 0 w) = (Inr c, env 0 w)"
    using canary_store.fake_get [of nn "env 0 w"] assms(2) by (simp add: legal_key_def nonempty_key_def consistent_keys)
  then have "api_get (canaries (interfering env fakeClient)) nn (w, 0) = (Inr c, (env 0 w, Suc 0))"
    by (simp add: interfering_def interfere_api_def interfere_def)
  with run_reads [of "\<lparr>client = interfering env fakeClient, scheme = kraneScheme\<rparr>" nn "(w, 0)" c] run
  show ?thesis by (metis Reconciler.select_convs(1) fst_conv retried_asks)
qed

lemma canary_answers_keep:
  assumes "canary_present nn w" "nonempty_key y" "canary_answers jf y w r w'"
  shows "canary_present nn w'"
proof -
  obtain env n where "\<And>i v. consistent v \<Longrightarrow> keeps_progress v (env i v)"
    "ReconcileCanary_Reconcile jf \<lparr>client = interfering env fakeClient, scheme = kraneScheme\<rparr> y (w, 0) = (r, (w', n))"
    using assms(3) by (auto simp: canary_answers_def)
  with canary_run_moves [of w y env jf kraneScheme 0 r "(w', n)"] assms(1,2) show ?thesis
    by (fastforce simp: canary_present_def moves_on_def)
qed

interpretation canary_request: persistent_request nonempty_key "canary_answers jf" keeps_progress "canary_present nn" nn
  for jf nn
proof unfold_locales
  show "canary_present nn w'" if "canary_present nn w" "keeps_progress w w'" for w w'
    using that by (fastforce simp: canary_present_def keeps_progress_def)
qed (fact canary_answers_keep canary_answers_again)+

subsection \<open>A worker that is left alone\<close>

lemma process_item:
  "take_item q = Some (x, q1) \<Longrightarrow> processNextWorkItem run now bucket (q, w) =
     (case run x w of (answer, w1) \<Rightarrow> (case requeue now bucket x answer q1 of
        None \<Rightarrow> (Crashed, (q1, w1)) | Some (go_on, q2) \<Rightarrow> (Returned go_on, (q2, w1))))"
  by (auto simp: take_item_def processNextWorkItem_def split: option.splits prod.splits)

text \<open>
  The worker takes a request at each of some times: before, the entries that are ready are added,
  and afterwards the loop receives what was sent.
\<close>

primrec attended :: "('a \<Rightarrow> ('w, Result \<times> error option) prog) \<Rightarrow> int list \<Rightarrow> 'a rateLimitingType \<times> 'w \<Rightarrow>
    ('a rateLimitingType \<times> 'w) option" where
  "attended run [] s = Some s"
| "attended run (t # ts) s =
     (case processNextWorkItem run t 0 (loop_ready t (fst s), snd s) of
        (Returned True, (q, w)) \<Rightarrow> attended run ts (loop_drain t q, w)
      | _ \<Rightarrow> None)"

text \<open>A queue with one request, in line or to be in line at a time.\<close>

definition only :: "'a \<Rightarrow> int \<Rightarrow> 'a rateLimitingType \<Rightarrow> bool" where
  "only x t q \<longleftrightarrow> \<not> wq_shuttingDown q \<and> wq_processing q = {} \<and> dq_waitingForAdd q = [] \<and>
     (wq_queue q = [x] \<and> wq_dirty q = {x} \<and> dq_waiting q = [] \<or> wq_queue q = [] \<and> wq_dirty q = {} \<and> dq_waiting q = [(x, t)])"

lemma only_new: "only x t (queue_Add x NewRateLimitingQueue)"
  by (simp add: only_def queue_Add_def NewRateLimitingQueue_def)

lemma only_pending: "only x t q \<Longrightarrow> pending q = {x}"
  by (auto simp: only_def pending_def)

lemma only_ready:
  assumes "only x t q" "t \<le> now"
  shows "\<exists>q1. take_item (loop_ready now q) = Some (x, q1) \<and> \<not> wq_shuttingDown q1 \<and> wq_queue q1 = [] \<and> wq_dirty q1 = {} \<and>
    wq_processing q1 = {x} \<and> dq_waitingForAdd q1 = [] \<and> dq_waiting q1 = []"
  using assms by (auto simp: only_def queue_Get_Some loop_ready_def queue_Add_def)

lemma only_again:
  assumes "\<not> wq_shuttingDown q1" "wq_queue q1 = []" "wq_dirty q1 = {}" "wq_processing q1 = {x}"
    "dq_waitingForAdd q1 = []" "dq_waiting q1 = []"
  shows "\<exists>q2. requeue now bucket x (Ok (requeue_after_5s, None)) q1 = Some (True, q2) \<and>
    only x (now + 5 * Second) (loop_drain now q2)"
  using assms
  by (simp add: requeue_def requeue_after_5s_def Second_def queue_AddAfter_def queue_Done_def Let_def loop_drain_def
      loop_receive_def insert_waiting_def only_def)

text \<open>Times that leave five seconds between two turns.\<close>

abbreviation five_apart :: "int list \<Rightarrow> bool" where
  "five_apart \<equiv> sorted_wrt (\<lambda>s t. s + 5 * Second \<le> t)"

lemma attended_turns:
  "only nn t0 q \<Longrightarrow> \<forall>t\<in>set ts. t0 \<le> t \<Longrightarrow> five_apart ts \<Longrightarrow> turns jf R nn (length ts) w = Some v \<Longrightarrow>
   \<exists>q'. attended (ReconcileCanary_Reconcile jf R) ts (q, w) = Some (q', v) \<and>
     only nn (if ts = [] then t0 else last ts + 5 * Second) q'"
proof (induction ts arbitrary: t0 q w)
  case (Cons t ts)
  obtain u where u: "turn jf R nn w = Some u" "turns jf R nn (length ts) u = Some v"
    using Cons.prems(4) by (auto split: option.splits)
  obtain q1 where q1: "take_item (loop_ready t q) = Some (nn, q1)" "\<not> wq_shuttingDown q1" "wq_queue q1 = []"
    "wq_dirty q1 = {}" "wq_processing q1 = {nn}" "dq_waitingForAdd q1 = []" "dq_waiting q1 = []"
    using only_ready [OF Cons.prems(1), of t] Cons.prems(2) by auto
  obtain q2 where q2: "requeue t 0 nn (Ok (requeue_after_5s, None)) q1 = Some (True, q2)"
    "only nn (t + 5 * Second) (loop_drain t q2)"
    using only_again [OF q1(2-7)] by blast
  have "\<forall>s\<in>set ts. t + 5 * Second \<le> s" "five_apart ts" using Cons.prems(3) by auto
  from Cons.IH [OF q2(2) this u(2)] show ?case
    using u(1) q2(1) by (auto simp: process_item [OF q1(1)] turn_run)
qed simp

text \<open>Two spells of turns, with something happening to the world in between.\<close>

lemma attended_phases:
  assumes times: "five_apart (ts @ us)" "ts \<noteq> []" "us \<noteq> []"
    and turns: "turns jf R nn (length ts) w = Some v" "turns jf R nn (length us) v' = Some u"
  obtains q q' where "attended (ReconcileCanary_Reconcile jf R) ts (queue_Add nn NewRateLimitingQueue, w) = Some (q, v)"
    "attended (ReconcileCanary_Reconcile jf R) us (q, v') = Some (q', u)" "pending q' = {nn}"
proof -
  have last: "last ts \<in> set ts" using times(2) by simp
  have first: "\<forall>t\<in>set ts. Min (set ts) \<le> t" by simp
  have apart: "five_apart ts" "five_apart us" "\<forall>t\<in>set us. last ts + 5 * Second \<le> t"
    using times(1) last by (simp_all add: sorted_wrt_append)
  obtain q where q: "attended (ReconcileCanary_Reconcile jf R) ts (queue_Add nn NewRateLimitingQueue, w) = Some (q, v)"
    "only nn (last ts + 5 * Second) q"
    using attended_turns [OF only_new first apart(1) turns(1)] times(2) by auto
  obtain q' where "attended (ReconcileCanary_Reconcile jf R) us (q, v') = Some (q', u)" "only nn (last us + 5 * Second) q'"
    using attended_turns [OF q(2) apart(3,2) turns(2)] times(3) by auto
  from q(1) this(1) only_pending [OF this(2)] show ?thesis by (rule that)
qed

end
