(* ===== verification/UnknownMode.thy ===== *)
theory UnknownMode
  imports DeployProps RunResults WorkQueue
begin

text \<open>
  A policy whose baseline mode is not one of the two known ones, and what it does to the manager:
  every run for its deployment panics, and so does every run after a restart.
\<close>

text \<open>A canary deployment that is ready for provisioning but for the mode of its policy.\<close>

definition crashing :: "Cluster \<Rightarrow> Deployment \<Rightarrow> CanaryPolicy \<Rightarrow> Deployment \<Rightarrow> bool" where
  "crashing w c p base \<longleftrightarrow>
     consistent w \<and> deployment_name c \<noteq> [] \<and> deployment_namespace c \<noteq> [] \<and>
     find_key dp_Meta (cl_deployments w) (metaKey (dp_Meta c)) = Some c \<and>
     template_labels (dp_Spec c) \<noteq> None \<and> policy_label c \<noteq> [] \<and>
     find_key cpo_Meta (cl_policies w)
       \<lparr>nn_Namespace = deployment_namespace c, nn_Name = policy_label c\<rparr> = Some p \<and>
     (\<exists>s. cps_BaselineMode (cpo_Spec p) = BaselineModeOther s) \<and>
     cps_Base (cpo_Spec p) \<noteq> [] \<and> cps_Base (cpo_Spec p) \<noteq> deployment_name c \<and>
     find_key dp_Meta (cl_deployments w)
       \<lparr>nn_Namespace = deployment_namespace c, nn_Name = cps_Base (cpo_Spec p)\<rparr> = Some base \<and>
     find_key dp_Meta (cl_deployments w)
       \<lparr>nn_Namespace = deployment_namespace c, nn_Name = MakeBaselineName c\<rparr> = None"

lemma crashing_policy_key:
  "crashing w c p base \<Longrightarrow> om_Namespace (cpo_Meta p) = deployment_namespace c"
  by (auto simp: crashing_def metaKey_def dest!: find_key_in)

text \<open>The service is there, or it is created.\<close>

lemma service_passes:
  assumes R: "client R = fakeClient" "scheme R OwnerDeployment = Inr g" and w: "consistent w"
    and k: "deployment_namespace c \<noteq> []" and p: "om_Namespace (cpo_Meta p) = deployment_namespace c"
  obtains svc p' ss where "reconcileCanaryService R (\<lparr>me_instance = c, me_policy = p\<rparr>, w)
      = (Ok svc, (\<lparr>me_instance = c, me_policy = p'\<rparr>, w\<lparr>cl_services := ss\<rparr>))"
    "p' \<in> {p, default_ports p}" "consistent (w\<lparr>cl_services := ss\<rparr>)"
proof (cases "find_key svc_Meta (cl_services w) \<lparr>nn_Namespace = deployment_namespace c, nn_Name = MakeCanaryServiceName p c\<rparr>")
  case None
  then have "consistent (w\<lparr>cl_services := cl_services w @ [provisioned_service g p c]\<rparr>)"
    using w by (simp add: tracker_simps)
  with run_service [OF R(1) w, of "\<lparr>me_instance = c, me_policy = p\<rparr>" g] None k p R(2) show ?thesis
    by (intro that [of "provisioned_service g p c" "default_ports p" "cl_services w @ [provisioned_service g p c]"]) auto
next
  case (Some svc)
  moreover have "MakeCanaryServiceName p c \<noteq> []" by (simp add: MakeCanaryServiceName_def)
  ultimately have "reconcileCanaryService R (\<lparr>me_instance = c, me_policy = p\<rparr>, w)
      = (Ok svc, (\<lparr>me_instance = c, me_policy = p\<rparr>, w))"
    using R w k p by (simp add: reconcileCanaryService_def get_or_create_def run_simps fake_calls tracker_simps)
  with w show ?thesis by (intro that [of svc p "cl_services w"]) simp_all
qed

text \<open>The run panics, and the cluster it leaves is as bad as before.\<close>

lemma crashing_kept:
  assumes cr: "crashing w c p base"
    and w': "w' = w\<lparr>cl_deployments := put_at dp_Meta (prepared_instance p c) (cl_deployments w), cl_services := ss\<rparr>"
    and cons: "consistent w'"
  shows "crashing w' (prepared_instance p c) p base"
proof -
  note cr' = cr [unfolded crashing_def]
  have keys: "metaKey (dp_Meta c) \<noteq> \<lparr>nn_Namespace = deployment_namespace c, nn_Name = MakeBaselineName c\<rparr>"
    "metaKey (dp_Meta c) \<noteq> \<lparr>nn_Namespace = deployment_namespace c, nn_Name = cps_Base (cpo_Spec p)\<rparr>"
    using cr' baseline_name_fresh [of c] by (auto simp: metaKey_def)
  have "template_labels (dp_Spec (prepared_instance p c)) \<noteq> None"
    using cr' by (auto simp: prepared_instance_def labelled_instance_def)
  with cr' cons keys show ?thesis by (simp add: crashing_def w' tracker_simps)
qed

lemma crashing_run:
  assumes cr: "crashing w c p base"
  obtains ss where "ReconcileDeployment_Reconcile \<lparr>client = fakeClient, scheme = kraneScheme\<rparr> (metaKey (dp_Meta c)) w
     = (Panic NilDereference, w\<lparr>cl_deployments := put_at dp_Meta (prepared_instance p c) (cl_deployments w), cl_services := ss\<rparr>)"
    "consistent (w\<lparr>cl_deployments := put_at dp_Meta (prepared_instance p c) (cl_deployments w), cl_services := ss\<rparr>)"
proof -
  let ?R = "\<lparr>client = fakeClient, scheme = kraneScheme\<rparr>" and ?c1 = "prepared_instance p c"
  let ?w1 = "w\<lparr>cl_deployments := put_at dp_Meta (named_instance p c) (cl_deployments w)\<rparr>"
    and ?w2 = "w\<lparr>cl_deployments := put_at dp_Meta ?c1 (cl_deployments w)\<rparr>"
  note cr' = cr [unfolded crashing_def]
  obtain t where t: "template_labels (dp_Spec c) = Some t" using cr' by blast
  have keys: "metaKey (dp_Meta c) \<noteq> \<lparr>nn_Namespace = deployment_namespace c, nn_Name = MakeBaselineName c\<rparr>"
    "metaKey (dp_Meta c) \<noteq> \<lparr>nn_Namespace = deployment_namespace c, nn_Name = cps_Base (cpo_Spec p)\<rparr>"
    using cr' baseline_name_fresh [of c] by (auto simp: metaKey_def)
  have cons: "consistent ?w1" "consistent ?w2" using cr' by (simp_all add: tracker_simps)
  have pol: "ReconcileDeployment_GetCanaryPolicy ?R (named_instance p c) ((), ?w1) = (Ok p, ((), ?w1))"
    using cr' cons
    by (simp add: ReconcileDeployment_GetCanaryPolicy_def GetCanaryPolicyName_def run_simps fake_calls tracker_simps)
  have rec: "ReconcileDeployment_reconcile ?R (metaKey (dp_Meta c)) ((), w) = (Ok (named_instance p c), ((), ?w1))"
    using cr' run_reconcile [of ?R w c p "()"] by simp
  have dep: "reconcileCanaryDeployment ?R (\<lparr>me_instance = named_instance p c, me_policy = p\<rparr>, ?w1)
    = (Ok (), (\<lparr>me_instance = ?c1, me_policy = p\<rparr>, ?w2))"
    using run_deployment [of ?R ?w1 "\<lparr>me_instance = named_instance p c, me_policy = p\<rparr>" t] cons(1) cr' t
    by (simp add: tracker_simps put_at_put_at prepared_instance_def)
  obtain gd where gd: "kraneScheme OwnerDeployment = Inr gd" by simp
  obtain svc p' ss where svc: "reconcileCanaryService ?R (\<lparr>me_instance = ?c1, me_policy = p\<rparr>, ?w2)
      = (Ok svc, (\<lparr>me_instance = ?c1, me_policy = p'\<rparr>, ?w2\<lparr>cl_services := ss\<rparr>))"
    "p' \<in> {p, default_ports p}" "consistent (?w2\<lparr>cl_services := ss\<rparr>)"
    using service_passes [of ?R gd ?w2 ?c1 p] gd cons(2) cr' crashing_policy_key [OF cr] by auto
  obtain s where mode: "cps_BaselineMode (cpo_Spec p) = BaselineModeOther s" using cr' by blast
  have "reconcileBaseline ?R (\<lparr>me_instance = ?c1, me_policy = p'\<rparr>, ?w2\<lparr>cl_services := ss\<rparr>)
      = (Panic NilDereference, (\<lparr>me_instance = ?c1, me_policy = p'\<rparr>, ?w2\<lparr>cl_services := ss\<rparr>))"
    by (rule unknown_mode_run [where s = s and base = base and ?w1.0 = "?w2\<lparr>cl_services := ss\<rparr>"
          and e = "NewNotFound ''deployments.apps'' (MakeBaselineName c)"])
       (use svc(2,3) mode cr' keys in \<open>auto simp: fake_calls tracker_simps default_ports_def\<close>)
  with dep svc(1) have st: "reconcileSteps ?R (\<lparr>me_instance = named_instance p c, me_policy = p\<rparr>, ?w1)
      = (Panic NilDereference, (\<lparr>me_instance = ?c1, me_policy = p'\<rparr>, ?w2\<lparr>cl_services := ss\<rparr>))"
    by (simp add: reconcileSteps_def orFallback_def run_simps)
  show ?thesis
    by (rule that [of ss]) (use svc(3) in \<open>simp_all add: ReconcileDeployment_Reconcile_def run_simps rec pol st\<close>)
qed

subsection \<open>Restarts\<close>

text \<open>
  Kubernetes starts a manager that has crashed again, with an empty queue; the deployment is listed
  again and becomes a request.
\<close>

primrec crash_loop :: "('a \<Rightarrow> ('w, Result \<times> error option) prog) \<Rightarrow> 'a \<Rightarrow> nat \<Rightarrow> 'w \<Rightarrow> 'w option" where
  "crash_loop run req 0 w = Some w"
| "crash_loop run req (Suc n) w =
     (case processNextWorkItem run 0 0 (queue_Add req NewRateLimitingQueue, w) of
        (Crashed, (q, w')) \<Rightarrow> crash_loop run req n w'
      | _ \<Rightarrow> None)"

lemma panic_crashes:
  "run req w = (Panic e, w') \<Longrightarrow> crash_loop run req (Suc n) w = crash_loop run req n w'"
  by (simp add: processNextWorkItem_def queue_Get_def queue_Add_def NewRateLimitingQueue_def requeue_def)

lemma crashing_loops:
  assumes "crashing w c p base" and nn: "nn = metaKey (dp_Meta c)"
  obtains w' c' where "crash_loop (ReconcileDeployment_Reconcile \<lparr>client = fakeClient, scheme = kraneScheme\<rparr>) nn n w = Some w'"
    "crashing w' c' p base" "metaKey (dp_Meta c') = nn" "cl_canaries w' = cl_canaries w"
proof -
  have "\<exists>w' c'. crash_loop (ReconcileDeployment_Reconcile \<lparr>client = fakeClient, scheme = kraneScheme\<rparr>) nn n w = Some w' \<and>
      crashing w' c' p base \<and> metaKey (dp_Meta c') = nn \<and> cl_canaries w' = cl_canaries w"
    using assms
  proof (induction n arbitrary: w c)
    case 0
    then show ?case by auto
  next
    case (Suc n)
    let ?w1 = "\<lambda>ss. w\<lparr>cl_deployments := put_at dp_Meta (prepared_instance p c) (cl_deployments w), cl_services := ss\<rparr>"
    obtain ss where "ReconcileDeployment_Reconcile \<lparr>client = fakeClient, scheme = kraneScheme\<rparr> nn w = (Panic NilDereference, ?w1 ss)"
      and w1: "consistent (?w1 ss)"
      using crashing_run [OF Suc.prems(1)] Suc.prems(2) by metis
    from panic_crashes [of "ReconcileDeployment_Reconcile \<lparr>client = fakeClient, scheme = kraneScheme\<rparr>", OF this(1)]
      Suc.IH [OF crashing_kept [OF Suc.prems(1) refl w1]] Suc.prems(2)
    show ?case by simp
  qed
  then show ?thesis using that by blast
qed

end
