(* ===== verification/Requests.thy ===== *)
theory Requests
  imports Workers UnknownMode Manager DemoCluster
begin

text \<open>
  What becomes of the requests of the two controllers: the promises of the queue, the retries of
  canaries, and the two cases in which the deployment controller lets a request go.
\<close>

text \<open>
  C24. The work queue keeps its promises through every history of additions, delayed additions,
  hand-outs, releases and ticks of the clock: what is in line is handed out in order and before
  all that joins later; what is added is handed out or still pending; nothing is handed out while
  a worker has it; and what is pending is in line, or with a worker, once the waiting loop has
  gone round after its time.
\<close>

theorem work_queue_promises:
  assumes "queue_inv q" and "queue_history ops q = (q', out)"
  shows "(\<exists>zs. out @ wq_queue q' = wq_queue q @ zs) \<and>
    (x \<in> pending q \<or> OpAdd x \<in> set ops \<or> (\<exists>now d. OpLater now d x \<in> set ops) \<longrightarrow> x \<in> pending q' \<union> set out) \<and>
    (take_item q' = Some (y, q'') \<longrightarrow> y \<notin> wq_processing q') \<and>
    (x \<in> pending q' \<and> (\<forall>e\<in>set (dq_waitingForAdd q' @ dq_waiting q'). snd e \<le> now) \<longrightarrow>
      x \<in> set (wq_queue (loop_ready now (loop_drain now q'))) \<union> wq_processing q')"
proof -
  note run = rate_queue.run_in_order [OF assms(1), of ops] rate_queue.run_serves [OF assms(1), of ops]
    rate_queue.run_served [OF assms(1), of x ops] rate_queue.no_two_workers [OF assms(1), of ops y q'']
    rate_queue.run_inv [OF assms(1), of ops]
  have h: "history wq_processing queue_Add take_item queue_Done queue_AddAfter queue_tick ops q = (q', out)"
    using assms(2) by (simp add: queue_history_def)
  note run = run [unfolded h fst_conv snd_conv]
  show ?thesis using run(1-4) due_is_in_line [OF run(5), of x now] by blast
qed

theorem work_queue_promises_witness:
  "\<exists>q'. queue_history [OpAdd ''a'', OpAdd ''b'', OpTake, OpAdd ''a'', OpRelease ''a'', OpTake] (NewRateLimitingQueue :: string rateLimitingType)
      = (q', [''a'', ''b'']) \<and> ''a'' \<in> pending q' \<union> {''a'', ''b''} \<and> wq_queue q' = [''a'']"
proof -
  let ?ops = "[OpAdd ''a'', OpAdd ''b'', OpTake, OpAdd ''a'', OpRelease ''a'', OpTake]"
  have "queue_inv (NewRateLimitingQueue :: string rateLimitingType)" by (simp add: queue_inv_def NewRateLimitingQueue_def)
  moreover have "\<exists>q'. queue_history ?ops (NewRateLimitingQueue :: string rateLimitingType) = (q', [''a'', ''b'']) \<and> wq_queue q' = [''a'']"
    by (simp add: queue_history_def NewRateLimitingQueue_def queue_Add_def take_item_def queue_Get_def queue_Done_def)
  ultimately show ?thesis using work_queue_promises [of NewRateLimitingQueue ?ops _ _ "''a''"] by fastforce
qed

text \<open>
  A process that starts gets a creation event for every object its informers list, and the
  watches of the canary controller make requests of them. (Objects of a server have names.)
\<close>

definition initial_requests :: "Cluster \<Rightarrow> NamespacedName list" where
  "initial_requests w =
     concat (map (\<lambda>c. controller_requests kraneScheme canary_watches WatchCanary (CreateEvent (cn_Meta c))) (cl_canaries w)) @
     concat (map (\<lambda>pod. controller_requests kraneScheme canary_watches WatchPod (CreateEvent (pod_Meta pod))) (cl_pods w))"

definition canary_restart :: "Cluster \<Rightarrow> NamespacedName rateLimitingType" where
  "canary_restart w = fold queue_Add (filter nonempty_key (initial_requests w)) NewRateLimitingQueue"

lemma fold_Add:
  "queue_inv q \<Longrightarrow> queue_inv (fold queue_Add xs q) \<and> wq_processing (fold queue_Add xs q) = wq_processing q \<and>
     pending (fold queue_Add xs q) = set xs \<union> pending q"
  by (induction xs arbitrary: q) (auto simp: queue_Add_inv queue_Add_pending)

lemma canary_restart_queue:
  "queue_inv (canary_restart w)" "wq_processing (canary_restart w) = {}"
  "pending (canary_restart w) = {nn \<in> set (initial_requests w). nonempty_key nn}"
proof -
  have "queue_inv (NewRateLimitingQueue :: NamespacedName rateLimitingType)"
    "wq_processing (NewRateLimitingQueue :: NamespacedName rateLimitingType) = {}"
    "pending (NewRateLimitingQueue :: NamespacedName rateLimitingType) = {}"
    by (simp_all add: queue_inv_def NewRateLimitingQueue_def pending_def)
  with fold_Add [of NewRateLimitingQueue "filter nonempty_key (initial_requests w)"]
  show "queue_inv (canary_restart w)" "wq_processing (canary_restart w) = {}"
    "pending (canary_restart w) = {nn \<in> set (initial_requests w). nonempty_key nn}"
    by (auto simp: canary_restart_def)
qed

lemma canary_listed: "c \<in> set (cl_canaries w) \<Longrightarrow> metaKey (cn_Meta c) \<in> set (initial_requests w)"
  by (auto simp: initial_requests_def canary_watches_def)

interpretation canary_process: restarted_request nonempty_key "canary_answers jf" keeps_progress "canary_present nn" nn canary_restart
  for jf nn
proof unfold_locales
  fix w assume "canary_present nn w" "nonempty_key nn"
  then obtain c where "canary_at w nn = Some c" by (auto simp: canary_present_def)
  then have "metaKey (cn_Meta c) = nn" "c \<in> set (cl_canaries w)" by (auto dest: find_key_in)
  with \<open>nonempty_key nn\<close> canary_listed [of c w] show "nn \<in> pending (canary_restart w)"
    by (simp add: canary_restart_queue)
qed (simp_all add: canary_restart_queue)

text \<open>
  C11. A canary is never forgotten: its request stays in the queue or with the worker, whatever events
  come, whatever the runs answer, and however often the process ends, by a panic of a run or for another
  reason, and starts again. Between the calls of a run and between runs the others may do what leaves
  every canary there with its progress (and names unique), so everything but deleting canaries and
  moving them to other phases.
\<close>

theorem canary_never_forgotten:
  assumes "(process_step nonempty_key (canary_answers jf) keeps_progress canary_restart)\<^sup>*\<^sup>* s t"
    and "fit nonempty_key s" "canary_present nn (sy_world s)" "cared_for nn s"
  shows "cared_for nn t \<and> canary_present nn (sy_world t)"
proof -
  have "canary_request.kept nn s" using assms(2-4) by (simp add: canary_request.kept_def)
  from canary_process.kept_through [OF assms(1) this] show ?thesis by (simp add: canary_request.kept_def)
qed

text \<open>
  C17. How a request for a canary that is read is tried again, for every client: after a run without
  an error five seconds later; after an error not then, although the run asks for that, but
  after a backoff that grows with the errors this canary has ever had, since none of its runs makes
  the queue forget them.
\<close>

theorem canary_requests_return:
  assumes "queue_inv q" "take_item q = Some (nn, q1)"
    and "api_get (canaries (client R)) nn w = (Inr c, w0)"
    and "processNextWorkItem (ReconcileCanary_Reconcile jf R) now bucket (q, w) = (res, (q', w'))"
  shows "res = Crashed \<or> (\<exists>ok. res = Returned ok \<and> nn \<in> pending q' \<and> nn \<notin> wq_processing q' \<and>
    (nn, now + (if ok then 5 * Second else max (min (5 * Millisecond * 2 ^ rl_failures q nn) (1000 * Second)) bucket))
      \<in> set (dq_waitingForAdd q') \<and>
    rl_failures q' nn = (if ok then rl_failures q nn else rl_failures q nn + 1))"
proof -
  obtain r u where run: "ReconcileCanary_Reconcile jf R nn w = (r, u)" by (metis prod.collapse)
  have q1: "queue_inv q1" "nn \<in> wq_processing q1" and same: "rl_failures q1 = rl_failures q"
    using take_item_fields [OF assms(1,2)] assms(2) by (auto simp: queue_Get_Some)
  have sd: "\<not> wq_shuttingDown q1" using q1(1) by (simp add: queue_inv_def)
  have "retried r" using run_reads [OF assms(3), of jf] run by simp
  then consider "\<exists>e. r = Panic e"
    | d where "d > 0" "requeue now bucket nn r q1 = Some (True, queue_Done nn (queue_AddAfter now nn d q1))" "d = 5 * Second"
    | "requeue now bucket nn r q1 = Some (False, queue_Done nn (queue_AddRateLimited now bucket nn q1))"
    by (auto simp: retried_def requeue_def requeue_after_5s_def Second_def split: if_splits)
  then show ?thesis
  proof cases
    case 1
    then obtain e where "r = Panic e" ..
    then have "requeue now bucket nn r q1 = None" by (simp add: requeue_def)
    then show ?thesis using assms(4) run by (simp add: process_item [OF assms(2)])
  next
    case (2 d)
    then have "res = Returned True" "q' = queue_Done nn (queue_AddAfter now nn d q1)"
      using assms(4) run by (simp_all add: process_item [OF assms(2)])
    then show ?thesis
      using 2(1,3) sd same by (intro disjI2 exI [of _ True]) (simp add: queue_AddAfter_def pending_def)
  next
    case 3
    then have "res = Returned False" "q' = queue_Done nn (queue_AddRateLimited now bucket nn q1)"
      using assms(4) run by (simp_all add: process_item [OF assms(2)])
    then show ?thesis
      using sd same by (intro disjI2 exI [of _ False]) (simp add: AddRateLimited_entry pending_def)
  qed
qed

text \<open>
  C18. A canary deployment whose policy does not exist (yet) is given up: the run ends without error
  and the request leaves the queue, its failures forgotten. Whatever happens later, the creation of
  the policy included, the deployment is not looked at again until an event of its own.
\<close>

theorem missing_policy_is_forgotten:
  assumes "api_get (deployments (client R)) nn w = (Inr d, w1)"
    and "api_get (policies (client R)) \<lparr>nn_Namespace = deployment_namespace d, nn_Name = GetCanaryPolicyName d\<rparr> w1 = (Inl e, w2)"
    and "IsNotFound e"
    and "queue_inv q" "wq_processing q = {}" "take_item q = Some (nn, q1)"
    and "nn \<notin> fst ` set (dq_waitingForAdd q @ dq_waiting q)"
  shows "\<exists>q'. processNextWorkItem (ReconcileDeployment_Reconcile R) now bucket (q, w) = (Returned True, (q', w2)) \<and>
    rl_failures q' nn = 0 \<and> pending q' = pending q - {nn} \<and>
    (\<forall>t. worker_reaches (\<lambda>req. req \<noteq> nn) runs others \<lparr>sy_queue = q', sy_world = w2, sy_held = None\<rparr> t \<longrightarrow> \<not> cared_for nn t)"
proof -
  let ?q = "queue_Done nn (queue_Forget nn q1)"
  note f = take_item_fields [OF assms(4,6)]
  have "processNextWorkItem (ReconcileDeployment_Reconcile R) now bucket (q, w) = (Returned True, (?q, w2))"
    using missing_policy_run [OF assms(1-3)] by (simp add: process_item [OF assms(6)] requeue_def noResult_def)
  moreover have same: "dq_waitingForAdd q1 = dq_waitingForAdd q" "dq_waiting q1 = dq_waiting q"
    using assms(6) by (auto simp: queue_Get_Some)
  have "pending q1 = pending q - {nn}" using assms(7) f(6) same by (auto simp: pending_def)
  then have pend: "pending ?q = pending q - {nn}" by simp
  moreover have "queue_inv ?q" using f(1,3) queue_Done_inv [of "queue_Forget nn q1" nn] by simp
  then have fit: "fit (\<lambda>req. req \<noteq> nn) \<lparr>sy_queue = ?q, sy_world = w2, sy_held = None\<rparr>"
    using pend f(3) assms(5) by (simp add: fit_def)
  moreover have "rl_failures ?q nn = 0" by (simp add: queue_Forget_def)
  ultimately show ?thesis using not_cared_for [OF _ fit] by (intro exI [of _ ?q] conjI allI impI)
qed

text \<open>
  C19. A policy with a baseline mode other than the two known ones and the empty one brings the whole
  manager down: the run for a deployment with this policy panics when it builds the baseline, the
  process ends, and it ends again in the same place after every restart.
\<close>

theorem unknown_mode_crashes_again:
  assumes "crashing w c p base"
  shows "\<exists>w'. crash_loop (ReconcileDeployment_Reconcile inMemory) (metaKey (dp_Meta c)) n w = Some w' \<and>
    cl_canaries w' = cl_canaries w"
  using crashing_loops [OF assms refl, of n] by metis

subsection \<open>Witnesses\<close>

definition demo_request :: NamespacedName where
  "demo_request = \<lparr>nn_Namespace = ''ns'', nn_Name = ''app-canary''\<rparr>"

text \<open>A queue with one request.\<close>

abbreviation queue_of :: "NamespacedName \<Rightarrow> NamespacedName rateLimitingType" where
  "queue_of nn \<equiv> queue_Add nn NewRateLimitingQueue"

lemma queue_of_simps [simp]:
  "queue_inv (queue_of nn)" "wq_processing (queue_of nn) = {}" "dq_waitingForAdd (queue_of nn) = []"
  "dq_waiting (queue_of nn) = []" "rl_failures (queue_of nn) = (\<lambda>_. 0)" "pending (queue_of nn) = {nn}"
  by (simp_all add: queue_inv_def queue_Add_def NewRateLimitingQueue_def pending_def)

lemma queue_of_take: "\<exists>q1. take_item (queue_of nn) = Some (nn, q1)"
  by (simp add: queue_Get_Some queue_Add_def NewRateLimitingQueue_def)

text \<open>The worker takes the request, the process dies, and the next one has the request again.\<close>

theorem canary_never_forgotten_witness:
  "\<exists>s t. (process_step nonempty_key (canary_answers (\<lambda>_. None)) keeps_progress canary_restart)\<^sup>*\<^sup>*
      \<lparr>sy_queue = queue_of (metaKey (cn_Meta demo_canary)), sy_world = demo_running, sy_held = None\<rparr> s \<and>
    sy_held s = Some (metaKey (cn_Meta demo_canary)) \<and>
    process_step nonempty_key (canary_answers (\<lambda>_. None)) keeps_progress canary_restart s t \<and>
    sy_held t = None \<and> metaKey (cn_Meta demo_canary) \<in> pending (sy_queue t)"
proof -
  let ?nn = "metaKey (cn_Meta demo_canary)"
  let ?step = "process_step nonempty_key (canary_answers (\<lambda>_. None)) keeps_progress canary_restart"
  let ?s = "\<lparr>sy_queue = queue_of ?nn, sy_world = demo_running, sy_held = None\<rparr>"
  obtain q1 where q1: "take_item (queue_of ?nn) = Some (?nn, q1)" using queue_of_take by blast
  let ?t = "?s\<lparr>sy_queue := q1, sy_held := Some ?nn\<rparr>"
  let ?u = "\<lparr>sy_queue = canary_restart demo_running, sy_world = demo_running, sy_held = None\<rparr>"
  have present: "canary_present ?nn demo_running" using demo_tracked by (simp add: canary_present_def tracked_def)
  have start: "?step ?s ?t" by (rule process_step.works, rule worker_step.start) (simp_all add: q1)
  have "keeps_progress demo_running demo_running"
    using present by (simp add: keeps_progress_def canary_present_def)
  then have die: "?step ?t ?u" using process_step.dies [where s = ?t] by simp
  have reach: "?step\<^sup>*\<^sup>* ?s ?u" using start die by (rule converse_rtranclp_into_rtranclp [OF _ r_into_rtranclp])
  have "nonempty_key ?nn" by (simp add: nonempty_key_def demo_meta)
  moreover have "wq_processing (NewRateLimitingQueue :: NamespacedName rateLimitingType) = {}"
    by (simp add: NewRateLimitingQueue_def)
  ultimately have "cared_for ?nn ?u"
    using canary_never_forgotten [OF reach, of ?nn] present by (simp add: fit_def cared_for_def)
  then show ?thesis
    using start die by (intro exI [of _ ?t] exI [of _ ?u]) (auto simp: cared_for_def)
qed

lemma demo_turn: "\<exists>w'. turn (\<lambda>_. None) inMemory (metaKey (cn_Meta demo_canary)) demo_running = Some w'"
proof -
  obtain tp jp where pods: "CreateTestJob inMemory demo_canary demo_policy = Ok tp"
    "CreateJudgeJob (\<lambda>_. None) inMemory demo_canary demo_policy = Ok jp"
    using krane.created_jobs by blast
  have "\<exists>v. turns (\<lambda>_. None) inMemory (metaKey (cn_Meta demo_canary)) 3 demo_running = Some v"
    using krane.life_to_jobs [OF demo_startable refl pods] by blast
  then obtain v where "turns (\<lambda>_. None) inMemory (metaKey (cn_Meta demo_canary)) (Suc 2) demo_running = Some v"
    by (auto simp only: eval_nat_numeral)
  then show ?thesis by (simp only: turns.simps) (cases "turn (\<lambda>_. None) inMemory (metaKey (cn_Meta demo_canary)) demo_running"; simp)
qed

theorem canary_requests_return_witness:
  "\<exists>q' w'. processNextWorkItem (ReconcileCanary_Reconcile (\<lambda>_. None) inMemory) 7 0 (queue_of (metaKey (cn_Meta demo_canary)), demo_running)
      = (Returned True, (q', w')) \<and> (metaKey (cn_Meta demo_canary), 7 + 5 * Second) \<in> set (dq_waitingForAdd q')"
proof -
  let ?nn = "metaKey (cn_Meta demo_canary)" and ?run = "ReconcileCanary_Reconcile (\<lambda>_. None) inMemory"
  obtain q1 where q1: "take_item (queue_of ?nn) = Some (?nn, q1)" using queue_of_take by blast
  obtain w' where "turn (\<lambda>_. None) inMemory ?nn demo_running = Some w'"
    using demo_turn by blast
  then obtain q' where go: "processNextWorkItem ?run 7 0 (queue_of ?nn, demo_running) = (Returned True, (q', w'))"
    by (auto simp: process_item [OF q1] turn_run requeue_def requeue_after_5s_def Second_def)
  have "api_get (canaries (client inMemory)) ?nn demo_running = (Inr demo_canary, demo_running)"
    using demo_tracked by (simp add: tracked_def canary_store.fake_get consistent_keys)
  from canary_requests_return [OF _ q1 this go] go show ?thesis by auto
qed

theorem missing_policy_is_forgotten_witness:
  "\<exists>q'. processNextWorkItem (ReconcileDeployment_Reconcile inMemory) 0 0 (queue_of demo_request, demo_cluster\<lparr>cl_policies := []\<rparr>)
     = (Returned True, (q', demo_cluster\<lparr>cl_policies := []\<rparr>)) \<and> pending q' = {}"
proof -
  obtain q1 where q1: "take_item (queue_of demo_request) = Some (demo_request, q1)" using queue_of_take by blast
  have empty: "wq_processing (queue_of demo_request) = {}"
    "demo_request \<notin> fst ` set (dq_waitingForAdd (queue_of demo_request) @ dq_waiting (queue_of demo_request))"
    by (simp_all only: queue_of_simps) simp
  have "\<exists>q'. processNextWorkItem (ReconcileDeployment_Reconcile inMemory) 0 0 (queue_of demo_request, demo_cluster\<lparr>cl_policies := []\<rparr>)
     = (Returned True, (q', demo_cluster\<lparr>cl_policies := []\<rparr>)) \<and> rl_failures q' demo_request = 0 \<and>
    pending q' = pending (queue_of demo_request) - {demo_request} \<and>
    (\<forall>t. worker_reaches (\<lambda>req. req \<noteq> demo_request) (\<lambda>_ _ _ _. False) (\<lambda>_ _. True)
       \<lparr>sy_queue = q', sy_world = demo_cluster\<lparr>cl_policies := []\<rparr>, sy_held = None\<rparr> t \<longrightarrow> \<not> cared_for demo_request t)"
    by (rule missing_policy_is_forgotten [where d = demo_deployment and ?w1.0 = "demo_cluster\<lparr>cl_policies := []\<rparr>"
        and e = "NewNotFound ''canarypolicies.krane.sh'' ''pol''", OF _ _ _ queue_of_simps(1) empty(1) q1 empty(2)])
     (simp_all add: demo_request_def fake_api_def tracker_Get_def filterByNamespaceAndName_def demo_cluster_def demo_base_def demo_meta
        GetCanaryPolicyName_def)
  then show ?thesis by auto
qed

definition demo_odd_policy :: CanaryPolicy where
  "demo_odd_policy = demo_policy\<lparr>cpo_Spec := (cpo_Spec demo_policy)\<lparr>cps_BaselineMode := BaselineModeOther ''new''\<rparr>\<rparr>"

lemma demo_crashing: "crashing (demo_cluster\<lparr>cl_policies := [demo_odd_policy]\<rparr>) demo_deployment demo_odd_policy demo_base"
proof -
  have "cpo_Meta demo_odd_policy = mkMeta ''pol'' ''ns'' None" "cps_Base (cpo_Spec demo_odd_policy) = ''app''"
    "cps_BaselineMode (cpo_Spec demo_odd_policy) = BaselineModeOther ''new''"
    by (simp_all add: demo_odd_policy_def demo_meta) (simp_all add: demo_policy_def)
  moreover have "template_labels (dp_Spec demo_deployment) \<noteq> None" by (simp add: demo_deployment_def demo_template_def)
  moreover have "consistent (demo_cluster\<lparr>cl_policies := [demo_odd_policy]\<rparr>)"
    by (simp add: consistent_def demo_cluster_def demo_base_def demo_deployment_def keys_def)
  moreover have "cl_deployments demo_cluster = [demo_base, demo_deployment]" "dp_Meta demo_base = mkMeta ''app'' ''ns'' None"
    by (simp_all add: demo_cluster_def demo_base_def)
  ultimately show ?thesis by (simp add: crashing_def demo_names demo_meta)
qed

theorem unknown_mode_crashes_again_witness:
  "\<exists>w'. crash_loop (ReconcileDeployment_Reconcile inMemory) demo_request 3 (demo_cluster\<lparr>cl_policies := [demo_odd_policy]\<rparr>) = Some w' \<and>
     cl_canaries w' = []"
  using unknown_mode_crashes_again [OF demo_crashing, of 3]
  by (auto simp: demo_request_def demo_meta metaKey_def) (simp add: demo_cluster_def)

end
