(* ===== verification/Footprint.thy ===== *)
theory Footprint
  imports KraneSystem CanaryLife
begin

text \<open>
  What a run of the canary controller depends on: its canary, the policy and the virtual service
  that it names, its two deployments and its two pods. In two clusters that agree on these a run
  gives the same answer and leaves clusters that agree on them, also when others change the rest of
  the second one between any two calls.
\<close>

subsection \<open>Two runs with the same memory\<close>

text \<open>\<open>I\<close> holds of the memory, \<open>S\<close> relates the worlds, \<open>Q\<close> holds of a result.\<close>

definition sim :: "('m \<Rightarrow> bool) \<Rightarrow> ('w \<Rightarrow> 'v \<Rightarrow> bool) \<Rightarrow> ('a \<Rightarrow> bool) \<Rightarrow> ('m \<times> 'w, 'a) prog \<Rightarrow> ('m \<times> 'v, 'a) prog \<Rightarrow> bool" where
  "sim I S Q p q \<longleftrightarrow> (\<forall>m w v. I m \<longrightarrow> S w v \<longrightarrow> (\<exists>r m' w' v'.
     p (m, w) = (r, (m', w')) \<and> q (m, v) = (r, (m', v')) \<and> I m' \<and> S w' v' \<and> (\<forall>x. r = Ok x \<longrightarrow> Q x)))"

definition calls_sim :: "('w \<Rightarrow> 'v \<Rightarrow> bool) \<Rightarrow> ('a \<Rightarrow> bool) \<Rightarrow> ('w \<Rightarrow> (error + 'a) \<times> 'w) \<Rightarrow> ('v \<Rightarrow> (error + 'a) \<times> 'v) \<Rightarrow> bool" where
  "calls_sim S Q f g \<longleftrightarrow> (\<forall>w v. S w v \<longrightarrow> (\<exists>r w' v'.
     f w = (r, w') \<and> g v = (r, v') \<and> S w' v' \<and> (\<forall>x. r = Inr x \<longrightarrow> Q x)))"

lemma simE:
  assumes "sim I S Q p q" "I m" "S w v"
  obtains r m' w' v' where "p (m, w) = (r, (m', w'))" "q (m, v) = (r, (m', v'))" "I m'" "S w' v'" "\<forall>x. r = Ok x \<longrightarrow> Q x"
  using assms unfolding sim_def by blast

lemma sim_any: "sim I S Q p q \<Longrightarrow> (\<And>x. Q x \<Longrightarrow> Q' x) \<Longrightarrow> sim I S Q' p q"
  unfolding sim_def by metis

lemma sim_ret: "Q x \<Longrightarrow> sim I S Q (retP x) (retP x)"
  by (simp add: sim_def run_prog)

lemma sim_err: "sim I S Q (errP e) (errP e)"
  by (simp add: sim_def run_prog)

lemma sim_lift: "(\<And>x. r = Ok x \<Longrightarrow> Q x) \<Longrightarrow> sim I S Q (liftP r) (liftP r)"
  by (auto simp: sim_def run_prog)

lemma sim_mem: "(\<And>m. I m \<Longrightarrow> I (f m)) \<Longrightarrow> sim I S (\<lambda>_. True) (modmemP f) (modmemP f)"
  by (simp add: sim_def run_call)

lemma sim_bind:
  assumes p: "sim I S Q p q" and f: "\<And>x. Q x \<Longrightarrow> sim I S Q' (f x) (g x)"
  shows "sim I S Q' (bindP p f) (bindP q g)"
  unfolding sim_def
proof (intro allI impI)
  fix m w v assume "I m" "S w v"
  with p obtain r m' w' v' where 1: "p (m, w) = (r, (m', w'))" "q (m, v) = (r, (m', v'))" "I m'" "S w' v'" "\<forall>x. r = Ok x \<longrightarrow> Q x"
    by (rule simE)
  show "\<exists>r m' w' v'. bindP p f (m, w) = (r, (m', w')) \<and> bindP q g (m, v) = (r, (m', v')) \<and> I m' \<and> S w' v' \<and> (\<forall>x. r = Ok x \<longrightarrow> Q' x)"
  proof (cases r)
    case (Ok x)
    with 1 f [of x] show ?thesis by (simp add: run_prog sim_def)
  qed (use 1 in \<open>simp_all add: run_prog\<close>)
qed

lemma sim_bind_mem:
  "(\<And>m. I m \<Longrightarrow> sim I S Q (f m) (g m)) \<Longrightarrow> sim I S Q (bindP memP f) (bindP memP g)"
  by (simp add: sim_def run_prog run_call)

lemma sim_then: "sim I S (\<lambda>_. True) p q \<Longrightarrow> sim I S Q p' q' \<Longrightarrow> sim I S Q (thenP p p') (thenP q q')"
  unfolding thenP_def by (rule sim_bind)

lemma sim_if:
  "(b \<Longrightarrow> sim I S Q p q) \<Longrightarrow> (\<not> b \<Longrightarrow> sim I S Q p' q') \<Longrightarrow> sim I S Q (if b then p else p') (if b then q else q')"
  by simp

lemma sim_when: "sim I S (\<lambda>_. True) p q \<Longrightarrow> sim I S (\<lambda>_. True) (whenP b p) (whenP b q)"
  by (simp add: whenP_def sim_ret)

lemma sim_try: "sim I S Q p q \<Longrightarrow> sim I S (case_sum (\<lambda>_. True) Q) (tryP p) (tryP q)"
  unfolding sim_def
proof (intro allI impI)
  fix m w v assume "\<forall>m w v. I m \<longrightarrow> S w v \<longrightarrow> (\<exists>r m' w' v'. p (m, w) = (r, (m', w')) \<and> q (m, v) = (r, (m', v')) \<and>
      I m' \<and> S w' v' \<and> (\<forall>x. r = Ok x \<longrightarrow> Q x))" "I m" "S w v"
  then obtain r m' w' v' where 1: "p (m, w) = (r, (m', w'))" "q (m, v) = (r, (m', v'))" "I m'" "S w' v'" "\<forall>x. r = Ok x \<longrightarrow> Q x"
    by blast
  then show "\<exists>r m' w' v'. tryP p (m, w) = (r, (m', w')) \<and> tryP q (m, v) = (r, (m', v')) \<and> I m' \<and> S w' v' \<and>
      (\<forall>x. r = Ok x \<longrightarrow> case_sum (\<lambda>_. True) Q x)"
    by (cases r) (simp_all add: run_prog)
qed

lemma sim_call: "calls_sim S Q f g \<Longrightarrow> sim I S Q (callP f) (callP g)"
  unfolding sim_def
proof (intro allI impI)
  fix m w v assume "calls_sim S Q f g" "I m" "S w v"
  then obtain r w' v' where "f w = (r, w')" "g v = (r, v')" "S w' v'" "\<forall>x. r = Inr x \<longrightarrow> Q x"
    unfolding calls_sim_def by blast
  with \<open>I m\<close> show "\<exists>r m' w' v'. callP f (m, w) = (r, (m', w')) \<and> callP g (m, v) = (r, (m', v')) \<and> I m' \<and> S w' v' \<and> (\<forall>x. r = Ok x \<longrightarrow> Q x)"
    by (cases r) (simp_all add: run_call)
qed

lemma sim_case_sum:
  "(\<And>a. sim I S Q (f a) (f' a)) \<Longrightarrow> (\<And>b. P b \<Longrightarrow> sim I S Q (g b) (g' b)) \<Longrightarrow> case_sum (\<lambda>_. True) P r \<Longrightarrow>
   sim I S Q (case r of Inl a \<Rightarrow> f a | Inr b \<Rightarrow> g b) (case r of Inl a \<Rightarrow> f' a | Inr b \<Rightarrow> g' b)"
  by (cases r) simp_all

lemma sim_case_prod:
  "(\<And>a b. r = (a, b) \<Longrightarrow> sim I S Q (f a b) (f' a b)) \<Longrightarrow> sim I S Q (case r of (a, b) \<Rightarrow> f a b) (case r of (a, b) \<Rightarrow> f' a b)"
  by (cases r) simp

lemma sim_let_prod:
  "(\<And>a b. r = (a, b) \<Longrightarrow> sim I S Q (f a b) (f' a b)) \<Longrightarrow>
   sim I S Q (let (a, b) = r in f a b) (let (a, b) = r in f' a b)"
  by (cases r) simp

subsection \<open>Two clients that agree on some keys\<close>

definition api_agrees :: "('w \<Rightarrow> 'v \<Rightarrow> bool) \<Rightarrow> ('o \<Rightarrow> ObjectMeta) \<Rightarrow> NamespacedName set \<Rightarrow> ('o, 'w) api \<Rightarrow> ('o, 'v) api \<Rightarrow> bool" where
  "api_agrees S meta K A B \<longleftrightarrow>
     (\<forall>k\<in>K. calls_sim S (\<lambda>x. metaKey (meta x) = k) (api_get A k) (api_get B k)) \<and>
     (\<forall>x. metaKey (meta x) \<in> K \<longrightarrow>
        calls_sim S (\<lambda>x'. x' = x) (api_create A x) (api_create B x) \<and>
        calls_sim S (\<lambda>x'. x' = x) (api_update A x) (api_update B x) \<and>
        calls_sim S (\<lambda>x'. x' = x) (api_update_status A x) (api_update_status B x) \<and>
        calls_sim S (\<lambda>_. True) (api_delete A x) (api_delete B x))"

lemma sim_api:
  assumes "api_agrees S meta K A B"
  shows "k \<in> K \<Longrightarrow> sim I S (\<lambda>x. metaKey (meta x) = k) (callP (api_get A k)) (callP (api_get B k))"
    "metaKey (meta x) \<in> K \<Longrightarrow> sim I S (\<lambda>x'. x' = x) (callP (api_create A x)) (callP (api_create B x))"
    "metaKey (meta x) \<in> K \<Longrightarrow> sim I S (\<lambda>x'. x' = x) (callP (api_update A x)) (callP (api_update B x))"
    "metaKey (meta x) \<in> K \<Longrightarrow> sim I S (\<lambda>x'. x' = x) (callP (api_update_status A x)) (callP (api_update_status B x))"
    "metaKey (meta x) \<in> K \<Longrightarrow> sim I S (\<lambda>_. True) (callP (api_delete A x)) (callP (api_delete B x))"
  using assms by (auto simp: api_agrees_def intro!: sim_call)

text \<open>The keys of each kind that a controller may touch.\<close>

record footprint =
  fp_canaries :: "NamespacedName set"
  fp_policies :: "NamespacedName set"
  fp_deployments :: "NamespacedName set"
  fp_pods :: "NamespacedName set"
  fp_virtualservices :: "NamespacedName set"

text \<open>The objects that a canary names; \<open>okp\<close> is what is known of its policy.\<close>

definition covers :: "footprint \<Rightarrow> (CanaryPolicy \<Rightarrow> bool) \<Rightarrow> Canary \<Rightarrow> bool" where
  "covers F okp c \<longleftrightarrow>
     metaKey (cn_Meta c) \<in> fp_canaries F \<and>
     \<lparr>nn_Namespace = canary_namespace c, nn_Name = csp_Policy (cn_Spec c)\<rparr> \<in> fp_policies F \<and>
     \<lparr>nn_Namespace = canary_namespace c, nn_Name = csd_Canary (csp_Deployments (cn_Spec c))\<rparr> \<in> fp_deployments F \<and>
     \<lparr>nn_Namespace = canary_namespace c, nn_Name = csd_Baseline (csp_Deployments (cn_Spec c))\<rparr> \<in> fp_deployments F \<and>
     \<lparr>nn_Namespace = canary_namespace c, nn_Name = GetTestJobname c\<rparr> \<in> fp_pods F \<and>
     \<lparr>nn_Namespace = canary_namespace c, nn_Name = GetJudgeJobName c\<rparr> \<in> fp_pods F \<and>
     (\<forall>p. okp p \<longrightarrow> \<lparr>nn_Namespace = canary_namespace c, nn_Name = cps_VirtualService (cpo_Spec p)\<rparr> \<in> fp_virtualservices F)"

lemma covers_same: "sameness c d \<Longrightarrow> covers F okp c \<Longrightarrow> covers F okp d"
  by (simp add: covers_def sameness_fields)

locale footprint_clients =
  fixes S :: "'w \<Rightarrow> 'v \<Rightarrow> bool" and F :: footprint and okp :: "CanaryPolicy \<Rightarrow> bool" and C :: "'w Client" and D :: "'v Client"
  assumes canary_get: "k \<in> fp_canaries F \<Longrightarrow> calls_sim S (covers F okp) (api_get (canaries C) k) (api_get (canaries D) k)"
    and canary_put: "covers F okp c \<Longrightarrow>
      calls_sim S (covers F okp) (api_update_status (canaries C) c) (api_update_status (canaries D) c)"
    and policies_agree: "k \<in> fp_policies F \<Longrightarrow> calls_sim S okp (api_get (policies C) k) (api_get (policies D) k)"
    and deployments_agree: "api_agrees S dp_Meta (fp_deployments F) (deployments C) (deployments D)"
    and pods_agree: "api_agrees S pod_Meta (fp_pods F) (pods C) (pods D)"
    and virtualservices_agree: "api_agrees S vs_Meta (fp_virtualservices F) (virtualservices C) (virtualservices D)"

subsection \<open>Whole runs\<close>

context footprint_clients begin

abbreviation "csim \<equiv> sim (covers F okp) S"

abbreviation (input) "RC \<equiv> \<lparr>client = C, scheme = kraneScheme\<rparr>"
abbreviation (input) "RD \<equiv> \<lparr>client = D, scheme = kraneScheme\<rparr>"

lemma sim_policy: "csim okp (ReconcileCanary_GetCanaryPolicy RC) (ReconcileCanary_GetCanaryPolicy RD)"
  unfolding ReconcileCanary_GetCanaryPolicy_def Reconciler.select_convs
  by (intro sim_bind_mem sim_call policies_agree) (simp add: covers_def)

lemma sim_status:
  assumes "\<And>c. sameness c (f c)"
  shows "csim (\<lambda>_. True) (putStatus RC f) (putStatus RD f)"
proof -
  have "csim (\<lambda>_. True) (bindP (callP (api_update_status (canaries C) c)) (\<lambda>c'. modmemP (\<lambda>_. c')))
      (bindP (callP (api_update_status (canaries D) c)) (\<lambda>c'. modmemP (\<lambda>_. c')))" if "covers F okp c" for c
    by (rule sim_bind [OF sim_call [OF canary_put [OF that]]], rule sim_mem, assumption)
  then show ?thesis
    unfolding putStatus_def StatusUpdate_def Reconciler.select_convs
    using covers_same [OF assms] by (intro sim_then sim_mem sim_bind_mem)
qed

lemma sim_ignore: "csim (\<lambda>_. True) p q \<Longrightarrow> csim (\<lambda>_. True) (ignoreError p) (ignoreError q)"
  unfolding ignoreError_def by (rule sim_bind [OF sim_try]) (auto intro: sim_ret)

lemma sim_init: "csim (\<lambda>_. True) (reconcileCanaryAndBaseline RC) (reconcileCanaryAndBaseline RD)"
  unfolding reconcileCanaryAndBaseline_def Reconciler.select_convs
  by (intro sim_bind_mem sim_if sim_ret TrueI sim_bind [OF sim_api(1) [OF deployments_agree]] sim_status)
     (simp_all add: covers_def sameness_def)

lemma sim_goc:
  assumes "k \<in> fp_pods F" "\<And>job. build = Ok job \<Longrightarrow> metaKey (pod_Meta job) \<in> fp_pods F"
    and "\<And>job. csim (\<lambda>_. True) (f job) (g job)"
  shows "csim (\<lambda>_. True) (get_or_create (pods C) k (liftP build) f) (get_or_create (pods D) k (liftP build) g)"
proof -
  have "csim (\<lambda>_. True) (bindP (liftP build) (\<lambda>x. bindP (callP (api_create (pods C) x)) (\<lambda>x'. thenP (f x') (retP x'))))
      (bindP (liftP build) (\<lambda>x. bindP (callP (api_create (pods D) x)) (\<lambda>x'. thenP (g x') (retP x'))))"
    by (rule sim_bind [OF sim_lift [where Q = "\<lambda>x. build = Ok x"]], simp,
        rule sim_bind [OF sim_api(2) [OF pods_agree]], simp add: assms(2), intro sim_then assms(3) sim_ret TrueI)
  note create = this
  show ?thesis
    unfolding get_or_create_def
    by (rule sim_bind [OF sim_try [OF sim_api(1) [OF pods_agree assms(1)]]], rule sim_case_sum,
        intro sim_if sim_err create, rule sim_ret, rule TrueI, assumption)
qed

lemma same_updates [simp]:
  "sameness c (upd_testing f c)" "sameness c (upd_judging f c)" "sameness c (upd_canary f c)"
  "sameness c (upd_reporting f c)" "sameness c (upd_cleanup f c)" "sameness c (set_progress q c)"
  "sameness c (upd_initialization f c)"
  by (simp_all add: sameness_def)

lemma sim_report:
  "(\<And>c. sameness c (f c)) \<Longrightarrow>
   csim (\<lambda>_. True) (bindP memP (\<lambda>c. thenP (whenP (b c) (putStatus RC f)) (retP x)))
     (bindP memP (\<lambda>c. thenP (whenP (b c) (putStatus RD f)) (retP x)))"
  by (intro sim_bind_mem sim_then sim_when sim_status sim_ret TrueI)

lemma covers_pods:
  "covers F okp c \<Longrightarrow> \<lparr>nn_Namespace = canary_namespace c, nn_Name = GetTestJobname c\<rparr> \<in> fp_pods F"
  "covers F okp c \<Longrightarrow> \<lparr>nn_Namespace = canary_namespace c, nn_Name = GetJudgeJobName c\<rparr> \<in> fp_pods F"
  by (simp_all add: covers_def)

lemma sim_test: "csim (\<lambda>_. True) (reconcileTestJob RC) (reconcileTestJob RD)"
  unfolding reconcileTestJob_def jobs_by_scheme(1) [of C kraneScheme D] Reconciler.select_convs
  by (intro sim_bind_mem sim_if sim_ret TrueI sim_bind [OF sim_policy] sim_bind [OF sim_goc] sim_let_prod sim_report
      sim_status same_updates covers_pods) (simp_all add: created_job_key covers_pods)

lemma sim_judge: "csim (\<lambda>_. True) (reconcileJudgeJob jf RC) (reconcileJudgeJob jf RD)"
  unfolding reconcileJudgeJob_def jobs_by_scheme(2) [of jf C kraneScheme D] Reconciler.select_convs
  by (intro sim_bind_mem sim_if sim_ret TrueI sim_bind [OF sim_policy] sim_bind [OF sim_goc] sim_let_prod sim_report
      sim_status same_updates covers_pods) (simp_all add: created_job_key covers_pods)

text \<open>A virtual service keeps its key when its routes change.\<close>

lemma sim_put_routes:
  assumes "metaKey (vs_Meta vs) \<in> fp_virtualservices F" "\<And>x. csim (\<lambda>_. True) (g x) (h x)"
  shows "csim (\<lambda>_. True) (bindP (callP (api_update (virtualservices C) (upd_routes i f vs))) g)
    (bindP (callP (api_update (virtualservices D) (upd_routes i f vs))) h)"
  by (rule sim_bind [OF sim_api(3) [OF virtualservices_agree]]) (use assms in simp_all)

lemma sim_reporting: "csim (\<lambda>_. True) (reconcileReporting RC) (reconcileReporting RD)"
  unfolding reconcileReporting_def
  by (intro sim_bind_mem sim_if sim_ret TrueI sim_ignore sim_status same_updates)

text \<open>An object that is looked up and deleted when it is there.\<close>

lemma sim_delete:
  fixes A :: "('o, 'w) api"
  assumes "api_agrees S meta K A B" "k \<in> K"
  shows "csim (\<lambda>_. True)
    (bindP (tryP (callP (api_get A k))) (\<lambda>r. case r of Inl err \<Rightarrow> if IsNotFound err then retP () else errP err
       | Inr x \<Rightarrow> callP (api_delete A x)))
    (bindP (tryP (callP (api_get B k))) (\<lambda>r. case r of Inl err \<Rightarrow> if IsNotFound err then retP () else errP err
       | Inr x \<Rightarrow> callP (api_delete B x)))"
proof (rule sim_bind [OF sim_try [OF sim_api(1) [OF assms]]])
  fix r :: "error + 'o" assume "case_sum (\<lambda>_. True) (\<lambda>x. metaKey (meta x) = k) r"
  then show "csim (\<lambda>_. True)
      (case r of Inl err \<Rightarrow> if IsNotFound err then retP () else errP err | Inr x \<Rightarrow> callP (api_delete A x))
      (case r of Inl err \<Rightarrow> if IsNotFound err then retP () else errP err | Inr x \<Rightarrow> callP (api_delete B x))"
    using assms(2) by (cases r) (auto intro: sim_ret sim_err sim_api(5) [OF assms(1)])
qed

lemma sim_pod_cleanup:
  "\<lparr>nn_Namespace = ns, nn_Name = name\<rparr> \<in> fp_pods F \<Longrightarrow> csim (\<lambda>_. True) (cleanupPod RC name ns) (cleanupPod RD name ns)"
  unfolding cleanupPod_def Reconciler.select_convs by (rule sim_delete [OF pods_agree])

lemma sim_deployment_cleanup:
  "\<lparr>nn_Namespace = ns, nn_Name = name\<rparr> \<in> fp_deployments F \<Longrightarrow>
   csim (\<lambda>_. True) (cleanupDeployment RC name ns) (cleanupDeployment RD name ns)"
  unfolding cleanupDeployment_def Reconciler.select_convs by (rule sim_delete [OF deployments_agree])

lemma sim_get_vs:
  assumes "covers F okp c" "okp p"
    and "\<And>vs. metaKey (vs_Meta vs) \<in> fp_virtualservices F \<Longrightarrow> csim Q (f vs) (g vs)"
  shows "csim Q
    (bindP (callP (api_get (virtualservices C) \<lparr>nn_Namespace = canary_namespace c, nn_Name = cps_VirtualService (cpo_Spec p)\<rparr>)) f)
    (bindP (callP (api_get (virtualservices D) \<lparr>nn_Namespace = canary_namespace c, nn_Name = cps_VirtualService (cpo_Spec p)\<rparr>)) g)"
  by (rule sim_bind [OF sim_api(1) [OF virtualservices_agree]]) (use assms in \<open>auto simp: covers_def\<close>)

lemma sim_routes_cleanup: "okp p \<Longrightarrow> csim (\<lambda>_. True) (cleanup_routes RC p) (cleanup_routes RD p)"
  unfolding cleanup_routes_def Reconciler.select_convs
  by (intro sim_bind_mem sim_get_vs sim_bind [OF sim_lift [where Q = "\<lambda>_. True"]] sim_case_prod sim_if sim_put_routes
      sim_ret TrueI)

lemma sim_cleanup: "csim (\<lambda>_. True) (reconcileCleanup RC) (reconcileCleanup RD)"
  unfolding reconcileCleanup_def
  by (intro sim_bind_mem sim_if sim_ret TrueI sim_bind [OF sim_policy] sim_then sim_pod_cleanup sim_deployment_cleanup
      sim_routes_cleanup sim_ignore sim_status same_updates) (simp_all add: covers_def)

lemma sim_routing: "csim (\<lambda>_. True) (reconcileVirtualService RC) (reconcileVirtualService RD)"
  unfolding reconcileVirtualService_def Reconciler.select_convs
  by (intro sim_bind_mem sim_if sim_ret TrueI sim_then sim_when sim_status same_updates sim_bind [OF sim_policy]
      sim_get_vs sim_bind [OF sim_lift [where Q = "\<lambda>_. True"]] sim_case_prod sim_put_routes)

lemma sim_phase: "csim (\<lambda>_. True) (ReconcilePhaseStatus RC) (ReconcilePhaseStatus RD)"
proof -
  have same: "sameness c (snd (phase_switch c))" for c
    by (simp add: sameness_def phase_switch_def Let_def split: CanaryProgress.splits)
  have "covers F okp b" if "covers F okp c" "phase_switch c = (a, b)" for a b c
    using covers_same [OF same that(1)] that(2) by simp
  then show ?thesis
    unfolding ReconcilePhaseStatus_def
    by (intro sim_bind_mem sim_let_prod sim_then sim_mem sim_if sim_status same_updates sim_ret TrueI)
qed

lemma sim_fallback:
  fixes p :: "(Canary \<times> 'w, 'a) prog"
  shows "csim (\<lambda>_. True) p q \<Longrightarrow> csim (\<lambda>_. True) p' q' \<Longrightarrow> csim (\<lambda>_. True) (orFallbackCanary p p') (orFallbackCanary q q')"
  unfolding orFallbackCanary_def
proof (rule sim_bind [OF sim_try], assumption)
  fix r :: "error + 'a"
  show "csim (\<lambda>_. True) (case r of Inl e \<Rightarrow> retP (canary_fallbackReconcile (Some e)) | Inr _ \<Rightarrow> p')
      (case r of Inl e \<Rightarrow> retP (canary_fallbackReconcile (Some e)) | Inr _ \<Rightarrow> q')" if "csim (\<lambda>_. True) p' q'"
    using that by (cases r) (simp_all add: sim_ret)
qed

lemma sim_steps: "csim (\<lambda>_. True) (canarySteps jf RC) (canarySteps jf RD)"
  unfolding canarySteps_def afterInit_def
  by (intro sim_fallback sim_init sim_test sim_judge sim_routing sim_reporting sim_cleanup sim_phase
      sim_bind_mem sim_if sim_ret TrueI)

text \<open>A run for a canary that is covered.\<close>

lemma run_agrees:
  assumes "nn \<in> fp_canaries F" "S w v"
  obtains r w' v' where "ReconcileCanary_Reconcile jf RC nn w = (r, w')" "ReconcileCanary_Reconcile jf RD nn v = (r, v')" "S w' v'"
proof -
  obtain g w0 v0 where g: "api_get (canaries C) nn w = (g, w0)" "api_get (canaries D) nn v = (g, v0)" "S w0 v0" "\<forall>c. g = Inr c \<longrightarrow> covers F okp c"
    using canary_get [OF assms(1)] assms(2) unfolding calls_sim_def by metis
  show ?thesis
  proof (cases g)
    case (Inl e)
    then show ?thesis
      using g that by (cases "IsNotFound e") (simp_all add: ReconcileCanary_Reconcile_def run_simps)
  next
    case (Inr c)
    obtain r m' w' v' where "canarySteps jf RC (c, w0) = (r, (m', w'))" "canarySteps jf RD (c, v0) = (r, (m', v'))" "S w' v'"
      using sim_steps [of jf] g(3,4) Inr by (auto elim: simE)
    with g Inr that show ?thesis by (simp add: ReconcileCanary_Reconcile_def run_simps)
  qed
qed

end

subsection \<open>The in-memory server\<close>

text \<open>Two lists of objects that agree on some keys.\<close>

definition agree :: "('o \<Rightarrow> ObjectMeta) \<Rightarrow> NamespacedName set \<Rightarrow> 'o list \<Rightarrow> 'o list \<Rightarrow> bool" where
  "agree meta K xs ys \<longleftrightarrow> distinct (keys meta xs) \<and> distinct (keys meta ys) \<and> (\<forall>k\<in>K. legal_key k \<and> find_key meta xs k = find_key meta ys k)"

lemma agree_put:
  assumes "agree meta K xs ys" "metaKey (meta x) \<in> K"
  shows "(\<exists>e. tracker_add meta upd gr x (om_Namespace (meta x)) b xs = Inl e \<and> tracker_add meta upd gr x (om_Namespace (meta x)) b ys = Inl e) \<or>
    (\<exists>xs' ys'. tracker_add meta upd gr x (om_Namespace (meta x)) b xs = Inr xs' \<and>
       tracker_add meta upd gr x (om_Namespace (meta x)) b ys = Inr ys' \<and> agree meta K xs' ys')"
proof -
  let ?k = "metaKey (meta x)"
  have k: "legal_key ?k" "find_key meta xs ?k = find_key meta ys ?k" using assms unfolding agree_def by blast+
  note add = tracker_add_legal [of meta x upd gr, OF k(1)]
  show ?thesis
  proof (cases "find_key meta xs ?k")
    case None
    then have "agree meta K (xs @ [x]) (ys @ [x])" using assms k by (simp add: agree_def tracker_simps)
    with None k(2) show ?thesis by (cases b) (simp_all add: add tracker_put_missing tracker_put_absent)
  next
    case (Some y)
    then have "agree meta K (put_at meta x xs) (put_at meta x ys)" using assms k by (simp add: agree_def tracker_simps)
    moreover have "distinct (keys meta xs)" "distinct (keys meta ys)" using assms by (simp_all add: agree_def)
    ultimately show ?thesis using Some k(2) by (cases b) (simp_all add: add tracker_put_eq tracker_put_conflict)
  qed
qed

lemma tracker_Delete_absent:
  "find_key meta objs \<lparr>nn_Namespace = ns, nn_Name = name\<rparr> = None \<Longrightarrow> tracker_Delete meta gr ns name objs = Inl (NewNotFound gr name)"
  by (induction objs) (auto simp: same_key_iff split: if_splits)

lemma agree_delete:
  assumes "agree meta K xs ys" "metaKey (meta x) \<in> K"
  shows "(\<exists>e. tracker_Delete meta gr (om_Namespace (meta x)) (om_Name (meta x)) xs = Inl e \<and>
      tracker_Delete meta gr (om_Namespace (meta x)) (om_Name (meta x)) ys = Inl e) \<or>
    (\<exists>xs' ys'. tracker_Delete meta gr (om_Namespace (meta x)) (om_Name (meta x)) xs = Inr xs' \<and>
      tracker_Delete meta gr (om_Namespace (meta x)) (om_Name (meta x)) ys = Inr ys' \<and> agree meta K xs' ys')"
proof -
  let ?k = "metaKey (meta x)"
  have k: "find_key meta xs ?k = find_key meta ys ?k" "distinct (keys meta xs)" "distinct (keys meta ys)"
    using assms by (simp_all add: agree_def)
  show ?thesis
  proof (cases "find_key meta xs ?k")
    case None
    with k(1) show ?thesis by (simp add: metaKey_def tracker_Delete_absent)
  next
    case (Some y)
    have "agree meta K (remove_key meta ?k xs) (remove_key meta ?k ys)" using assms by (simp add: agree_def tracker_simps)
    with Some k tracker_Delete_eq [of meta xs ?k gr] tracker_Delete_eq [of meta ys ?k gr] show ?thesis by simp
  qed
qed

lemma fake_agrees:
  assumes S: "\<And>w v. S w v \<Longrightarrow> agree meta K (get w) (get v)" and wire: "\<And>x. meta (wire x) = meta x"
    and put: "\<And>w v xs ys. S w v \<Longrightarrow> agree meta K xs ys \<Longrightarrow> S (put xs w) (put ys v)"
  shows "api_agrees S meta K (fake_api meta upd gr wire get put) (fake_api meta upd gr wire get put)"
proof -
  have "calls_sim S Q (fake_write get put f a) (fake_write get put f a)"
    if "\<And>w v. S w v \<Longrightarrow> (\<exists>e. f (get w) = Inl e \<and> f (get v) = Inl e) \<or> (\<exists>xs ys. f (get w) = Inr xs \<and> f (get v) = Inr ys \<and> agree meta K xs ys)"
      and "Q a" for Q f and a :: 'c
    using that put unfolding calls_sim_def fake_write_def by fastforce
  note wr = this
  have get: "calls_sim S (\<lambda>x. metaKey (meta x) = k) (api_get (fake_api meta upd gr wire get put) k)
      (api_get (fake_api meta upd gr wire get put) k)" if "k \<in> K" for k
    using S that by (fastforce simp: calls_sim_def fake_api_def agree_def tracker_Get_legal wire split: option.splits dest: find_key_in)
  show ?thesis
    unfolding api_agrees_def
  proof (intro conjI ballI allI impI)
    fix k assume "k \<in> K"
    then show "calls_sim S (\<lambda>x. metaKey (meta x) = k) (api_get (fake_api meta upd gr wire get put) k)
        (api_get (fake_api meta upd gr wire get put) k)" by (rule get)
  qed (unfold fake_api_def api.select_convs, (intro wr agree_put agree_delete S refl TrueI; assumption)+)
qed

definition same_on :: "footprint \<Rightarrow> Cluster \<Rightarrow> Cluster \<Rightarrow> bool" where
  "same_on F w v \<longleftrightarrow> consistent w \<and> consistent v \<and>
     agree cn_Meta (fp_canaries F) (cl_canaries w) (cl_canaries v) \<and>
     agree cpo_Meta (fp_policies F) (cl_policies w) (cl_policies v) \<and>
     agree dp_Meta (fp_deployments F) (cl_deployments w) (cl_deployments v) \<and>
     agree pod_Meta (fp_pods F) (cl_pods w) (cl_pods v) \<and>
     agree vs_Meta (fp_virtualservices F) (cl_virtualservices w) (cl_virtualservices v)"

lemma agree_trans: "agree meta K xs ys \<Longrightarrow> agree meta K ys zs \<Longrightarrow> agree meta K xs zs"
  by (simp add: agree_def)

lemma same_on_trans: "same_on F w v \<Longrightarrow> same_on F v u \<Longrightarrow> same_on F w u"
  unfolding same_on_def by (blast intro: agree_trans)

text \<open>The others may do what they like, but not to the footprint.\<close>

definition spares :: "footprint \<Rightarrow> Cluster \<Rightarrow> Cluster \<Rightarrow> bool" where
  "spares F w w' \<longleftrightarrow> consistent w' \<and>
     (\<forall>k\<in>fp_canaries F. canary_at w' k = canary_at w k) \<and>
     (\<forall>k\<in>fp_policies F. find_key cpo_Meta (cl_policies w') k = find_key cpo_Meta (cl_policies w) k) \<and>
     (\<forall>k\<in>fp_deployments F. find_key dp_Meta (cl_deployments w') k = find_key dp_Meta (cl_deployments w) k) \<and>
     (\<forall>k\<in>fp_pods F. find_key pod_Meta (cl_pods w') k = find_key pod_Meta (cl_pods w) k) \<and>
     (\<forall>k\<in>fp_virtualservices F. find_key vs_Meta (cl_virtualservices w') k = find_key vs_Meta (cl_virtualservices w) k)"

definition leaves_alone :: "footprint \<Rightarrow> (nat \<Rightarrow> Cluster \<Rightarrow> Cluster) \<Rightarrow> bool" where
  "leaves_alone F env \<longleftrightarrow> (\<forall>i w. consistent w \<longrightarrow> spares F w (env i w))"

lemma same_on_spared: "same_on F w v \<Longrightarrow> spares F v v' \<Longrightarrow> same_on F w v'"
  by (simp add: same_on_def spares_def agree_def consistent_keys)

text \<open>What is known of the canaries and policies of the footprint.\<close>

definition known :: "footprint \<Rightarrow> (CanaryPolicy \<Rightarrow> bool) \<Rightarrow> Cluster \<Rightarrow> bool" where
  "known F okp w \<longleftrightarrow> (\<forall>k\<in>fp_canaries F. \<forall>c. canary_at w k = Some c \<longrightarrow> covers F okp c) \<and>
     (\<forall>k\<in>fp_policies F. \<forall>p. find_key cpo_Meta (cl_policies w) k = Some p \<longrightarrow> okp p)"

definition alike :: "footprint \<Rightarrow> (CanaryPolicy \<Rightarrow> bool) \<Rightarrow> Cluster \<Rightarrow> Cluster \<Rightarrow> bool" where
  "alike F okp w v \<longleftrightarrow> same_on F w v \<and> known F okp w"

fun undisturbed :: "footprint \<Rightarrow> (CanaryPolicy \<Rightarrow> bool) \<Rightarrow> (nat \<Rightarrow> Cluster \<Rightarrow> Cluster) \<Rightarrow> Cluster \<Rightarrow> Cluster \<times> nat \<Rightarrow> bool" where
  "undisturbed F okp env w (v, n) \<longleftrightarrow> alike F okp w v \<and> leaves_alone F env"

lemma calls_among_others:
  assumes "calls_sim (alike F okp) Q f g"
  shows "calls_sim (undisturbed F okp env) Q f (interfere env g)"
  unfolding calls_sim_def
proof (intro allI impI)
  fix w and vn :: "Cluster \<times> nat" assume "undisturbed F okp env w vn"
  then obtain v n where v: "vn = (v, n)" "alike F okp w v" "leaves_alone F env" by (cases vn) auto
  then have "alike F okp w (env n v)"
    using same_on_spared [of F w v "env n v"] by (auto simp: leaves_alone_def alike_def same_on_def [of F w v])
  with assms obtain r w' v' where "f w = (r, w')" "g (env n v) = (r, v')" "alike F okp w' v'" "\<forall>x. r = Inr x \<longrightarrow> Q x"
    unfolding calls_sim_def by blast
  with v show "\<exists>r w' v'. f w = (r, w') \<and> interfere env g vn = (r, v') \<and> undisturbed F okp env w' v' \<and> (\<forall>x. r = Inr x \<longrightarrow> Q x)"
    by (auto simp: interfere_def)
qed

lemma api_among_others:
  "api_agrees (alike F okp) meta K A B \<Longrightarrow> api_agrees (undisturbed F okp env) meta K A (interfere_api env B)"
  unfolding api_agrees_def interfere_api_def api.select_convs by (blast intro: calls_among_others)

lemma alike_agree:
  assumes "alike F okp w v"
  shows "agree cn_Meta (fp_canaries F) (cl_canaries w) (cl_canaries v)"
    "agree cpo_Meta (fp_policies F) (cl_policies w) (cl_policies v)"
    "agree dp_Meta (fp_deployments F) (cl_deployments w) (cl_deployments v)"
    "agree pod_Meta (fp_pods F) (cl_pods w) (cl_pods v)"
    "agree vs_Meta (fp_virtualservices F) (cl_virtualservices w) (cl_virtualservices v)"
  using assms by (simp_all add: alike_def same_on_def)

lemma alike_put:
  assumes "alike F okp w v"
  shows "agree dp_Meta (fp_deployments F) ds es \<Longrightarrow> alike F okp (w\<lparr>cl_deployments := ds\<rparr>) (v\<lparr>cl_deployments := es\<rparr>)"
    "agree pod_Meta (fp_pods F) ps qs \<Longrightarrow> alike F okp (w\<lparr>cl_pods := ps\<rparr>) (v\<lparr>cl_pods := qs\<rparr>)"
    "agree vs_Meta (fp_virtualservices F) xs ys \<Longrightarrow> alike F okp (w\<lparr>cl_virtualservices := xs\<rparr>) (v\<lparr>cl_virtualservices := ys\<rparr>)"
  using assms by (auto simp: alike_def same_on_def known_def consistent_def agree_def)

lemma get_agrees:
  assumes "\<And>w v. S w v \<Longrightarrow> agree meta K (get w) (get v)" "k \<in> K"
    and "\<And>w v x. S w v \<Longrightarrow> find_key meta (get w) k = Some x \<Longrightarrow> Q (wire x)"
  shows "calls_sim S Q (api_get (fake_api meta upd gr wire get put) k) (api_get (fake_api meta upd gr wire get put) k)"
  using assms by (fastforce simp: calls_sim_def fake_api_def agree_def tracker_Get_legal split: option.splits)

lemma canary_put_agrees:
  assumes c: "covers F okp c"
  shows "calls_sim (alike F okp) (covers F okp) (api_update_status (canaries fakeClient) c) (api_update_status (canaries fakeClient) c)"
  unfolding calls_sim_def
proof (intro allI impI)
  fix w v assume a: "alike F okp w v"
  let ?k = "metaKey (cn_Meta c)" and ?u = "\<lambda>w. w\<lparr>cl_canaries := put_at cn_Meta c (cl_canaries w)\<rparr>"
  have "?k \<in> fp_canaries F" using c by (simp add: covers_def)
  then have k: "legal_key ?k" "canary_at w ?k = canary_at v ?k" "distinct (keys cn_Meta (cl_canaries w))" "distinct (keys cn_Meta (cl_canaries v))"
    using alike_agree(1) [OF a] unfolding agree_def by blast+
  have "agree cn_Meta (fp_canaries F) (put_at cn_Meta c (cl_canaries w)) (put_at cn_Meta c (cl_canaries v))"
    using alike_agree(1) [OF a] by (simp add: agree_def tracker_simps)
  moreover have "\<forall>j\<in>fp_canaries F. \<forall>d. find_key cn_Meta (put_at cn_Meta c (cl_canaries w)) j = Some d \<longrightarrow> covers F okp d"
    using a c by (simp add: alike_def known_def tracker_simps)
  moreover have "consistent (?u w)" "consistent (?u v)"
    using a by (simp_all add: alike_def same_on_def tracker_simps)
  ultimately have "alike F okp (?u w) (?u v)"
    using a by (simp add: alike_def same_on_def known_def)
  then show "\<exists>r w' v'. api_update_status (canaries fakeClient) c w = (r, w') \<and> api_update_status (canaries fakeClient) c v = (r, v') \<and>
      alike F okp w' v' \<and> (\<forall>x. r = Inr x \<longrightarrow> covers F okp x)"
  proof (cases "canary_at w ?k")
    case None
    have absent: "api_update_status (canaries fakeClient) c u = (Inl (NewNotFound ''canaries.krane.sh'' (canary_name c)), u)"
      if "canary_at u ?k = None" for u
      using that k(1) by (simp add: fake_api_def fake_write_def tracker_add_legal tracker_put_absent)
    from None have "canary_at v ?k = None" using k(2) by simp
    with None a show ?thesis unfolding absent [OF None] absent [OF \<open>canary_at v ?k = None\<close>] by simp
  next
    case (Some d)
    then have "canary_at v ?k = Some d" using k(2) by simp
    with Some k \<open>alike F okp (?u w) (?u v)\<close> c show ?thesis
      by (simp add: canary_store.fake_put(2) [where y = d])
  qed
qed

interpretation undisturbed_runs: footprint_clients "undisturbed F okp env" F okp fakeClient "interfering env fakeClient" for F okp env
proof unfold_locales
  fix k assume "k \<in> fp_canaries F"
  then show "calls_sim (undisturbed F okp env) (covers F okp) (api_get (canaries fakeClient) k) (api_get (canaries (interfering env fakeClient)) k)"
    unfolding interfering_def interfere_api_def fakeClient_simps Client.select_convs api.select_convs
    by (intro calls_among_others get_agrees) (auto simp: alike_def known_def same_on_def)
next
  fix k assume "k \<in> fp_policies F"
  then show "calls_sim (undisturbed F okp env) okp (api_get (policies fakeClient) k) (api_get (policies (interfering env fakeClient)) k)"
    unfolding interfering_def interfere_api_def fakeClient_simps Client.select_convs api.select_convs
    by (intro calls_among_others get_agrees) (auto simp: alike_def known_def same_on_def)
next
  fix c assume "covers F okp c"
  then show "calls_sim (undisturbed F okp env) (covers F okp) (api_update_status (canaries fakeClient) c)
      (api_update_status (canaries (interfering env fakeClient)) c)"
    unfolding interfering_def interfere_api_def Client.select_convs api.select_convs
    by (intro calls_among_others canary_put_agrees)
qed (unfold interfering_def fakeClient_simps Client.select_convs, (intro api_among_others fake_agrees alike_agree alike_put; (assumption | simp))+)

subsection \<open>The life of a canary among others\<close>

definition canary_footprint :: "Canary \<Rightarrow> CanaryPolicy \<Rightarrow> footprint" where
  "canary_footprint c p =
     \<lparr>fp_canaries = {metaKey (cn_Meta c)},
      fp_policies = {\<lparr>nn_Namespace = canary_namespace c, nn_Name = csp_Policy (cn_Spec c)\<rparr>},
      fp_deployments = {\<lparr>nn_Namespace = canary_namespace c, nn_Name = csd_Canary (csp_Deployments (cn_Spec c))\<rparr>,
        \<lparr>nn_Namespace = canary_namespace c, nn_Name = csd_Baseline (csp_Deployments (cn_Spec c))\<rparr>},
      fp_pods = {\<lparr>nn_Namespace = canary_namespace c, nn_Name = GetTestJobname c\<rparr>,
        \<lparr>nn_Namespace = canary_namespace c, nn_Name = GetJudgeJobName c\<rparr>},
      fp_virtualservices = {vs_key c p}\<rparr>"

lemma footprint_covers: "covers (canary_footprint c p) (\<lambda>q. q = p) c"
  by (simp add: covers_def canary_footprint_def vs_key_def)

lemma startable_alike:
  assumes "startable w c p vs i j h"
  shows "alike (canary_footprint c p) (\<lambda>q. q = p) w w"
  using assms footprint_covers [of c p]
  by (auto simp: startable_def tracked_def available_def has_vs_def alike_def same_on_def known_def agree_def
      canary_footprint_def legal_key_def vs_key_def consistent_keys)

lemma agree_map:
  "(\<And>x. meta (f x) = meta x) \<Longrightarrow> agree meta K xs ys \<Longrightarrow> agree meta K (map f xs) (map f ys)"
  by (simp add: agree_def keys_map find_key_map)

lemma jobs_exit_alike: "alike F okp w v \<Longrightarrow> alike F okp (jobs_exit c tcode jcode w) (jobs_exit c tcode jcode v)"
  unfolding jobs_exit_def by (rule alike_put(2), assumption) (rule agree_map [OF exit_pod_meta alike_agree(4)])

lemma turn_among:
  assumes "turn jf \<lparr>client = fakeClient, scheme = kraneScheme\<rparr> nn w = Some w'" "nn \<in> fp_canaries F" "undisturbed F okp env w s"
  obtains s' where "turn jf \<lparr>client = interfering env fakeClient, scheme = kraneScheme\<rparr> nn s = Some s'" "undisturbed F okp env w' s'"
proof -
  obtain r u s' where "ReconcileCanary_Reconcile jf \<lparr>client = fakeClient, scheme = kraneScheme\<rparr> nn w = (r, u)"
    "ReconcileCanary_Reconcile jf \<lparr>client = interfering env fakeClient, scheme = kraneScheme\<rparr> nn s = (r, s')" "undisturbed F okp env u s'"
    using assms(2,3) by (rule undisturbed_runs.run_agrees)
  with assms(1) that show ?thesis by (simp add: turn_run)
qed

lemma turns_among:
  "turns jf \<lparr>client = fakeClient, scheme = kraneScheme\<rparr> nn n w = Some w' \<Longrightarrow> nn \<in> fp_canaries F \<Longrightarrow> undisturbed F okp env w s \<Longrightarrow>
   \<exists>s'. turns jf \<lparr>client = interfering env fakeClient, scheme = kraneScheme\<rparr> nn n s = Some s' \<and> undisturbed F okp env w' s'"
proof (induction n arbitrary: w s)
  case (Suc n)
  obtain u where u: "turn jf \<lparr>client = fakeClient, scheme = kraneScheme\<rparr> nn w = Some u"
    "turns jf \<lparr>client = fakeClient, scheme = kraneScheme\<rparr> nn n u = Some w'"
    using Suc.prems(1) by (auto split: option.splits)
  obtain t where "turn jf \<lparr>client = interfering env fakeClient, scheme = kraneScheme\<rparr> nn s = Some t" "undisturbed F okp env u t"
    using u(1) Suc.prems(2,3) by (rule turn_among)
  with Suc.IH [OF u(2) Suc.prems(2)] show ?case by simp
qed simp

end
