(* ===== verification/Release.thy ===== *)
theory Release
  imports Requests Manager Footprint
begin

text \<open>
  A release from the creation of its deployment to its conclusion: both controllers with their
  watches, queues and workers, and the cluster that starts pods in between.
\<close>

subsection \<open>A canary by itself\<close>

text \<open>Runs and the exits of the jobs are steps of the system of theory \<open>KraneSystem\<close>.\<close>

lemma rounds_reach:
  assumes "nonempty_key nn"
  shows "krane_reaches jf w ((round jf inMemory nn ^^ n) w)"
proof (induction n)
  case (Suc n)
  have "krane_step jf u (round jf inMemory nn u)" for u
    using canary_run_alone [OF assms, of jf u "fst (ReconcileCanary_Reconcile jf inMemory nn u)"] by (simp add: round_def)
  with Suc show ?case unfolding krane_reaches_def by (simp add: rtranclp.rtrancl_into_rtrancl)
qed (simp add: krane_reaches_def)

lemma exit_reaches: "krane_reaches jf w (jobs_exit c tcode jcode w)"
proof -
  have "respects_status w (jobs_exit c tcode jcode w)" by (auto simp: respects_status_def jobs_exit_def)
  then show ?thesis unfolding krane_reaches_def by (intro r_into_rtranclp krane_step.others)
qed

lemma reaches_trans: "krane_reaches jf u v \<Longrightarrow> krane_reaches jf v w \<Longrightarrow> krane_reaches jf u w"
  unfolding krane_reaches_def by (rule rtranclp_trans)

text \<open>A canary that is startable reaches a finished one.\<close>

lemma canary_concludes:
  assumes "startable w c p vs i j h"
  obtains d v where "krane_reaches jf w (concluded c vs i j d w)"
    "turns jf inMemory (metaKey (cn_Meta c)) 3 w = Some v"
    "turns jf inMemory (metaKey (cn_Meta c)) 5 (jobs_exit c 0 jcode v) = Some (concluded c vs i j d w)"
    "(round jf inMemory (metaKey (cn_Meta c)) ^^ 5) (jobs_exit c 0 jcode ((round jf inMemory (metaKey (cn_Meta c)) ^^ 3) w)) = concluded c vs i j d w"
    "sameness c d" "progress d = CanaryProgress_Cleanup"
    "ph_Status (cst_Cleanup (cn_Status d)) = CanaryPhaseStatus_Success"
    "ph_Status (cst_Initialization (cn_Status d)) = CanaryPhaseStatus_Success"
    "ph_Status (cst_Judging (cn_Status d)) = (if jcode = 0 then CanaryPhaseStatus_Success else CanaryPhaseStatus_Failure)"
proof -
  let ?nn = "metaKey (cn_Meta c)"
  obtain tp jp where pods: "CreateTestJob inMemory c p = Ok tp" "CreateJudgeJob jf inMemory c p = Ok jp"
    using krane.created_jobs by blast
  let ?v = "\<lambda>d0. save d0 (w\<lparr>cl_pods := cl_pods w @ [tp, jp]\<rparr>)"
  obtain d0 where d0: "turns jf inMemory ?nn 3 w = Some (?v d0)"
    "sameness c d0" "progress d0 = CanaryProgress_Testing"
    using krane.life_to_jobs [OF assms refl pods] by blast
  obtain d where t5: "turns jf inMemory ?nn 5 (jobs_exit c 0 jcode (?v d0)) = Some (concluded c vs i j d w)"
    and d: "sameness c d" "progress d = CanaryProgress_Cleanup"
    "ph_Status (cst_Cleanup (cn_Status d)) = CanaryPhaseStatus_Success"
    "ph_Status (cst_Initialization (cn_Status d)) = CanaryPhaseStatus_Success"
    "ph_Status (cst_Judging (cn_Status d)) = (if jcode = 0 then CanaryPhaseStatus_Success else CanaryPhaseStatus_Failure)"
    using krane.life_from_jobs [OF assms refl pods d0(2,3), of jcode] by blast
  have r: "(round jf inMemory ?nn ^^ 5) (jobs_exit c 0 jcode ((round jf inMemory ?nn ^^ 3) w)) = concluded c vs i j d w"
    using turns_rounds [OF d0(1)] turns_rounds [OF t5] by simp
  have "nonempty_key ?nn"
    using assms by (simp add: startable_def tracked_def legal_key_def nonempty_key_def)
  then have "krane_reaches jf w (concluded c vs i j d w)"
    unfolding r [symmetric] by (intro reaches_trans [OF reaches_trans [OF rounds_reach exit_reaches] rounds_reach])
  from this d0(1) t5 r d show ?thesis by (rule that)
qed

text \<open>The same, driven by the queue.\<close>

lemma canary_driven:
  assumes "startable w c p vs i j h" "route_weight (hr_Route h ! j) \<noteq> 0"
    and "five_apart (ts @ us)" "length ts = 3" "length us = 5" and nn: "nn = metaKey (cn_Meta c)"
  shows "\<exists>q v q' d. attended (ReconcileCanary_Reconcile jf inMemory) ts (queue_Add nn NewRateLimitingQueue, w) = Some (q, v) \<and>
    attended (ReconcileCanary_Reconcile jf inMemory) us (q, jobs_exit c 0 jcode v)
      = Some (q', save d (put_vs vs (drop_deployment (canary_deployment_key c) w))) \<and>
    pending q' = {nn} \<and> progress d = CanaryProgress_Cleanup \<and>
    ph_Status (cst_Cleanup (cn_Status d)) = CanaryPhaseStatus_Success \<and>
    ph_Status (cst_Judging (cn_Status d)) = (if jcode = 0 then CanaryPhaseStatus_Success else CanaryPhaseStatus_Failure)"
proof -
  obtain d v where d: "turns jf inMemory nn (length ts) w = Some v"
    "turns jf inMemory nn (length us) (jobs_exit c 0 jcode v) = Some (concluded c vs i j d w)"
    "progress d = CanaryProgress_Cleanup" "ph_Status (cst_Cleanup (cn_Status d)) = CanaryPhaseStatus_Success"
    "ph_Status (cst_Judging (cn_Status d)) = (if jcode = 0 then CanaryPhaseStatus_Success else CanaryPhaseStatus_Failure)"
    unfolding nn assms(4,5) by (rule canary_concludes [OF assms(1)])
  have ne: "ts \<noteq> []" "us \<noteq> []" using assms(4,5) by auto
  obtain q q' where "attended (ReconcileCanary_Reconcile jf inMemory) ts (queue_Add nn NewRateLimitingQueue, w) = Some (q, v)"
    "attended (ReconcileCanary_Reconcile jf inMemory) us (q, jobs_exit c 0 jcode v) = Some (q', concluded c vs i j d w)" "pending q' = {nn}"
    by (rule attended_phases [OF assms(3) ne d(1,2)])
  moreover have "concluded c vs i j d w = save d (put_vs vs (drop_deployment (canary_deployment_key c) w))"
    unfolding canary_deployment_key_def by (rule concluded_weighted [OF assms(1,2)])
  ultimately show ?thesis
    using d(3-5) by (intro exI [of _ q] exI [of _ v] exI [of _ q'] exI [of _ d]) simp
qed

text \<open>And among others who leave what belongs to the canary alone.\<close>

lemma canary_driven_among:
  fixes jf :: json_float and env :: "nat \<Rightarrow> Cluster \<Rightarrow> Cluster" and jcode :: int32
  assumes st: "startable w c p vs i j h" "route_weight (hr_Route h ! j) \<noteq> 0"
    and times: "five_apart (ts @ us)" "length ts = 3" "length us = 5" and nn: "nn = metaKey (cn_Meta c)"
    and env: "leaves_alone (canary_footprint c p) env"
  defines "run \<equiv> ReconcileCanary_Reconcile jf \<lparr>client = interfering env fakeClient, scheme = kraneScheme\<rparr>"
  shows "\<exists>q v k q' v' k' d. attended run ts (queue_Add nn NewRateLimitingQueue, (w, 0)) = Some (q, (v, k)) \<and>
    attended run us (q, (jobs_exit c 0 jcode v, k)) = Some (q', (v', k')) \<and> pending q' = {nn} \<and>
    same_on (canary_footprint c p) (save d (put_vs vs (drop_deployment (canary_deployment_key c) w))) v' \<and> sameness c d \<and>
    progress d = CanaryProgress_Cleanup \<and> ph_Status (cst_Cleanup (cn_Status d)) = CanaryPhaseStatus_Success \<and>
    ph_Status (cst_Judging (cn_Status d)) = (if jcode = 0 then CanaryPhaseStatus_Success else CanaryPhaseStatus_Failure)"
proof -
  let ?F = "canary_footprint c p" and ?okp = "\<lambda>q. q = p" and ?R = "\<lparr>client = interfering env fakeClient, scheme = kraneScheme\<rparr>"
  obtain d v where d: "turns jf inMemory nn (length ts) w = Some v"
    "turns jf inMemory nn (length us) (jobs_exit c 0 jcode v) = Some (concluded c vs i j d w)" "sameness c d"
    "progress d = CanaryProgress_Cleanup" "ph_Status (cst_Cleanup (cn_Status d)) = CanaryPhaseStatus_Success"
    "ph_Status (cst_Judging (cn_Status d)) = (if jcode = 0 then CanaryPhaseStatus_Success else CanaryPhaseStatus_Failure)"
    unfolding nn times(2,3) by (rule canary_concludes [OF st(1)])
  have nnF: "nn \<in> fp_canaries ?F" by (simp add: nn canary_footprint_def)
  have "undisturbed ?F ?okp env w (w, 0)" using startable_alike [OF st(1)] env by simp
  from turns_among [OF d(1) nnF this] obtain v1 k where v1: "turns jf ?R nn (length ts) (w, 0) = Some (v1, k)" "undisturbed ?F ?okp env v (v1, k)"
    by auto
  then have "undisturbed ?F ?okp env (jobs_exit c 0 jcode v) (jobs_exit c 0 jcode v1, k)" by (simp add: jobs_exit_alike)
  from turns_among [OF d(2) nnF this] obtain v2 k2 where
    v2: "turns jf ?R nn (length us) (jobs_exit c 0 jcode v1, k) = Some (v2, k2)" "undisturbed ?F ?okp env (concluded c vs i j d w) (v2, k2)"
    by auto
  have ne: "ts \<noteq> []" "us \<noteq> []" using times by auto
  obtain q q' where "attended run ts (queue_Add nn NewRateLimitingQueue, (w, 0)) = Some (q, (v1, k))"
    "attended run us (q, (jobs_exit c 0 jcode v1, k)) = Some (q', (v2, k2))" "pending q' = {nn}"
    unfolding run_def by (rule attended_phases [OF times(1) ne v1(1) v2(1)])
  moreover have "concluded c vs i j d w = save d (put_vs vs (drop_deployment (canary_deployment_key c) w))"
    unfolding canary_deployment_key_def by (rule concluded_weighted [OF st])
  ultimately show ?thesis
    using d(3-6) v2(2)
    by (intro exI [of _ q] exI [of _ v1] exI [of _ k] exI [of _ q'] exI [of _ v2] exI [of _ k2] exI [of _ d]) (simp add: alike_def)
qed

text \<open>What the conclusion looks like on the footprint.\<close>

lemma concluded_footprint:
  assumes "startable w c p vs i j h" "sameness c d"
    and "same_on (canary_footprint c p) (save d (put_vs vs (drop_deployment (canary_deployment_key c) w))) v"
  shows "canary_at v (metaKey (cn_Meta c)) = Some d" "find_key dp_Meta (cl_deployments v) (canary_deployment_key c) = None"
    "test_pod_of v c = None" "judge_pod_of v c = None"
    "find_key vs_Meta (cl_virtualservices v) (vs_key c p) = Some vs"
proof -
  let ?w = "drop_deployment (canary_deployment_key c) w"
  have t: "tracked (put_vs vs ?w) c p" and vs: "has_vs ?w c p vs"
    using assms(1) by (simp_all add: startable_def tracked_drop tracked_put_vs)
  have "tracked (save d (put_vs vs ?w)) d p" using t assms(2) by (rule tracked_same)
  then have "canary_at (save d (put_vs vs ?w)) (metaKey (cn_Meta c)) = Some d"
    using assms(2) by (simp add: tracked_def sameness_def)
  then show "canary_at v (metaKey (cn_Meta c)) = Some d"
    using assms(3) by (simp add: same_on_def agree_def canary_footprint_def)
  show "find_key dp_Meta (cl_deployments v) (canary_deployment_key c) = None" "test_pod_of v c = None" "judge_pod_of v c = None"
    using assms by (auto simp: same_on_def agree_def canary_footprint_def startable_def test_pod_of_def judge_pod_of_def
        canary_deployment_key_def tracker_simps)
  show "find_key vs_Meta (cl_virtualservices v) (vs_key c p) = Some vs"
    using assms(3) has_put_vs(1) [OF vs refl] by (simp add: same_on_def agree_def canary_footprint_def)
qed

subsection \<open>From the deployment to its canary\<close>

text \<open>Kubernetes brings up the pods of deployments.\<close>

definition scaled_up :: "(Deployment \<Rightarrow> int32) \<Rightarrow> Cluster \<Rightarrow> Cluster" where
  "scaled_up n w = w\<lparr>cl_deployments := map (\<lambda>d. d\<lparr>dp_AvailableReplicas := n d\<rparr>) (cl_deployments w)\<rparr>"

lemma scaled_up_simps [simp]:
  "cl_canaries (scaled_up n w) = cl_canaries w" "cl_policies (scaled_up n w) = cl_policies w"
  "cl_pods (scaled_up n w) = cl_pods w" "cl_virtualservices (scaled_up n w) = cl_virtualservices w"
  "cl_deployments (scaled_up n w) = map (\<lambda>d. d\<lparr>dp_AvailableReplicas := n d\<rparr>) (cl_deployments w)"
  by (simp_all add: scaled_up_def)

lemma scaled_up_consistent: "consistent w \<Longrightarrow> consistent (scaled_up n w)"
  by (simp add: consistent_def scaled_up_def keys_def comp_def)

text \<open>What a release needs besides its deployment, base and policy: a route, and no pods of its own.\<close>

definition releasable :: "Cluster \<Rightarrow> Deployment \<Rightarrow> CanaryPolicy \<Rightarrow> VirtualService \<Rightarrow> nat \<Rightarrow> nat \<Rightarrow> HTTPRoute \<Rightarrow> bool" where
  "releasable w c p vs i j h \<longleftrightarrow>
     (let cfg = createCanaryConfig p c in
      test_pod_of w cfg = None \<and> judge_pod_of w cfg = None \<and>
      has_vs w cfg p vs \<and>
      routed vs (cps_Service (cpo_Spec p)) i j h \<and> route_weight (hr_Route h ! j) \<noteq> 0 \<and>
      find_route (canary_name cfg) 0 (hr_Route h) = Ok (- 1))"

lemma provisioned_startable:
  fixes gd gc sp
  assumes pr: "provisionable w c p base" and nl: "\<not> labelled_template c" and gc: "kraneScheme OwnerCanary = Inr gc"
    and re: "releasable w c p vs i j h" and up: "\<And>d. 0 < sint (n d)"
  shows "startable (scaled_up n (provisioned gd gc p c sp w)) (createCanaryConfig p c) p vs i j h"
proof -
  let ?cfg = "createCanaryConfig p c" and ?w = "provisioned gd gc p c sp w"
  note pr' = pr [unfolded provisionable_def] and k = policy_key [OF pr]
  note obj = provisioned_objects [OF pr nl, where gd = gd and gc = gc and sp = sp]
  have cfg: "canary_namespace ?cfg = deployment_namespace c" "canary_name ?cfg = MakeCanaryConfigName p c"
    "csp_Policy (cn_Spec ?cfg) = policy_label c" "csd_Canary (csp_Deployments (cn_Spec ?cfg)) = deployment_name c"
    "csd_Baseline (csp_Deployments (cn_Spec ?cfg)) = MakeBaselineName c" "cn_Status ?cfg = zeroStatus"
    "metaKey (cn_Meta ?cfg) = \<lparr>nn_Namespace = deployment_namespace c, nn_Name = MakeCanaryConfigName p c\<rparr>"
    using k by (simp_all add: createCanaryConfig_def metaKey_def)
  have "consistent ?w" using provisioned_settled [OF pr gc, of gd sp] by (simp add: settled_def)
  then have cons: "consistent (scaled_up n ?w)" by (rule scaled_up_consistent)
  have tr: "tracked (scaled_up n ?w) ?cfg p"
    unfolding tracked_def cfg scaled_up_simps obj(4,6) using cons pr' by simp
  have key: "metaKey (dp_Meta c) = \<lparr>nn_Namespace = deployment_namespace c, nn_Name = deployment_name c\<rparr>"
    by (simp add: metaKey_def)
  have "available (scaled_up n ?w) ?cfg"
    unfolding available_def cfg scaled_up_simps
    using obj(1,2) pr' up by (simp add: find_key_map key)
  with tr re show ?thesis
    by (simp add: startable_def releasable_def Let_def cfg has_vs_def vs_key_def test_pod_of_def judge_pod_of_def obj(7,8))
qed

text \<open>The events that start the two controllers.\<close>

lemma deployment_created:
  assumes "policy_label c \<noteq> []" "map_get (om_Labels (dp_Meta c)) KraneTierLabel = ''canary''"
  shows "controller_requests kraneScheme deployment_watches WatchDeployment (CreateEvent (dp_Meta c)) = [metaKey (dp_Meta c)]"
proof -
  have "map_has (om_Labels (dp_Meta c)) CanaryPolicyLabel"
    using assms(1) by (auto simp: map_get_def map_has_def split: option.splits)
  with assms(2) show ?thesis
    by (simp add: deployment_watches_def Predicate_Create_def hasCanaryPolicyLabel_def isCanaryTier_def)
qed

lemma canary_created: "controller_requests sc canary_watches WatchCanary (CreateEvent m) = [metaKey m]"
  by (simp add: canary_watches_def)

text \<open>A turn of the deployment controller that is through.\<close>

lemma deployment_turn:
  assumes "ReconcileDeployment_Reconcile R nn w = (Ok (noResult, None), w')"
  shows "\<exists>q. processNextWorkItem (ReconcileDeployment_Reconcile R) now bucket (queue_of nn, w) = (Returned True, (q, w')) \<and> pending q = {}"
proof -
  obtain q1 where q1: "take_item (queue_of nn) = Some (nn, q1)" "pending q1 = {}"
    by (auto simp: queue_Get_Some queue_Add_def NewRateLimitingQueue_def pending_def)
  then show ?thesis using assms by (simp add: process_item requeue_def noResult_def)
qed

end
