(* ===== verification/Memory.thy ===== *)
theory Memory
  imports GoPrelude
begin

text \<open>
  The memory behind the Go values. The other theories model structs, pointers, slices and maps
  as values; that is sound as long as two objects share no memory, which in Go is the work of
  the generated \<open>DeepCopy\<close> functions. This theory has a store with explicit addresses, the
  statements those functions consist of (\<open>new\<close>, \<open>make\<close>, \<open>copy\<close>, the loops over slices and maps,
  the assignment of a struct), what a value of a given type means in a store (\<open>content\<close>) and
  which cells it is made of (\<open>cells\<close>), and one rule per statement for the copying functions
  built from them. The functions themselves are in \<open>DeepCopies\<close>.
\<close>

subsection \<open>Values and cells\<close>

text \<open>
  Strings, numbers, booleans and times have no parts that can be shared (a \<open>metav1.Time\<close> is
  immutable, as the comment on its \<open>DeepCopyInto\<close> says). A pointer is an address or nil, a
  slice the address of its array with its first index and its length, a map the address of its
  table. \<open>Fresh\<close> is the zero value of a variable or an array element that \<open>new\<close> or \<open>make\<close> has
  made and nothing was assigned to yet; no value read from an object is \<open>Fresh\<close>.
\<close>

datatype plain = Text string | Whole int | Truth bool | Float64 "64 word" | Instant int

datatype govalue =
    Fresh
  | Plain plain
  | Pointer "nat option"
  | Slice "(nat \<times> nat \<times> nat) option"
  | MapRef "nat option"
  | Struct "(string \<times> govalue) list"

datatype cell =
    Variable govalue
  | Array "govalue list"
  | Table "(string \<times> govalue) list"

type_synonym store = "cell list"

definition load :: "store \<Rightarrow> nat \<Rightarrow> cell option" where
  "load h a = (if a < length h then Some (h ! a) else None)"

lemma load_append: "load (h @ e) a = (if a < length h then load h a else load e (a - length h))"
  by (auto simp: load_def nth_append)

lemma load_old [simp]: "a < length h \<Longrightarrow> load (h @ e) a = load h a"
  by (simp add: load_append)

lemma load_new [simp]: "load (h @ c # e) (length h) = Some c"
  by (simp add: load_append load_def)

lemma load_in: "load h a = Some c \<Longrightarrow> a < length h"
  by (simp add: load_def split: if_splits)

lemma load_update: "load (h[b := c]) a = (if a = b \<and> b < length h then Some c else load h a)"
  by (auto simp: load_def)

text \<open>
  A nil pointer is dereferenced with a panic. The cells of a well-typed Go program have the
  sort their pointer says; the other branches below stand for memory Go does not allow.
\<close>

definition allocate :: "cell \<Rightarrow> (store, nat) prog" where
  "allocate c = (\<lambda>h. (Ok (length h), h @ [c]))"

definition overwrite :: "nat \<Rightarrow> cell \<Rightarrow> (store, unit) prog" where
  "overwrite a c = modP (\<lambda>h. h[a := c])"

definition readVariable :: "nat \<Rightarrow> (store, govalue) prog" where
  "readVariable a = (\<lambda>h. case load h a of Some (Variable v) \<Rightarrow> (Ok v, h)
     | _ \<Rightarrow> (Panic NilDereference, h))"

definition readElement :: "nat \<Rightarrow> nat \<Rightarrow> (store, govalue) prog" where
  "readElement a i = (\<lambda>h. case load h a of
       Some (Array vs) \<Rightarrow> if i < length vs then (Ok (vs ! i), h) else (Panic IndexOutOfRange, h)
     | _ \<Rightarrow> (Panic NilDereference, h))"

definition writeElement :: "nat \<Rightarrow> nat \<Rightarrow> govalue \<Rightarrow> (store, unit) prog" where
  "writeElement a i v = (\<lambda>h. case load h a of
       Some (Array vs) \<Rightarrow> if i < length vs then (Ok (), h[a := Array (vs[i := v])])
         else (Panic IndexOutOfRange, h)
     | _ \<Rightarrow> (Panic NilDereference, h))"

definition readTable :: "nat \<Rightarrow> (store, (string \<times> govalue) list) prog" where
  "readTable a = (\<lambda>h. case load h a of Some (Table es) \<Rightarrow> (Ok es, h)
     | _ \<Rightarrow> (Panic NilDereference, h))"

definition put :: "'k \<Rightarrow> 'v \<Rightarrow> ('k \<times> 'v) list \<Rightarrow> ('k \<times> 'v) list" where
  "put k v es = (if k \<in> fst ` set es then map (\<lambda>(l, u). (l, if l = k then v else u)) es
     else es @ [(k, v)])"

definition writeEntry :: "nat \<Rightarrow> string \<Rightarrow> govalue \<Rightarrow> (store, unit) prog" where
  "writeEntry a k v = (\<lambda>h. case load h a of
       Some (Table es) \<Rightarrow> (Ok (), h[a := Table (put k v es)])
     | _ \<Rightarrow> (Panic NilDereference, h))"

subsection \<open>The statements of a copying function\<close>

text \<open>
  A \<open>DeepCopyInto\<close> reads the variable its receiver points to and overwrites the whole variable
  its argument points to, so it is a function from the one value to the other that may allocate
  memory. The same holds for the blocks inside it.
\<close>

type_synonym copier = "govalue \<Rightarrow> (store, govalue) prog"

text \<open>\<open>*out = *in\<close>\<close>

definition assign :: copier where
  "assign v = retP v"

text \<open>\<open>if in.P != nil { *out = new(T); (*in).DeepCopyInto(*out) }\<close>\<close>

definition copyPointer :: "copier \<Rightarrow> copier" where
  "copyPointer into p = (case p of
       Pointer (Some a) \<Rightarrow>
         bindP (allocate (Variable Fresh)) (\<lambda>b.
         bindP (readVariable a) (\<lambda>v.
         bindP (into v) (\<lambda>w.
         thenP (overwrite b (Variable w)) (retP (Pointer (Some b))))))
     | _ \<Rightarrow> retP p)"

text \<open>
  \<open>if in.S != nil { *out = make([]T, len(*in)); for i := range *in { ... } }\<close>; the built-in
  \<open>copy\<close> is the loop that assigns the elements.
\<close>

fun copyElements :: "copier \<Rightarrow> nat \<Rightarrow> nat \<Rightarrow> nat \<Rightarrow> nat \<Rightarrow> nat
    \<Rightarrow> (store, unit) prog" where
  "copyElements into a s b i 0 = retP ()"
| "copyElements into a s b i (Suc n) =
     bindP (readElement a (s + i)) (\<lambda>v.
     bindP (into v) (\<lambda>w.
     thenP (writeElement b i w) (copyElements into a s b (Suc i) n)))"

definition copySlice :: "copier \<Rightarrow> copier" where
  "copySlice into p = (case p of
       Slice (Some (a, s, n)) \<Rightarrow>
         bindP (allocate (Array (replicate n Fresh))) (\<lambda>b.
         thenP (copyElements into a s b 0 n) (retP (Slice (Some (b, 0, n)))))
     | _ \<Rightarrow> retP p)"

text \<open>
  \<open>if in.M != nil { *out = make(map[string]T, len(*in)); for key, val := range *in { ... } }\<close>.
  Go's order of iteration is unspecified; the keys of a map are distinct, so the table made is
  the same map in every order, and the loop is run here in the order of the table.
\<close>

fun copyEntries :: "copier \<Rightarrow> nat \<Rightarrow> (string \<times> govalue) list \<Rightarrow> (store, unit) prog" where
  "copyEntries into b [] = retP ()"
| "copyEntries into b ((k, v) # es) =
     bindP (into v) (\<lambda>w. thenP (writeEntry b k w) (copyEntries into b es))"

definition copyMap :: "copier \<Rightarrow> copier" where
  "copyMap into p = (case p of
       MapRef (Some a) \<Rightarrow>
         bindP (allocate (Table [])) (\<lambda>b.
         bindP (readTable a) (\<lambda>es.
         thenP (copyEntries into b es) (retP (MapRef (Some b)))))
     | _ \<Rightarrow> retP p)"

text \<open>
  The body of a \<open>DeepCopyInto\<close>: \<open>*out = *in\<close>, then one block for each field that has memory of
  its own, which reads the field of \<open>in\<close> and assigns the field of \<open>out\<close>.
\<close>

definition field :: "string \<Rightarrow> (string \<times> govalue) list \<Rightarrow> govalue" where
  "field f fs = (case map_of fs f of Some v \<Rightarrow> v | None \<Rightarrow> Fresh)"

fun copyFields ::
  "(string \<times> copier) list \<Rightarrow> (string \<times> govalue) list \<Rightarrow> (string \<times> govalue) list
    \<Rightarrow> (store, (string \<times> govalue) list) prog" where
  "copyFields [] inn out = retP out"
| "copyFields ((f, into) # blocks) inn out =
     bindP (into (field f inn)) (\<lambda>w. copyFields blocks inn (put f w out))"

definition copyStruct :: "(string \<times> copier) list \<Rightarrow> copier" where
  "copyStruct blocks v = (case v of
       Struct fs \<Rightarrow> bindP (copyFields blocks fs fs) (\<lambda>out. retP (Struct out))
     | _ \<Rightarrow> retP v)"

text \<open>
  \<open>DeepCopy\<close>: nil for a nil receiver, else a new variable filled by \<open>DeepCopyInto\<close>.
  \<open>DeepCopyObject\<close> returns it as an interface, and the nil interface for a nil pointer.
\<close>

definition deepCopy :: "copier \<Rightarrow> nat option \<Rightarrow> (store, nat option) prog" where
  "deepCopy into inn = (case inn of
       None \<Rightarrow> retP None
     | Some a \<Rightarrow>
         bindP (allocate (Variable Fresh)) (\<lambda>out.
         bindP (readVariable a) (\<lambda>v.
         bindP (into v) (\<lambda>w.
         thenP (overwrite out (Variable w)) (retP (Some out))))))"

definition deepCopyObject :: "(nat option \<Rightarrow> (store, nat option) prog) \<Rightarrow> nat option
    \<Rightarrow> (store, nat option) prog" where
  "deepCopyObject copy inn = bindP (copy inn) (\<lambda>c. if c \<noteq> None then retP c else retP None)"

subsection \<open>What a value means in a store\<close>

text \<open>The Go types, as far as memory is concerned, and the contents of their values.\<close>

datatype shape =
    Scalar
  | PointerTo shape
  | SliceOf shape
  | MapOf shape
  | StructOf "(string \<times> shape) list"

datatype data =
    Leaf plain
  | NilValue
  | PointsTo data
  | Elements "data list"
  | Entries "(string \<times> data) list"
  | Fields "(string \<times> data) list"

definition window :: "store \<Rightarrow> nat \<Rightarrow> nat \<Rightarrow> nat \<Rightarrow> govalue list option" where
  "window h a s n = (case load h a of
       Some (Array vs) \<Rightarrow> if s + n \<le> length vs then Some (take n (drop s vs)) else None
     | _ \<Rightarrow> None)"

definition variable :: "store \<Rightarrow> nat \<Rightarrow> govalue option" where
  "variable h a = (case load h a of Some (Variable v) \<Rightarrow> Some v | _ \<Rightarrow> None)"

definition entries :: "store \<Rightarrow> nat \<Rightarrow> (string \<times> govalue) list option" where
  "entries h a = (case load h a of
       Some (Table es) \<Rightarrow> if distinct (map fst es) then Some es else None
     | _ \<Rightarrow> None)"

fun collect :: "('a \<Rightarrow> 'b option) \<Rightarrow> 'a list \<Rightarrow> 'b list option" where
  "collect f [] = Some []"
| "collect f (x # xs) = (case f x of None \<Rightarrow> None
     | Some y \<Rightarrow> (case collect f xs of None \<Rightarrow> None | Some ys \<Rightarrow> Some (y # ys)))"

lemma collect_cong [fundef_cong]:
  "xs = ys \<Longrightarrow> (\<And>x. x \<in> set ys \<Longrightarrow> f x = g x) \<Longrightarrow> collect f xs = collect g ys"
  by (induction ys arbitrary: xs) (simp_all split: option.splits)

lemma collect_iff: "collect f xs = Some ys \<longleftrightarrow> list_all2 (\<lambda>x y. f x = Some y) xs ys"
proof (induction xs arbitrary: ys)
  case (Cons x xs)
  show ?case unfolding list_all2_Cons1 Cons.IH [symmetric] by (auto split: option.splits)
qed auto

lemma collect_member: "collect f xs = Some ys \<Longrightarrow> x \<in> set xs \<Longrightarrow> \<exists>y. f x = Some y"
  by (induction xs arbitrary: ys) (auto split: option.splits)

fun content :: "store \<Rightarrow> shape \<Rightarrow> govalue \<Rightarrow> data option"
and contents :: "store \<Rightarrow> (string \<times> shape) list \<Rightarrow> (string \<times> govalue) list
    \<Rightarrow> (string \<times> data) list option" where
  "content h Scalar v = (case v of Plain p \<Rightarrow> Some (Leaf p) | _ \<Rightarrow> None)"
| "content h (PointerTo s) v = (case v of
       Pointer None \<Rightarrow> Some NilValue
     | Pointer (Some a) \<Rightarrow> (case variable h a of None \<Rightarrow> None
         | Some u \<Rightarrow> map_option PointsTo (content h s u))
     | _ \<Rightarrow> None)"
| "content h (SliceOf s) v = (case v of
       Slice None \<Rightarrow> Some NilValue
     | Slice (Some (a, i, n)) \<Rightarrow> (case window h a i n of None \<Rightarrow> None
         | Some us \<Rightarrow> map_option Elements (collect (\<lambda>u. content h s u) us))
     | _ \<Rightarrow> None)"
| "content h (MapOf s) v = (case v of
       MapRef None \<Rightarrow> Some NilValue
     | MapRef (Some a) \<Rightarrow> (case entries h a of None \<Rightarrow> None
         | Some es \<Rightarrow> map_option (\<lambda>xs. Entries (zip (map fst es) xs))
             (collect (\<lambda>e. content h s (snd e)) es))
     | _ \<Rightarrow> None)"
| "content h (StructOf ss) v = (case v of
       Struct fs \<Rightarrow> map_option Fields (contents h ss fs)
     | _ \<Rightarrow> None)"
| "contents h [] fs = (case fs of [] \<Rightarrow> Some [] | _ \<Rightarrow> None)"
| "contents h ((f, s) # ss) fs = (case fs of
       [] \<Rightarrow> None
     | (g, v) # fs' \<Rightarrow> if f \<noteq> g then None else (case content h s v of None \<Rightarrow> None
         | Some x \<Rightarrow> (case contents h ss fs' of None \<Rightarrow> None | Some xs \<Rightarrow> Some ((f, x) # xs))))"

text \<open>The cells a value is made of: everything that can be reached from it.\<close>

fun cells :: "store \<Rightarrow> shape \<Rightarrow> govalue \<Rightarrow> nat set"
and cells_of :: "store \<Rightarrow> (string \<times> shape) list \<Rightarrow> (string \<times> govalue) list \<Rightarrow> nat set" where
  "cells h Scalar v = {}"
| "cells h (PointerTo s) v = (case v of
       Pointer (Some a) \<Rightarrow> insert a (case variable h a of None \<Rightarrow> {} | Some u \<Rightarrow> cells h s u)
     | _ \<Rightarrow> {})"
| "cells h (SliceOf s) v = (case v of
       Slice (Some (a, i, n)) \<Rightarrow> insert a (case window h a i n of None \<Rightarrow> {}
         | Some us \<Rightarrow> \<Union> (cells h s ` set us))
     | _ \<Rightarrow> {})"
| "cells h (MapOf s) v = (case v of
       MapRef (Some a) \<Rightarrow> insert a (case entries h a of None \<Rightarrow> {}
         | Some es \<Rightarrow> \<Union> ((\<lambda>e. cells h s (snd e)) ` set es))
     | _ \<Rightarrow> {})"
| "cells h (StructOf ss) v = (case v of Struct fs \<Rightarrow> cells_of h ss fs | _ \<Rightarrow> {})"
| "cells_of h [] fs = {}"
| "cells_of h ((f, s) # ss) fs = (case fs of
       [] \<Rightarrow> {}
     | (g, v) # fs' \<Rightarrow> cells h s v \<union> cells_of h ss fs')"

subsection \<open>Frames\<close>

text \<open>A value depends on its own cells only, and those are allocated.\<close>

definition agree :: "store \<Rightarrow> store \<Rightarrow> nat set \<Rightarrow> bool" where
  "agree h h' A \<longleftrightarrow> (\<forall>a \<in> A. load h' a = load h a)"

lemma agree_append [simp]: "A \<subseteq> {..<length h} \<Longrightarrow> agree h (h @ e) A"
  by (auto simp: agree_def)

lemma agree_mono: "agree h h' B \<Longrightarrow> A \<subseteq> B \<Longrightarrow> agree h h' A"
  by (auto simp: agree_def)

lemma agree_Un: "agree h h' (A \<union> B) \<longleftrightarrow> agree h h' A \<and> agree h h' B"
  and agree_insert: "agree h h' (insert a A) \<longleftrightarrow> load h' a = load h a \<and> agree h h' A"
  and agree_UN: "agree h h' (\<Union> (F ` X)) \<longleftrightarrow> (\<forall>x \<in> X. agree h h' (F x))"
  by (auto simp: agree_def)

lemma same_reads:
  assumes "load h' a = load h a"
  shows "variable h' a = variable h a" and "window h' a i n = window h a i n"
    and "entries h' a = entries h a"
  using assms by (simp_all add: variable_def window_def entries_def)

lemma frame:
  "agree h h' (cells h s v) \<Longrightarrow> content h' s v = content h s v \<and> cells h' s v = cells h s v"
  "agree h h' (cells_of h ss fs) \<Longrightarrow>
    contents h' ss fs = contents h ss fs \<and> cells_of h' ss fs = cells_of h ss fs"
proof (induction h s v and h ss fs rule: cells_cells_of.induct)
  case (1 h v)
  then show ?case by simp
next
  case (2 h s v)
  show ?case
  proof (cases v)
    case (Pointer p)
    show ?thesis
    proof (cases p)
      case (Some a)
      have "load h' a = load h a" using 2(2) Pointer Some by (simp add: agree_insert)
      note reads = same_reads [OF this]
      show ?thesis
      proof (cases "variable h a")
        case None
        then show ?thesis using Pointer Some reads by simp
      next
        case (Some u)
        have "content h' s u = content h s u \<and> cells h' s u = cells h s u"
          using 2 Pointer \<open>p = Some a\<close> Some by (simp add: agree_insert)
        then show ?thesis using Pointer \<open>p = Some a\<close> reads Some by simp
      qed
    qed (simp add: Pointer)
  qed simp_all
next
  case (3 h s v)
  show ?case
  proof (cases v)
    case (Slice p)
    show ?thesis
    proof (cases p)
      case (Some q)
      obtain a i n where q: "q = (a, i, n)" by (cases q)
      have "load h' a = load h a" using 3(2) Slice Some q by (simp add: agree_insert)
      note reads = same_reads[OF this]
      show ?thesis
      proof (cases "window h a i n")
        case None
        then show ?thesis using Slice Some q reads by simp
      next
        case (Some us)
        have "content h' s u = content h s u \<and> cells h' s u = cells h s u" if "u \<in> set us" for u
          using 3 Slice \<open>p = Some q\<close> q Some that by (simp add: agree_insert agree_UN)
        then show ?thesis using Slice \<open>p = Some q\<close> q reads Some
          by (simp cong: collect_cong)
      qed
    qed (simp add: Slice)
  qed simp_all
next
  case (4 h s v)
  show ?case
  proof (cases v)
    case (MapRef p)
    show ?thesis
    proof (cases p)
      case (Some a)
      have "load h' a = load h a" using 4(2) MapRef Some by (simp add: agree_insert)
      note reads = same_reads[OF this]
      show ?thesis
      proof (cases "entries h a")
        case None
        then show ?thesis using MapRef Some reads by simp
      next
        case (Some es)
        have "content h' s (snd e) = content h s (snd e) \<and> cells h' s (snd e) = cells h s (snd e)"
          if "e \<in> set es" for e
          using 4 MapRef \<open>p = Some a\<close> Some that by (simp add: agree_insert agree_UN)
        then show ?thesis using MapRef \<open>p = Some a\<close> reads Some
          by (simp cong: collect_cong)
      qed
    qed (simp add: MapRef)
  qed simp_all
next
  case (5 h ss v)
  then show ?case by (cases v) simp_all
next
  case (6 h fs)
  then show ?case by simp
next
  case (7 h f s ss fs)
  show ?case
  proof (cases fs)
    case (Cons e fs')
    obtain g u where e: "(g, u) = e" by (metis surj_pair)
    have "content h' s u = content h s u \<and> cells h' s u = cells h s u"
      using 7(1) [OF Cons e] 7(3) Cons e by (auto simp: agree_Un)
    moreover have "contents h' ss fs' = contents h ss fs' \<and> cells_of h' ss fs' = cells_of h ss fs'"
      using 7(2) [OF Cons e] 7(3) Cons e by (auto simp: agree_Un)
    ultimately show ?thesis using Cons e [symmetric] by (simp cong: option.case_cong)
  qed simp
qed

lemma variable_eq_Some: "variable h a = Some v \<longleftrightarrow> load h a = Some (Variable v)"
  by (auto simp: variable_def split: option.splits cell.splits)

lemma window_eq_Some: "window h a i n = Some us \<longleftrightarrow>
    (\<exists>vs. load h a = Some (Array vs) \<and> i + n \<le> length vs \<and> us = take n (drop i vs))"
  by (auto simp: window_def split: option.splits cell.splits)

lemma entries_eq_Some:
  "entries h a = Some es \<longleftrightarrow> load h a = Some (Table es) \<and> distinct (map fst es)"
  by (auto simp: entries_def split: option.splits cell.splits)

lemma cells_allocated:
  "content h s v = Some x \<Longrightarrow> cells h s v \<subseteq> {..<length h}"
  "contents h ss fs = Some xs \<Longrightarrow> cells_of h ss fs \<subseteq> {..<length h}"
proof (induction h s v and h ss fs arbitrary: x and xs rule: cells_cells_of.induct)
  case (2 h s v)
  from 2(2) show ?case
  proof (cases v)
    case (Pointer p)
    show ?thesis
    proof (cases p)
      case (Some a)
      obtain u y where u: "variable h a = Some u" "content h s u = Some y"
        using 2(2) Pointer Some by (auto split: option.splits)
      have "a < length h" using u(1) by (auto simp: variable_eq_Some dest: load_in)
      moreover have "cells h s u \<subseteq> {..<length h}" using 2(1) Pointer Some u by blast
      ultimately show ?thesis using Pointer Some u(1) by simp
    qed (simp add: Pointer)
  qed simp_all
next
  case (3 h s v)
  from 3(2) show ?case
  proof (cases v)
    case (Slice p)
    show ?thesis
    proof (cases p)
      case (Some q)
      obtain a i n where q: "q = (a, i, n)" by (cases q)
      obtain us xs where us: "window h a i n = Some us" "collect (content h s) us = Some xs"
        using 3(2) Slice Some q by (auto split: option.splits)
      have "a < length h" using us(1) by (auto simp: window_eq_Some dest: load_in)
      moreover have "cells h s u \<subseteq> {..<length h}" if "u \<in> set us" for u
      proof -
        have "\<exists>y. content h s u = Some y"
          using collect_member [OF us(2) that] .
        then show ?thesis using 3(1) Slice Some q us(1) that by blast
      qed
      ultimately show ?thesis using Slice Some q us(1) by auto
    qed (simp add: Slice)
  qed simp_all
next
  case (4 h s v)
  from 4(2) show ?case
  proof (cases v)
    case (MapRef p)
    show ?thesis
    proof (cases p)
      case (Some a)
      obtain es xs where es: "entries h a = Some es" "collect (\<lambda>e. content h s (snd e)) es = Some xs"
        using 4(2) MapRef Some by (auto split: option.splits)
      have "a < length h" using es(1) by (auto simp: entries_eq_Some dest: load_in)
      moreover have "cells h s (snd e) \<subseteq> {..<length h}" if "e \<in> set es" for e
      proof -
        have "\<exists>y. content h s (snd e) = Some y"
          using collect_member [OF es(2) that] .
        then show ?thesis using 4(1) MapRef Some es(1) that by blast
      qed
      ultimately show ?thesis using MapRef Some es(1) by auto
    qed (simp add: MapRef)
  qed simp_all
next
  case (5 h ss v)
  then show ?case by (cases v) auto
next
  case (7 h f s ss fs)
  show ?case
  proof (cases fs)
    case (Cons e fs')
    obtain g u where e: "(g, u) = e" by (metis surj_pair)
    show ?thesis using 7(1) [OF Cons e] 7(2) [OF Cons e] 7(3) Cons e [symmetric]
      by (auto split: if_splits option.splits)
  qed simp
qed auto

subsection \<open>What a copy shares with its original\<close>

text \<open>
  \<open>copies s c S\<close>: for a value of type \<open>s\<close> the block \<open>c\<close> ends without a panic and changes no
  allocated cell, its result has the same content, and the cells it has in common with the
  memory from before are exactly \<open>S\<close>. A deep copy has none in common.
\<close>

definition copies :: "shape \<Rightarrow> copier \<Rightarrow> (store \<Rightarrow> govalue \<Rightarrow> nat set) \<Rightarrow> bool" where
  "copies s c S \<longleftrightarrow> (\<forall>h v x. content h s v = Some x \<longrightarrow>
     S h v \<subseteq> cells h s v \<and>
     (\<forall>h'. agree h h' (cells h s v) \<longrightarrow> S h' v = S h v) \<and>
     (\<exists>w e. c v h = (Ok w, h @ e) \<and> content (h @ e) s w = Some x \<and>
       cells (h @ e) s w \<inter> {..<length h} = S h v))"

abbreviation deep :: "shape \<Rightarrow> copier \<Rightarrow> bool" where
  "deep s c \<equiv> copies s c (\<lambda>_ _. {})"

lemma copies_assign: "copies s assign (\<lambda>h v. cells h s v)"
  unfolding copies_def
proof (intro allI impI conjI)
  fix h v x
  assume x: "content h s v = Some x"
  show "\<exists>w e. assign v h = (Ok w, h @ e) \<and> content (h @ e) s w = Some x \<and>
      cells (h @ e) s w \<inter> {..<length h} = cells h s v"
    using x Int_absorb2 [OF cells_allocated(1) [OF x]]
    by (intro exI [of _ v] exI [of _ "[]"]) (simp add: assign_def retP_def)
qed (simp_all add: frame)

lemma load_behind: "a \<noteq> length h \<Longrightarrow> load (h @ c # e) a = load (h @ d # e) a"
  by (auto simp: load_def nth_append nth_Cons')

lemma copies_shared:
  assumes "copies s c S" and "content h s v = Some x"
  shows "S h v \<subseteq> cells h s v" and "S h v \<subseteq> {..<length h}"
    and "agree h h' (cells h s v) \<Longrightarrow> S h' v = S h v"
  using assms cells_allocated(1) [OF assms(2)] by (auto simp: copies_def)

text \<open>
  One use of \<open>c\<close> inside a longer copy, after a cell was reserved behind \<open>h\<close> and others were
  made for earlier parts. The result stays what it is when that cell is filled and more is
  allocated.
\<close>

lemma copies_behind:
  assumes "copies s c S" and "content h s v = Some x"
  obtains w e' where "c v (h @ C # e) = (Ok w, h @ C # e @ e')"
    and "\<And>D e''. content (h @ D # e @ e' @ e'') s w = Some x"
    and "\<And>D e''. cells (h @ D # e @ e' @ e'') s w \<inter> {..length h} = S h v"
proof -
  let ?H = "h @ C # e"
  have "agree h ?H (cells h s v)" using cells_allocated(1) [OF assms(2)] by simp
  then have H: "content ?H s v = Some x" "S ?H v = S h v"
    using frame(1) assms(2) copies_shared(3) [OF assms] by auto
  from assms(1) H obtain w e' where w: "c v ?H = (Ok w, ?H @ e')"
      "content (?H @ e') s w = Some x" "cells (?H @ e') s w \<inter> {..<length ?H} = S h v"
    unfolding copies_def by metis
  have low: "a < length h" if "a \<in> cells (?H @ e') s w" "a < length ?H" for a
    using w(3) copies_shared(2) [OF assms] that by auto
  have same: "content (h @ D # e @ e' @ e'') s w = Some x \<and>
      cells (h @ D # e @ e' @ e'') s w = cells (?H @ e') s w" for D e''
  proof -
    have "load (h @ D # e @ e' @ e'') a = load (?H @ e') a" if a: "a \<in> cells (?H @ e') s w" for a
    proof -
      have "a \<noteq> length h" using low [OF a] by auto
      then have "load (h @ D # e @ e' @ e'') a = load ((?H @ e') @ e'') a"
        using load_behind [of a h D "e @ e' @ e''" C] by simp
      also have "\<dots> = load (?H @ e') a"
        by (rule load_old) (use cells_allocated(1) [OF w(2)] a in auto)
      finally show ?thesis .
    qed
    then have "agree (?H @ e') (h @ D # e @ e' @ e'') (cells (?H @ e') s w)"
      by (simp add: agree_def)
    then show ?thesis using frame(1) w(2) by simp
  qed
  have "cells (?H @ e') s w \<inter> {..length h} = S h v"
    using w(3) low copies_shared(2) [OF assms] by auto
  then show thesis using that [of w e'] w(1) same by simp
qed

text \<open>Pointers.\<close>

lemma copies_pointer:
  assumes "copies s c S"
  shows "copies (PointerTo s) (copyPointer c) (\<lambda>h p. case p of
      Pointer (Some a) \<Rightarrow> (case variable h a of Some u \<Rightarrow> S h u | None \<Rightarrow> {}) | _ \<Rightarrow> {})"
    (is "copies _ _ ?S")
  unfolding copies_def
proof (intro allI impI)
  fix h p x
  assume x: "content h (PointerTo s) p = Some x"
  show "?S h p \<subseteq> cells h (PointerTo s) p \<and>
      (\<forall>h'. agree h h' (cells h (PointerTo s) p) \<longrightarrow> ?S h' p = ?S h p) \<and>
      (\<exists>w e. copyPointer c p h = (Ok w, h @ e) \<and> content (h @ e) (PointerTo s) w = Some x \<and>
        cells (h @ e) (PointerTo s) w \<inter> {..<length h} = ?S h p)"
  proof (cases "p = Pointer None")
    case True
    then show ?thesis using x by (simp add: copyPointer_def run_prog)
  next
    case False
    then obtain a u y where p: "p = Pointer (Some a)" "variable h a = Some u"
        "content h s u = Some y" "x = PointsTo y"
      using x by (auto split: govalue.splits option.splits)
    obtain w e where w: "c u (h @ [Variable Fresh]) = (Ok w, h @ Variable Fresh # e)"
      "content (h @ Variable w # e) s w = Some y"
      "cells (h @ Variable w # e) s w \<inter> {..length h} = S h u"
      using copies_behind [OF assms p(3), of "Variable Fresh" "[]"]
      by (metis append_Cons append_Nil append_Nil2)
    have a: "a < length h" using p(2) by (auto simp: variable_eq_Some dest: load_in)
    let ?G = "h @ Variable w # e"
    have "cells ?G s w \<inter> {..<length h} = S h u"
      using w(3) copies_shared(2) [OF assms p(3)] by auto
    moreover have "copyPointer c p h = (Ok (Pointer (Some (length h))), ?G)"
      using w(1) p a by (simp add: copyPointer_def allocate_def readVariable_def overwrite_def
          variable_eq_Some run_prog)
    moreover have "S h' u = S h u" if "agree h h' (cells h (PointerTo s) p)" for h'
      using copies_shared(3) [OF assms p(3)] p that by (simp add: agree_insert)
    ultimately show ?thesis using p w(2) copies_shared(1) [OF assms p(3)]
      by (auto simp: variable_eq_Some agree_insert variable_def)
  qed
qed

text \<open>
  Slices: the new array lies directly behind \<open>h\<close>, its first elements are done, and behind it
  lies what the elements needed.
\<close>

lemma copyElements_copies:
  assumes c: "copies s c S" and a: "load h a = Some (Array vs)"
    and us: "k + i + length us \<le> length vs" "us = take (length us) (drop (k + i) vs)"
    and xs: "list_all2 (\<lambda>u x. content h s u = Some x) us xs" and i: "i = length ws"
  shows "\<exists>ws' e'. copyElements c a k (length h) i (length us)
        (h @ Array (ws @ replicate (length us) Fresh) # e)
      = (Ok (), h @ Array (ws @ ws') # e @ e') \<and>
    list_all2 (\<lambda>w x. content (h @ Array (ws @ ws') # e @ e') s w = Some x) ws' xs \<and>
    list_all2 (\<lambda>u w. cells (h @ Array (ws @ ws') # e @ e') s w \<inter> {..length h} = S h u) us ws'"
  using us xs i
proof (induction us arbitrary: i ws e xs)
  case Nil
  then show ?case by (intro exI [of _ "[]"]) (simp add: run_prog)
next
  case (Cons u us)
  from Cons.prems(3) obtain x xs' where xs: "xs = x # xs'" "content h s u = Some x"
      "list_all2 (\<lambda>u x. content h s u = Some x) us xs'"
    by (auto simp: list_all2_Cons1)
  have u: "vs ! (k + i) = u" "us = take (length us) (drop (k + Suc i) vs)"
    using Cons.prems(1,2) by (auto simp: Cons_nth_drop_Suc [symmetric])
  have alen: "a < length h" using a by (rule load_in)
  let ?C = "Array (ws @ Fresh # replicate (length us) Fresh)"
  obtain w e1 where w: "c u (h @ ?C # e) = (Ok w, h @ ?C # e @ e1)"
    and G: "\<And>D e''. content (h @ D # e @ e1 @ e'') s w = Some x"
      "\<And>D e''. cells (h @ D # e @ e1 @ e'') s w \<inter> {..length h} = S h u"
    using copies_behind [OF c xs(2), of ?C e] by blast
  obtain ws' e2 where IH: "copyElements c a k (length h) (Suc i) (length us)
        (h @ Array ((ws @ [w]) @ replicate (length us) Fresh) # e @ e1)
      = (Ok (), h @ Array ((ws @ [w]) @ ws') # (e @ e1) @ e2)"
    "list_all2 (\<lambda>v x. content (h @ Array ((ws @ [w]) @ ws') # (e @ e1) @ e2) s v = Some x) ws' xs'"
    "list_all2 (\<lambda>u v. cells (h @ Array ((ws @ [w]) @ ws') # (e @ e1) @ e2) s v \<inter> {..length h}
        = S h u) us ws'"
    using Cons.IH [of "Suc i" xs' "ws @ [w]" "e @ e1"] Cons.prems(1,4) u(2) xs(3) by auto
  let ?G = "h @ Array (ws @ w # ws') # e @ e1 @ e2"
  have "copyElements c a k (length h) i (length (u # us))
        (h @ Array (ws @ replicate (length (u # us)) Fresh) # e) = (Ok (), ?G)"
    using w IH(1) a alen u(1) Cons.prems(1,4)
    by (simp add: readElement_def writeElement_def run_prog list_update_append)
  then show ?case using IH(2,3) G xs(1)
    by (intro exI [of _ "w # ws'"] exI [of _ "e1 @ e2"]) simp
qed

lemma shared_union:
  "list_all2 (\<lambda>u w. F w \<inter> B = G u) us ws \<Longrightarrow> \<Union> (F ` set ws) \<inter> B = \<Union> (G ` set us)"
  by (induction rule: list_all2_induct) (simp_all add: Int_Un_distrib2)

lemma shared_below: "X \<inter> {..n} = Y \<Longrightarrow> Y \<subseteq> {..<n} \<Longrightarrow> X \<inter> {..<n} = Y" for n :: nat
  by auto

lemma copies_slice:
  assumes "copies s c S"
  shows "copies (SliceOf s) (copySlice c) (\<lambda>h p. case p of
      Slice (Some (a, i, n)) \<Rightarrow> (case window h a i n of Some us \<Rightarrow> \<Union> (S h ` set us) | None \<Rightarrow> {})
    | _ \<Rightarrow> {})"
    (is "copies _ _ ?S")
  unfolding copies_def
proof (intro allI impI)
  fix h p x
  assume x: "content h (SliceOf s) p = Some x"
  show "?S h p \<subseteq> cells h (SliceOf s) p \<and>
      (\<forall>h'. agree h h' (cells h (SliceOf s) p) \<longrightarrow> ?S h' p = ?S h p) \<and>
      (\<exists>w e. copySlice c p h = (Ok w, h @ e) \<and> content (h @ e) (SliceOf s) w = Some x \<and>
        cells (h @ e) (SliceOf s) w \<inter> {..<length h} = ?S h p)"
  proof (cases "p = Slice None")
    case True
    then show ?thesis using x by (simp add: copySlice_def run_prog)
  next
    case False
    then obtain a i n us xs where p: "p = Slice (Some (a, i, n))" "window h a i n = Some us"
        "collect (content h s) us = Some xs" "x = Elements xs"
      using x by (auto split: govalue.splits option.splits)
    obtain vs where vs: "load h a = Some (Array vs)" "i + n \<le> length vs" "us = take n (drop i vs)"
      using p(2) by (auto simp: window_eq_Some)
    have pre: "i + 0 + length us \<le> length vs" "us = take (length us) (drop (i + 0) vs)"
      and n: "length us = n"
      using vs(2,3) by simp_all
    obtain ws e where ws: "copyElements c a i (length h) 0 n (h @ [Array (replicate n Fresh)])
          = (Ok (), h @ Array ws # e)"
        "list_all2 (\<lambda>w x. content (h @ Array ws # e) s w = Some x) ws xs"
        "list_all2 (\<lambda>u w. cells (h @ Array ws # e) s w \<inter> {..length h} = S h u) us ws"
      using copyElements_copies [OF assms vs(1) pre p(3) [unfolded collect_iff], of "[]" "[]"]
      unfolding n by auto
    let ?G = "h @ Array ws # e"
    have len: "length ws = n" "length us = n" using list_all2_lengthD [OF ws(3)] n by simp_all
    have W: "window ?G (length h) 0 n = Some ws" using len by (simp add: window_def)
    have each: "S h u \<subseteq> cells h s u \<and> cells h s u \<subseteq> {..<length h} \<and>
        (\<forall>h'. agree h h' (cells h s u) \<longrightarrow> S h' u = S h u)" if "u \<in> set us" for u
      using collect_member [OF p(3) that] copies_shared [OF assms] cells_allocated(1) by metis
    have "\<Union> (cells ?G s ` set ws) \<inter> {..length h} = \<Union> (S h ` set us)"
      using ws(3) by (rule shared_union)
    moreover have "\<Union> (S h ` set us) \<subseteq> {..<length h}" using each by blast
    ultimately have "\<Union> (cells ?G s ` set ws) \<inter> {..<length h} = \<Union> (S h ` set us)"
      by (rule shared_below)
    then have shared: "cells ?G (SliceOf s) (Slice (Some (length h, 0, n))) \<inter> {..<length h} = ?S h p"
      using p(1,2) W by simp
    have same: "content ?G (SliceOf s) (Slice (Some (length h, 0, n))) = Some x"
      using p(4) W ws(2) unfolding collect_iff [symmetric] by simp
    have run: "copySlice c p h = (Ok (Slice (Some (length h, 0, n))), ?G)"
      using ws(1) p(1) by (simp add: copySlice_def allocate_def run_prog)
    have "?S h' p = ?S h p" if agr: "agree h h' (cells h (SliceOf s) p)" for h'
    proof -
      have "load h' a = load h a" using agr p(1) by (simp add: agree_insert)
      then have "window h' a i n = Some us" using p(2) same_reads(2) by metis
      moreover have "S h' u = S h u" if "u \<in> set us" for u
        using each [OF that] agr p(1,2) that by (simp add: agree_insert agree_UN)
      ultimately show ?thesis using p(1,2) by simp
    qed
    moreover have "?S h p \<subseteq> cells h (SliceOf s) p"
    proof -
      have "\<Union> (S h ` set us) \<subseteq> \<Union> (cells h s ` set us)" using each by (intro UN_mono) auto
      then show ?thesis using p(1,2) by auto
    qed
    ultimately show ?thesis using run same shared by blast
  qed
qed

text \<open>Maps: the table behind \<open>h\<close> fills up in the order of the loop.\<close>

lemma put_new: "k \<notin> fst ` set es \<Longrightarrow> put k v es = es @ [(k, v)]"
  by (simp add: put_def)

lemma copyEntries_copies:
  assumes c: "copies s c S"
    and es: "distinct (map fst (ds @ es))" "list_all2 (\<lambda>e x. content h s (snd e) = Some x) es xs"
  shows "\<exists>ws e'. copyEntries c (length h) es (h @ Table ds # e)
      = (Ok (), h @ Table (ds @ ws) # e @ e') \<and> map fst ws = map fst es \<and>
    list_all2 (\<lambda>w x. content (h @ Table (ds @ ws) # e @ e') s (snd w) = Some x) ws xs \<and>
    list_all2 (\<lambda>u w. cells (h @ Table (ds @ ws) # e @ e') s (snd w) \<inter> {..length h} = S h (snd u))
      es ws"
  using es
proof (induction es arbitrary: ds e xs)
  case Nil
  then show ?case by (intro exI [of _ "[]"]) (simp add: run_prog)
next
  case (Cons kv es)
  obtain k v where kv: "kv = (k, v)" by (cases kv)
  from Cons.prems(2) kv obtain x xs' where xs: "xs = x # xs'" "content h s v = Some x"
      "list_all2 (\<lambda>e x. content h s (snd e) = Some x) es xs'"
    by (auto simp: list_all2_Cons1)
  obtain w e1 where w: "c v (h @ Table ds # e) = (Ok w, h @ Table ds # e @ e1)"
    and G: "\<And>D e''. content (h @ D # e @ e1 @ e'') s w = Some x"
      "\<And>D e''. cells (h @ D # e @ e1 @ e'') s w \<inter> {..length h} = S h v"
    using copies_behind [OF c xs(2), of "Table ds" e] by blast
  have k: "k \<notin> fst ` set ds" using Cons.prems(1) kv by auto
  have d: "distinct (map fst ((ds @ [(k, w)]) @ es))" using Cons.prems(1) kv by auto
  obtain ws e2 where IH: "copyEntries c (length h) es (h @ Table ((ds @ [(k, w)])) # e @ e1)
      = (Ok (), h @ Table ((ds @ [(k, w)]) @ ws) # (e @ e1) @ e2)" "map fst ws = map fst es"
    "list_all2 (\<lambda>w' x. content (h @ Table ((ds @ [(k, w)]) @ ws) # (e @ e1) @ e2) s (snd w')
        = Some x) ws xs'"
    "list_all2 (\<lambda>u w'. cells (h @ Table ((ds @ [(k, w)]) @ ws) # (e @ e1) @ e2) s (snd w')
        \<inter> {..length h} = S h (snd u)) es ws"
    using Cons.IH [OF d xs(3), of "e @ e1"] by auto
  have "copyEntries c (length h) (kv # es) (h @ Table ds # e)
      = (Ok (), h @ Table (ds @ (k, w) # ws) # e @ e1 @ e2)"
    using w IH(1) k kv by (simp add: writeEntry_def put_new run_prog)
  then show ?case using IH(2-4) G xs(1) kv
    by (intro exI [of _ "(k, w) # ws"] exI [of _ "e1 @ e2"]) simp
qed

lemma copies_map:
  assumes "copies s c S"
  shows "copies (MapOf s) (copyMap c) (\<lambda>h p. case p of
      MapRef (Some a) \<Rightarrow> (case entries h a of Some es \<Rightarrow> \<Union> ((\<lambda>e. S h (snd e)) ` set es) | None \<Rightarrow> {})
    | _ \<Rightarrow> {})"
    (is "copies _ _ ?S")
  unfolding copies_def
proof (intro allI impI)
  fix h p x
  assume x: "content h (MapOf s) p = Some x"
  show "?S h p \<subseteq> cells h (MapOf s) p \<and>
      (\<forall>h'. agree h h' (cells h (MapOf s) p) \<longrightarrow> ?S h' p = ?S h p) \<and>
      (\<exists>w e. copyMap c p h = (Ok w, h @ e) \<and> content (h @ e) (MapOf s) w = Some x \<and>
        cells (h @ e) (MapOf s) w \<inter> {..<length h} = ?S h p)"
  proof (cases "p = MapRef None")
    case True
    then show ?thesis using x by (simp add: copyMap_def run_prog)
  next
    case False
    then obtain a es xs where p: "p = MapRef (Some a)" "entries h a = Some es"
        "collect (\<lambda>e. content h s (snd e)) es = Some xs" "x = Entries (zip (map fst es) xs)"
      using x by (auto split: govalue.splits option.splits)
    have es: "load h a = Some (Table es)" "distinct (map fst es)"
      using p(2) by (auto simp: entries_eq_Some)
    obtain ws e where ws: "copyEntries c (length h) es (h @ [Table []]) = (Ok (), h @ Table ws # e)"
        "map fst ws = map fst es"
        "list_all2 (\<lambda>w x. content (h @ Table ws # e) s (snd w) = Some x) ws xs"
        "list_all2 (\<lambda>u w. cells (h @ Table ws # e) s (snd w) \<inter> {..length h} = S h (snd u)) es ws"
      using copyEntries_copies [OF assms, of "[]" es h xs "[]"] es(2) p(3) [unfolded collect_iff]
      by auto
    let ?G = "h @ Table ws # e"
    have W: "entries ?G (length h) = Some ws" using es(2) ws(2) by (simp add: entries_eq_Some)
    have each: "S h (snd u) \<subseteq> cells h s (snd u) \<and> cells h s (snd u) \<subseteq> {..<length h} \<and>
        (\<forall>h'. agree h h' (cells h s (snd u)) \<longrightarrow> S h' (snd u) = S h (snd u))" if "u \<in> set es" for u
      using collect_member [OF p(3) that] copies_shared [OF assms] cells_allocated(1) by metis
    have "\<Union> ((\<lambda>w. cells ?G s (snd w)) ` set ws) \<inter> {..length h} = \<Union> ((\<lambda>u. S h (snd u)) ` set es)"
      using ws(4) by (rule shared_union)
    moreover have "\<Union> ((\<lambda>u. S h (snd u)) ` set es) \<subseteq> {..<length h}" using each by blast
    ultimately have "\<Union> ((\<lambda>w. cells ?G s (snd w)) ` set ws) \<inter> {..<length h}
        = \<Union> ((\<lambda>u. S h (snd u)) ` set es)"
      by (rule shared_below)
    then have shared: "cells ?G (MapOf s) (MapRef (Some (length h))) \<inter> {..<length h} = ?S h p"
      using p(1,2) W by simp
    have same: "content ?G (MapOf s) (MapRef (Some (length h))) = Some x"
      using p(4) W ws(2,3) unfolding collect_iff [symmetric] by simp
    have "a < length h" using es(1) by (rule load_in)
    then have run: "copyMap c p h = (Ok (MapRef (Some (length h))), ?G)"
      using ws(1) p(1) es(1) by (simp add: copyMap_def allocate_def readTable_def run_prog)
    have "?S h' p = ?S h p" if agr: "agree h h' (cells h (MapOf s) p)" for h'
    proof -
      have "load h' a = load h a" using agr p(1) by (simp add: agree_insert)
      then have "entries h' a = Some es" using p(2) same_reads(3) by metis
      moreover have "S h' (snd u) = S h (snd u)" if "u \<in> set es" for u
        using each [OF that] agr p(1,2) that by (simp add: agree_insert agree_UN)
      ultimately show ?thesis using p(1,2) by simp
    qed
    moreover have "?S h p \<subseteq> cells h (MapOf s) p"
    proof -
      have "\<Union> ((\<lambda>u. S h (snd u)) ` set es) \<subseteq> \<Union> ((\<lambda>u. cells h s (snd u)) ` set es)"
        using each by (intro UN_mono) auto
      then show ?thesis using p(1,2) by auto
    qed
    ultimately show ?thesis using run same shared by blast
  qed
qed

text \<open>Structs, field by field.\<close>

lemma copies_after:
  assumes "copies s c S" and "content h s v = Some x"
  obtains w e' where "c v (h @ e) = (Ok w, h @ e @ e')"
    and "content (h @ e @ e') s w = Some x"
    and "cells (h @ e @ e') s w \<inter> {..<length h} = S h v"
proof -
  have agr: "agree h (h @ e) (cells h s v)" using cells_allocated(1) [OF assms(2)] by simp
  then have H: "content (h @ e) s v = Some x" "S (h @ e) v = S h v"
    using frame(1) assms(2) copies_shared(3) [OF assms] by auto
  from assms(1) H obtain w e' where w: "c v (h @ e) = (Ok w, (h @ e) @ e')"
      "content ((h @ e) @ e') s w = Some x" "cells ((h @ e) @ e') s w \<inter> {..<length (h @ e)} = S h v"
    unfolding copies_def by metis
  have "cells ((h @ e) @ e') s w \<inter> {..<length h} = S h v"
    using w(3) copies_shared(2) [OF assms] by auto
  then show thesis using that w by simp
qed

lemma still:
  assumes "content h s v = Some x"
  shows "content (h @ e) s v = Some x" and "cells (h @ e) s v = cells h s v"
  using frame(1) [of h "h @ e" s v] cells_allocated(1) [OF assms] assms by simp_all

lemma field_Cons [simp]: "field f ((g, v) # fs) = (if g = f then v else field f fs)"
  by (simp add: field_def)

lemma keys_put [simp]: "f \<in> fst ` set fs \<Longrightarrow> map fst (put f w fs) = map fst fs"
  by (simp add: put_def o_def case_prod_unfold)

lemma map_of_put: "map_of (put g w fs) f = (if f = g then Some w else map_of fs f)"
proof (cases "g \<in> fst ` set fs")
  case True
  have "map_of (map (\<lambda>(l, u). (l, if l = g then w else u)) fs) f
      = (if f = g \<and> g \<in> fst ` set fs then Some w else map_of fs f)"
  proof (induction fs)
    case (Cons kv fs)
    then show ?case by (cases kv; cases "f = g") auto
  qed simp
  with True show ?thesis by (simp add: put_def)
next
  case False
  then have "map_of fs g = None" by (simp add: map_of_eq_None_iff)
  with False show ?thesis by (simp add: put_def map_add_def split: option.splits)
qed

lemma field_put: "field f (put g w fs) = (if f = g then w else field f fs)"
  by (simp add: field_def map_of_put)

lemma contents_Cons: "contents h ((f, s) # ss) fs = Some xs \<longleftrightarrow>
    (\<exists>v gs x ys. fs = (f, v) # gs \<and> xs = (f, x) # ys \<and> content h s v = Some x \<and>
      contents h ss gs = Some ys)"
  by (cases fs) (auto split: option.splits if_splits)

lemma field_other: "f \<notin> fst ` set ss \<Longrightarrow> (f', s) \<in> set ss \<Longrightarrow> f \<noteq> f'"
  by force

lemma contents_fields:
  assumes "contents h ss fs = Some xs" and "distinct (map fst ss)"
  shows "map fst fs = map fst ss" and "map fst xs = map fst ss"
    and "(f, s) \<in> set ss \<Longrightarrow> content h s (field f fs) = map_of xs f"
proof -
  have "map fst fs = map fst ss \<and> map fst xs = map fst ss \<and>
      (\<forall>(f, s) \<in> set ss. content h s (field f fs) = map_of xs f)"
    using assms
  proof (induction ss arbitrary: fs xs)
    case Nil
    then show ?case by (auto split: list.splits)
  next
    case (Cons z ss)
    obtain f s where z: "z = (f, s)" by (cases z)
    obtain v gs x ys where parts: "fs = (f, v) # gs" "xs = (f, x) # ys" "content h s v = Some x"
        "contents h ss gs = Some ys"
      using Cons.prems(1) unfolding z contents_Cons by blast
    have fresh: "f \<notin> fst ` set ss" "distinct (map fst ss)" using Cons.prems(2) z by auto
    have "content h s' (field f' fs) = map_of xs f'" if "(f', s') \<in> set ss" for f' s'
      using Cons.IH [OF parts(4) fresh(2)] field_other [OF fresh(1) that] that parts(1,2) by auto
    then show ?case using Cons.IH [OF parts(4) fresh(2)] parts z by auto
  qed
  then show "map fst fs = map fst ss" "map fst xs = map fst ss"
    "(f, s) \<in> set ss \<Longrightarrow> content h s (field f fs) = map_of xs f" by auto
qed

lemma same_keys: "map fst fs = map fst ss \<Longrightarrow> (f, s) \<in> set ss \<Longrightarrow> f \<in> fst ` set fs"
  by (metis fst_conv image_eqI image_set)

lemma contents_field:
  assumes "contents h ss fs = Some xs" and "distinct (map fst ss)" and "(f, s) \<in> set ss"
  obtains y where "map_of xs f = Some y" and "content h s (field f fs) = Some y"
proof -
  have "f \<in> fst ` set xs" by (rule same_keys [OF contents_fields(2) [OF assms(1,2)] assms(3)])
  then have "map_of xs f \<noteq> None" by (simp add: map_of_eq_None_iff)
  then show thesis using that contents_fields(3) [OF assms] by auto
qed

lemma fields_contents:
  assumes "map fst fs = map fst ss" and "map fst xs = map fst ss" and "distinct (map fst ss)"
    and "\<And>f s. (f, s) \<in> set ss \<Longrightarrow> content h s (field f fs) = map_of xs f"
  shows "contents h ss fs = Some xs"
  using assms
proof (induction ss arbitrary: fs xs)
  case (Cons z ss)
  obtain f s where z: "z = (f, s)" by (cases z)
  obtain v gs where fs: "fs = (f, v) # gs" using Cons.prems(1) z by (cases fs) auto
  obtain x ys where xs: "xs = (f, x) # ys" using Cons.prems(2) z by (cases xs) auto
  have fresh: "f \<notin> fst ` set ss" using Cons.prems(3) z by simp
  have "contents h ss gs = Some ys"
  proof (rule Cons.IH)
    fix f' s' assume "(f', s') \<in> set ss"
    then show "content h s' (field f' gs) = map_of ys f'"
      using Cons.prems(4) [of f' s'] field_other [OF fresh] fs xs by auto
  qed (use Cons.prems(1-3) fs xs in auto)
  moreover have "content h s v = Some x" using Cons.prems(4) [of f s] z fs xs by simp
  ultimately show ?case unfolding z contents_Cons using fs xs by blast
qed simp

lemma cells_of_fields:
  assumes "map fst fs = map fst ss" and "distinct (map fst ss)"
  shows "cells_of h ss fs = (\<Union>(f, s) \<in> set ss. cells h s (field f fs))"
  using assms
proof (induction ss arbitrary: fs)
  case (Cons z ss)
  obtain f s where z: "z = (f, s)" by (cases z)
  obtain v gs where fs: "fs = (f, v) # gs" using Cons.prems(1) z by (cases fs) auto
  have fresh: "f \<notin> fst ` set ss" using Cons.prems(2) z by simp
  have "(\<Union>(f', s') \<in> set ss. cells h s' (field f' fs)) = (\<Union>(f', s') \<in> set ss. cells h s' (field f' gs))"
    using fs field_other [OF fresh] by (intro SUP_cong) auto
  then show ?case using Cons.IH [of gs] Cons.prems z fs by simp
qed simp

text \<open>A field is replaced, in a memory that has the other fields as they were.\<close>

lemma contents_put:
  assumes h: "contents h ss fs = Some xs" and d: "distinct (map fst ss)" and f: "(f, s) \<in> set ss"
    and v: "content g s v = Some y" "cells g s v = cells h s (field f fs)"
    and same: "agree h g (cells_of h ss fs)"
  shows "contents g ss (put f v fs) = Some (put f y xs)"
    and "cells_of g ss (put f v fs) = cells_of h ss fs"
proof -
  note keys = contents_fields [OF h d]
  have has: "f \<in> fst ` set fs" "f \<in> fst ` set xs"
    using same_keys [OF keys(1) f] same_keys [OF keys(2) f] by simp_all
  have only: "s' = s" if "(f, s') \<in> set ss" for s'
    using that f d by (metis eq_key_imp_eq_value)
  note whole = cells_of_fields [OF keys(1) d, of h]
  have keep: "content g s' (field f' fs) = content h s' (field f' fs) \<and>
      cells g s' (field f' fs) = cells h s' (field f' fs)" if "(f', s') \<in> set ss" for f' s'
    using that same unfolding whole by (intro frame(1)) (auto elim: agree_mono)
  show "contents g ss (put f v fs) = Some (put f y xs)"
  proof (rule fields_contents)
    fix f' s' assume f': "(f', s') \<in> set ss"
    show "content g s' (field f' (put f v fs)) = map_of (put f y xs) f'"
      using keep [OF f'] keys(3) [OF f'] v(1) only f'
      by (cases "f' = f") (auto simp: field_put map_of_put)
  qed (use has keys(1,2) d in simp_all)
  have "cells g s' (field f' (put f v fs)) = cells h s' (field f' fs)" if "(f', s') \<in> set ss" for f' s'
    using keep [OF that] v(2) only that by (cases "f' = f") (auto simp: field_put)
  then show "cells_of g ss (put f v fs) = cells_of h ss fs"
    using cells_of_fields [of "put f v fs" ss g] has(1) keys(1) d unfolding whole
    by (auto intro!: SUP_cong)
qed

lemma copyFields_copies:
  assumes ss: "distinct (map fst ss)" and inn: "contents h ss inn = Some xs"
    and "distinct (map fst blocks)"
    and "\<And>f c. (f, c) \<in> set blocks \<Longrightarrow> \<exists>s. (f, s) \<in> set ss \<and> copies s c (T f)"
    and "map fst out = map fst ss"
    and "\<And>f s. (f, s) \<in> set ss \<Longrightarrow> content (h @ e) s (field f out) = map_of xs f"
    and "\<And>f s. (f, s) \<in> set ss \<Longrightarrow> f \<notin> fst ` set blocks \<Longrightarrow>
      cells (h @ e) s (field f out) \<inter> {..<length h} = T f h (field f inn)"
  shows "\<exists>out' e'. copyFields blocks inn out (h @ e) = (Ok out', h @ e @ e') \<and>
    map fst out' = map fst ss \<and>
    (\<forall>(f, s) \<in> set ss. content (h @ e @ e') s (field f out') = map_of xs f \<and>
      cells (h @ e @ e') s (field f out') \<inter> {..<length h} = T f h (field f inn))"
  using assms(3-)
proof (induction blocks arbitrary: out e)
  case Nil
  have "content (h @ e) s (field f out) = map_of xs f \<and>
      cells (h @ e) s (field f out) \<inter> {..<length h} = T f h (field f inn)"
    if "(f, s) \<in> set ss" for f s
    using Nil.prems(4,5) [OF that] by simp
  then show ?case using Nil.prems(3)
    by (intro exI [of _ out] exI [of _ "[]"]) (simp add: run_prog split_beta')
next
  case (Cons fc blocks)
  obtain f c where fc: "fc = (f, c)" by (cases fc)
  obtain s where s: "(f, s) \<in> set ss" "copies s c (T f)"
    using Cons.prems(2) [of f c] fc by auto
  obtain x where x: "map_of xs f = Some x" by (rule contents_field [OF inn ss s(1)])
  obtain w e1 where w: "c (field f inn) (h @ e) = (Ok w, h @ e @ e1)"
      "content (h @ e @ e1) s w = Some x"
      "cells (h @ e @ e1) s w \<inter> {..<length h} = T f h (field f inn)"
    using copies_after [OF s(2), of h "field f inn" x e] contents_fields(3) [OF inn ss s(1)] x by auto
  let ?out = "put f w out"
  have f: "f \<in> fst ` set out" using same_keys [OF Cons.prems(3) s(1)] .
  have other: "content (h @ e @ e1) s' (field g ?out) = map_of xs g \<and>
      (g = f \<or> cells (h @ e @ e1) s' (field g ?out) = cells (h @ e) s' (field g out))"
    if g: "(g, s') \<in> set ss" for g s'
  proof (cases "g = f")
    case True
    then have "s' = s" using g s(1) ss by (metis eq_key_imp_eq_value)
    then show ?thesis using True w(2) x f by (simp add: field_put)
  next
    case False
    obtain y where "map_of xs g = Some y" by (rule contents_field [OF inn ss g])
    then show ?thesis
      using False f Cons.prems(4) [OF g] still [of "h @ e" s' "field g out" y e1]
      by (simp add: field_put)
  qed
  have "\<exists>out' e'. copyFields blocks inn ?out (h @ e @ e1) = (Ok out', h @ (e @ e1) @ e') \<and>
      map fst out' = map fst ss \<and>
      (\<forall>(f, s) \<in> set ss. content (h @ (e @ e1) @ e') s (field f out') = map_of xs f \<and>
        cells (h @ (e @ e1) @ e') s (field f out') \<inter> {..<length h} = T f h (field f inn))"
  proof (rule Cons.IH [of ?out "e @ e1"])
    fix g s' assume g: "(g, s') \<in> set ss" "g \<notin> fst ` set blocks"
    show "cells (h @ e @ e1) s' (field g ?out) \<inter> {..<length h} = T g h (field g inn)"
    proof (cases "g = f")
      case True
      then have "s' = s" using g s(1) ss by (metis eq_key_imp_eq_value)
      then show ?thesis using True w(3) f by (simp add: field_put)
    next
      case False
      then show ?thesis using other [OF g(1)] Cons.prems(5) [OF g(1)] g(2) fc by auto
    qed
  qed (use Cons.prems(1-3) fc f other in auto)
  then show ?case using w(1) fc by (auto simp: run_prog)
qed

text \<open>A field of the copy is what its block made, or what it was.\<close>

lemma copyFields_kept:
  assumes "copyFields cs inn out h = (Ok out', h')" and "f \<notin> fst ` set cs"
  shows "field f out' = field f out"
  using assms
proof (induction cs inn out arbitrary: h rule: copyFields.induct)
  case (2 g c cs inn out)
  then obtain w h1 where "copyFields cs inn (put g w out) h1 = (Ok out', h')"
    by (auto simp: run_prog split: prod.splits outcome.splits)
  then show ?case using 2 by (simp add: field_put)
qed (simp add: run_prog)

lemma copyFields_block:
  assumes "copyFields cs inn out h = (Ok out', h')" and "distinct (map fst cs)" and "(f, c) \<in> set cs"
  shows "\<exists>h1 h2. c (field f inn) h1 = (Ok (field f out'), h2)"
  using assms
proof (induction cs inn out arbitrary: h rule: copyFields.induct)
  case (2 g d cs inn out)
  then obtain w h1 where w: "d (field g inn) h = (Ok w, h1)"
      "copyFields cs inn (put g w out) h1 = (Ok out', h')"
    by (auto simp: run_prog split: prod.splits outcome.splits)
  show ?case
  proof (cases "f = g")
    case True
    then have "d = c" using 2(3,4) by force
    moreover have "field g out' = w"
      using copyFields_kept [OF w(2), of g] 2(3) by (simp add: field_put)
    ultimately show ?thesis using True w(1) by blast
  next
    case False
    then show ?thesis using 2(1) [OF w(2)] 2(3,4) by auto
  qed
qed simp

lemma copies_struct:
  assumes "distinct (map fst ss)" and "distinct (map fst blocks)"
    and "\<And>f c. (f, c) \<in> set blocks \<Longrightarrow> \<exists>s. (f, s) \<in> set ss \<and> copies s c (T f)"
    and "\<And>f s. (f, s) \<in> set ss \<Longrightarrow> f \<notin> fst ` set blocks \<Longrightarrow> T f = (\<lambda>h v. cells h s v)"
  shows "copies (StructOf ss) (copyStruct blocks)
    (\<lambda>h v. case v of Struct fs \<Rightarrow> (\<Union>(f, s) \<in> set ss. T f h (field f fs)) | _ \<Rightarrow> {})"
    (is "copies _ _ ?S")
  unfolding copies_def
proof (intro allI impI)
  fix h v x
  assume x: "content h (StructOf ss) v = Some x"
  then obtain fs xs where v: "v = Struct fs" "contents h ss fs = Some xs" "x = Fields xs"
    by (auto split: govalue.splits)
  note keys = contents_fields [OF v(2) assms(1)]
  have known: "\<exists>y. content h s (field f fs) = Some y" if "(f, s) \<in> set ss" for f s
    using contents_field [OF v(2) assms(1) that] by blast
  have each: "T f h (field f fs) \<subseteq> cells h s (field f fs) \<and>
      (\<forall>h'. agree h h' (cells h s (field f fs)) \<longrightarrow> T f h' (field f fs) = T f h (field f fs))"
    if g: "(f, s) \<in> set ss" for f s
  proof (cases "f \<in> fst ` set blocks")
    case True
    then obtain c s' where "(f, s') \<in> set ss" "copies s' c (T f)"
      using assms(3) by force
    then have "copies s c (T f)" using g assms(1) by (metis eq_key_imp_eq_value)
    then show ?thesis using copies_shared known [OF g] by metis
  next
    case False
    then show ?thesis using assms(4) [OF g] frame(1) by simp
  qed
  have whole: "cells h (StructOf ss) v = (\<Union>(f, s) \<in> set ss. cells h s (field f fs))"
    using v(1) cells_of_fields [OF keys(1) assms(1)] by simp
  have "\<exists>out e. copyFields blocks fs fs (h @ []) = (Ok out, h @ [] @ e) \<and> map fst out = map fst ss \<and>
      (\<forall>(f, s) \<in> set ss. content (h @ [] @ e) s (field f out) = map_of xs f \<and>
        cells (h @ [] @ e) s (field f out) \<inter> {..<length h} = T f h (field f fs))"
  proof (rule copyFields_copies [OF assms(1) v(2) assms(2,3) keys(1)])
    fix f s assume g: "(f, s) \<in> set ss" "f \<notin> fst ` set blocks"
    then show "cells (h @ []) s (field f fs) \<inter> {..<length h} = T f h (field f fs)"
      using assms(4) [OF g] known [OF g(1)] cells_allocated(1) by (metis Int_absorb2 append_Nil2)
  qed (simp_all add: keys(3))
  then obtain out e where out: "copyFields blocks fs fs h = (Ok out, h @ e)" "map fst out = map fst ss"
      "\<And>f s. (f, s) \<in> set ss \<Longrightarrow> content (h @ e) s (field f out) = map_of xs f"
      "\<And>f s. (f, s) \<in> set ss \<Longrightarrow> cells (h @ e) s (field f out) \<inter> {..<length h} = T f h (field f fs)"
    unfolding append_Nil append_Nil2 by blast
  have run: "copyStruct blocks v h = (Ok (Struct out), h @ e)"
    using out(1) v(1) by (simp add: copyStruct_def run_prog)
  have same: "content (h @ e) (StructOf ss) (Struct out) = Some x"
    using fields_contents [OF out(2) keys(2) assms(1) out(3)] v(3) by simp
  have "cells (h @ e) (StructOf ss) (Struct out) = (\<Union>(f, s) \<in> set ss. cells (h @ e) s (field f out))"
    using cells_of_fields [OF out(2) assms(1)] by simp
  also have "\<dots> \<inter> {..<length h} = (\<Union>(f, s) \<in> set ss. T f h (field f fs))"
    unfolding UN_simps(4) [symmetric] using out(4) by (intro SUP_cong refl) auto
  finally have shared: "cells (h @ e) (StructOf ss) (Struct out) \<inter> {..<length h} = ?S h v"
    using v(1) by simp
  have "?S h v \<subseteq> cells h (StructOf ss) v" using each v(1) unfolding whole by fastforce
  moreover have "?S h' v = ?S h v" if "agree h h' (cells h (StructOf ss) v)" for h'
  proof -
    have "agree h h' (cells h s (field f fs))" if "(f, s) \<in> set ss" for f s
      using \<open>agree h h' (cells h (StructOf ss) v)\<close> that unfolding whole by (force simp: agree_def)
    then show ?thesis using each v(1) by (auto intro!: SUP_cong)
  qed
  ultimately show "?S h v \<subseteq> cells h (StructOf ss) v \<and>
      (\<forall>h'. agree h h' (cells h (StructOf ss) v) \<longrightarrow> ?S h' v = ?S h v) \<and>
      (\<exists>w e. copyStruct blocks v h = (Ok w, h @ e) \<and> content (h @ e) (StructOf ss) w = Some x \<and>
        cells (h @ e) (StructOf ss) w \<inter> {..<length h} = ?S h v)"
    using run same shared by blast
qed

text \<open>The same with the premises as checks along the lists of fields and blocks.\<close>

lemma copies_cong:
  assumes "copies s c S" and "\<And>h v x. content h s v = Some x \<Longrightarrow> S' h v = S h v"
  shows "copies s c S'"
  unfolding copies_def
proof (intro allI impI)
  fix h v x assume x: "content h s v = Some x"
  have "S' h' v = S' h v" if "agree h h' (cells h s v)" for h'
    using frame(1) [OF that] x assms(2) copies_shared(3) [OF assms(1) x that] by metis
  then show "S' h v \<subseteq> cells h s v \<and> (\<forall>h'. agree h h' (cells h s v) \<longrightarrow> S' h' v = S' h v) \<and>
      (\<exists>w e. c v h = (Ok w, h @ e) \<and> content (h @ e) s w = Some x \<and>
        cells (h @ e) s w \<inter> {..<length h} = S' h v)"
    using assms(1) x assms(2) [OF x] unfolding copies_def by metis
qed

lemma copies_fields:
  assumes "distinct (map fst ss)" and "distinct (map fst cs)"
    and "list_all (\<lambda>(f, s). case map_of cs f of
        Some c \<Rightarrow> copies s c (T f)
      | None \<Rightarrow> T f = (\<lambda>h v. cells h s v)) ss"
    and "list_all (\<lambda>(f, c). f \<in> fst ` set ss) cs"
    and "\<And>h fs. S h (Struct fs) = (\<Union>(f, s) \<in> set ss. T f h (field f fs))"
  shows "copies (StructOf ss) (copyStruct cs) S"
proof (rule copies_cong, rule copies_struct [OF assms(1,2)])
  fix f c assume f: "(f, c) \<in> set cs"
  then obtain s where s: "(f, s) \<in> set ss" using assms(4) by (force simp: list_all_iff)
  moreover have "map_of cs f = Some c" using f assms(2) by simp
  ultimately show "\<exists>s. (f, s) \<in> set ss \<and> copies s c (T f)"
    using assms(3) by (force simp: list_all_iff)
next
  fix f s assume "(f, s) \<in> set ss" "f \<notin> fst ` set cs"
  then show "T f = (\<lambda>h v. cells h s v)"
    using assms(3) by (force simp: list_all_iff map_of_eq_None_iff [symmetric])
next
  fix h v x assume "content h (StructOf ss) v = Some x"
  then show "S h v = (case v of
      Struct fs \<Rightarrow> (\<Union>(f, s) \<in> set ss. T f h (field f fs)) | _ \<Rightarrow> {})"
    using assms(5) by (auto split: govalue.splits)
qed

subsection \<open>The generator\<close>

text \<open>
  What deepcopy-gen makes of a type: an assignment where nothing of a value can be shared, else
  the statements above, with one block for each field that is more than a scalar. It is the
  reference the generated functions are compared with, and it always makes deep copies.
\<close>

fun flat :: "shape \<Rightarrow> bool" and all_flat :: "(string \<times> shape) list \<Rightarrow> bool" where
  "flat Scalar = True"
| "flat (StructOf ss) = all_flat ss"
| "flat s = False"
| "all_flat [] = True"
| "all_flat ((f, s) # ss) = (flat s \<and> all_flat ss)"

fun generated :: "shape \<Rightarrow> copier" and blocks :: "(string \<times> shape) list \<Rightarrow> (string \<times> copier) list"
where
  "generated Scalar = assign"
| "generated (PointerTo s) = copyPointer (generated s)"
| "generated (SliceOf s) = copySlice (generated s)"
| "generated (MapOf s) = copyMap (generated s)"
| "generated (StructOf ss) = (if all_flat ss then assign else copyStruct (blocks ss))"
| "blocks [] = []"
| "blocks ((f, s) # ss) = (if s = Scalar then blocks ss else (f, generated s) # blocks ss)"

text \<open>Go's rule that the fields of a struct have different names.\<close>

fun named :: "shape \<Rightarrow> bool" and all_named :: "(string \<times> shape) list \<Rightarrow> bool" where
  "named Scalar = True"
| "named (PointerTo s) = named s"
| "named (SliceOf s) = named s"
| "named (MapOf s) = named s"
| "named (StructOf ss) = (distinct (map fst ss) \<and> all_named ss)"
| "all_named [] = True"
| "all_named ((f, s) # ss) = (named s \<and> all_named ss)"

lemma flat_cells:
  "flat s \<Longrightarrow> cells h s v = {}"
  "all_flat ss \<Longrightarrow> cells_of h ss fs = {}"
  by (induction h s v and h ss fs rule: cells_cells_of.induct)
    (auto split: govalue.splits list.splits)

lemma deep_assign: "flat s \<Longrightarrow> deep s assign"
  using copies_assign [of s] by (simp add: flat_cells cong: option.case_cong)

lemma empty_sharing:
  "deep s c \<Longrightarrow> deep (PointerTo s) (copyPointer c)"
  "deep s c \<Longrightarrow> deep (SliceOf s) (copySlice c)"
  "deep s c \<Longrightarrow> deep (MapOf s) (copyMap c)"
  using copies_pointer [of s c "\<lambda>_ _. {}"] copies_slice [of s c "\<lambda>_ _. {}"]
    copies_map [of s c "\<lambda>_ _. {}"]
  by (auto elim!: back_subst [of "copies _ _"] intro!: ext split: govalue.splits option.splits)

lemma deep_struct:
  assumes "distinct (map fst ss)" and "distinct (map fst cs)"
    and "\<And>f c. (f, c) \<in> set cs \<Longrightarrow> \<exists>s. (f, s) \<in> set ss \<and> deep s c"
    and "\<And>f s. (f, s) \<in> set ss \<Longrightarrow> f \<notin> fst ` set cs \<Longrightarrow> flat s"
  shows "deep (StructOf ss) (copyStruct cs)"
  using copies_struct [of ss cs "\<lambda>_ _ _. {}"] assms
  by (auto simp: flat_cells elim!: back_subst [of "copies _ _"] intro!: ext split: govalue.splits)

lemma deep_generated:
  "named s \<Longrightarrow> deep s (generated s)"
  "all_named ss \<Longrightarrow> distinct (map fst ss) \<Longrightarrow> distinct (map fst (blocks ss)) \<and>
    fst ` set (blocks ss) = {f. \<exists>s. (f, s) \<in> set ss \<and> s \<noteq> Scalar} \<and>
    (\<forall>(f, c) \<in> set (blocks ss). \<exists>s. (f, s) \<in> set ss \<and> deep s c)"
proof (induction s and ss rule: generated_blocks.induct)
  case 1
  show ?case by (simp add: deep_assign)
next
  case (5 ss)
  show ?case
  proof (cases "all_flat ss")
    case True
    then show ?thesis by (simp add: deep_assign)
  next
    case False
    have ss: "all_named ss" "distinct (map fst ss)" using 5 by simp_all
    have "deep (StructOf ss) (copyStruct (blocks ss))"
    proof (rule deep_struct)
      fix f s assume "(f, s) \<in> set ss" "f \<notin> fst ` set (blocks ss)"
      then show "flat s" using 5(1) [OF False ss] by auto
    qed (use 5(1) [OF False ss] ss in auto)
    then show ?thesis using False by simp
  qed
next
  case (7 f s ss)
  then show ?case by (cases "s = Scalar") force+
qed (simp_all add: empty_sharing)

end
