(* ===== verification/IstioCopies.thy ===== *)
theory IstioCopies
  imports Memory
begin

text \<open>
  The generated \<open>DeepCopy\<close> functions of the Istio types, \<open>zz_generated.deepcopy.go\<close> in
  \<open>pkg/apis/networking/v1alpha3\<close>, with those of the Kubernetes metadata they call, bottom-up:
  for each struct its type as far as memory is concerned (\<open>_type\<close>, all fields in the order of the
  declaration), its \<open>DeepCopyInto\<close> statement by statement, and \<open>DeepCopy\<close> and \<open>DeepCopyObject\<close>
  where the package has them. For each of them the reference generator of \<open>Memory\<close> makes the
  same function from the type; the functions are deep copies for that reason.
\<close>

named_theorems copy_types "types the generated functions are up to date with"

subsection \<open>Metadata\<close>

definition TypeMeta_type :: shape where
  "TypeMeta_type = StructOf [
    (''Kind'', Scalar), (''APIVersion'', Scalar)]"

lemma TypeMeta_current [copy_types]:
  "TypeMeta_type \<noteq> Scalar" "flat TypeMeta_type"
  "named TypeMeta_type" "generated TypeMeta_type = assign"
  by (simp_all add: TypeMeta_type_def copy_types)

definition Time_type :: shape where
  "Time_type = StructOf [
    (''Time'', Scalar)]"

definition Time_DeepCopyInto :: copier where
  "Time_DeepCopyInto = assign"

lemma Time_current [copy_types]:
  "Time_type \<noteq> Scalar" "flat Time_type"
  "named Time_type" "generated Time_type = assign" "Time_DeepCopyInto = assign"
  by (simp_all add: Time_type_def Time_DeepCopyInto_def copy_types)

definition OwnerReference_type :: shape where
  "OwnerReference_type = StructOf [
    (''APIVersion'', Scalar), (''Kind'', Scalar), (''Name'', Scalar), (''UID'', Scalar),
    (''Controller'', PointerTo Scalar), (''BlockOwnerDeletion'', PointerTo Scalar)]"

definition OwnerReference_DeepCopyInto :: copier where
  "OwnerReference_DeepCopyInto = copyStruct [
    (''Controller'', copyPointer assign), (''BlockOwnerDeletion'', copyPointer assign)]"

lemma OwnerReference_current [copy_types]:
  "OwnerReference_type \<noteq> Scalar" "flat OwnerReference_type \<longleftrightarrow> False"
  "named OwnerReference_type" "generated OwnerReference_type = OwnerReference_DeepCopyInto"
  by (simp_all add: OwnerReference_type_def OwnerReference_DeepCopyInto_def copy_types)

definition Initializer_type :: shape where
  "Initializer_type = StructOf [
    (''Name'', Scalar)]"

lemma Initializer_current [copy_types]:
  "Initializer_type \<noteq> Scalar" "flat Initializer_type"
  "named Initializer_type" "generated Initializer_type = assign"
  by (simp_all add: Initializer_type_def copy_types)

definition ListMeta_type :: shape where
  "ListMeta_type = StructOf [
    (''SelfLink'', Scalar), (''ResourceVersion'', Scalar), (''Continue'', Scalar)]"

lemma ListMeta_current [copy_types]:
  "ListMeta_type \<noteq> Scalar" "flat ListMeta_type"
  "named ListMeta_type" "generated ListMeta_type = assign"
  by (simp_all add: ListMeta_type_def copy_types)

definition StatusCause_type :: shape where
  "StatusCause_type = StructOf [
    (''Type'', Scalar), (''Message'', Scalar), (''Field'', Scalar)]"

lemma StatusCause_current [copy_types]:
  "StatusCause_type \<noteq> Scalar" "flat StatusCause_type"
  "named StatusCause_type" "generated StatusCause_type = assign"
  by (simp_all add: StatusCause_type_def copy_types)

definition StatusDetails_type :: shape where
  "StatusDetails_type = StructOf [
    (''Name'', Scalar), (''Group'', Scalar), (''Kind'', Scalar), (''UID'', Scalar),
    (''Causes'', SliceOf StatusCause_type), (''RetryAfterSeconds'', Scalar)]"

definition StatusDetails_DeepCopyInto :: copier where
  "StatusDetails_DeepCopyInto = copyStruct [
    (''Causes'', copySlice assign)]"

lemma StatusDetails_current [copy_types]:
  "StatusDetails_type \<noteq> Scalar" "flat StatusDetails_type \<longleftrightarrow> False"
  "named StatusDetails_type" "generated StatusDetails_type = StatusDetails_DeepCopyInto"
  by (simp_all add: StatusDetails_type_def StatusDetails_DeepCopyInto_def copy_types)

definition Status_type :: shape where
  "Status_type = StructOf [
    (''TypeMeta'', TypeMeta_type), (''ListMeta'', ListMeta_type), (''Status'', Scalar),
    (''Message'', Scalar), (''Reason'', Scalar), (''Details'', PointerTo StatusDetails_type),
    (''Code'', Scalar)]"

definition Status_DeepCopyInto :: copier where
  "Status_DeepCopyInto = copyStruct [
    (''TypeMeta'', assign), (''ListMeta'', assign),
    (''Details'', copyPointer StatusDetails_DeepCopyInto)]"

lemma Status_current [copy_types]:
  "Status_type \<noteq> Scalar" "flat Status_type \<longleftrightarrow> False"
  "named Status_type" "generated Status_type = Status_DeepCopyInto"
  by (simp_all add: Status_type_def Status_DeepCopyInto_def copy_types)

definition Initializers_type :: shape where
  "Initializers_type = StructOf [
    (''Pending'', SliceOf Initializer_type), (''Result'', PointerTo Status_type)]"

definition Initializers_DeepCopyInto :: copier where
  "Initializers_DeepCopyInto = copyStruct [
    (''Pending'', copySlice assign), (''Result'', copyPointer Status_DeepCopyInto)]"

lemma Initializers_current [copy_types]:
  "Initializers_type \<noteq> Scalar" "flat Initializers_type \<longleftrightarrow> False"
  "named Initializers_type" "generated Initializers_type = Initializers_DeepCopyInto"
  by (simp_all add: Initializers_type_def Initializers_DeepCopyInto_def copy_types)

definition ObjectMeta_type :: shape where
  "ObjectMeta_type = StructOf [
    (''Name'', Scalar), (''GenerateName'', Scalar), (''Namespace'', Scalar),
    (''SelfLink'', Scalar), (''UID'', Scalar), (''ResourceVersion'', Scalar),
    (''Generation'', Scalar), (''CreationTimestamp'', Time_type),
    (''DeletionTimestamp'', PointerTo Time_type),
    (''DeletionGracePeriodSeconds'', PointerTo Scalar), (''Labels'', MapOf Scalar),
    (''Annotations'', MapOf Scalar), (''OwnerReferences'', SliceOf OwnerReference_type),
    (''Initializers'', PointerTo Initializers_type), (''Finalizers'', SliceOf Scalar),
    (''ClusterName'', Scalar)]"

definition ObjectMeta_DeepCopyInto :: copier where
  "ObjectMeta_DeepCopyInto = copyStruct [
    (''CreationTimestamp'', Time_DeepCopyInto),
    (''DeletionTimestamp'', copyPointer Time_DeepCopyInto),
    (''DeletionGracePeriodSeconds'', copyPointer assign), (''Labels'', copyMap assign),
    (''Annotations'', copyMap assign),
    (''OwnerReferences'', copySlice OwnerReference_DeepCopyInto),
    (''Initializers'', copyPointer Initializers_DeepCopyInto),
    (''Finalizers'', copySlice assign)]"

lemma ObjectMeta_current [copy_types]:
  "ObjectMeta_type \<noteq> Scalar" "flat ObjectMeta_type \<longleftrightarrow> False"
  "named ObjectMeta_type" "generated ObjectMeta_type = ObjectMeta_DeepCopyInto"
  by (simp_all add: ObjectMeta_type_def ObjectMeta_DeepCopyInto_def copy_types)

subsection \<open>Istio\<close>

definition StringMatch_type :: shape where
  "StringMatch_type = StructOf [
    (''Exact'', Scalar), (''Prefix'', Scalar), (''Regex'', Scalar)]"

definition StringMatch_DeepCopyInto :: copier where
  "StringMatch_DeepCopyInto = assign"

definition StringMatch_DeepCopy :: "nat option \<Rightarrow> (store, nat option) prog" where
  "StringMatch_DeepCopy = deepCopy StringMatch_DeepCopyInto"

lemma StringMatch_current [copy_types]:
  "StringMatch_type \<noteq> Scalar" "flat StringMatch_type"
  "named StringMatch_type" "generated StringMatch_type = assign" "StringMatch_DeepCopyInto = assign"
  by (simp_all add: StringMatch_type_def StringMatch_DeepCopyInto_def copy_types)

text \<open>
  The loop over \<open>Headers\<close> writes nil for a nil value, and then \<open>outVal\<close>, which is still nil; for
  another value \<open>outVal\<close> is the new \<open>StringMatch\<close>.
\<close>

definition HTTPMatchRequest_type :: shape where
  "HTTPMatchRequest_type = StructOf [
    (''Uri'', PointerTo StringMatch_type), (''Scheme'', PointerTo StringMatch_type),
    (''Method'', PointerTo StringMatch_type), (''Authority'', PointerTo StringMatch_type),
    (''Headers'', MapOf (PointerTo StringMatch_type)), (''Port'', Scalar),
    (''SourceLabels'', MapOf Scalar), (''Gateways'', SliceOf Scalar)]"

definition HTTPMatchRequest_DeepCopyInto :: copier where
  "HTTPMatchRequest_DeepCopyInto = copyStruct [
    (''Uri'', copyPointer assign), (''Scheme'', copyPointer assign),
    (''Method'', copyPointer assign), (''Authority'', copyPointer assign),
    (''Headers'', copyMap (copyPointer assign)), (''SourceLabels'', copyMap assign),
    (''Gateways'', copySlice assign)]"

definition HTTPMatchRequest_DeepCopy :: "nat option \<Rightarrow> (store, nat option) prog" where
  "HTTPMatchRequest_DeepCopy = deepCopy HTTPMatchRequest_DeepCopyInto"

lemma HTTPMatchRequest_current [copy_types]:
  "HTTPMatchRequest_type \<noteq> Scalar" "flat HTTPMatchRequest_type \<longleftrightarrow> False"
  "named HTTPMatchRequest_type" "generated HTTPMatchRequest_type = HTTPMatchRequest_DeepCopyInto"
  by (simp_all add: HTTPMatchRequest_type_def HTTPMatchRequest_DeepCopyInto_def copy_types)

definition PortSelector_type :: shape where
  "PortSelector_type = StructOf [
    (''Number'', Scalar), (''Name'', Scalar)]"

definition PortSelector_DeepCopyInto :: copier where
  "PortSelector_DeepCopyInto = assign"

definition PortSelector_DeepCopy :: "nat option \<Rightarrow> (store, nat option) prog" where
  "PortSelector_DeepCopy = deepCopy PortSelector_DeepCopyInto"

lemma PortSelector_current [copy_types]:
  "PortSelector_type \<noteq> Scalar" "flat PortSelector_type"
  "named PortSelector_type" "generated PortSelector_type = assign" "PortSelector_DeepCopyInto = assign"
  by (simp_all add: PortSelector_type_def PortSelector_DeepCopyInto_def copy_types)

definition Destination_type :: shape where
  "Destination_type = StructOf [
    (''Host'', Scalar), (''Subset'', Scalar), (''Port'', PointerTo PortSelector_type)]"

definition Destination_DeepCopyInto :: copier where
  "Destination_DeepCopyInto = copyStruct [
    (''Port'', copyPointer assign)]"

definition Destination_DeepCopy :: "nat option \<Rightarrow> (store, nat option) prog" where
  "Destination_DeepCopy = deepCopy Destination_DeepCopyInto"

lemma Destination_current [copy_types]:
  "Destination_type \<noteq> Scalar" "flat Destination_type \<longleftrightarrow> False"
  "named Destination_type" "generated Destination_type = Destination_DeepCopyInto"
  by (simp_all add: Destination_type_def Destination_DeepCopyInto_def copy_types)

definition Headers_HeaderOperations_type :: shape where
  "Headers_HeaderOperations_type = StructOf [
    (''Set'', MapOf Scalar), (''Add'', MapOf Scalar), (''Remove'', SliceOf Scalar)]"

definition Headers_HeaderOperations_DeepCopyInto :: copier where
  "Headers_HeaderOperations_DeepCopyInto = copyStruct [
    (''Set'', copyMap assign), (''Add'', copyMap assign), (''Remove'', copySlice assign)]"

definition Headers_HeaderOperations_DeepCopy :: "nat option \<Rightarrow> (store, nat option) prog" where
  "Headers_HeaderOperations_DeepCopy = deepCopy Headers_HeaderOperations_DeepCopyInto"

lemma Headers_HeaderOperations_current [copy_types]:
  "Headers_HeaderOperations_type \<noteq> Scalar" "flat Headers_HeaderOperations_type \<longleftrightarrow> False"
  "named Headers_HeaderOperations_type" "generated Headers_HeaderOperations_type = Headers_HeaderOperations_DeepCopyInto"
  by (simp_all add: Headers_HeaderOperations_type_def Headers_HeaderOperations_DeepCopyInto_def copy_types)

definition Headers_type :: shape where
  "Headers_type = StructOf [
    (''Request'', PointerTo Headers_HeaderOperations_type),
    (''Response'', PointerTo Headers_HeaderOperations_type)]"

definition Headers_DeepCopyInto :: copier where
  "Headers_DeepCopyInto = copyStruct [
    (''Request'', copyPointer Headers_HeaderOperations_DeepCopyInto),
    (''Response'', copyPointer Headers_HeaderOperations_DeepCopyInto)]"

definition Headers_DeepCopy :: "nat option \<Rightarrow> (store, nat option) prog" where
  "Headers_DeepCopy = deepCopy Headers_DeepCopyInto"

lemma Headers_current [copy_types]:
  "Headers_type \<noteq> Scalar" "flat Headers_type \<longleftrightarrow> False"
  "named Headers_type" "generated Headers_type = Headers_DeepCopyInto"
  by (simp_all add: Headers_type_def Headers_DeepCopyInto_def copy_types)

definition HTTPRouteDestination_type :: shape where
  "HTTPRouteDestination_type = StructOf [
    (''Destination'', PointerTo Destination_type), (''Weight'', Scalar),
    (''RemoveResponseHeaders'', SliceOf Scalar), (''AppendResponseHeaders'', MapOf Scalar),
    (''RemoveRequestHeaders'', SliceOf Scalar), (''AppendRequestHeaders'', MapOf Scalar),
    (''Headers'', PointerTo Headers_type)]"

definition HTTPRouteDestination_DeepCopyInto :: copier where
  "HTTPRouteDestination_DeepCopyInto = copyStruct [
    (''Destination'', copyPointer Destination_DeepCopyInto),
    (''RemoveResponseHeaders'', copySlice assign), (''AppendResponseHeaders'', copyMap assign),
    (''RemoveRequestHeaders'', copySlice assign), (''AppendRequestHeaders'', copyMap assign),
    (''Headers'', copyPointer Headers_DeepCopyInto)]"

definition HTTPRouteDestination_DeepCopy :: "nat option \<Rightarrow> (store, nat option) prog" where
  "HTTPRouteDestination_DeepCopy = deepCopy HTTPRouteDestination_DeepCopyInto"

lemma HTTPRouteDestination_current [copy_types]:
  "HTTPRouteDestination_type \<noteq> Scalar" "flat HTTPRouteDestination_type \<longleftrightarrow> False"
  "named HTTPRouteDestination_type" "generated HTTPRouteDestination_type = HTTPRouteDestination_DeepCopyInto"
  by (simp_all add: HTTPRouteDestination_type_def HTTPRouteDestination_DeepCopyInto_def copy_types)

definition HTTPRedirect_type :: shape where
  "HTTPRedirect_type = StructOf [
    (''Uri'', Scalar), (''Authority'', Scalar)]"

definition HTTPRedirect_DeepCopyInto :: copier where
  "HTTPRedirect_DeepCopyInto = assign"

definition HTTPRedirect_DeepCopy :: "nat option \<Rightarrow> (store, nat option) prog" where
  "HTTPRedirect_DeepCopy = deepCopy HTTPRedirect_DeepCopyInto"

lemma HTTPRedirect_current [copy_types]:
  "HTTPRedirect_type \<noteq> Scalar" "flat HTTPRedirect_type"
  "named HTTPRedirect_type" "generated HTTPRedirect_type = assign" "HTTPRedirect_DeepCopyInto = assign"
  by (simp_all add: HTTPRedirect_type_def HTTPRedirect_DeepCopyInto_def copy_types)

definition HTTPRewrite_type :: shape where
  "HTTPRewrite_type = StructOf [
    (''Uri'', Scalar), (''Authority'', Scalar)]"

definition HTTPRewrite_DeepCopyInto :: copier where
  "HTTPRewrite_DeepCopyInto = assign"

definition HTTPRewrite_DeepCopy :: "nat option \<Rightarrow> (store, nat option) prog" where
  "HTTPRewrite_DeepCopy = deepCopy HTTPRewrite_DeepCopyInto"

lemma HTTPRewrite_current [copy_types]:
  "HTTPRewrite_type \<noteq> Scalar" "flat HTTPRewrite_type"
  "named HTTPRewrite_type" "generated HTTPRewrite_type = assign" "HTTPRewrite_DeepCopyInto = assign"
  by (simp_all add: HTTPRewrite_type_def HTTPRewrite_DeepCopyInto_def copy_types)

definition HTTPRetry_type :: shape where
  "HTTPRetry_type = StructOf [
    (''Attempts'', Scalar), (''PerTryTimeout'', Scalar), (''RetryOn'', Scalar)]"

definition HTTPRetry_DeepCopyInto :: copier where
  "HTTPRetry_DeepCopyInto = assign"

definition HTTPRetry_DeepCopy :: "nat option \<Rightarrow> (store, nat option) prog" where
  "HTTPRetry_DeepCopy = deepCopy HTTPRetry_DeepCopyInto"

lemma HTTPRetry_current [copy_types]:
  "HTTPRetry_type \<noteq> Scalar" "flat HTTPRetry_type"
  "named HTTPRetry_type" "generated HTTPRetry_type = assign" "HTTPRetry_DeepCopyInto = assign"
  by (simp_all add: HTTPRetry_type_def HTTPRetry_DeepCopyInto_def copy_types)

definition Percent_type :: shape where
  "Percent_type = StructOf [
    (''Value'', Scalar)]"

definition Percent_DeepCopyInto :: copier where
  "Percent_DeepCopyInto = assign"

definition Percent_DeepCopy :: "nat option \<Rightarrow> (store, nat option) prog" where
  "Percent_DeepCopy = deepCopy Percent_DeepCopyInto"

lemma Percent_current [copy_types]:
  "Percent_type \<noteq> Scalar" "flat Percent_type"
  "named Percent_type" "generated Percent_type = assign" "Percent_DeepCopyInto = assign"
  by (simp_all add: Percent_type_def Percent_DeepCopyInto_def copy_types)

definition HTTPFaultInjection_Delay_type :: shape where
  "HTTPFaultInjection_Delay_type = StructOf [
    (''Percent'', Scalar), (''FixedDelay'', Scalar), (''ExponentialDelay'', Scalar),
    (''Percentage'', PointerTo Percent_type)]"

definition HTTPFaultInjection_Delay_DeepCopyInto :: copier where
  "HTTPFaultInjection_Delay_DeepCopyInto = copyStruct [
    (''Percentage'', copyPointer assign)]"

definition HTTPFaultInjection_Delay_DeepCopy :: "nat option \<Rightarrow> (store, nat option) prog" where
  "HTTPFaultInjection_Delay_DeepCopy = deepCopy HTTPFaultInjection_Delay_DeepCopyInto"

lemma HTTPFaultInjection_Delay_current [copy_types]:
  "HTTPFaultInjection_Delay_type \<noteq> Scalar" "flat HTTPFaultInjection_Delay_type \<longleftrightarrow> False"
  "named HTTPFaultInjection_Delay_type" "generated HTTPFaultInjection_Delay_type = HTTPFaultInjection_Delay_DeepCopyInto"
  by (simp_all add: HTTPFaultInjection_Delay_type_def HTTPFaultInjection_Delay_DeepCopyInto_def copy_types)

definition HTTPFaultInjection_Abort_type :: shape where
  "HTTPFaultInjection_Abort_type = StructOf [
    (''Percent'', Scalar), (''HttpStatus'', Scalar), (''GrpcStatus'', Scalar),
    (''Http2Error'', Scalar), (''Percentage'', PointerTo Percent_type)]"

definition HTTPFaultInjection_Abort_DeepCopyInto :: copier where
  "HTTPFaultInjection_Abort_DeepCopyInto = copyStruct [
    (''Percentage'', copyPointer assign)]"

definition HTTPFaultInjection_Abort_DeepCopy :: "nat option \<Rightarrow> (store, nat option) prog" where
  "HTTPFaultInjection_Abort_DeepCopy = deepCopy HTTPFaultInjection_Abort_DeepCopyInto"

lemma HTTPFaultInjection_Abort_current [copy_types]:
  "HTTPFaultInjection_Abort_type \<noteq> Scalar" "flat HTTPFaultInjection_Abort_type \<longleftrightarrow> False"
  "named HTTPFaultInjection_Abort_type" "generated HTTPFaultInjection_Abort_type = HTTPFaultInjection_Abort_DeepCopyInto"
  by (simp_all add: HTTPFaultInjection_Abort_type_def HTTPFaultInjection_Abort_DeepCopyInto_def copy_types)

definition HTTPFaultInjection_type :: shape where
  "HTTPFaultInjection_type = StructOf [
    (''Delay'', PointerTo HTTPFaultInjection_Delay_type),
    (''Abort'', PointerTo HTTPFaultInjection_Abort_type)]"

definition HTTPFaultInjection_DeepCopyInto :: copier where
  "HTTPFaultInjection_DeepCopyInto = copyStruct [
    (''Delay'', copyPointer HTTPFaultInjection_Delay_DeepCopyInto),
    (''Abort'', copyPointer HTTPFaultInjection_Abort_DeepCopyInto)]"

definition HTTPFaultInjection_DeepCopy :: "nat option \<Rightarrow> (store, nat option) prog" where
  "HTTPFaultInjection_DeepCopy = deepCopy HTTPFaultInjection_DeepCopyInto"

lemma HTTPFaultInjection_current [copy_types]:
  "HTTPFaultInjection_type \<noteq> Scalar" "flat HTTPFaultInjection_type \<longleftrightarrow> False"
  "named HTTPFaultInjection_type" "generated HTTPFaultInjection_type = HTTPFaultInjection_DeepCopyInto"
  by (simp_all add: HTTPFaultInjection_type_def HTTPFaultInjection_DeepCopyInto_def copy_types)

definition CorsPolicy_type :: shape where
  "CorsPolicy_type = StructOf [
    (''AllowOrigin'', SliceOf Scalar), (''AllowMethods'', SliceOf Scalar),
    (''AllowHeaders'', SliceOf Scalar), (''ExposeHeaders'', SliceOf Scalar),
    (''MaxAge'', Scalar), (''AllowCredentials'', Scalar)]"

definition CorsPolicy_DeepCopyInto :: copier where
  "CorsPolicy_DeepCopyInto = copyStruct [
    (''AllowOrigin'', copySlice assign), (''AllowMethods'', copySlice assign),
    (''AllowHeaders'', copySlice assign), (''ExposeHeaders'', copySlice assign)]"

definition CorsPolicy_DeepCopy :: "nat option \<Rightarrow> (store, nat option) prog" where
  "CorsPolicy_DeepCopy = deepCopy CorsPolicy_DeepCopyInto"

lemma CorsPolicy_current [copy_types]:
  "CorsPolicy_type \<noteq> Scalar" "flat CorsPolicy_type \<longleftrightarrow> False"
  "named CorsPolicy_type" "generated CorsPolicy_type = CorsPolicy_DeepCopyInto"
  by (simp_all add: CorsPolicy_type_def CorsPolicy_DeepCopyInto_def copy_types)

definition HTTPRoute_type :: shape where
  "HTTPRoute_type = StructOf [
    (''Match'', SliceOf (PointerTo HTTPMatchRequest_type)),
    (''Route'', SliceOf (PointerTo HTTPRouteDestination_type)),
    (''Redirect'', PointerTo HTTPRedirect_type), (''Rewrite'', PointerTo HTTPRewrite_type),
    (''WebsocketUpgrade'', Scalar), (''Timeout'', Scalar),
    (''Retries'', PointerTo HTTPRetry_type), (''Fault'', PointerTo HTTPFaultInjection_type),
    (''Mirror'', PointerTo Destination_type), (''CorsPolicy'', PointerTo CorsPolicy_type),
    (''AppendHeaders'', MapOf Scalar), (''RemoveResponseHeaders'', SliceOf Scalar),
    (''AppendResponseHeaders'', MapOf Scalar), (''RemoveRequestHeaders'', SliceOf Scalar),
    (''AppendRequestHeaders'', MapOf Scalar), (''Headers'', PointerTo Headers_type)]"

definition HTTPRoute_DeepCopyInto :: copier where
  "HTTPRoute_DeepCopyInto = copyStruct [
    (''Match'', copySlice (copyPointer HTTPMatchRequest_DeepCopyInto)),
    (''Route'', copySlice (copyPointer HTTPRouteDestination_DeepCopyInto)),
    (''Redirect'', copyPointer assign), (''Rewrite'', copyPointer assign),
    (''Retries'', copyPointer assign),
    (''Fault'', copyPointer HTTPFaultInjection_DeepCopyInto),
    (''Mirror'', copyPointer Destination_DeepCopyInto),
    (''CorsPolicy'', copyPointer CorsPolicy_DeepCopyInto), (''AppendHeaders'', copyMap assign),
    (''RemoveResponseHeaders'', copySlice assign), (''AppendResponseHeaders'', copyMap assign),
    (''RemoveRequestHeaders'', copySlice assign), (''AppendRequestHeaders'', copyMap assign),
    (''Headers'', copyPointer Headers_DeepCopyInto)]"

definition HTTPRoute_DeepCopy :: "nat option \<Rightarrow> (store, nat option) prog" where
  "HTTPRoute_DeepCopy = deepCopy HTTPRoute_DeepCopyInto"

lemma HTTPRoute_current [copy_types]:
  "HTTPRoute_type \<noteq> Scalar" "flat HTTPRoute_type \<longleftrightarrow> False"
  "named HTTPRoute_type" "generated HTTPRoute_type = HTTPRoute_DeepCopyInto"
  by (simp_all add: HTTPRoute_type_def HTTPRoute_DeepCopyInto_def copy_types)

definition TLSMatchAttributes_type :: shape where
  "TLSMatchAttributes_type = StructOf [
    (''SniHosts'', SliceOf Scalar), (''DestinationSubnets'', SliceOf Scalar),
    (''Port'', Scalar), (''SourceSubnet'', Scalar), (''SourceLabels'', MapOf Scalar),
    (''Gateways'', SliceOf Scalar)]"

definition TLSMatchAttributes_DeepCopyInto :: copier where
  "TLSMatchAttributes_DeepCopyInto = copyStruct [
    (''SniHosts'', copySlice assign), (''DestinationSubnets'', copySlice assign),
    (''SourceLabels'', copyMap assign), (''Gateways'', copySlice assign)]"

definition TLSMatchAttributes_DeepCopy :: "nat option \<Rightarrow> (store, nat option) prog" where
  "TLSMatchAttributes_DeepCopy = deepCopy TLSMatchAttributes_DeepCopyInto"

lemma TLSMatchAttributes_current [copy_types]:
  "TLSMatchAttributes_type \<noteq> Scalar" "flat TLSMatchAttributes_type \<longleftrightarrow> False"
  "named TLSMatchAttributes_type" "generated TLSMatchAttributes_type = TLSMatchAttributes_DeepCopyInto"
  by (simp_all add: TLSMatchAttributes_type_def TLSMatchAttributes_DeepCopyInto_def copy_types)

definition RouteDestination_type :: shape where
  "RouteDestination_type = StructOf [
    (''Destination'', PointerTo Destination_type), (''Weight'', Scalar)]"

definition RouteDestination_DeepCopyInto :: copier where
  "RouteDestination_DeepCopyInto = copyStruct [
    (''Destination'', copyPointer Destination_DeepCopyInto)]"

definition RouteDestination_DeepCopy :: "nat option \<Rightarrow> (store, nat option) prog" where
  "RouteDestination_DeepCopy = deepCopy RouteDestination_DeepCopyInto"

lemma RouteDestination_current [copy_types]:
  "RouteDestination_type \<noteq> Scalar" "flat RouteDestination_type \<longleftrightarrow> False"
  "named RouteDestination_type" "generated RouteDestination_type = RouteDestination_DeepCopyInto"
  by (simp_all add: RouteDestination_type_def RouteDestination_DeepCopyInto_def copy_types)

definition TLSRoute_type :: shape where
  "TLSRoute_type = StructOf [
    (''Match'', SliceOf (PointerTo TLSMatchAttributes_type)),
    (''Route'', SliceOf (PointerTo RouteDestination_type))]"

definition TLSRoute_DeepCopyInto :: copier where
  "TLSRoute_DeepCopyInto = copyStruct [
    (''Match'', copySlice (copyPointer TLSMatchAttributes_DeepCopyInto)),
    (''Route'', copySlice (copyPointer RouteDestination_DeepCopyInto))]"

definition TLSRoute_DeepCopy :: "nat option \<Rightarrow> (store, nat option) prog" where
  "TLSRoute_DeepCopy = deepCopy TLSRoute_DeepCopyInto"

lemma TLSRoute_current [copy_types]:
  "TLSRoute_type \<noteq> Scalar" "flat TLSRoute_type \<longleftrightarrow> False"
  "named TLSRoute_type" "generated TLSRoute_type = TLSRoute_DeepCopyInto"
  by (simp_all add: TLSRoute_type_def TLSRoute_DeepCopyInto_def copy_types)

definition L4MatchAttributes_type :: shape where
  "L4MatchAttributes_type = StructOf [
    (''DestinationSubnets'', SliceOf Scalar), (''Port'', Scalar), (''SourceSubnet'', Scalar),
    (''SourceLabels'', MapOf Scalar), (''Gateways'', SliceOf Scalar)]"

definition L4MatchAttributes_DeepCopyInto :: copier where
  "L4MatchAttributes_DeepCopyInto = copyStruct [
    (''DestinationSubnets'', copySlice assign), (''SourceLabels'', copyMap assign),
    (''Gateways'', copySlice assign)]"

definition L4MatchAttributes_DeepCopy :: "nat option \<Rightarrow> (store, nat option) prog" where
  "L4MatchAttributes_DeepCopy = deepCopy L4MatchAttributes_DeepCopyInto"

lemma L4MatchAttributes_current [copy_types]:
  "L4MatchAttributes_type \<noteq> Scalar" "flat L4MatchAttributes_type \<longleftrightarrow> False"
  "named L4MatchAttributes_type" "generated L4MatchAttributes_type = L4MatchAttributes_DeepCopyInto"
  by (simp_all add: L4MatchAttributes_type_def L4MatchAttributes_DeepCopyInto_def copy_types)

definition TCPRoute_type :: shape where
  "TCPRoute_type = StructOf [
    (''Match'', SliceOf (PointerTo L4MatchAttributes_type)),
    (''Route'', SliceOf (PointerTo RouteDestination_type))]"

definition TCPRoute_DeepCopyInto :: copier where
  "TCPRoute_DeepCopyInto = copyStruct [
    (''Match'', copySlice (copyPointer L4MatchAttributes_DeepCopyInto)),
    (''Route'', copySlice (copyPointer RouteDestination_DeepCopyInto))]"

definition TCPRoute_DeepCopy :: "nat option \<Rightarrow> (store, nat option) prog" where
  "TCPRoute_DeepCopy = deepCopy TCPRoute_DeepCopyInto"

lemma TCPRoute_current [copy_types]:
  "TCPRoute_type \<noteq> Scalar" "flat TCPRoute_type \<longleftrightarrow> False"
  "named TCPRoute_type" "generated TCPRoute_type = TCPRoute_DeepCopyInto"
  by (simp_all add: TCPRoute_type_def TCPRoute_DeepCopyInto_def copy_types)

definition VirtualServiceSpec_type :: shape where
  "VirtualServiceSpec_type = StructOf [
    (''Hosts'', SliceOf Scalar), (''Gateways'', SliceOf Scalar),
    (''Http'', SliceOf (PointerTo HTTPRoute_type)),
    (''Tls'', SliceOf (PointerTo TLSRoute_type)), (''Tcp'', SliceOf (PointerTo TCPRoute_type)),
    (''ExportTo'', SliceOf Scalar)]"

definition VirtualServiceSpec_DeepCopyInto :: copier where
  "VirtualServiceSpec_DeepCopyInto = copyStruct [
    (''Hosts'', copySlice assign), (''Gateways'', copySlice assign),
    (''Http'', copySlice (copyPointer HTTPRoute_DeepCopyInto)),
    (''Tls'', copySlice (copyPointer TLSRoute_DeepCopyInto)),
    (''Tcp'', copySlice (copyPointer TCPRoute_DeepCopyInto)), (''ExportTo'', copySlice assign)]"

definition VirtualServiceSpec_DeepCopy :: "nat option \<Rightarrow> (store, nat option) prog" where
  "VirtualServiceSpec_DeepCopy = deepCopy VirtualServiceSpec_DeepCopyInto"

lemma VirtualServiceSpec_current [copy_types]:
  "VirtualServiceSpec_type \<noteq> Scalar" "flat VirtualServiceSpec_type \<longleftrightarrow> False"
  "named VirtualServiceSpec_type" "generated VirtualServiceSpec_type = VirtualServiceSpec_DeepCopyInto"
  by (simp_all add: VirtualServiceSpec_type_def VirtualServiceSpec_DeepCopyInto_def copy_types)

definition Subset_type :: shape where
  "Subset_type = StructOf [
    (''Name'', Scalar), (''Labels'', MapOf Scalar)]"

definition Subset_DeepCopyInto :: copier where
  "Subset_DeepCopyInto = copyStruct [
    (''Labels'', copyMap assign)]"

definition Subset_DeepCopy :: "nat option \<Rightarrow> (store, nat option) prog" where
  "Subset_DeepCopy = deepCopy Subset_DeepCopyInto"

lemma Subset_current [copy_types]:
  "Subset_type \<noteq> Scalar" "flat Subset_type \<longleftrightarrow> False"
  "named Subset_type" "generated Subset_type = Subset_DeepCopyInto"
  by (simp_all add: Subset_type_def Subset_DeepCopyInto_def copy_types)

definition DestinationRuleSpec_type :: shape where
  "DestinationRuleSpec_type = StructOf [
    (''Host'', Scalar), (''Subsets'', SliceOf (PointerTo Subset_type))]"

definition DestinationRuleSpec_DeepCopyInto :: copier where
  "DestinationRuleSpec_DeepCopyInto = copyStruct [
    (''Subsets'', copySlice (copyPointer Subset_DeepCopyInto))]"

definition DestinationRuleSpec_DeepCopy :: "nat option \<Rightarrow> (store, nat option) prog" where
  "DestinationRuleSpec_DeepCopy = deepCopy DestinationRuleSpec_DeepCopyInto"

lemma DestinationRuleSpec_current [copy_types]:
  "DestinationRuleSpec_type \<noteq> Scalar" "flat DestinationRuleSpec_type \<longleftrightarrow> False"
  "named DestinationRuleSpec_type" "generated DestinationRuleSpec_type = DestinationRuleSpec_DeepCopyInto"
  by (simp_all add: DestinationRuleSpec_type_def DestinationRuleSpec_DeepCopyInto_def copy_types)

definition DestinationRuleStatus_type :: shape where
  "DestinationRuleStatus_type = StructOf []"

definition DestinationRuleStatus_DeepCopyInto :: copier where
  "DestinationRuleStatus_DeepCopyInto = assign"

definition DestinationRuleStatus_DeepCopy :: "nat option \<Rightarrow> (store, nat option) prog" where
  "DestinationRuleStatus_DeepCopy = deepCopy DestinationRuleStatus_DeepCopyInto"

lemma DestinationRuleStatus_current [copy_types]:
  "DestinationRuleStatus_type \<noteq> Scalar" "flat DestinationRuleStatus_type"
  "named DestinationRuleStatus_type" "generated DestinationRuleStatus_type = assign" "DestinationRuleStatus_DeepCopyInto = assign"
  by (simp_all add: DestinationRuleStatus_type_def DestinationRuleStatus_DeepCopyInto_def copy_types)

definition DestinationRule_type :: shape where
  "DestinationRule_type = StructOf [
    (''TypeMeta'', TypeMeta_type), (''ObjectMeta'', ObjectMeta_type),
    (''Spec'', DestinationRuleSpec_type), (''Status'', DestinationRuleStatus_type)]"

definition DestinationRule_DeepCopyInto :: copier where
  "DestinationRule_DeepCopyInto = copyStruct [
    (''TypeMeta'', assign), (''ObjectMeta'', ObjectMeta_DeepCopyInto),
    (''Spec'', DestinationRuleSpec_DeepCopyInto), (''Status'', assign)]"

definition DestinationRule_DeepCopy :: "nat option \<Rightarrow> (store, nat option) prog" where
  "DestinationRule_DeepCopy = deepCopy DestinationRule_DeepCopyInto"

definition DestinationRule_DeepCopyObject :: "nat option \<Rightarrow> (store, nat option) prog" where
  "DestinationRule_DeepCopyObject = deepCopyObject DestinationRule_DeepCopy"

lemma DestinationRule_current [copy_types]:
  "DestinationRule_type \<noteq> Scalar" "flat DestinationRule_type \<longleftrightarrow> False"
  "named DestinationRule_type" "generated DestinationRule_type = DestinationRule_DeepCopyInto"
  by (simp_all add: DestinationRule_type_def DestinationRule_DeepCopyInto_def copy_types)

definition DestinationRuleList_type :: shape where
  "DestinationRuleList_type = StructOf [
    (''TypeMeta'', TypeMeta_type), (''ListMeta'', ListMeta_type),
    (''Items'', SliceOf DestinationRule_type)]"

definition DestinationRuleList_DeepCopyInto :: copier where
  "DestinationRuleList_DeepCopyInto = copyStruct [
    (''TypeMeta'', assign), (''ListMeta'', assign),
    (''Items'', copySlice DestinationRule_DeepCopyInto)]"

definition DestinationRuleList_DeepCopy :: "nat option \<Rightarrow> (store, nat option) prog" where
  "DestinationRuleList_DeepCopy = deepCopy DestinationRuleList_DeepCopyInto"

definition DestinationRuleList_DeepCopyObject :: "nat option \<Rightarrow> (store, nat option) prog" where
  "DestinationRuleList_DeepCopyObject = deepCopyObject DestinationRuleList_DeepCopy"

lemma DestinationRuleList_current [copy_types]:
  "DestinationRuleList_type \<noteq> Scalar" "flat DestinationRuleList_type \<longleftrightarrow> False"
  "named DestinationRuleList_type" "generated DestinationRuleList_type = DestinationRuleList_DeepCopyInto"
  by (simp_all add: DestinationRuleList_type_def DestinationRuleList_DeepCopyInto_def copy_types)

definition VirtualServiceStatus_type :: shape where
  "VirtualServiceStatus_type = StructOf []"

definition VirtualServiceStatus_DeepCopyInto :: copier where
  "VirtualServiceStatus_DeepCopyInto = assign"

definition VirtualServiceStatus_DeepCopy :: "nat option \<Rightarrow> (store, nat option) prog" where
  "VirtualServiceStatus_DeepCopy = deepCopy VirtualServiceStatus_DeepCopyInto"

lemma VirtualServiceStatus_current [copy_types]:
  "VirtualServiceStatus_type \<noteq> Scalar" "flat VirtualServiceStatus_type"
  "named VirtualServiceStatus_type" "generated VirtualServiceStatus_type = assign" "VirtualServiceStatus_DeepCopyInto = assign"
  by (simp_all add: VirtualServiceStatus_type_def VirtualServiceStatus_DeepCopyInto_def copy_types)

definition VirtualService_type :: shape where
  "VirtualService_type = StructOf [
    (''TypeMeta'', TypeMeta_type), (''ObjectMeta'', ObjectMeta_type),
    (''Spec'', VirtualServiceSpec_type), (''Status'', VirtualServiceStatus_type)]"

definition VirtualService_DeepCopyInto :: copier where
  "VirtualService_DeepCopyInto = copyStruct [
    (''TypeMeta'', assign), (''ObjectMeta'', ObjectMeta_DeepCopyInto),
    (''Spec'', VirtualServiceSpec_DeepCopyInto), (''Status'', assign)]"

definition VirtualService_DeepCopy :: "nat option \<Rightarrow> (store, nat option) prog" where
  "VirtualService_DeepCopy = deepCopy VirtualService_DeepCopyInto"

definition VirtualService_DeepCopyObject :: "nat option \<Rightarrow> (store, nat option) prog" where
  "VirtualService_DeepCopyObject = deepCopyObject VirtualService_DeepCopy"

lemma VirtualService_current [copy_types]:
  "VirtualService_type \<noteq> Scalar" "flat VirtualService_type \<longleftrightarrow> False"
  "named VirtualService_type" "generated VirtualService_type = VirtualService_DeepCopyInto"
  by (simp_all add: VirtualService_type_def VirtualService_DeepCopyInto_def copy_types)

definition VirtualServiceList_type :: shape where
  "VirtualServiceList_type = StructOf [
    (''TypeMeta'', TypeMeta_type), (''ListMeta'', ListMeta_type),
    (''Items'', SliceOf VirtualService_type)]"

definition VirtualServiceList_DeepCopyInto :: copier where
  "VirtualServiceList_DeepCopyInto = copyStruct [
    (''TypeMeta'', assign), (''ListMeta'', assign),
    (''Items'', copySlice VirtualService_DeepCopyInto)]"

definition VirtualServiceList_DeepCopy :: "nat option \<Rightarrow> (store, nat option) prog" where
  "VirtualServiceList_DeepCopy = deepCopy VirtualServiceList_DeepCopyInto"

definition VirtualServiceList_DeepCopyObject :: "nat option \<Rightarrow> (store, nat option) prog" where
  "VirtualServiceList_DeepCopyObject = deepCopyObject VirtualServiceList_DeepCopy"

lemma VirtualServiceList_current [copy_types]:
  "VirtualServiceList_type \<noteq> Scalar" "flat VirtualServiceList_type \<longleftrightarrow> False"
  "named VirtualServiceList_type" "generated VirtualServiceList_type = VirtualServiceList_DeepCopyInto"
  by (simp_all add: VirtualServiceList_type_def VirtualServiceList_DeepCopyInto_def copy_types)

end
