(* ===== verification/KraneCopies.thy ===== *)
theory KraneCopies
  imports IstioCopies
begin

text \<open>
  The generated \<open>DeepCopy\<close> functions of Krane's own types, \<open>zz_generated.deepcopy.go\<close> in
  \<open>pkg/apis/krane/v1\<close>. They are up to date for \<open>Canary\<close>, but not for \<open>CanaryPolicy\<close>: the test and
  the judge specification have slices, and the functions still assign them as if they had none,
  so a copy of a policy shares the arrays of its commands and metrics with the original.
\<close>

definition CanarySpecDeployments_type :: shape where
  "CanarySpecDeployments_type = StructOf [
    (''Canary'', Scalar), (''Baseline'', Scalar), (''Base'', Scalar)]"

lemma CanarySpecDeployments_current [copy_types]:
  "CanarySpecDeployments_type \<noteq> Scalar" "flat CanarySpecDeployments_type"
  "named CanarySpecDeployments_type" "generated CanarySpecDeployments_type = assign"
  by (simp_all add: CanarySpecDeployments_type_def copy_types)

definition CanarySpec_type :: shape where
  "CanarySpec_type = StructOf [
    (''Policy'', Scalar), (''Deployments'', CanarySpecDeployments_type)]"

definition CanarySpec_DeepCopyInto :: copier where
  "CanarySpec_DeepCopyInto = assign"

definition CanarySpec_DeepCopy :: "nat option \<Rightarrow> (store, nat option) prog" where
  "CanarySpec_DeepCopy = deepCopy CanarySpec_DeepCopyInto"

lemma CanarySpec_current [copy_types]:
  "CanarySpec_type \<noteq> Scalar" "flat CanarySpec_type"
  "named CanarySpec_type" "generated CanarySpec_type = assign" "CanarySpec_DeepCopyInto = assign"
  by (simp_all add: CanarySpec_type_def CanarySpec_DeepCopyInto_def copy_types)

definition CanaryConfigPhase_type :: shape where
  "CanaryConfigPhase_type = StructOf [
    (''PodName'', Scalar), (''Status'', Scalar), (''Message'', Scalar)]"

lemma CanaryConfigPhase_current [copy_types]:
  "CanaryConfigPhase_type \<noteq> Scalar" "flat CanaryConfigPhase_type"
  "named CanaryConfigPhase_type" "generated CanaryConfigPhase_type = assign"
  by (simp_all add: CanaryConfigPhase_type_def copy_types)

definition CanaryStatus_type :: shape where
  "CanaryStatus_type = StructOf [
    (''Progress'', Scalar), (''Initialization'', CanaryConfigPhase_type),
    (''Testing'', CanaryConfigPhase_type), (''Canary'', CanaryConfigPhase_type),
    (''Judging'', CanaryConfigPhase_type), (''Reporting'', CanaryConfigPhase_type),
    (''Cleanup'', CanaryConfigPhase_type)]"

definition CanaryStatus_DeepCopyInto :: copier where
  "CanaryStatus_DeepCopyInto = assign"

definition CanaryStatus_DeepCopy :: "nat option \<Rightarrow> (store, nat option) prog" where
  "CanaryStatus_DeepCopy = deepCopy CanaryStatus_DeepCopyInto"

lemma CanaryStatus_current [copy_types]:
  "CanaryStatus_type \<noteq> Scalar" "flat CanaryStatus_type"
  "named CanaryStatus_type" "generated CanaryStatus_type = assign" "CanaryStatus_DeepCopyInto = assign"
  by (simp_all add: CanaryStatus_type_def CanaryStatus_DeepCopyInto_def copy_types)

definition Canary_type :: shape where
  "Canary_type = StructOf [
    (''TypeMeta'', TypeMeta_type), (''ObjectMeta'', ObjectMeta_type),
    (''Spec'', CanarySpec_type), (''Status'', CanaryStatus_type)]"

definition Canary_DeepCopyInto :: copier where
  "Canary_DeepCopyInto = copyStruct [
    (''TypeMeta'', assign), (''ObjectMeta'', ObjectMeta_DeepCopyInto), (''Spec'', assign),
    (''Status'', assign)]"

definition Canary_DeepCopy :: "nat option \<Rightarrow> (store, nat option) prog" where
  "Canary_DeepCopy = deepCopy Canary_DeepCopyInto"

definition Canary_DeepCopyObject :: "nat option \<Rightarrow> (store, nat option) prog" where
  "Canary_DeepCopyObject = deepCopyObject Canary_DeepCopy"

lemma Canary_current [copy_types]:
  "Canary_type \<noteq> Scalar" "flat Canary_type \<longleftrightarrow> False"
  "named Canary_type" "generated Canary_type = Canary_DeepCopyInto"
  by (simp_all add: Canary_type_def Canary_DeepCopyInto_def copy_types)

definition CanaryList_type :: shape where
  "CanaryList_type = StructOf [
    (''TypeMeta'', TypeMeta_type), (''ListMeta'', ListMeta_type),
    (''Items'', SliceOf Canary_type)]"

definition CanaryList_DeepCopyInto :: copier where
  "CanaryList_DeepCopyInto = copyStruct [
    (''TypeMeta'', assign), (''ListMeta'', assign), (''Items'', copySlice Canary_DeepCopyInto)]"

definition CanaryList_DeepCopy :: "nat option \<Rightarrow> (store, nat option) prog" where
  "CanaryList_DeepCopy = deepCopy CanaryList_DeepCopyInto"

definition CanaryList_DeepCopyObject :: "nat option \<Rightarrow> (store, nat option) prog" where
  "CanaryList_DeepCopyObject = deepCopyObject CanaryList_DeepCopy"

lemma CanaryList_current [copy_types]:
  "CanaryList_type \<noteq> Scalar" "flat CanaryList_type \<longleftrightarrow> False"
  "named CanaryList_type" "generated CanaryList_type = CanaryList_DeepCopyInto"
  by (simp_all add: CanaryList_type_def CanaryList_DeepCopyInto_def copy_types)

definition IntOrString_type :: shape where
  "IntOrString_type = StructOf [
    (''Type'', Scalar), (''IntVal'', Scalar), (''StrVal'', Scalar)]"

lemma IntOrString_current [copy_types]:
  "IntOrString_type \<noteq> Scalar" "flat IntOrString_type"
  "named IntOrString_type" "generated IntOrString_type = assign"
  by (simp_all add: IntOrString_type_def copy_types)

definition ServicePort_type :: shape where
  "ServicePort_type = StructOf [
    (''Name'', Scalar), (''Protocol'', Scalar), (''Port'', Scalar),
    (''TargetPort'', IntOrString_type), (''NodePort'', Scalar)]"

lemma ServicePort_current [copy_types]:
  "ServicePort_type \<noteq> Scalar" "flat ServicePort_type"
  "named ServicePort_type" "generated ServicePort_type = assign"
  by (simp_all add: ServicePort_type_def copy_types)

definition TestSpecBoundary_type :: shape where
  "TestSpecBoundary_type = StructOf [
    (''Time'', Scalar), (''Requests'', Scalar)]"

lemma TestSpecBoundary_current [copy_types]:
  "TestSpecBoundary_type \<noteq> Scalar" "flat TestSpecBoundary_type"
  "named TestSpecBoundary_type" "generated TestSpecBoundary_type = assign"
  by (simp_all add: TestSpecBoundary_type_def copy_types)

definition TestSpec_type :: shape where
  "TestSpec_type = StructOf [
    (''Image'', Scalar), (''Cmd'', SliceOf Scalar), (''Boundary'', TestSpecBoundary_type)]"

definition TestSpec_DeepCopyInto :: copier where
  "TestSpec_DeepCopyInto = assign"

definition TestSpec_DeepCopy :: "nat option \<Rightarrow> (store, nat option) prog" where
  "TestSpec_DeepCopy = deepCopy TestSpec_DeepCopyInto"

lemma TestSpec_current [copy_types]:
  "TestSpec_type \<noteq> Scalar" "flat TestSpec_type \<longleftrightarrow> False"
  "named TestSpec_type"
  by (simp_all add: TestSpec_type_def TestSpec_DeepCopyInto_def copy_types)

definition DiffMetric_type :: shape where
  "DiffMetric_type = StructOf [
    (''Metric'', Scalar), (''Container'', Scalar), (''Diff'', Scalar)]"

lemma DiffMetric_current [copy_types]:
  "DiffMetric_type \<noteq> Scalar" "flat DiffMetric_type"
  "named DiffMetric_type" "generated DiffMetric_type = assign"
  by (simp_all add: DiffMetric_type_def copy_types)

definition ThresholdMetric_type :: shape where
  "ThresholdMetric_type = StructOf [
    (''Metric'', Scalar), (''Value'', Scalar)]"

lemma ThresholdMetric_current [copy_types]:
  "ThresholdMetric_type \<noteq> Scalar" "flat ThresholdMetric_type"
  "named ThresholdMetric_type" "generated ThresholdMetric_type = assign"
  by (simp_all add: ThresholdMetric_type_def copy_types)

definition JudgeSpecBoundary_type :: shape where
  "JudgeSpecBoundary_type = StructOf [
    (''Time'', Scalar)]"

lemma JudgeSpecBoundary_current [copy_types]:
  "JudgeSpecBoundary_type \<noteq> Scalar" "flat JudgeSpecBoundary_type"
  "named JudgeSpecBoundary_type" "generated JudgeSpecBoundary_type = assign"
  by (simp_all add: JudgeSpecBoundary_type_def copy_types)

definition JudgeSpec_type :: shape where
  "JudgeSpec_type = StructOf [
    (''Image'', Scalar), (''Cmd'', SliceOf Scalar), (''DiffMetrics'', SliceOf DiffMetric_type),
    (''ThresholdMetrics'', SliceOf ThresholdMetric_type), (''Boundary'', JudgeSpecBoundary_type)]"

definition JudgeSpec_DeepCopyInto :: copier where
  "JudgeSpec_DeepCopyInto = assign"

definition JudgeSpec_DeepCopy :: "nat option \<Rightarrow> (store, nat option) prog" where
  "JudgeSpec_DeepCopy = deepCopy JudgeSpec_DeepCopyInto"

lemma JudgeSpec_current [copy_types]:
  "JudgeSpec_type \<noteq> Scalar" "flat JudgeSpec_type \<longleftrightarrow> False"
  "named JudgeSpec_type"
  by (simp_all add: JudgeSpec_type_def JudgeSpec_DeepCopyInto_def copy_types)

definition CanaryPolicySpec_type :: shape where
  "CanaryPolicySpec_type = StructOf [
    (''Base'', Scalar), (''VirtualService'', Scalar), (''Service'', Scalar),
    (''BaselineMode'', Scalar), (''DestinationRule'', DestinationRuleSpec_type),
    (''Ports'', SliceOf ServicePort_type), (''TestSpec'', TestSpec_type),
    (''JudgeSpec'', JudgeSpec_type)]"

definition CanaryPolicySpec_DeepCopyInto :: copier where
  "CanaryPolicySpec_DeepCopyInto = copyStruct [
    (''DestinationRule'', DestinationRuleSpec_DeepCopyInto), (''Ports'', copySlice assign),
    (''TestSpec'', assign), (''JudgeSpec'', assign)]"

definition CanaryPolicySpec_DeepCopy :: "nat option \<Rightarrow> (store, nat option) prog" where
  "CanaryPolicySpec_DeepCopy = deepCopy CanaryPolicySpec_DeepCopyInto"

lemma CanaryPolicySpec_current [copy_types]:
  "CanaryPolicySpec_type \<noteq> Scalar" "flat CanaryPolicySpec_type \<longleftrightarrow> False"
  "named CanaryPolicySpec_type"
  by (simp_all add: CanaryPolicySpec_type_def CanaryPolicySpec_DeepCopyInto_def copy_types)

definition CanaryPolicyStatus_type :: shape where
  "CanaryPolicyStatus_type = StructOf []"

definition CanaryPolicyStatus_DeepCopyInto :: copier where
  "CanaryPolicyStatus_DeepCopyInto = assign"

definition CanaryPolicyStatus_DeepCopy :: "nat option \<Rightarrow> (store, nat option) prog" where
  "CanaryPolicyStatus_DeepCopy = deepCopy CanaryPolicyStatus_DeepCopyInto"

lemma CanaryPolicyStatus_current [copy_types]:
  "CanaryPolicyStatus_type \<noteq> Scalar" "flat CanaryPolicyStatus_type"
  "named CanaryPolicyStatus_type" "generated CanaryPolicyStatus_type = assign" "CanaryPolicyStatus_DeepCopyInto = assign"
  by (simp_all add: CanaryPolicyStatus_type_def CanaryPolicyStatus_DeepCopyInto_def copy_types)

definition CanaryPolicy_type :: shape where
  "CanaryPolicy_type = StructOf [
    (''TypeMeta'', TypeMeta_type), (''ObjectMeta'', ObjectMeta_type),
    (''Spec'', CanaryPolicySpec_type), (''Status'', CanaryPolicyStatus_type)]"

definition CanaryPolicy_DeepCopyInto :: copier where
  "CanaryPolicy_DeepCopyInto = copyStruct [
    (''TypeMeta'', assign), (''ObjectMeta'', ObjectMeta_DeepCopyInto),
    (''Spec'', CanaryPolicySpec_DeepCopyInto), (''Status'', assign)]"

definition CanaryPolicy_DeepCopy :: "nat option \<Rightarrow> (store, nat option) prog" where
  "CanaryPolicy_DeepCopy = deepCopy CanaryPolicy_DeepCopyInto"

definition CanaryPolicy_DeepCopyObject :: "nat option \<Rightarrow> (store, nat option) prog" where
  "CanaryPolicy_DeepCopyObject = deepCopyObject CanaryPolicy_DeepCopy"

lemma CanaryPolicy_current [copy_types]:
  "CanaryPolicy_type \<noteq> Scalar" "flat CanaryPolicy_type \<longleftrightarrow> False"
  "named CanaryPolicy_type"
  by (simp_all add: CanaryPolicy_type_def CanaryPolicy_DeepCopyInto_def copy_types)

definition CanaryPolicyList_type :: shape where
  "CanaryPolicyList_type = StructOf [
    (''TypeMeta'', TypeMeta_type), (''ListMeta'', ListMeta_type),
    (''Items'', SliceOf CanaryPolicy_type)]"

definition CanaryPolicyList_DeepCopyInto :: copier where
  "CanaryPolicyList_DeepCopyInto = copyStruct [
    (''TypeMeta'', assign), (''ListMeta'', assign),
    (''Items'', copySlice CanaryPolicy_DeepCopyInto)]"

definition CanaryPolicyList_DeepCopy :: "nat option \<Rightarrow> (store, nat option) prog" where
  "CanaryPolicyList_DeepCopy = deepCopy CanaryPolicyList_DeepCopyInto"

definition CanaryPolicyList_DeepCopyObject :: "nat option \<Rightarrow> (store, nat option) prog" where
  "CanaryPolicyList_DeepCopyObject = deepCopyObject CanaryPolicyList_DeepCopy"

lemma CanaryPolicyList_current [copy_types]:
  "CanaryPolicyList_type \<noteq> Scalar" "flat CanaryPolicyList_type \<longleftrightarrow> False"
  "named CanaryPolicyList_type"
  by (simp_all add: CanaryPolicyList_type_def CanaryPolicyList_DeepCopyInto_def copy_types)

subsection \<open>What a copied policy shares\<close>

text \<open>The cells of the two job specifications of a policy's specification, or of a policy.\<close>

definition jobCells :: "store \<Rightarrow> govalue \<Rightarrow> nat set" where
  "jobCells h spec = (case spec of
       Struct fs \<Rightarrow> cells h TestSpec_type (field ''TestSpec'' fs)
         \<union> cells h JudgeSpec_type (field ''JudgeSpec'' fs)
     | _ \<Rightarrow> {})"

definition policyJobCells :: "store \<Rightarrow> govalue \<Rightarrow> nat set" where
  "policyJobCells h policy = (case policy of
       Struct fs \<Rightarrow> jobCells h (field ''Spec'' fs)
     | _ \<Rightarrow> {})"

lemma deep_current: "named s \<Longrightarrow> generated s = c \<Longrightarrow> deep s c"
  using deep_generated(1) by auto

lemma CanaryPolicySpec_shares:
  "copies CanaryPolicySpec_type CanaryPolicySpec_DeepCopyInto jobCells"
proof -
  let ?T = "\<lambda>f. if f = ''TestSpec'' then (\<lambda>h v. cells h TestSpec_type v)
    else if f = ''JudgeSpec'' then (\<lambda>h v. cells h JudgeSpec_type v) else (\<lambda>h v. {})"
  have rules: "deep DestinationRuleSpec_type DestinationRuleSpec_DeepCopyInto"
    "deep (SliceOf ServicePort_type) (copySlice assign)"
    by (rule deep_current; simp add: copy_types)+
  show ?thesis
    unfolding CanaryPolicySpec_type_def CanaryPolicySpec_DeepCopyInto_def
    by (rule copies_fields [where T = ?T]) (simp_all add: jobCells_def rules copies_assign fun_eq_iff)
qed

lemma CanaryPolicy_shares:
  "copies CanaryPolicy_type CanaryPolicy_DeepCopyInto policyJobCells"
proof -
  let ?T = "\<lambda>f. if f = ''Spec'' then jobCells else (\<lambda>h v. {})"
  have rules: "deep ObjectMeta_type ObjectMeta_DeepCopyInto" "deep TypeMeta_type assign"
    "deep CanaryPolicyStatus_type assign"
    by (rule deep_current; simp add: copy_types)+
  show ?thesis
    unfolding CanaryPolicy_type_def CanaryPolicy_DeepCopyInto_def
    by (rule copies_fields [where T = ?T]) (simp_all add: policyJobCells_def rules CanaryPolicySpec_shares)
qed

text \<open>The job specifications themselves are the same slices.\<close>

lemma copied_field:
  assumes "copyStruct cs v h = (Ok w, h')" and "v = Struct fs" and "distinct (map fst cs)"
    and "(f, c) \<in> set cs"
  obtains gs h1 h2 where "w = Struct gs" and "c (field f fs) h1 = (Ok (field f gs), h2)"
proof -
  obtain gs where "copyFields cs fs fs h = (Ok gs, h')" "w = Struct gs"
    using assms(1,2) by (auto simp: copyStruct_def run_prog split: prod.splits outcome.splits)
  then show thesis using copyFields_block [OF _ assms(3,4)] that by metis
qed

definition jobs :: "govalue \<Rightarrow> (govalue \<times> govalue)" where
  "jobs policy = (case policy of
       Struct fs \<Rightarrow> (case field ''Spec'' fs of
           Struct gs \<Rightarrow> (field ''TestSpec'' gs, field ''JudgeSpec'' gs)
         | _ \<Rightarrow> (Fresh, Fresh))
     | _ \<Rightarrow> (Fresh, Fresh))"

lemma CanaryPolicySpec_same:
  assumes "CanaryPolicySpec_DeepCopyInto (Struct gs) h = (Ok w, h')"
  obtains gs' where "w = Struct gs'" and "field ''TestSpec'' gs' = field ''TestSpec'' gs"
    and "field ''JudgeSpec'' gs' = field ''JudgeSpec'' gs"
proof -
  note run = assms [unfolded CanaryPolicySpec_DeepCopyInto_def]
  obtain gs' h1 h2 where t: "w = Struct gs'"
      "assign (field ''TestSpec'' gs) h1 = (Ok (field ''TestSpec'' gs'), h2)"
    by (rule copied_field [OF run refl, of "''TestSpec''" assign]) simp_all
  obtain gs'' h3 h4 where j: "w = Struct gs''"
      "assign (field ''JudgeSpec'' gs) h3 = (Ok (field ''JudgeSpec'' gs''), h4)"
    by (rule copied_field [OF run refl, of "''JudgeSpec''" assign]) simp_all
  show thesis using that [of gs'] t j by (simp add: assign_def retP_def)
qed

lemma CanaryPolicy_same_jobs:
  assumes "CanaryPolicy_DeepCopyInto v h = (Ok w, h')" and "v = Struct fs"
    and "field ''Spec'' fs = Struct gs"
  shows "jobs w = jobs v"
proof -
  obtain fs' h1 h2 where s: "w = Struct fs'"
      "CanaryPolicySpec_DeepCopyInto (field ''Spec'' fs) h1 = (Ok (field ''Spec'' fs'), h2)"
    by (rule copied_field [OF assms(1) [unfolded CanaryPolicy_DeepCopyInto_def] assms(2),
          of "''Spec''" CanaryPolicySpec_DeepCopyInto]) simp_all
  show ?thesis
    by (rule CanaryPolicySpec_same [OF s(2) [unfolded assms(3)]])
      (simp add: jobs_def s(1) assms(2,3))
qed

end
