(* ===== verification/Caches.thy ===== *)
theory Caches
  imports Tracker KraneCopies
begin

text \<open>
  The reader of the manager's cache (\<open>CacheReader.Get\<close> in controller-runtime) on the memory of
  the process: the informers and every reader hold pointers into one heap, and what keeps them
  apart is the \<open>DeepCopyObject\<close> that \<open>Get\<close> calls. The controllers change what they have read in
  place (the rerouting step writes weights through the pointers of a virtual service), so the
  value-level model of the other theories needs what is shown here.
\<close>

subsection \<open>Reading from the cache\<close>

definition ToAPIVersionAndKind :: "GroupVersionKind \<Rightarrow> string \<times> string" where
  "ToAPIVersionAndKind gvk =
     (if gvk_Group gvk = '''' \<and> gvk_Version gvk = '''' \<and> gvk_Kind gvk = '''' then ('''', '''')
      else (GroupVersion_String \<lparr>gv_Group = gvk_Group gvk, gv_Version = gvk_Version gvk\<rparr>,
        gvk_Kind gvk))"

text \<open>\<open>TypeMeta\<close> is embedded, so its methods write into the object's own variable.\<close>

definition SetGroupVersionKind :: "nat \<Rightarrow> GroupVersionKind \<Rightarrow> (store, unit) prog" where
  "SetGroupVersionKind obj gvk = bindP (readVariable obj) (\<lambda>v. case v of
       Struct fs \<Rightarrow> (case field ''TypeMeta'' fs of
           Struct ts \<Rightarrow>
             (let (apiVersion, kind) = ToAPIVersionAndKind gvk;
                  ts = put ''Kind'' (Plain (Text kind)) (put ''APIVersion'' (Plain (Text apiVersion)) ts)
              in overwrite obj (Variable (Struct (put ''TypeMeta'' (Struct ts) fs))))
         | _ \<Rightarrow> liftP (Panic NilDereference))
     | _ \<Rightarrow> liftP (Panic NilDereference))"

definition GroupResource_String :: "string \<Rightarrow> string \<Rightarrow> string" where
  "GroupResource_String grp resource =
     (if grp = '''' then resource else resource @ ''.'' @ grp)"

text \<open>
  \<open>Get\<close>: the answer of the indexer to the key is an argument; an object in it is a pointer. The checks that it is a \<open>runtime.Object\<close> and of the type asked for
  hold for the informer of that type.
\<close>

definition CacheReader_Get :: "(nat option \<Rightarrow> (store, nat option) prog) \<Rightarrow> GroupVersionKind
    \<Rightarrow> error + nat option \<Rightarrow> string \<Rightarrow> nat \<Rightarrow> (store, unit) prog" where
  "CacheReader_Get deepCopyObj gvk found name out = (case found of
       Inl e \<Rightarrow> errP e
     | Inr None \<Rightarrow> errP (NewNotFound (GroupResource_String (gvk_Group gvk) (gvk_Kind gvk)) name)
     | Inr (Some obj) \<Rightarrow>
         bindP (deepCopyObj (Some obj)) (\<lambda>c. case c of
             None \<Rightarrow> liftP (Panic NilDereference)
           | Some c \<Rightarrow>
               bindP (readVariable c) (\<lambda>v.
               thenP (overwrite out (Variable v)) (SetGroupVersionKind out gvk))))"

subsection \<open>Who holds what\<close>

text \<open>
  What code can do to the heap that knows the addresses in \<open>R\<close>: store anything at an address it
  knows, and allocate; \<open>Q\<close> is what it knows in the end.
\<close>

inductive holder :: "nat set \<Rightarrow> store \<Rightarrow> nat set \<Rightarrow> store \<Rightarrow> bool" for R h where
  idle: "holder R h R h"
| stores: "holder R h Q g \<Longrightarrow> a \<in> Q \<Longrightarrow> holder R h Q (g[a := c])"
| makes: "holder R h Q g \<Longrightarrow> holder R h (insert (length g) Q) (g @ [c])"

lemma holder_spares:
  "holder R h Q g \<Longrightarrow> a < length h \<Longrightarrow> a \<notin> R \<Longrightarrow> length h \<le> length g \<and> a \<notin> Q \<and> load g a = load h a"
  by (induction rule: holder.induct) (auto simp: load_update)

lemma holder_keeps:
  assumes "holder R h Q g" and "content h s v = Some x" and "cells h s v \<inter> R = {}"
  shows "content g s v = Some x"
proof -
  have "agree h g (cells h s v)"
    using holder_spares [OF assms(1)] cells_allocated(1) [OF assms(2)] assms(3)
    by (auto simp: agree_def)
  then show ?thesis using frame(1) assms(2) by simp
qed

lemma content_pointer: "content h (PointerTo s) (Pointer (Some a)) = Some x \<longleftrightarrow>
    (\<exists>v y. variable h a = Some v \<and> content h s v = Some y \<and> x = PointsTo y)"
  by (auto split: option.splits)

lemma cells_pointer:
  "variable h a = Some v \<Longrightarrow> cells h (PointerTo s) (Pointer (Some a)) = insert a (cells h s v)"
  by simp

lemma deepCopyObject_run:
  assumes "copies s c S" and "variable h a = Some v" and "content h s v = Some x"
  obtains w e where
    "deepCopyObject (deepCopy c) (Some a) h = (Ok (Some (length h)), h @ Variable w # e)"
    and "c v (h @ [Variable Fresh]) = (Ok w, h @ Variable Fresh # e)"
    and "content (h @ Variable w # e) s w = Some x"
    and "cells (h @ Variable w # e) s w \<inter> {..length h} = S h v"
proof -
  obtain w e where w: "c v (h @ [Variable Fresh]) = (Ok w, h @ Variable Fresh # e)"
      "content (h @ Variable w # e) s w = Some x"
      "cells (h @ Variable w # e) s w \<inter> {..length h} = S h v"
    using copies_behind [OF assms(1,3), of "Variable Fresh" "[]"]
    by (metis append_Cons append_Nil append_Nil2)
  have "a < length h" using assms(2) by (auto simp: variable_eq_Some dest: load_in)
  then have "deepCopyObject (deepCopy c) (Some a) h
      = (Ok (Some (length h)), h @ Variable w # e)"
    using w(1) assms(2) by (simp add: deepCopyObject_def deepCopy_def allocate_def
        readVariable_def overwrite_def variable_eq_Some run_prog)
  then show thesis using that w by blast
qed

subsection \<open>Objects whose copies are deep\<close>

text \<open>
  What the reader of the cache asks of a type: a struct with \<open>TypeMeta\<close> whose copies are deep. The
  contract is stated once, and holds for the types below.
\<close>

definition typeMeta :: "GroupVersionKind \<Rightarrow> data" where
  "typeMeta gvk = (let (apiVersion, kind) = ToAPIVersionAndKind gvk in
     Fields [(''Kind'', Leaf (Text kind)), (''APIVersion'', Leaf (Text apiVersion))])"

lemma typeMeta_value:
  assumes "content h TypeMeta_type v = Some y"
  shows "\<exists>k a. v = Struct [(''Kind'', Plain k), (''APIVersion'', Plain a)]"
  using assms
  by (cases v) (auto simp: TypeMeta_type_def split: govalue.splits list.splits option.splits if_splits)

locale cached_type =
  fixes ss :: "(string \<times> shape) list" and into :: copier
  assumes into_deep: "deep (StructOf ss) into"
    and different_names: "distinct (map fst ss)"
    and has_TypeMeta: "(''TypeMeta'', TypeMeta_type) \<in> set ss"
begin

lemma set_kind:
  assumes "load h out = Some (Variable w)" and "content h (StructOf ss) w = Some (Fields xs)"
    and "out \<notin> cells h (StructOf ss) w"
  shows "\<exists>u. SetGroupVersionKind out gvk h = (Ok (), h[out := Variable u]) \<and>
    content (h[out := Variable u]) (StructOf ss) u
      = Some (Fields (put ''TypeMeta'' (typeMeta gvk) xs)) \<and>
    cells (h[out := Variable u]) (StructOf ss) u = cells h (StructOf ss) w"
proof -
  obtain fs where w: "w = Struct fs" "contents h ss fs = Some xs"
    using assms(2) by (cases w) auto
  obtain y where y: "content h TypeMeta_type (field ''TypeMeta'' fs) = Some y"
    by (rule contents_field [OF w(2) different_names has_TypeMeta])
  then obtain k a where tm: "field ''TypeMeta'' fs
      = Struct [(''Kind'', Plain k), (''APIVersion'', Plain a)]"
    using typeMeta_value by blast
  obtain api kind where gvk: "ToAPIVersionAndKind gvk = (api, kind)" by fastforce
  let ?tm = "Struct [(''Kind'', Plain (Text kind)), (''APIVersion'', Plain (Text api))]"
  let ?u = "Struct (put ''TypeMeta'' ?tm fs)"
  let ?g = "h[out := Variable ?u]"
  have run: "SetGroupVersionKind out gvk h = (Ok (), ?g)"
    using assms(1) w(1) tm gvk
    by (simp add: SetGroupVersionKind_def readVariable_def overwrite_def put_def run_prog)
  have new: "content ?g TypeMeta_type ?tm = Some (typeMeta gvk)"
    "cells ?g TypeMeta_type ?tm = cells h TypeMeta_type (field ''TypeMeta'' fs)"
    using gvk by (simp_all add: TypeMeta_type_def typeMeta_def tm)
  have "agree h ?g (cells_of h ss fs)" using assms(3) w(1) by (auto simp: agree_def load_update)
  note put = contents_put [OF w(2) different_names has_TypeMeta new this]
  show ?thesis using run put w(1) by (intro exI [of _ ?u]) simp
qed

lemma fill:
  assumes "content h (StructOf ss) w = Some (Fields xs)" and "out < length h"
    and "out \<notin> cells h (StructOf ss) w"
  shows "\<exists>u. thenP (overwrite out (Variable w)) (SetGroupVersionKind out gvk) h
      = (Ok (), h[out := Variable u]) \<and>
    content (h[out := Variable u]) (StructOf ss) u
      = Some (Fields (put ''TypeMeta'' (typeMeta gvk) xs)) \<and>
    cells (h[out := Variable u]) (StructOf ss) u = cells h (StructOf ss) w"
proof -
  let ?g = "h[out := Variable w]"
  have "agree h ?g (cells h (StructOf ss) w)" using assms(3) by (auto simp: agree_def load_update)
  then have w: "content ?g (StructOf ss) w = Some (Fields xs)"
      "cells ?g (StructOf ss) w = cells h (StructOf ss) w"
    using frame(1) assms(1) by metis+
  have "load ?g out = Some (Variable w)" using assms(2) by (simp add: load_update)
  from set_kind [OF this w(1)] w(2) assms(3) obtain u where
    u: "SetGroupVersionKind out gvk ?g = (Ok (), ?g[out := Variable u])"
      "content (?g[out := Variable u]) (StructOf ss) u
        = Some (Fields (put ''TypeMeta'' (typeMeta gvk) xs))"
      "cells (?g[out := Variable u]) (StructOf ss) u = cells h (StructOf ss) w"
    by metis
  then show ?thesis by (intro exI [of _ u]) (simp add: overwrite_def run_prog del: content.simps cells.simps)
qed

lemma cache_read:
  assumes "variable h obj = Some v" and "content h (StructOf ss) v = Some (Fields xs)"
    and "out < length h" and "out \<noteq> obj" and "out \<notin> cells h (StructOf ss) v"
  shows "\<exists>h'. CacheReader_Get (deepCopyObject (deepCopy into)) gvk (Inr (Some obj)) name out h
      = (Ok (), h') \<and>
    content h' (PointerTo (StructOf ss)) (Pointer (Some out))
      = Some (PointsTo (Fields (put ''TypeMeta'' (typeMeta gvk) xs))) \<and>
    content h' (PointerTo (StructOf ss)) (Pointer (Some obj)) = Some (PointsTo (Fields xs)) \<and>
    cells h' (PointerTo (StructOf ss)) (Pointer (Some obj))
      \<inter> cells h' (PointerTo (StructOf ss)) (Pointer (Some out)) = {}"
proof -
  obtain w e where run: "deepCopyObject (deepCopy into) (Some obj) h
        = (Ok (Some (length h)), h @ Variable w # e)"
    and w: "content (h @ Variable w # e) (StructOf ss) w = Some (Fields xs)"
      "cells (h @ Variable w # e) (StructOf ss) w \<inter> {..length h} = {}"
    by (rule deepCopyObject_run [OF into_deep assms(1,2)])
  let ?h1 = "h @ Variable w # e"
  have "out \<notin> cells ?h1 (StructOf ss) w" using w(2) assms(3) by auto
  from fill [OF w(1) _ this] assms(3) obtain u where
    u: "thenP (overwrite out (Variable w)) (SetGroupVersionKind out gvk) ?h1
        = (Ok (), ?h1[out := Variable u])"
      "content (?h1[out := Variable u]) (StructOf ss) u
        = Some (Fields (put ''TypeMeta'' (typeMeta gvk) xs))"
      "cells (?h1[out := Variable u]) (StructOf ss) u = cells ?h1 (StructOf ss) w"
    by (metis length_append less_imp_le_nat trans_less_add1)
  let ?h' = "?h1[out := Variable u]"
  have get: "CacheReader_Get (deepCopyObject (deepCopy into)) gvk (Inr (Some obj)) name out h
      = (Ok (), ?h')"
    using run u(1) by (simp add: CacheReader_Get_def readVariable_def run_prog(1-6))
  have here: "variable ?h' out = Some u" using assms(3) by (simp add: variable_def load_update)
  have obj: "obj < length h" using assms(1) by (auto simp: variable_eq_Some dest: load_in)
  have old: "load ?h' a = load h a" if "a < length h" "a \<noteq> out" for a
    using that by (simp add: load_update)
  have below: "cells h (StructOf ss) v \<subseteq> {..<length h}" using cells_allocated(1) [OF assms(2)] .
  have there: "variable ?h' obj = Some v"
    using old [OF obj] assms(1,4) by (simp add: variable_def)
  have "agree h ?h' (cells h (StructOf ss) v)"
    unfolding agree_def using old below assms(5) by blast
  then have v: "content ?h' (StructOf ss) v = Some (Fields xs)"
      "cells ?h' (StructOf ss) v = cells h (StructOf ss) v"
    using frame(1) assms(2) by metis+
  have "insert obj (cells h (StructOf ss) v) \<inter> insert out (cells ?h1 (StructOf ss) w) = {}"
    using w(2) below obj assms(4,5) by fastforce
  then have "cells ?h' (PointerTo (StructOf ss)) (Pointer (Some obj))
      \<inter> cells ?h' (PointerTo (StructOf ss)) (Pointer (Some out)) = {}"
    unfolding cells_pointer [OF there] cells_pointer [OF here] v(2) u(3) .
  then show ?thesis using get here there u(2) v(1)
    by (intro exI [of _ ?h'] conjI) (simp_all add: content_pointer)
qed

lemma isolated:
  assumes "content h (PointerTo (StructOf ss)) (Pointer (Some obj)) = Some (PointsTo (Fields xs))"
    and "out < length h" and "out \<notin> cells h (PointerTo (StructOf ss)) (Pointer (Some obj))"
  shows "\<exists>h'. CacheReader_Get (deepCopyObject (deepCopy into)) gvk (Inr (Some obj)) name out h
      = (Ok (), h') \<and>
    content h' (PointerTo (StructOf ss)) (Pointer (Some out))
      = Some (PointsTo (Fields (put ''TypeMeta'' (typeMeta gvk) xs))) \<and>
    content h' (PointerTo (StructOf ss)) (Pointer (Some obj)) = Some (PointsTo (Fields xs)) \<and>
    (\<forall>Q g. holder (cells h' (PointerTo (StructOf ss)) (Pointer (Some out))) h' Q g \<longrightarrow>
      content g (PointerTo (StructOf ss)) (Pointer (Some obj)) = Some (PointsTo (Fields xs))) \<and>
    (\<forall>Q g. holder (cells h' (PointerTo (StructOf ss)) (Pointer (Some obj))) h' Q g \<longrightarrow>
      content g (PointerTo (StructOf ss)) (Pointer (Some out))
        = Some (PointsTo (Fields (put ''TypeMeta'' (typeMeta gvk) xs))))"
proof -
  obtain v where v: "variable h obj = Some v" "content h (StructOf ss) v = Some (Fields xs)"
    using assms(1) unfolding content_pointer by auto
  have "out \<noteq> obj" "out \<notin> cells h (StructOf ss) v"
    using assms(3) unfolding cells_pointer [OF v(1)] by auto
  from cache_read [OF v assms(2) this] obtain h' where
    h': "CacheReader_Get (deepCopyObject (deepCopy into)) gvk (Inr (Some obj)) name out h
      = (Ok (), h')"
    and out: "content h' (PointerTo (StructOf ss)) (Pointer (Some out))
      = Some (PointsTo (Fields (put ''TypeMeta'' (typeMeta gvk) xs)))"
    and obj: "content h' (PointerTo (StructOf ss)) (Pointer (Some obj)) = Some (PointsTo (Fields xs))"
    and apart: "cells h' (PointerTo (StructOf ss)) (Pointer (Some obj))
      \<inter> cells h' (PointerTo (StructOf ss)) (Pointer (Some out)) = {}"
    by blast
  show ?thesis
    by (intro exI [of _ h'] conjI allI impI h' out obj)
      (erule holder_keeps, rule obj out, use apart in blast)+
qed

end

text \<open>The types of Krane and of Istio that the cache holds for the controllers.\<close>

fun fields_of :: "shape \<Rightarrow> (string \<times> shape) list" where
  "fields_of (StructOf ss) = ss"
| "fields_of s = []"

interpretation virtual_services: cached_type "fields_of VirtualService_type"
    VirtualService_DeepCopyInto
proof unfold_locales
  have "deep VirtualService_type VirtualService_DeepCopyInto"
    by (rule deep_current; simp add: copy_types)
  then show "deep (StructOf (fields_of VirtualService_type)) VirtualService_DeepCopyInto"
    by (simp add: VirtualService_type_def)
qed (simp_all add: VirtualService_type_def)

interpretation destination_rules: cached_type "fields_of DestinationRule_type"
    DestinationRule_DeepCopyInto
proof unfold_locales
  have "deep DestinationRule_type DestinationRule_DeepCopyInto"
    by (rule deep_current; simp add: copy_types)
  then show "deep (StructOf (fields_of DestinationRule_type)) DestinationRule_DeepCopyInto"
    by (simp add: DestinationRule_type_def)
qed (simp_all add: DestinationRule_type_def)

interpretation canaries: cached_type "fields_of Canary_type" Canary_DeepCopyInto
proof unfold_locales
  have "deep Canary_type Canary_DeepCopyInto"
    by (rule deep_current; simp add: copy_types)
  then show "deep (StructOf (fields_of Canary_type)) Canary_DeepCopyInto"
    by (simp add: Canary_type_def)
qed (simp_all add: Canary_type_def)

lemma cached_types:
  "VirtualService_type = StructOf (fields_of VirtualService_type)"
  "DestinationRule_type = StructOf (fields_of DestinationRule_type)"
  "Canary_type = StructOf (fields_of Canary_type)"
  by (simp_all add: VirtualService_type_def DestinationRule_type_def Canary_type_def)

subsection \<open>Properties\<close>

text \<open>
  C9. Reads from the cache are isolated. For virtual services, destination rules and canaries,
  \<open>Get\<close> ends without an error, the caller's object has the content of the cached one with the
  kind of the informer set, and from then on nothing the holder of the one object does to the
  memory it can reach, writes and allocations in any order, changes the content of the other:
  neither a controller the cache, nor the cache what a controller has read.
\<close>

theorem cache_reads_are_isolated:
  assumes "(ty, copyObject) \<in> {(VirtualService_type, VirtualService_DeepCopyObject),
      (DestinationRule_type, DestinationRule_DeepCopyObject),
      (Canary_type, Canary_DeepCopyObject)}"
    and "content h (PointerTo ty) (Pointer (Some obj)) = Some (PointsTo (Fields xs))"
    and "out < length h" and "out \<notin> cells h (PointerTo ty) (Pointer (Some obj))"
  shows "\<exists>h'. CacheReader_Get copyObject gvk (Inr (Some obj)) name out h = (Ok (), h') \<and>
    content h' (PointerTo ty) (Pointer (Some out))
      = Some (PointsTo (Fields (put ''TypeMeta'' (typeMeta gvk) xs))) \<and>
    content h' (PointerTo ty) (Pointer (Some obj)) = Some (PointsTo (Fields xs)) \<and>
    (\<forall>Q g. holder (cells h' (PointerTo ty) (Pointer (Some out))) h' Q g \<longrightarrow>
      content g (PointerTo ty) (Pointer (Some obj)) = Some (PointsTo (Fields xs))) \<and>
    (\<forall>Q g. holder (cells h' (PointerTo ty) (Pointer (Some obj))) h' Q g \<longrightarrow>
      content g (PointerTo ty) (Pointer (Some out))
        = Some (PointsTo (Fields (put ''TypeMeta'' (typeMeta gvk) xs))))"
proof -
  consider "ty = VirtualService_type" "copyObject = VirtualService_DeepCopyObject"
    | "ty = DestinationRule_type" "copyObject = DestinationRule_DeepCopyObject"
    | "ty = Canary_type" "copyObject = Canary_DeepCopyObject"
    using assms(1) by auto
  then show ?thesis
  proof cases
    case 1
    show ?thesis using assms(2-4) unfolding 1 VirtualService_DeepCopyObject_def VirtualService_DeepCopy_def
      by (rule virtual_services.isolated [folded cached_types(1)])
  next
    case 2
    show ?thesis using assms(2-4) unfolding 2 DestinationRule_DeepCopyObject_def DestinationRule_DeepCopy_def
      by (rule destination_rules.isolated [folded cached_types(2)])
  next
    case 3
    show ?thesis using assms(2-4) unfolding 3 Canary_DeepCopyObject_def Canary_DeepCopy_def
      by (rule canaries.isolated [folded cached_types(3)])
  qed
qed

text \<open>A concrete rule with a subset, and the variable a reader passes.\<close>

definition plain_meta :: govalue where
  "plain_meta = Struct [
    (''Name'', Plain (Text ''shop-canary'')), (''GenerateName'', Plain (Text [])),
    (''Namespace'', Plain (Text ''shop'')), (''SelfLink'', Plain (Text [])),
    (''UID'', Plain (Text ''u'')), (''ResourceVersion'', Plain (Text ''7'')),
    (''Generation'', Plain (Whole 1)), (''CreationTimestamp'', Struct [(''Time'', Plain (Instant 0))]),
    (''DeletionTimestamp'', Pointer None), (''DeletionGracePeriodSeconds'', Pointer None),
    (''Labels'', MapRef None), (''Annotations'', MapRef None), (''OwnerReferences'', Slice None),
    (''Initializers'', Pointer None), (''Finalizers'', Slice None),
    (''ClusterName'', Plain (Text []))]"

definition plain_type :: govalue where
  "plain_type = Struct [(''Kind'', Plain (Text [])), (''APIVersion'', Plain (Text []))]"

definition demo_rule :: govalue where
  "demo_rule = Struct [(''TypeMeta'', plain_type), (''ObjectMeta'', plain_meta),
    (''Spec'', Struct [(''Host'', Plain (Text ''shop'')), (''Subsets'', Slice (Some (1, 0, 1)))]),
    (''Status'', Struct [])]"

definition demo_cache :: store where
  "demo_cache = [Variable demo_rule, Array [Pointer (Some 2)],
    Variable (Struct [(''Name'', Plain (Text ''canary'')), (''Labels'', MapRef (Some 3))]),
    Table [(''tier'', Plain (Text ''canary''))], Variable Fresh]"

lemma plain_metadata:
  "content h TypeMeta_type plain_type
     = Some (Fields [(''Kind'', Leaf (Text [])), (''APIVersion'', Leaf (Text []))])"
  "\<exists>xs. content h ObjectMeta_type plain_meta = Some (Fields xs)"
  "cells h TypeMeta_type plain_type = {}" "cells h ObjectMeta_type plain_meta = {}"
  by (simp_all add: TypeMeta_type_def plain_type_def ObjectMeta_type_def plain_meta_def
      Time_type_def)

lemma demo_cached:
  "\<exists>xs. content demo_cache (PointerTo DestinationRule_type) (Pointer (Some 0))
     = Some (PointsTo (Fields xs))"
  "cells demo_cache (PointerTo DestinationRule_type) (Pointer (Some 0)) = {0, 1, 2, 3}"
proof -
  obtain m where "content demo_cache ObjectMeta_type plain_meta = Some (Fields m)"
    using plain_metadata(2) by blast
  then show "\<exists>xs. content demo_cache (PointerTo DestinationRule_type) (Pointer (Some 0))
      = Some (PointsTo (Fields xs))"
    by (simp add: DestinationRule_type_def DestinationRuleSpec_type_def Subset_type_def
        DestinationRuleStatus_type_def demo_cache_def demo_rule_def plain_metadata variable_def
        window_def entries_def load_def numeral_2_eq_2 numeral_3_eq_3)
  show "cells demo_cache (PointerTo DestinationRule_type) (Pointer (Some 0)) = {0, 1, 2, 3}"
    by (simp add: DestinationRule_type_def DestinationRuleSpec_type_def Subset_type_def
        DestinationRuleStatus_type_def demo_cache_def demo_rule_def plain_metadata variable_def
        window_def entries_def load_def numeral_2_eq_2 numeral_3_eq_3)
qed

theorem cache_reads_are_isolated_witness:
  "\<exists>xs h'. CacheReader_Get DestinationRule_DeepCopyObject \<lparr>gvk_Group = ''networking.istio.io'',
        gvk_Version = ''v1alpha3'', gvk_Kind = ''DestinationRule''\<rparr> (Inr (Some 0)) ''shop-canary'' 4
      demo_cache = (Ok (), h') \<and>
    content (h'[4 := Variable Fresh]) (PointerTo DestinationRule_type) (Pointer (Some 0))
      = Some (PointsTo (Fields xs))"
proof -
  let ?gvk = "\<lparr>gvk_Group = ''networking.istio.io'', gvk_Version = ''v1alpha3'',
    gvk_Kind = ''DestinationRule''\<rparr>"
  obtain xs where xs: "content demo_cache (PointerTo DestinationRule_type) (Pointer (Some 0))
      = Some (PointsTo (Fields xs))"
    using demo_cached(1) by blast
  have out: "4 < length demo_cache"
      "4 \<notin> cells demo_cache (PointerTo DestinationRule_type) (Pointer (Some 0))"
    unfolding demo_cached(2) by (simp_all add: demo_cache_def)
  have ty: "(DestinationRule_type, DestinationRule_DeepCopyObject)
      \<in> {(VirtualService_type, VirtualService_DeepCopyObject),
         (DestinationRule_type, DestinationRule_DeepCopyObject),
         (Canary_type, Canary_DeepCopyObject)}"
    by blast
  from cache_reads_are_isolated [OF ty xs out, of ?gvk "''shop-canary''"]
  obtain h' where h': "CacheReader_Get DestinationRule_DeepCopyObject ?gvk (Inr (Some 0))
        ''shop-canary'' 4 demo_cache = (Ok (), h')"
    "\<forall>Q g. holder (cells h' (PointerTo DestinationRule_type) (Pointer (Some 4))) h' Q g \<longrightarrow>
      content g (PointerTo DestinationRule_type) (Pointer (Some 0)) = Some (PointsTo (Fields xs))"
    by blast
  have "4 \<in> cells h' (PointerTo DestinationRule_type) (Pointer (Some 4))" by simp
  from h'(2) holder.stores [OF holder.idle this] h'(1) show ?thesis by blast
qed

subsection \<open>Copies of policies\<close>

lemma struct_content: "content h (StructOf ss) v = Some x \<longleftrightarrow>
    (\<exists>fs xs. v = Struct fs \<and> contents h ss fs = Some xs \<and> x = Fields xs)"
  by (cases v) auto

text \<open>The command of a policy's test job: its content is part of the content of the policy.\<close>

definition test_command :: "govalue \<Rightarrow> govalue" where
  "test_command policy = (case fst (jobs policy) of Struct ts \<Rightarrow> field ''Cmd'' ts | _ \<Rightarrow> Fresh)"

lemma policy_parts:
  assumes "content h CanaryPolicy_type v = Some x"
  obtains fs gs ts where "v = Struct fs" and "field ''Spec'' fs = Struct gs"
    and "field ''TestSpec'' gs = Struct ts"
proof -
  obtain fs xs where fs: "v = Struct fs" "contents h (fields_of CanaryPolicy_type) fs = Some xs"
    using assms by (auto simp: CanaryPolicy_type_def struct_content simp del: content.simps)
  obtain y where "content h CanaryPolicySpec_type (field ''Spec'' fs) = Some y"
    by (rule contents_field [OF fs(2), of "''Spec''" CanaryPolicySpec_type])
      (simp_all add: CanaryPolicy_type_def)
  then obtain gs ys where gs: "field ''Spec'' fs = Struct gs"
      "contents h (fields_of CanaryPolicySpec_type) gs = Some ys"
    by (auto simp: CanaryPolicySpec_type_def struct_content simp del: content.simps)
  obtain z where "content h TestSpec_type (field ''TestSpec'' gs) = Some z"
    by (rule contents_field [OF gs(2), of "''TestSpec''" TestSpec_type])
      (simp_all add: CanaryPolicySpec_type_def)
  then show thesis
    using that fs(1) gs(1) by (auto simp: TestSpec_type_def struct_content simp del: content.simps)
qed

lemma same_field:
  assumes "content h (StructOf ss) (Struct fs) = Some x" and "content g (StructOf ss) (Struct fs) = Some x"
    and "distinct (map fst ss)" and "(f, s) \<in> set ss"
  shows "\<exists>y. content h s (field f fs) = Some y \<and> content g s (field f fs) = Some y"
proof -
  obtain xs where "contents h ss fs = Some xs" "contents g ss fs = Some xs"
    using assms(1,2) by auto
  then show ?thesis using contents_field [OF _ assms(3,4)] by (metis option.inject)
qed

lemma same_command:
  assumes "content h CanaryPolicy_type v = Some x" and "content g CanaryPolicy_type v = Some x"
  shows "\<exists>y. content h (SliceOf Scalar) (test_command v) = Some y \<and>
    content g (SliceOf Scalar) (test_command v) = Some y"
proof -
  obtain fs gs ts where v: "v = Struct fs" "field ''Spec'' fs = Struct gs"
      "field ''TestSpec'' gs = Struct ts"
    using policy_parts [OF assms(1)] .
  obtain y where y: "content h CanaryPolicySpec_type (Struct gs) = Some y"
      "content g CanaryPolicySpec_type (Struct gs) = Some y"
    using same_field [OF assms [unfolded v(1) CanaryPolicy_type_def], of "''Spec''"
        CanaryPolicySpec_type] v(2) by auto
  obtain z where z: "content h TestSpec_type (Struct ts) = Some z"
      "content g TestSpec_type (Struct ts) = Some z"
    using same_field [OF y [unfolded CanaryPolicySpec_type_def], of "''TestSpec''" TestSpec_type]
      v(3) by auto
  show ?thesis
    using same_field [OF z [unfolded TestSpec_type_def], of "''Cmd''" "SliceOf Scalar"] v
    by (simp add: test_command_def jobs_def del: content.simps)
qed

lemma written_command:
  assumes "content h (SliceOf Scalar) (Slice (Some (a, s, n))) = Some y" and "0 < n"
    and "readElement a s h \<noteq> (Ok (Plain p), h)"
  shows "\<exists>g. writeElement a s (Plain p) h = (Ok (), g) \<and>
    (\<exists>vs. load h a = Some (Array vs) \<and> g = h[a := Array (vs[s := Plain p])]) \<and>
    content g (SliceOf Scalar) (Slice (Some (a, s, n))) \<noteq> Some y"
proof -
  obtain us xs where us: "window h a s n = Some us" "collect (content h Scalar) us = Some xs"
      "y = Elements xs"
    using assms(1) by (auto split: option.splits)
  obtain vs where vs: "load h a = Some (Array vs)" "s + n \<le> length vs" "us = take n (drop s vs)"
    using us(1) by (auto simp: window_eq_Some)
  have s: "s < length vs" using vs(2) assms(2) by simp
  obtain m where m: "n = Suc m" using assms(2) by (cases n) auto
  let ?g = "h[a := Array (vs[s := Plain p])]"
  have first: "us = vs ! s # take m (drop (Suc s) vs)"
    using vs(3) s m by (simp add: Cons_nth_drop_Suc [symmetric])
  obtain q where q: "vs ! s = Plain q" "hd xs = Leaf q"
    using us(2) first by (auto split: govalue.splits option.splits)
  have "q \<noteq> p" using assms(3) vs(1) s q(1) by (auto simp: readElement_def)
  have "window ?g a s n = Some (Plain p # take m (drop (Suc s) vs))"
    using vs(1,2) s m load_in [OF vs(1)]
    by (simp add: window_def load_update drop_update_swap Cons_nth_drop_Suc [symmetric])
  then have "content ?g (SliceOf Scalar) (Slice (Some (a, s, n))) \<noteq> Some y"
    using q(2) \<open>q \<noteq> p\<close> us(3) by (auto split: option.splits)
  then show ?thesis using vs(1) s by (intro exI [of _ ?g]) (simp add: writeElement_def del: content.simps)
qed

lemma policy_write:
  assumes "content h CanaryPolicy_type policy = Some y" and "variable h obj = Some policy"
    and "test_command policy = Slice (Some (a, s, n))" and "0 < n"
    and "readElement a s h \<noteq> (Ok (Plain p), h)"
  shows "\<exists>g. writeElement a s (Plain p) h = (Ok (), g) \<and>
    content g (PointerTo CanaryPolicy_type) (Pointer (Some obj)) \<noteq> Some (PointsTo y)"
proof -
  obtain z where z: "content h (SliceOf Scalar) (Slice (Some (a, s, n))) = Some z"
    using same_command [OF assms(1,1)] assms(3) by auto
  from written_command [OF z assms(4,5)] obtain g vs where
    g: "writeElement a s (Plain p) h = (Ok (), g)" "load h a = Some (Array vs)"
      "g = h[a := Array (vs[s := Plain p])]"
      "content g (SliceOf Scalar) (Slice (Some (a, s, n))) \<noteq> Some z"
    by blast
  have "obj \<noteq> a" using assms(2) g(2) by (auto simp: variable_eq_Some)
  then have "variable g obj = Some policy" using assms(2) g(3) by (simp add: variable_def load_update)
  moreover have "content g CanaryPolicy_type policy \<noteq> Some y"
    using same_command [OF assms(1)] z g(4) assms(3) by (metis option.inject)
  ultimately show ?thesis using g(1) unfolding content_pointer by auto
qed

text \<open>
  C31. Copies of policies are not deep. A copy of a well-formed policy has its content, but the
  memory it has in common with the original is exactly that of the test and the judge
  specification, the slices of commands and metrics in them being the very same; so whoever
  writes another first word into the test command of the copy changes the original, the object
  in the cache when the copy was made by a read.
\<close>

theorem policy_copies_share_their_jobs:
  assumes "content h (PointerTo CanaryPolicy_type) (Pointer (Some obj)) = Some x"
    and "variable h obj = Some policy"
    and "test_command policy = Slice (Some (a, s, n))" and "0 < n"
    and "readElement a s h \<noteq> (Ok (Plain (Text word)), h)"
  shows "\<exists>c h' copy g. CanaryPolicy_DeepCopyObject (Some obj) h = (Ok (Some c), h') \<and>
    variable h' c = Some copy \<and>
    content h' (PointerTo CanaryPolicy_type) (Pointer (Some c)) = Some x \<and>
    cells h' CanaryPolicy_type copy \<inter> {..<length h} = policyJobCells h policy \<and>
    jobs copy = jobs policy \<and> test_command copy = Slice (Some (a, s, n)) \<and>
    writeElement a s (Plain (Text word)) h' = (Ok (), g) \<and>
    content g (PointerTo CanaryPolicy_type) (Pointer (Some obj)) \<noteq> Some x"
proof -
  obtain y where y: "content h CanaryPolicy_type policy = Some y" "x = PointsTo y"
    using assms(1,2) unfolding content_pointer by auto
  obtain w e where w: "CanaryPolicy_DeepCopyObject (Some obj) h
        = (Ok (Some (length h)), h @ Variable w # e)"
      "CanaryPolicy_DeepCopyInto policy (h @ [Variable Fresh]) = (Ok w, h @ Variable Fresh # e)"
      "content (h @ Variable w # e) CanaryPolicy_type w = Some y"
      "cells (h @ Variable w # e) CanaryPolicy_type w \<inter> {..length h} = policyJobCells h policy"
    using deepCopyObject_run [OF CanaryPolicy_shares assms(2) y(1)]
    unfolding CanaryPolicy_DeepCopyObject_def CanaryPolicy_DeepCopy_def by blast
  let ?h = "h @ Variable w # e"
  obtain fs gs ts where v: "policy = Struct fs" "field ''Spec'' fs = Struct gs"
    using policy_parts [OF y(1)] by metis
  have jobs: "jobs w = jobs policy" by (rule CanaryPolicy_same_jobs [OF w(2) v])
  then have command: "test_command w = Slice (Some (a, s, n))"
    using assms(3) by (simp add: test_command_def)
  have "load h obj = Some (Variable policy)" using assms(2) by (simp add: variable_eq_Some)
  then have here: "variable ?h obj = Some policy"
    using load_in by (simp add: variable_eq_Some)
  have old: "content ?h CanaryPolicy_type policy = Some y" by (rule still(1) [OF y(1)])
  have "a < length h"
    using same_command [OF y(1) y(1)] assms(3) cells_allocated(1) [of h "SliceOf Scalar"] by fastforce
  then have "readElement a s ?h \<noteq> (Ok (Plain (Text word)), ?h)"
    using assms(5) by (auto simp: readElement_def split: option.splits cell.splits if_splits)
  from policy_write [OF old here assms(3,4) this] obtain g where
    g: "writeElement a s (Plain (Text word)) ?h = (Ok (), g)"
      "content g (PointerTo CanaryPolicy_type) (Pointer (Some obj)) \<noteq> Some (PointsTo y)"
    by blast
  have there: "variable ?h (length h) = Some w" by (simp add: variable_def)
  then have "content ?h (PointerTo CanaryPolicy_type) (Pointer (Some (length h))) = Some x"
    using w(3) y(2) unfolding content_pointer by auto
  moreover have "cells ?h CanaryPolicy_type w \<inter> {..<length h} = policyJobCells h policy"
    using w(4) copies_shared(2) [OF CanaryPolicy_shares y(1)] by (intro shared_below) auto
  ultimately show ?thesis using w(1) jobs command g there y(2) by blast
qed

definition demo_policy_value :: govalue where
  "demo_policy_value = Struct [(''TypeMeta'', plain_type), (''ObjectMeta'', plain_meta),
    (''Spec'', Struct [(''Base'', Plain (Text ''shop'')), (''VirtualService'', Plain (Text ''shop'')),
      (''Service'', Plain (Text ''shop'')), (''BaselineMode'', Plain (Text ''NEW'')),
      (''DestinationRule'', Struct [(''Host'', Plain (Text ''shop'')), (''Subsets'', Slice None)]),
      (''Ports'', Slice None),
      (''TestSpec'', Struct [(''Image'', Plain (Text ''testjob'')), (''Cmd'', Slice (Some (1, 0, 1))),
        (''Boundary'', Struct [(''Time'', Plain (Text [])), (''Requests'', Plain (Whole 10))])]),
      (''JudgeSpec'', Struct [(''Image'', Plain (Text ''judge'')), (''Cmd'', Slice None),
        (''DiffMetrics'', Slice None), (''ThresholdMetrics'', Slice None),
        (''Boundary'', Struct [(''Time'', Plain (Text ''5m''))])])]),
    (''Status'', Struct [])]"

definition demo_policies :: store where
  "demo_policies = [Variable demo_policy_value, Array [Plain (Text ''/testjob'')]]"

lemma demo_policy_cached:
  "\<exists>x. content demo_policies (PointerTo CanaryPolicy_type) (Pointer (Some 0)) = Some x"
proof -
  obtain m where "content demo_policies ObjectMeta_type plain_meta = Some (Fields m)"
    using plain_metadata(2) by blast
  then show ?thesis
    by (simp add: CanaryPolicy_type_def CanaryPolicySpec_type_def CanaryPolicyStatus_type_def
        TestSpec_type_def TestSpecBoundary_type_def JudgeSpec_type_def JudgeSpecBoundary_type_def
        DestinationRuleSpec_type_def demo_policies_def demo_policy_value_def plain_metadata
        variable_def window_def load_def)
qed

theorem policy_copies_share_their_jobs_witness:
  "\<exists>x c h' g. CanaryPolicy_DeepCopyObject (Some 0) demo_policies = (Ok (Some c), h') \<and>
    content h' (PointerTo CanaryPolicy_type) (Pointer (Some c)) = Some x \<and>
    writeElement 1 0 (Plain (Text ''/bin/sh'')) h' = (Ok (), g) \<and>
    content g (PointerTo CanaryPolicy_type) (Pointer (Some 0)) \<noteq> Some x"
proof -
  obtain x where x: "content demo_policies (PointerTo CanaryPolicy_type) (Pointer (Some 0)) = Some x"
    using demo_policy_cached by blast
  have v: "variable demo_policies 0 = Some demo_policy_value"
    by (simp add: demo_policies_def variable_def load_def)
  have command: "test_command demo_policy_value = Slice (Some (1, 0, 1))"
    by (simp add: demo_policy_value_def test_command_def jobs_def)
  have other: "readElement 1 0 demo_policies \<noteq> (Ok (Plain (Text ''/bin/sh'')), demo_policies)"
    by (simp add: demo_policies_def readElement_def load_def)
  from policy_copies_share_their_jobs [OF x v command _ other] show ?thesis by auto
qed

end
