(* ===== verification/Spec2Isabelle.thy ===== *)
theory Spec2Isabelle
  imports DemoCluster DeployEffects CanaryEffects RunResults ExampleJobs KraneSystem Namespaces Manager
    ApiDocuments JudgeInput Release Caches
begin

text \<open>
  Krane is a Kubernetes operator for canary releases. Two controllers share the API server as
  their only channel: the \<^emph>\<open>deployment controller\<close> (\<open>src/pkg/controller/deployment\<close>) provisions a
  service, a baseline and a \<open>Canary\<close> object for every labelled canary deployment, and the
  \<^emph>\<open>canary controller\<close> (\<open>src/pkg/controller/canary\<close>) drives that object through its phases:
  Initializing (until canary and baseline have replicas), Testing (a test pod and a judge pod run),
  Canary (the traffic is split and the judge decides), Reporting and Cleanup. Both are level triggered: a run reads objects, makes calls, and may stop
  after any of them; the next run starts again from what the server stores. Two sample job images
  (\<open>src/example\<close>) are what the test and judge pods execute.

  \<^bold>\<open>Theories and the code they model\<close>

  \<^item> \<open>GoPrelude\<close>: outcomes of a Go call (value, error, panic), programs that thread the local
    memory and the world (\<open>bindP\<close>, \<open>callP\<close>, \<open>memP\<close>, \<open>tryP\<close>) with a weakest-precondition calculus
    (\<open>wp_simps\<close>) and run equations (\<open>run_simps\<close>), maps that may be nil, strings, \<open>strconv\<close>, words.
  \<^item> \<open>KubeTypes\<close>, \<open>IstioSpecs\<close>, \<open>KraneTypes\<close>: the API types; every field of
    \<open>src/pkg/apis/krane/v1\<close> and of \<open>src/pkg/apis/networking/v1alpha3\<close>, and the fields of the
    Kubernetes types the controllers read or write (the others are kept as opaque values).
  \<^item> \<open>ClientApi\<close>: the API server as a record of calls, \<open>get_or_create\<close> (the idiom of four
    reconcilers), owner references (\<open>controllerutil.SetControllerReference\<close>) and the locale
    \<open>object_store\<close>, the laws of a server that stores what it is given and shows its readers a view of it.
  \<^item> \<open>Tracker\<close>: the in-memory server of \<open>client-go/testing\<close> and of controller-runtime's fake
    client; the locale is interpreted on each of its seven kinds of objects. \<open>Get\<close> marshals and
    decodes: what a reader sees of a stored virtual service is \<open>VirtualService_read\<close> (theory
    \<open>IstioJson\<close>), without the prefixes and regular expressions of its HTTP matches.
  \<^item> \<open>DeployNames\<close>, \<open>DeployResources\<close>, \<open>DeployController\<close>: \<open>canary_predicate.go\<close>, the names and
    labels, the four reconcilers of the deployment controller and its \<open>Reconcile\<close>.
  \<^item> \<open>CanaryJobs\<close>, \<open>CanaryRouting\<close>, \<open>CanaryController\<close>: the test and judge steps, the virtual
    service and destination rule steps, reporting, cleanup, the phase machine and \<open>Reconcile\<close>.
  \<^item> \<open>ExampleJobs\<close>: \<open>example/judge/main.go\<close> and \<open>example/testjob/main.go\<close>.
  \<^item> \<open>Effects\<close>, \<open>DeployEffects\<close>, \<open>CanaryEffects\<close>: a logging client and what each controller
    writes, proved against any server (locales \<open>logging_deployer\<close>, \<open>canary_server\<close>).
  \<^item> \<open>Mirrors\<close>, \<open>Interference\<close>: runs against two clients (locale \<open>mirror\<close>: whole runs of both
    controllers keep what their calls keep), the log of a run as an explanation of what it does to
    the world (locale \<open>evolution\<close>), and a server that others change between any two calls.
  \<^item> \<open>KraneSystem\<close>: both controllers and the others as one transition system, the gates between
    phases and the progress of canaries as invariants of it.
  \<^item> \<open>Namespaces\<close>: runs stay in the namespace of their request (locale \<open>scoped_server\<close>).
  \<^item> \<open>Manager\<close>: \<open>cmd/manager/main.go\<close>, the registration of types and controllers, and how the events
    of the two controllers' watches become requests.
  \<^item> \<open>WorkQueue\<close>: the work queue of a controller (\<open>client-go/util/workqueue\<close>: queue, delays, rate
    limits), the turn of a worker (\<open>processNextWorkItem\<close> of controller-runtime), and the promises of
    the queue as the locale \<open>delayed_queue\<close>, interpreted on it.
  \<^item> \<open>Workers\<close>, \<open>UnknownMode\<close>, \<open>Requests\<close>: a controller with queue, worker, events and others as a step
    relation (\<open>worker_step\<close>, with panics and restarts of the process \<open>process_step\<close>; locales
    \<open>persistent_request\<close> and \<open>restarted_request\<close>, interpreted on the canary controller), a worker
    that is left alone (\<open>attended\<close>), restarts of a manager that crashes, and what becomes of requests.
  \<^item> \<open>Footprint\<close>: a calculus of two runs with the same memory (\<open>sim\<close>) and the noninterference of the canary
    controller: runs depend on the objects a canary names and on nothing else (locale
    \<open>footprint_clients\<close>, interpreted on the in-memory server alone and among others).
  \<^item> \<open>Release\<close>: both controllers, their watches, queues and workers from the creation of a deployment
    to the conclusion of its canary.
  \<^item> \<open>JsonTags\<close>, \<open>IstioJson\<close>, \<open>KraneJson\<close>: structs with JSON tags as \<open>encoding/json\<close> writes and the
    client's json-iterator reads them (locales \<open>codec\<close>, \<open>value_codec\<close>: round trip, \<open>omitempty\<close>,
    stability), with a codec for every struct of the two API groups and, in \<open>ApiDocuments\<close>, what
    they make of the documents in \<open>src/example\<close>.
  \<^item> \<open>JsonText\<close>, \<open>JudgeInput\<close>: JSON as text, written and parsed as \<open>encoding/json\<close> does it, and the
    metrics on their way from the controller's \<open>json.Marshal\<close> to the judge's \<open>json.Unmarshal\<close>.
  \<^item> \<open>Memory\<close>, \<open>IstioCopies\<close>, \<open>KraneCopies\<close>: a heap with addresses, the statements of the
    generated \<open>DeepCopy\<close> functions on it and one rule for each of what a copy shares with its
    original (\<open>copies\<close>), the functions of both \<open>zz_generated.deepcopy.go\<close> and of the metadata, and
    the generator (\<open>generated\<close>) as the reference they are compared with.
  \<^item> \<open>Caches\<close>: \<open>CacheReader.Get\<close> of controller-runtime on that heap (locale \<open>cached_type\<close>,
    interpreted on virtual services, destination rules and canaries) and what the holders of cached
    and read objects can do to each other.
  \<^item> \<open>DeployProps\<close>: runs of the deployment controller on the in-memory cluster.
  \<^item> \<open>CanaryTraffic\<close>, \<open>CanaryRuns\<close>, \<open>CanaryLife\<close>: weights of routes, the equation of one run in
    every phase (locale \<open>canary_on_tracker\<close>), and the chain of runs from a started canary to a
    finished one.
  \<^item> \<open>RunResults\<close>: what a run answers to the work queue, for every client.
  \<^item> \<open>DemoCluster\<close>: a concrete cluster on which the hypotheses hold.

  \<^bold>\<open>How the code is represented\<close>

  A Go function with a \<open>context\<close>, a client and an error result is a program over a pair of its
  memory and the world. Pointers to objects that callees mutate are the memory: the \<open>canary\<close> of
  the canary controller, the deployment and its policy of the deployment controller. An error is
  \<open>Err\<close>, a nil dereference or a write to a nil map is \<open>Panic\<close>; errors the code drops are dropped
  in the model (\<open>ignoreError\<close>). A client call is a function of the world, so that a theorem about
  every client covers other actors changing the cluster between two calls. Log lines are left out.
  For the in-memory cluster the others are explicit: \<open>interfering env fakeClient\<close> is that cluster
  with \<open>env n\<close> happening before call \<open>n\<close>, any function of the cluster; what a theorem asks of
  it is a hypothesis (C11, C26, C34 to C37, C40). This is interleaving at the granularity of single calls, so
  the two controllers may run at the same time: \<open>provisioning_respects_status\<close> and
  \<open>provisioning_keeps_progress\<close> show that each write of the deployment controller is an action the
  hypotheses allow.
  Objects are values in all theories but \<open>Memory\<close> to \<open>Caches\<close>; C9 is why that is right for what the
  canary controller changes in place, and C31 where it is not.
  Integers of fixed width are words; \<open>float64\<close> values are bit patterns, compared as IEEE-754 has
  it.

  \<^bold>\<open>What the properties show\<close>

  C1 to C2 are about whole runs of the canary controller, C3 to C5 about provisioning, C6 to C8 and C10
  about phases and jobs, C9 and C31 about the memory of objects that are read, C12 to C16 about traffic, C11, C17 to C19, C23, C24 and C26 about queue, worker and
  requests (C11, C17 and C24 for every history; C26 is C1 driven by the queue and among others, C23
  the whole release),
  C20, C22 and C25 about documents on their way through the server, C21 about the
  built objects, C27 to C30, C32 and C33 about the job images and their contract
  with the controller, C34 to C37 and C40 about runs among others, C38 and C39 about events and the
  start. Several of them state flaws of the code as it is: C8 (a failed test is
  never left), C10 (threshold metrics),
  C16 (weights), C17 (retries after errors), C18 (missing policy), C19 (unknown mode), C20 (URI
  prefixes of a virtual service), C25 (ports of a policy), C29 (missing boundary), C31 (copies of
  policies), C33 (time limit of a test); so does \<open>started_test_is_not_in_progress\<close>. What C20 says of
  prefixes is also in C1, C15, C23 and C26: after a release the virtual service is stored as it was
  read. The service of the demo cluster has a prefix, so that their witnesses show the loss.

  \<^bold>\<open>Bounds and termination\<close>

  All loops of the controllers range over lists and are structural recursion. The main loops of
  the job images may run for ever and are \<open>partial_function (option)\<close>, with None for a program
  that does not end; C28, C30 and C32 prove that they end, C29 that one does not. In C1 the numbers
  of rounds are exact for the code: three runs (into
  Initializing, into Testing, creation of the two pods) before the jobs exit, five after them (the
  test's result, the split of the traffic, the judge's verdict, the report, the cleanup).

  \<^bold>\<open>Parameters\<close>

  The API server is the \<open>Client\<close> record; theorems about whole runs use the in-memory one, whose
  \<open>Update\<close> does not check resource versions, so conflicts appear only in the theorems about every
  client. For the six kinds other than virtual services its \<open>Get\<close> gives back the stored object: C22 shows this
  for the types of Krane, and it is the documented behaviour of the codecs of Kubernetes, for objects
  whose maps are nil or not empty, with finite floats and known enumerations; the clusters of
  the theorems are made of such objects. The decimal form of floats in JSON and its reading (\<open>float_text\<close>, \<open>number_text\<close>), Prometheus, the HTTP service, the clock,
  the token bucket of the rate limiter and \<open>time.ParseDuration\<close> are parameters; what is used of the environment of a container is
  \<open>environment\<close>. The libraries that
  start the manager are the record \<open>Startup\<close>; C39 instantiates it with steps that are recorded and
  fail on demand.

  \<^bold>\<open>Not modelled\<close>

  Flags and logging of \<open>main\<close>, the caches and informers of controller-runtime (an event is there with
  the requests it adds to the queue; reads see the cluster, not a cache that lags behind; \<open>Caches\<close> has the copy a read makes, but not the
  indexer), the generated OpenAPI definitions, which nothing in the repository uses, the texts of the documents the API
  server gets (a document is a tree there, with each key of an object once) and the codecs of the
  types of Kubernetes, and the Istio release that is stored in the repository for its demo cluster.
\<close>

subsection \<open>The life of a canary\<close>

text \<open>
  C1. A canary whose deployments are available and whose service is routed with a weight runs
  to its end: three runs of the controller start both jobs; once the jobs have ended, the test
  with exit code 0, five more runs bring it to a finished cleanup, whatever the judge decided.
  What is left differs from the start in three places only: the canary's own status, which records
  the verdict of the judge, the deployment of the canary, which is gone, and the virtual service,
  which has its weights back but is stored as the controller has read it (\<open>vs\<close>), without the prefixes
  and regular expressions its matches had. One without them is as before. Pods and all other
  objects are as before, and a further run changes nothing.
\<close>

theorem canary_runs_to_conclusion:
  assumes "startable w c p vs i j h" and "route_weight (hr_Route h ! j) \<noteq> 0"
  shows "\<exists>d w'. w' = (round jf inMemory (metaKey (cn_Meta c)) ^^ 5)
      (jobs_exit c 0 jcode ((round jf inMemory (metaKey (cn_Meta c)) ^^ 3) w)) \<and>
    w' = save d (put_vs vs (drop_deployment (canary_deployment_key c) w)) \<and>
    (find_key vs_Meta (cl_virtualservices w) (vs_key c p) = Some vs \<longrightarrow>
       w' = save d (drop_deployment (canary_deployment_key c) w)) \<and>
    cn_Meta d = cn_Meta c \<and> cn_Spec d = cn_Spec c \<and> progress d = CanaryProgress_Cleanup \<and>
    ph_Status (cst_Cleanup (cn_Status d)) = CanaryPhaseStatus_Success \<and>
    ph_Status (cst_Judging (cn_Status d)) = (if jcode = 0 then CanaryPhaseStatus_Success else CanaryPhaseStatus_Failure) \<and>
    ReconcileCanary_Reconcile jf inMemory (metaKey (cn_Meta c)) w' = (Ok (requeue_after_5s, None), w')"
proof -
  let ?nn = "metaKey (cn_Meta c)"
  obtain d where d: "krane_reaches jf w (concluded c vs i j d w)"
    "(round jf inMemory ?nn ^^ 5) (jobs_exit c 0 jcode ((round jf inMemory ?nn ^^ 3) w)) = concluded c vs i j d w"
    "sameness c d" "progress d = CanaryProgress_Cleanup"
    "ph_Status (cst_Cleanup (cn_Status d)) = CanaryPhaseStatus_Success"
    "ph_Status (cst_Initialization (cn_Status d)) = CanaryPhaseStatus_Success"
    "ph_Status (cst_Judging (cn_Status d)) = (if jcode = 0 then CanaryPhaseStatus_Success else CanaryPhaseStatus_Failure)"
    using canary_concludes [OF assms(1)] by blast
  let ?w = "put_vs vs (drop_deployment (canary_deployment_key c) w)"
  have w': "concluded c vs i j d w = save d ?w"
    unfolding canary_deployment_key_def by (rule concluded_weighted [OF assms])
  have t0: "tracked (drop_deployment (canary_deployment_key c) w) c p"
    using assms(1) by (simp add: startable_def tracked_drop)
  have t: "tracked (save d ?w) d p"
    by (rule tracked_same [OF tracked_put_vs [OF t0] d(3)])
  have "?w = drop_deployment (canary_deployment_key c) w"
    if "find_key vs_Meta (cl_virtualservices w) (vs_key c p) = Some vs"
    using that by (intro put_vs_same [OF t0]) simp
  moreover have "metaKey (cn_Meta d) = ?nn" using sameness_fields(1) [OF d(3)] by simp
  then have "ReconcileCanary_Reconcile jf inMemory ?nn (save d ?w) = (Ok (requeue_after_5s, None), save d ?w)"
    using krane.run_finished [OF t d(4) _ d(5), of jf] d(6) by simp
  ultimately show ?thesis
    using d(2-) w' by (intro exI [of _ d] exI [of _ "save d ?w"]) (auto simp: sameness_def)
qed

text \<open>Once with a virtual service that has a prefix, and once with it as it is stored afterwards.\<close>

lemma demo_plain_startable: "startable (put_vs demo_vs demo_running) demo_canary demo_policy demo_vs 0 0 demo_http"
proof -
  have vs: "has_vs demo_running demo_canary demo_policy demo_vs" using demo_startable by (simp add: startable_def)
  have "has_vs (put_vs demo_vs demo_running) demo_canary demo_policy demo_vs"
    by (rule has_put_vs(2) [OF vs refl has_vs_read [OF vs]])
  with demo_startable show ?thesis
    by (simp add: startable_def tracked_put_vs available_def test_pod_of_def judge_pod_of_def)
qed

theorem canary_runs_to_conclusion_witness:
  "(\<exists>d. (round (\<lambda>_. None) inMemory (metaKey (cn_Meta demo_canary)) ^^ 5)
      (jobs_exit demo_canary 0 1 ((round (\<lambda>_. None) inMemory (metaKey (cn_Meta demo_canary)) ^^ 3) demo_running))
    = save d (put_vs demo_vs (drop_deployment (canary_deployment_key demo_canary) demo_running)) \<and>
    ph_Status (cst_Judging (cn_Status d)) = CanaryPhaseStatus_Failure) \<and>
  (\<exists>d. (round (\<lambda>_. None) inMemory (metaKey (cn_Meta demo_canary)) ^^ 5)
      (jobs_exit demo_canary 0 0 ((round (\<lambda>_. None) inMemory (metaKey (cn_Meta demo_canary)) ^^ 3) (put_vs demo_vs demo_running)))
    = save d (drop_deployment (canary_deployment_key demo_canary) (put_vs demo_vs demo_running)) \<and>
    ph_Status (cst_Judging (cn_Status d)) = CanaryPhaseStatus_Success) \<and>
  demo_stored_vs \<in> set (cl_virtualservices demo_running) \<and> demo_stored_vs \<noteq> demo_vs"
proof -
  have "demo_stored_vs \<in> set (cl_virtualservices demo_running)"
    by (simp add: demo_running_def demo_cluster_def)
  moreover have "find_key vs_Meta (cl_virtualservices (put_vs demo_vs demo_running)) (vs_key demo_canary demo_policy) = Some demo_vs"
    using demo_startable has_put_vs(1) [of demo_running demo_canary demo_policy demo_vs demo_vs] by (simp add: startable_def)
  ultimately show ?thesis
    using canary_runs_to_conclusion [OF demo_startable, of "\<lambda>_. None" 1] demo_vs_read(2) demo_weight
      canary_runs_to_conclusion [OF demo_plain_startable, of "\<lambda>_. None" 0]
    by auto
qed

text \<open>
  C26. The manager does this by itself, and among others: a canary that is startable and whose request
  enters the work queue once, say when it is created, is brought to the end of its cleanup by the
  answers of its own runs, with no further event, if the worker takes it up at times at least five
  seconds apart: three turns until the jobs run, five after they have ended. Before every call
  to the server the others may do anything to the cluster, as long as they leave the footprint of the canary
  alone: itself, its policy, its virtual service, its two deployments and its two pods. In the
  end the pods and the deployment of the canary are gone, and the virtual service is stored as it was
  read (\<open>vs\<close>) when the canary was created. The request stays in the queue.
\<close>

theorem manager_drives_canaries:
  assumes "startable w c p vs i j h" "route_weight (hr_Route h ! j) \<noteq> 0"
    and "five_apart (ts @ us)" "length ts = 3" "length us = 5" "nn = metaKey (cn_Meta c)"
    and "leaves_alone (canary_footprint c p) env"
  shows "\<exists>q v k q' v' k' d. let run = ReconcileCanary_Reconcile jf \<lparr>client = interfering env fakeClient, scheme = kraneScheme\<rparr> in
    attended run ts (queue_Add nn NewRateLimitingQueue, (w, 0)) = Some (q, (v, k)) \<and>
    attended run us (q, (jobs_exit c 0 jcode v, k)) = Some (q', (v', k')) \<and> pending q' = {nn} \<and>
    canary_at v' nn = Some d \<and> progress d = CanaryProgress_Cleanup \<and>
    ph_Status (cst_Cleanup (cn_Status d)) = CanaryPhaseStatus_Success \<and>
    ph_Status (cst_Judging (cn_Status d)) = (if jcode = 0 then CanaryPhaseStatus_Success else CanaryPhaseStatus_Failure) \<and>
    find_key dp_Meta (cl_deployments v') (canary_deployment_key c) = None \<and>
    test_pod_of v' c = None \<and> judge_pod_of v' c = None \<and>
    find_key vs_Meta (cl_virtualservices v') (vs_key c p) = Some vs"
proof -
  let ?run = "ReconcileCanary_Reconcile jf \<lparr>client = interfering env fakeClient, scheme = kraneScheme\<rparr>"
  obtain q v k q' v' k' d where d: "attended ?run ts (queue_Add nn NewRateLimitingQueue, (w, 0)) = Some (q, (v, k))"
    "attended ?run us (q, (jobs_exit c 0 jcode v, k)) = Some (q', (v', k'))" "pending q' = {nn}"
    "progress d = CanaryProgress_Cleanup" "ph_Status (cst_Cleanup (cn_Status d)) = CanaryPhaseStatus_Success"
    "ph_Status (cst_Judging (cn_Status d)) = (if jcode = 0 then CanaryPhaseStatus_Success else CanaryPhaseStatus_Failure)"
    and same: "same_on (canary_footprint c p) (save d (put_vs vs (drop_deployment (canary_deployment_key c) w))) v'" "sameness c d"
    using canary_driven_among [OF assms, of jf jcode] by blast
  note foot = concluded_footprint [OF assms(1) same(2,1), folded assms(6)]
  show ?thesis unfolding Let_def by (intro exI conjI) (rule d foot)+
qed

theorem manager_drives_canaries_witness:
  "\<exists>v' k' d. canary_at v' (metaKey (cn_Meta demo_canary)) = Some d \<and>
    ph_Status (cst_Judging (cn_Status d)) = CanaryPhaseStatus_Success \<and>
    (\<exists>q v k q'. attended (ReconcileCanary_Reconcile (\<lambda>_. None)
        \<lparr>client = interfering (\<lambda>_ u. u\<lparr>cl_services := []\<rparr>) fakeClient, scheme = kraneScheme\<rparr>)
      [60 * Second, 65 * Second, 70 * Second, 75 * Second, 80 * Second] (q, (jobs_exit demo_canary 0 0 v, k)) = Some (q', (v', k')))"
proof -
  let ?ts = "[0, 5 * Second, 10 * Second]" and ?us = "[60 * Second, 65 * Second, 70 * Second, 75 * Second, 80 * Second]"
  have times: "five_apart (?ts @ ?us)" by (simp add: Second_def)
  have env: "leaves_alone (canary_footprint demo_canary demo_policy) (\<lambda>_ u. u\<lparr>cl_services := []\<rparr>)"
    by (simp add: leaves_alone_def spares_def consistent_def)
  from manager_drives_canaries [OF demo_startable _ times _ _ refl env, of "\<lambda>_. None" 0] demo_weight show ?thesis
    unfolding Let_def by (simp del: attended.simps) blast
qed

text \<open>
  C23. A whole release, from the creation of a canary deployment: its event is a request for the
  deployment controller, one turn of its worker provisions everything and is through, and a further
  one, for the updates of its own, changes nothing; the event of the new \<open>Canary\<close> is a request for the
  canary controller, which, once Kubernetes has started the pods and in spite of no further event,
  brings the release to its verdict and cleans up: the deployment of the canary is gone, and the virtual
  service is stored as it was read (\<open>vs\<close>), so with its weights and without prefixes and regular
  expressions in its matches.
\<close>

theorem release_runs_to_conclusion:
  assumes "provisionable w c p base" "\<not> labelled_template c" "map_get (om_Labels (dp_Meta c)) KraneTierLabel = ''canary''"
    and "releasable w c p vs i j h" "\<And>d. 0 < sint (n d)"
    and "five_apart (ts @ us)" "length ts = 3" "length us = 5"
  shows "\<exists>w1 q q' u v d k. let cfg = createCanaryConfig p c; deployment = ReconcileDeployment_Reconcile inMemory;
      canary = ReconcileCanary_Reconcile jf inMemory in
    controller_requests kraneScheme deployment_watches WatchDeployment (CreateEvent (dp_Meta c)) = [metaKey (dp_Meta c)] \<and>
    processNextWorkItem deployment now bucket (queue_of (metaKey (dp_Meta c)), w) = (Returned True, (q, w1)) \<and> pending q = {} \<and>
    processNextWorkItem deployment now' bucket' (queue_of (metaKey (dp_Meta c)), w1) = (Returned True, (q', w1)) \<and> pending q' = {} \<and>
    cfg \<in> set (cl_canaries w1) \<and>
    controller_requests kraneScheme canary_watches WatchCanary (CreateEvent (cn_Meta cfg)) = [k] \<and>
    attended canary ts (queue_of k, scaled_up n w1) = Some (u, v) \<and>
    (\<exists>u'. attended canary us (u, jobs_exit cfg 0 jcode v)
      = Some (u', save d (put_vs vs (drop_deployment (canary_deployment_key cfg) (scaled_up n w1))))) \<and>
    ph_Status (cst_Cleanup (cn_Status d)) = CanaryPhaseStatus_Success \<and>
    ph_Status (cst_Judging (cn_Status d)) = (if jcode = 0 then CanaryPhaseStatus_Success else CanaryPhaseStatus_Failure)"
proof -
  let ?gd = "\<lparr>gvk_Group = ''apps'', gvk_Version = ''v1'', gvk_Kind = ''Deployment''\<rparr>"
  let ?gc = "\<lparr>gvk_Group = ''krane.sh'', gvk_Version = ''v1'', gvk_Kind = ''Canary''\<rparr>"
  let ?cfg = "createCanaryConfig p c"
  obtain sp where sp: "ReconcileDeployment_Reconcile inMemory (metaKey (dp_Meta c)) w = (Ok (noResult, None), provisioned ?gd ?gc p c sp w)"
    by (rule run_provision_ex [OF assms(1)])
  let ?w1 = "provisioned ?gd ?gc p c sp w"
  have settled: "ReconcileDeployment_Reconcile inMemory (metaKey (dp_Meta c)) ?w1 = (Ok (noResult, None), ?w1)"
    using run_settled [OF provisioned_settled [OF assms(1), of ?gc ?gd sp]] by simp
  have st: "startable (scaled_up n ?w1) ?cfg p vs i j h"
    using provisioned_startable [OF assms(1,2) _ assms(4,5)] by simp
  obtain u v u' d where canary: "attended (ReconcileCanary_Reconcile jf inMemory) ts (queue_of (metaKey (cn_Meta ?cfg)), scaled_up n ?w1) = Some (u, v)"
    "attended (ReconcileCanary_Reconcile jf inMemory) us (u, jobs_exit ?cfg 0 jcode v)
      = Some (u', save d (put_vs vs (drop_deployment (canary_deployment_key ?cfg) (scaled_up n ?w1))))"
    "ph_Status (cst_Cleanup (cn_Status d)) = CanaryPhaseStatus_Success"
    "ph_Status (cst_Judging (cn_Status d)) = (if jcode = 0 then CanaryPhaseStatus_Success else CanaryPhaseStatus_Failure)"
    using canary_driven [OF st _ assms(6-8) refl, of jf jcode] assms(4) by (auto simp: releasable_def Let_def)
  obtain q q' where q: "processNextWorkItem (ReconcileDeployment_Reconcile inMemory) now bucket (queue_of (metaKey (dp_Meta c)), w)
      = (Returned True, (q, ?w1))" "pending q = {}"
    "processNextWorkItem (ReconcileDeployment_Reconcile inMemory) now' bucket' (queue_of (metaKey (dp_Meta c)), ?w1)
      = (Returned True, (q', ?w1))" "pending q' = {}"
    using deployment_turn [OF sp] deployment_turn [OF settled] by metis
  have "policy_label c \<noteq> []" using assms(1) by (simp add: provisionable_def)
  note created = deployment_created [OF this assms(3)]
  have "?cfg \<in> set (cl_canaries ?w1)" by (simp add: provisioned_def Let_def)
  with q canary created canary_created show ?thesis
    unfolding Let_def by (intro exI conjI) assumption+
qed

lemma demo_releasable: "releasable demo_cluster demo_deployment demo_policy demo_vs 0 0 demo_http"
proof -
  have "has_vs demo_cluster demo_canary demo_policy demo_vs"
    using demo_startable by (simp add: startable_def has_vs_def demo_running_def)
  moreover have "cps_Service (cpo_Spec demo_policy) = ''app''" "cl_pods demo_cluster = []"
    by (simp_all add: demo_policy_def demo_cluster_def)
  moreover have "find_route ''pol-app-canary'' 0 (hr_Route demo_http) = Ok (- 1)" by (simp add: demo_http_def)
  ultimately show ?thesis
    using demo_routed demo_weight
    by (simp add: releasable_def Let_def demo_meta test_pod_of_def judge_pod_of_def flip: demo_canary_def)
qed

theorem release_runs_to_conclusion_witness:
  "\<exists>q w1 u v u' d. processNextWorkItem (ReconcileDeployment_Reconcile inMemory) 0 0 (queue_of (metaKey (dp_Meta demo_deployment)), demo_cluster)
      = (Returned True, (q, w1)) \<and>
    attended (ReconcileCanary_Reconcile (\<lambda>_. None) inMemory) [60 * Second, 65 * Second, 70 * Second, 75 * Second, 80 * Second]
      (u, jobs_exit demo_canary 0 1 v) = Some (u', save d (put_vs demo_vs (drop_deployment (canary_deployment_key demo_canary) (scaled_up (\<lambda>_. 1) w1)))) \<and>
    ph_Status (cst_Judging (cn_Status d)) = CanaryPhaseStatus_Failure"
proof -
  let ?ts = "[0, 5 * Second, 10 * Second]" and ?us = "[60 * Second, 65 * Second, 70 * Second, 75 * Second, 80 * Second]"
  have "five_apart (?ts @ ?us)" by (simp add: Second_def)
  moreover have "\<not> labelled_template demo_deployment"
    by (simp add: labelled_template_def demo_deployment_def demo_template_def)
  moreover have "map_get (om_Labels (dp_Meta demo_deployment)) KraneTierLabel = ''canary''" by (simp add: demo_meta)
  ultimately show ?thesis
    using release_runs_to_conclusion [OF demo_provisionable _ _ demo_releasable, of "\<lambda>_. 1" ?ts ?us "\<lambda>_. None" 0 0 0 0 1]
    by (simp add: Let_def flip: demo_canary_def) blast
qed

text \<open>
  C2. Against any server that answers a \<open>Get\<close> with the object asked for and a status update with
  the status it was sent, and whatever else happens in the cluster between two calls, a run of
  the canary controller writes only what belongs to the phase it has read: pods are created
  only while testing or judging and only under the two job names, the virtual service is touched
  only in the phases Canary and Cleanup, and deletions happen only in Cleanup and only hit the
  two job pods and the deployment of the canary. The results of earlier phases are never changed.
  The last write may advance the canary by one phase, and only when that phase is done; nothing
  is written after it.
\<close>

theorem canary_writes_by_phase:
  assumes "keyed_gets C" "status_echo C" "nonempty_key nn"
    and "api_get (canaries C) nn w = (Inr c, w0)"
  shows "\<exists>r w' k t. ReconcileCanary_Reconcile jf \<lparr>client = logging C, scheme = sc\<rparr> nn (w, []) = (r, (w', k @ t)) \<and>
    list_all (phase_write c) k \<and>
    (t = [] \<or> (\<exists>d. in_phase c d \<and> phase_done (cn_Status d) \<and> t = [(VUpdateStatus, KCanary (advance d))]))"
  by (rule canary_run_log [OF assms])

theorem canary_writes_by_phase_witness:
  "\<exists>r w' k t. ReconcileCanary_Reconcile (\<lambda>_. None) \<lparr>client = logging fakeClient, scheme = kraneScheme\<rparr>
      \<lparr>nn_Namespace = ''ns'', nn_Name = ''pol-app-canary''\<rparr> (demo_running, []) = (r, (w', k @ t)) \<and>
    list_all (phase_write demo_canary) k"
proof -
  have "api_get (canaries fakeClient) \<lparr>nn_Namespace = ''ns'', nn_Name = ''pol-app-canary''\<rparr> demo_running
      = (Inr demo_canary, demo_running)"
    by (simp add: fake_api_def tracker_Get_def filterByNamespaceAndName_def demo_running_def demo_meta)
  from canary_writes_by_phase [OF fakeClient_keyed fakeClient_echo _ this, of "\<lambda>_. None" kraneScheme]
  show ?thesis by (auto simp: nonempty_key_def demo_meta)
qed

subsection \<open>Provisioning\<close>

text \<open>
  C3. From a fresh canary deployment (no owner, no service, baseline or \<open>Canary\<close> yet, its template
  not labelled for a policy) whose policy, with a known mode, and base deployment exist, one run of the
  deployment controller succeeds without requeueing and creates what the canary needs: a service
  that selects the pods of the canary and of the baseline, a baseline with a single replica, and
  a \<open>Canary\<close> that names policy, canary, baseline and base. The deployment is now owned by that
  \<open>Canary\<close>, has its name as a label and, with the policy's, in its pod template, and is the same in
  everything else; service and baseline are owned by the deployment. Nothing else in the cluster
  changes: its other objects, of all kinds, stay as and where they were.
\<close>

theorem deployment_is_provisioned:
  assumes "provisionable w c p base" and "\<not> labelled_template c"
  shows "\<exists>w' cd bl svc. ReconcileDeployment_Reconcile inMemory (metaKey (dp_Meta c)) w = (Ok (noResult, None), w') \<and>
    find_key dp_Meta (cl_deployments w') (metaKey (dp_Meta c)) = Some cd \<and>
    find_key dp_Meta (cl_deployments w')
      \<lparr>nn_Namespace = deployment_namespace c, nn_Name = MakeBaselineName c\<rparr> = Some bl \<and>
    find_key svc_Meta (cl_services w')
      \<lparr>nn_Namespace = deployment_namespace c, nn_Name = MakeCanaryServiceName p c\<rparr> = Some svc \<and>
    find_key cn_Meta (cl_canaries w')
      \<lparr>nn_Namespace = deployment_namespace c, nn_Name = MakeCanaryConfigName p c\<rparr> = Some (createCanaryConfig p c) \<and>
    selects (svc_Selector svc) (template_labels (dp_Spec cd)) \<and>
    selects (svc_Selector svc) (template_labels (dp_Spec bl)) \<and>
    svc_Ports svc = cps_Ports (cpo_Spec (default_ports p)) \<and>
    ds_Replicas (dp_Spec bl) = Some 1 \<and> ds_Replicas (dp_Spec cd) = ds_Replicas (dp_Spec c) \<and>
    map or_Name (om_OwnerReferences (dp_Meta cd)) = [MakeCanaryConfigName p c] \<and>
    map or_Name (om_OwnerReferences (dp_Meta bl)) = [deployment_name c] \<and>
    map or_Name (om_OwnerReferences (svc_Meta svc)) = [deployment_name c] \<and>
    w' = w\<lparr>cl_deployments := put_at dp_Meta cd (cl_deployments w) @ [bl], cl_services := cl_services w @ [svc],
      cl_canaries := cl_canaries w @ [createCanaryConfig p c]\<rparr> \<and>
    map_pairs (om_Labels (dp_Meta cd)) = (if GetCanaryConfigName c \<noteq> [] then map_pairs (om_Labels (dp_Meta c))
      else (map_pairs (om_Labels (dp_Meta c)))(CanaryConfigLabel \<mapsto> MakeCanaryConfigName p c)) \<and>
    template_labels (dp_Spec cd) = Some ((map_pairs (template_labels (dp_Spec c)))
      (CanaryConfigLabel \<mapsto> MakeCanaryConfigName p c, CanaryPolicyLabel \<mapsto> policy_label c)) \<and>
    cd\<lparr>dp_Meta := (dp_Meta cd)\<lparr>om_Labels := om_Labels (dp_Meta c), om_OwnerReferences := []\<rparr>,
      dp_Spec := set_template_labels (template_labels (dp_Spec c)) (dp_Spec cd)\<rparr> = c"
proof -
  let ?gd = "\<lparr>gvk_Group = ''apps'', gvk_Version = ''v1'', gvk_Kind = ''Deployment''\<rparr>"
  let ?gc = "\<lparr>gvk_Group = ''krane.sh'', gvk_Version = ''v1'', gvk_Kind = ''Canary''\<rparr>"
  obtain sp where sp: "connect_selectors (MakeCanaryConfigName p c) (policy_label c)
       (baseline_spec (cps_BaselineMode (cpo_Spec (default_mode p))) (prepared_instance p c) base) = Ok sp"
    and run: "ReconcileDeployment_Reconcile inMemory (metaKey (dp_Meta c)) w = (Ok (noResult, None),
      provisioned ?gd ?gc p c sp w)"
    by (rule run_provision_ex [OF assms(1)])
  note facts = provisioned_objects [OF assms, where gd = ?gd and gc = ?gc and sp = sp]
    provisioned_wiring [OF assms sp] prepared_frame [OF assms, where gc = ?gc]
  show ?thesis
    unfolding run by (intro exI conjI) (rule refl facts)+
qed

theorem deployment_is_provisioned_witness:
  "\<exists>w'. ReconcileDeployment_Reconcile inMemory \<lparr>nn_Namespace = ''ns'', nn_Name = ''app-canary''\<rparr> demo_cluster
      = (Ok (noResult, None), w') \<and> cl_virtualservices w' = [demo_stored_vs] \<and> find_key cn_Meta (cl_canaries w')
        \<lparr>nn_Namespace = ''ns'', nn_Name = ''pol-app-canary''\<rparr> = Some demo_canary"
proof -
  have "\<not> labelled_template demo_deployment"
    by (simp add: labelled_template_def demo_deployment_def demo_template_def)
  from deployment_is_provisioned [OF demo_provisionable this]
  obtain w' where "ReconcileDeployment_Reconcile inMemory (metaKey (dp_Meta demo_deployment)) demo_cluster = (Ok (noResult, None), w')"
    "cl_virtualservices w' = cl_virtualservices demo_cluster" "find_key cn_Meta (cl_canaries w')
      \<lparr>nn_Namespace = ''ns'', nn_Name = ''pol-app-canary''\<rparr> = Some demo_canary"
    by (auto simp: demo_meta demo_names simp flip: demo_canary_def)
  then show ?thesis by (simp add: demo_meta demo_cluster_def)
qed

text \<open>
  C4. Provisioning is idempotent: a second run on the cluster the first one left succeeds and
  changes nothing at all, although it updates the deployment again.
\<close>

theorem provisioning_is_idempotent:
  assumes "provisionable w c p base"
  shows "\<exists>w'. ReconcileDeployment_Reconcile inMemory (metaKey (dp_Meta c)) w = (Ok (noResult, None), w') \<and>
    ReconcileDeployment_Reconcile inMemory (metaKey (dp_Meta c)) w' = (Ok (noResult, None), w')"
proof -
  obtain sp where "ReconcileDeployment_Reconcile inMemory (metaKey (dp_Meta c)) w = (Ok (noResult, None),
      provisioned \<lparr>gvk_Group = ''apps'', gvk_Version = ''v1'', gvk_Kind = ''Deployment''\<rparr>
        \<lparr>gvk_Group = ''krane.sh'', gvk_Version = ''v1'', gvk_Kind = ''Canary''\<rparr> p c sp w)"
    by (rule run_provision_ex [OF assms])
  then show ?thesis
    using run_settled [OF provisioned_settled [OF assms kraneScheme.simps(1)]] by simp
qed

theorem provisioning_is_idempotent_witness:
  "\<exists>w'. ReconcileDeployment_Reconcile inMemory (metaKey (dp_Meta demo_deployment)) demo_cluster = (Ok (noResult, None), w') \<and>
    ReconcileDeployment_Reconcile inMemory (metaKey (dp_Meta demo_deployment)) w' = (Ok (noResult, None), w')"
  by (rule provisioning_is_idempotent [OF demo_provisionable])

text \<open>
  C5. Against any server and scheme, a run of the deployment controller never deletes and updates
  nothing but deployments; what it creates is a service with ports that selects by its own two
  labels, a baseline deployment (one replica, baseline tier on object and template, one owner,
  a name in \<open>-baseline\<close>), or a \<open>Canary\<close> with an empty status.
\<close>

theorem provisioning_writes:
  "\<exists>r w' l. ReconcileDeployment_Reconcile \<lparr>client = logging C, scheme = sc\<rparr> nn (w, []) = (r, (w', l)) \<and>
    list_all provisioning_write l"
  by (rule recordsE [OF deployer_log.run_logged [of C sc nn], of w "[]"]) auto

subsection \<open>Phases and jobs\<close>

text \<open>
  C6. \<open>ReconcilePhaseStatus\<close> implements the phase machine for every server: when the current
  phase is done it writes the canary advanced to the next phase with that phase queued (a canary
  without progress is initialized), otherwise it writes nothing; the error of the write is its
  only error.
\<close>

theorem phase_status_refines_machine:
  "ReconcilePhaseStatus R (c, w) =
     (if phase_done (cn_Status c)
      then (case api_update_status (canaries (client R)) (advance c) w of
              (Inl e, w') \<Rightarrow> (Err e, (advance c, w')) | (Inr c', w') \<Rightarrow> (Ok (), (c', w')))
      else (Ok (), (c, w)))"
  by (simp add: phase_status_spec run_putStatus)

text \<open>
  C7. While testing, with the test pod there, the run of the test step stores exactly what the
  pod says: success for exit code 0, failure for any other, and an empty status and message for
  a pod that has not terminated, whatever was recorded before and also when its container runs.
\<close>

theorem test_step_reports_pod:
  assumes "tracked w c p" and "progress c = CanaryProgress_Testing" and "test_pod_of w c = Some pod"
  shows "reconcileTestJob inMemory (c, w) =
    (let d = upd_testing (case GetContainerTerminalState pod ''testjob'' of
           None \<Rightarrow> set_phase CanaryPhaseStatus_Unset []
         | Some t \<Rightarrow> if cst_ExitCode t = 0 then set_phase CanaryPhaseStatus_Success ''Job finished successfully''
             else set_phase CanaryPhaseStatus_Failure ''Job failed'') c
     in (Ok (Some pod), (d, save d w)))"
proof (cases "GetContainerTerminalState pod ''testjob''")
  case None
  from krane.run_test_report [OF assms(1,2) assms(3) [unfolded test_pod_of_def] job_report_alive [OF None]] None
  show ?thesis by (simp add: Let_def)
next
  case (Some t)
  obtain st msg where r: "job_report pod ''testjob'' = (st, msg)" by (cases "job_report pod ''testjob''")
  from krane.run_test_report [OF assms(1,2) assms(3) [unfolded test_pod_of_def] r] r job_report_terminal [OF Some] Some
  show ?thesis by (auto simp: Let_def split: if_splits)
qed

theorem test_step_reports_pod_witness:
  "\<exists>d. reconcileTestJob inMemory (demo_testing, demo_tested 7) = (Ok (Some (demo_test_pod 7)), (d, save d (demo_tested 7))) \<and>
     ph_Status (cst_Testing (cn_Status d)) = CanaryPhaseStatus_Failure"
  using test_step_reports_pod [OF demo_tested_tracked demo_testing_progress demo_tested_pod, of 7]
  by (simp add: demo_test_pod_state Let_def)

text \<open>
  C8. A failed test stops the canary for good: with both pods there and the test terminated with
  a non-zero code, every further run leaves the canary in \<open>Testing\<close> with status failure, and
  nothing else in the cluster changes; the pods, the baseline and the canary deployment stay.
\<close>

theorem failed_test_is_never_left:
  assumes "tracked w c p" "available w c" and "progress c = CanaryProgress_Testing"
    and "test_pod_of w c = Some tp" "judge_pod_of w c = Some jp"
    and "GetContainerTerminalState tp ''testjob'' = Some t" "cst_ExitCode t \<noteq> 0"
  shows "\<exists>d. (round jf inMemory (metaKey (cn_Meta c)) ^^ Suc n) w = save d w \<and>
    cn_Meta d = cn_Meta c \<and> cn_Spec d = cn_Spec c \<and> progress d = CanaryProgress_Testing \<and>
    ph_Status (cst_Testing (cn_Status d)) = CanaryPhaseStatus_Failure"
proof -
  let ?f = "reported (job_report tp ''testjob'') (job_report jp ''judge'')" and ?round = "round jf inMemory (metaKey (cn_Meta c))"
  have fail: "fst (job_report tp ''testjob'') = CanaryPhaseStatus_Failure"
    using job_report_terminal [OF assms(6)] assms(7) by simp
  have step: "?round v = save (?f d) v" if "tracked v d p" "available v d" "progress d = CanaryProgress_Testing"
    "test_pod_of v d = Some tp" "judge_pod_of v d = Some jp" "cn_Meta d = cn_Meta c" for v d
    using krane.stage_test [OF that(1-5), of jf] that(3,6) fail
    by (simp add: turn_run round_def transition_def phase_done_def)
  have d: "cn_Meta (?f c) = cn_Meta c" "cn_Spec (?f c) = cn_Spec c" "progress (?f c) = CanaryProgress_Testing"
    "ph_Status (cst_Testing (cn_Status (?f c))) = CanaryPhaseStatus_Failure"
    using assms(3) fail by simp_all
  have "tracked (save (?f c) w) (?f c) p" by (rule tracked_save [OF assms(1)]) simp_all
  moreover have "available (save (?f c) w) (?f c)" "test_pod_of (save (?f c) w) (?f c) = Some tp"
    "judge_pod_of (save (?f c) w) (?f c) = Some jp"
    using assms(2,4,5) by (simp_all add: available_def test_pod_of_def judge_pod_of_def GetTestJobname_def GetJudgeJobName_def)
  ultimately have again: "?round (save (?f c) w) = save (?f c) w"
    using step [of "save (?f c) w" "?f c"] d by (simp add: save_save)
  have "(?round ^^ Suc n) w = save (?f c) w"
    by (induction n) (simp_all add: step [OF assms(1-5) refl] again)
  with d show ?thesis by blast
qed

theorem failed_test_is_never_left_witness:
  "\<exists>d. (round (\<lambda>_. None) inMemory (metaKey (cn_Meta demo_testing)) ^^ 1000) (demo_tested 1) = save d (demo_tested 1) \<and>
    progress d = CanaryProgress_Testing"
proof -
  obtain t where t: "GetContainerTerminalState (demo_test_pod 1) ''testjob'' = Some t" "cst_ExitCode t \<noteq> 0"
    using demo_test_pod_state [of 1] by auto
  from failed_test_is_never_left [OF demo_tested_tracked demo_tested_available demo_testing_progress demo_tested_pod
      demo_judged_pod t, where jf = "\<lambda>_. None" and n = 999]
  show ?thesis by (auto simp: eval_nat_numeral)
qed

text \<open>
  Starting the test job leaves an empty status behind: the step creates the pod and records
  it as in progress, and in the same run erases that status and message again, because the pod it
  has just created has no container state yet. Only the name of the pod remains.
\<close>

theorem started_test_is_not_in_progress:
  assumes "tracked w c p" and "progress c = CanaryProgress_Testing" and "test_pod_of w c = None"
  shows "\<exists>pod d. reconcileTestJob inMemory (c, w) = (Ok (Some pod), (d, save d (w\<lparr>cl_pods := cl_pods w @ [pod]\<rparr>))) \<and>
    CreateTestJob inMemory c p = Ok pod \<and> metaKey (pod_Meta pod) = test_key c \<and>
    cst_Testing (cn_Status d) = \<lparr>ph_PodName = GetTestJobname c, ph_Status = CanaryPhaseStatus_Unset, ph_Message = []\<rparr>"
proof -
  obtain pod where pod: "CreateTestJob inMemory c p = Ok pod"
    using krane.created_jobs by blast
  have "started name ph = \<lparr>ph_PodName = name, ph_Status = CanaryPhaseStatus_Unset, ph_Message = []\<rparr>" for name ph
    by (rule CanaryConfigPhase.equality) simp_all
  then show ?thesis
    using krane.run_test_create [OF assms(1,2) assms(3) [unfolded test_pod_of_def] pod] pod created_job_key(1) [OF pod]
    by (auto simp: test_key_def)
qed

theorem started_test_is_not_in_progress_witness:
  "\<exists>pod d. reconcileTestJob inMemory (demo_testing, save demo_testing demo_running)
      = (Ok (Some pod), (d, save d ((save demo_testing demo_running)\<lparr>cl_pods := [pod]\<rparr>))) \<and>
    ph_Status (cst_Testing (cn_Status d)) = CanaryPhaseStatus_Unset"
  using started_test_is_not_in_progress [OF demo_testing_tracked demo_testing_progress demo_testing_fresh]
  by (auto simp: demo_running_pods)

text \<open>
  The judge is told about differences only: the environment of the judge job depends on the
  threshold metrics of the policy through their presence alone, and the value passed under
  \<open>KRANE_THRESHOLD_METRICS\<close> is the JSON of the difference metrics.
\<close>

lemma thresholds_passed_on:
  "\<lparr>ev_Name = ''KRANE_THRESHOLD_METRICS'', ev_Value = v\<rparr> \<in> set (judge_envs jf c js) \<longleftrightarrow>
     slice_length (js_ThresholdMetrics js) > 0 \<and> v = marshal_DiffMetrics jf (js_DiffMetrics js)"
  by (auto simp: judge_envs_def)

definition demo_judge :: JudgeSpec where
  "demo_judge = (cps_JudgeSpec (cpo_Spec demo_policy))
     \<lparr>js_DiffMetrics := Some [\<lparr>dm_Metric = ''cpu'', dm_Container = ''app'', dm_Diff = 0x3FA999999999999A\<rparr>],
      js_ThresholdMetrics := Some [\<lparr>thm_Metric = ''memory'', thm_Value = ''100''\<rparr>]\<rparr>"

lemma demo_judge_texts: "number_text example_text example_float" "JudgeSpec_writable example_text demo_judge"
  by (simp_all add: number_text_def example_text_def example_float_def json_number_def number_int_def number_frac_def
      number_exp_def is_digit_def JudgeSpec_writable_def DiffMetric_writable_def demo_judge_def)

text \<open>
  C10. What the controller marshals for the judge is what the judge unmarshals: it gets the
  difference metrics of the policy, unchanged; but in place of the threshold metrics of the policy,
  whenever there are any, it gets thresholds with the names of the difference metrics and without
  values.
\<close>

theorem judge_thresholds_are_differences:
  assumes "number_text jf pf" "JudgeSpec_writable jf js" "environment (judge_envs jf c js) getenv"
  shows "(slice_length (js_DiffMetrics js) > 0 \<longrightarrow>
      unmarshal_diffs pf (getenv ''KRANE_DIFF_METRICS'') = Inr (diff_metrics js)) \<and>
    (slice_length (js_ThresholdMetrics js) > 0 \<longrightarrow>
      unmarshal_thresholds (getenv ''KRANE_THRESHOLD_METRICS'') = Inr (map as_threshold (diff_metrics js)))"
proof (cases "js_DiffMetrics js")
  case None
  then show ?thesis
    by (simp add: judge_environment [OF assms(3)] slice_length_def marshalled_nil_read diff_metrics_def)
next
  case (Some ds)
  with assms(2) have "list_all (DiffMetric_writable jf) ds" by (simp add: JudgeSpec_writable_def)
  from marshalled_metrics_read [OF assms(1) this] show ?thesis
    by (simp add: judge_environment [OF assms(3)] Some diff_metrics_def)
qed

theorem judge_thresholds_are_differences_witness:
  "unmarshal_thresholds (env_value (judge_envs example_text demo_canary demo_judge) ''KRANE_THRESHOLD_METRICS'')
     = Inr [\<lparr>thm_Metric = ''cpu'', thm_Value = []\<rparr>] \<and>
   js_ThresholdMetrics demo_judge = Some [\<lparr>thm_Metric = ''memory'', thm_Value = ''100''\<rparr>]"
  using judge_thresholds_are_differences [OF demo_judge_texts job_environments_exist(2), of demo_canary]
  by (simp add: demo_judge_def slice_length_def diff_metrics_def as_threshold_def)

lemma test_job_built:
  assumes "CreateTestJob inMemory c p = Ok pod"
  shows "pod = job_pod (GetTestJobname c) c
      \<lparr>ct_Name = ''testjob'', ct_Image = ts_Image (cps_TestSpec (cpo_Spec p)), ct_Command = ts_Cmd (cps_TestSpec (cpo_Spec p)),
       ct_Env = test_envs c (cps_TestSpec (cpo_Spec p)), ct_ImagePullPolicy = ''Always'', ct_rest = []\<rparr>
    \<lparr>pod_Meta := (mkMeta (GetTestJobname c) (canary_namespace c)
        (Some [''app'' \<mapsto> GetTestJobname c, ''version'' \<mapsto> ''stable'']))
       \<lparr>om_OwnerReferences := [NewControllerRef (cn_Meta c)
          \<lparr>gvk_Group = ''krane.sh'', gvk_Version = ''v1'', gvk_Kind = ''Canary''\<rparr>]\<rparr>\<rparr>"
  using assms by (simp add: CreateTestJob_def Let_def own_pod_Ok [OF krane.gvk])

text \<open>
  The test job is owned by the canary as its controller, so that its events reach the canary,
  and never restarts; its one container has the canary's name as target, and the bound on
  requests of the policy in decimal, which reads back as the number it was.
\<close>

theorem test_job_contract:
  assumes "CreateTestJob inMemory c p = Ok pod"
  shows "map or_Name (om_OwnerReferences (pod_Meta pod)) = [canary_name c] \<and>
    map or_Controller (om_OwnerReferences (pod_Meta pod)) = [Some True] \<and>
    ps_RestartPolicy (pod_Spec pod) = ''Never'' \<and>
    (\<exists>ct. ps_Containers (pod_Spec pod) = [ct] \<and> ct_Name ct = ''testjob'' \<and>
      \<lparr>ev_Name = ''KRANE_TARGET'', ev_Value = canary_name c\<rparr> \<in> set (ct_Env ct) \<and>
      (tsb_Requests (ts_Boundary (cps_TestSpec (cpo_Spec p))) \<noteq> 0 \<longrightarrow>
        (\<exists>v. \<lparr>ev_Name = ''KRANE_BOUNDARY_REQUESTS'', ev_Value = v\<rparr> \<in> set (ct_Env ct) \<and>
          strconv_Atoi v = sint (tsb_Requests (ts_Boundary (cps_TestSpec (cpo_Spec p)))))))"
  unfolding test_job_built [OF assms]
  by (auto simp: job_pod_def NewControllerRef_def test_envs_def)

theorem test_job_contract_witness:
  "\<exists>pod. CreateTestJob inMemory demo_canary demo_policy = Ok pod \<and>
    map or_Name (om_OwnerReferences (pod_Meta pod)) = [''pol-app-canary'']"
proof -
  obtain pod where "CreateTestJob inMemory demo_canary demo_policy = Ok pod"
    using krane.created_jobs by blast
  from test_job_contract [OF this] this show ?thesis by (auto simp: demo_meta)
qed

subsection \<open>Traffic\<close>

text \<open>
  C12. The search for a service in a virtual service answers with the position of the first
  route to it (in the order of HTTP routes, then of destinations), with \<open>-1\<close> twice exactly when
  every route goes elsewhere, and panics only on a nil pointer among the routes.
\<close>

theorem route_search_finds_first:
  "case FindMatchingHttpAndRoute svc vs of
     Ok (a, b) \<Rightarrow>
       if b = - 1 then a = - 1 \<and> (\<forall>h\<in>set (vss_Http (vs_Spec vs)). \<exists>x. h = Some x \<and>
           (\<forall>r\<in>set (hr_Route x). route_host r \<noteq> Some svc))
       else (\<exists>i j h. a = int i \<and> b = int j \<and> i < length (vss_Http (vs_Spec vs)) \<and> http_at vs i = Some h \<and>
           j < length (hr_Route h) \<and> route_host (hr_Route h ! j) = Some svc \<and>
           (\<forall>m < j. route_host (hr_Route h ! m) \<noteq> Some svc) \<and>
           (\<forall>m < i. \<forall>x. http_at vs m = Some x \<longrightarrow> (\<forall>r\<in>set (hr_Route x). route_host r \<noteq> Some svc)))
   | Err e \<Rightarrow> False
   | Panic q \<Rightarrow> q = NilDereference \<and> \<not> complete_vs vs"
proof (cases "FindMatchingHttpAndRoute svc vs")
  case (Ok r)
  obtain a b where r: "r = (a, b)" by (cases r)
  with Ok have f: "find_http svc 0 (vss_Http (vs_Spec vs)) = Ok (a, b)"
    by (simp add: FindMatchingHttpAndRoute_def)
  show ?thesis
  proof (cases "b = - 1")
    case True
    with f find_http_miss [of svc 0 "vss_Http (vs_Spec vs)" a] find_http_both [OF f] Ok r show ?thesis
      by (fastforce simp: route_host_def)
  next
    case False
    obtain i h where i: "a = int i" "i < length (vss_Http (vs_Spec vs))" "vss_Http (vs_Spec vs) ! i = Some h"
      "find_route svc 0 (hr_Route h) = Ok b"
      "\<forall>m < i. \<forall>x. vss_Http (vs_Spec vs) ! m = Some x \<longrightarrow> (\<forall>r\<in>set (hr_Route x). route_host r \<noteq> Some svc)"
      using find_http_hit [OF f False] by auto
    obtain j where "b = int j" "j < length (hr_Route h)" "route_host (hr_Route h ! j) = Some svc"
      "\<forall>m < j. route_host (hr_Route h ! m) \<noteq> Some svc"
      using find_route_hit [OF i(4) False] by auto
    with i Ok r False show ?thesis unfolding http_at_def by auto
  qed
next
  case (Panic q)
  then show ?thesis
    using find_http_panic [of svc 0 "vss_Http (vs_Spec vs)" q] by (simp add: FindMatchingHttpAndRoute_def complete_vs_def)
qed (simp add: FindMatchingHttpAndRoute_def)

theorem route_search_finds_first_witness:
  "\<exists>i j h. FindMatchingHttpAndRoute ''app'' demo_vs = Ok (int i, int j) \<and> http_at demo_vs i = Some h \<and>
     route_host (hr_Route h ! j) = Some ''app''"
  using route_search_finds_first [of demo_vs "''app''"] demo_routed by (auto simp: routed_def)

text \<open>
  C13. Splitting the traffic of a base that has between 10 and 100 percent keeps the total weight,
  leaves the base a share between 0 and 90, gives the canary 10, and touches no other route.
\<close>

theorem traffic_split:
  assumes "j < length rs" "rs ! j = Some d" "10 \<le> sint (rd_Weight d)" "sint (rd_Weight d) \<le> 100"
  shows "\<exists>d'. add_canary_route name j rs ! j = Some d' \<and> add_canary_route name j rs = rs[j := Some d'] @ [Some (mkRoute name 10)] \<and>
    rd_Destination d' = rd_Destination d \<and> 0 \<le> sint (rd_Weight d') \<and> sint (rd_Weight d') \<le> 90 \<and>
    total_weight (add_canary_route name j rs) = total_weight rs"
proof -
  have "rd_Weight d \<noteq> 0" using assms(3) by auto
  then show ?thesis
    using added_routes(2) [OF assms(1,2)] reduced_weight_range [of "rd_Weight d"] assms
      total_weight_added [OF assms(1,2)]
    by (intro exI [of _ "d\<lparr>rd_Weight := reduced_weight (rd_Weight d)\<rparr>"])
       (simp add: add_canary_route_def map_weight_def nth_append)
qed

theorem traffic_split_witness:
  "total_weight (add_canary_route ''c'' 1 [Some (mkRoute ''a'' 60), Some (mkRoute ''b'' 40)]) = 100"
  using traffic_split [of 1 "[Some (mkRoute ''a'' 60), Some (mkRoute ''b'' 40)]" "mkRoute ''b'' 40" "''c''"]
  by (auto simp: total_weight_def route_weight_def)

text \<open>
  C14. Cleaning up after rerouting gives back the virtual service as it was before, in every
  field, provided the base route had a weight.
\<close>

theorem cleanup_undoes_rerouting:
  assumes "routed vs svc i j h" and "find_route name 0 (hr_Route h) = Ok (- 1)"
    and "route_weight (hr_Route h ! j) \<noteq> 0"
  shows "\<exists>k. FindMatchingHttpAndRoute svc (upd_routes i (add_canary_route name j) vs) = Ok (int i, int j) \<and>
    FindMatchingRouteInHttpRoute name (http_at (upd_routes i (add_canary_route name j) vs) i) = Ok (int k) \<and>
    upd_routes i (remove_canary_route j k) (upd_routes i (add_canary_route name j) vs) = vs"
proof (intro exI conjI)
  have r: "routed (upd_routes i (add_canary_route name j) vs) svc i j
      (h\<lparr>hr_Route := add_canary_route name j (hr_Route h)\<rparr>)"
    by (rule routed_added [OF assms(1)])
  then show "FindMatchingHttpAndRoute svc (upd_routes i (add_canary_route name j) vs) = Ok (int i, int j)"
    and "FindMatchingRouteInHttpRoute name (http_at (upd_routes i (add_canary_route name j) vs) i)
      = Ok (int (length (hr_Route h)))"
    using find_canary_added [OF assms(2)] by (simp_all add: routed_def FindMatchingRouteInHttpRoute_def)
  show "upd_routes i (remove_canary_route j (length (hr_Route h))) (upd_routes i (add_canary_route name j) vs) = vs"
    using assms upd_routes_same [of vs i h "\<lambda>rs. rs[j := map_weight restored_weight (rs ! j)]"]
    by (simp add: cleanup_restores [OF assms(1)] map_weight_same routed_def)
qed

theorem cleanup_undoes_rerouting_witness:
  "\<exists>k. upd_routes 0 (remove_canary_route 0 k) (upd_routes 0 (add_canary_route ''pol-app-canary'' 0) demo_vs) = demo_vs"
  using cleanup_undoes_rerouting [OF demo_routed, of "''pol-app-canary''"] by (auto simp: demo_http_def route_weight_def)

text \<open>
  C15. Rerouting is done once: a run of the step stores the virtual service as it has read it
  (\<open>vs\<close>, without prefixes and regular expressions) with the route added, and a second run leaves
  the virtual service untouched and finishes the phase.
\<close>

theorem rerouting_is_idempotent:
  assumes "tracked w c p" "progress c = CanaryProgress_Canary" "ph_Status (cst_Canary (cn_Status c)) = CanaryPhaseStatus_Queued"
    and "has_vs w c p vs" "routed vs (cps_Service (cpo_Spec p)) i j h"
    and "find_route (canary_name c) 0 (hr_Route h) = Ok (- 1)"
  shows "\<exists>vs' c' w' c''. reconcileVirtualService inMemory (c, w) = (Ok (Some vs'), (c', w')) \<and>
    find_key vs_Meta (cl_virtualservices w') (vs_key c p) = Some vs' \<and>
    vs' = upd_routes i (add_canary_route (canary_name c) j) vs \<and>
    reconcileVirtualService inMemory (c', w') = (Ok None, (c'', save c'' w')) \<and>
    ph_Status (cst_Canary (cn_Status c'')) = CanaryPhaseStatus_Success"
proof -
  let ?vs = "upd_routes i (add_canary_route (canary_name c) j) vs" and ?c = "canary_unqueued c"
  let ?h = "h\<lparr>hr_Route := add_canary_route (canary_name c) j (hr_Route h)\<rparr>"
  have t: "tracked (put_vs ?vs (save ?c w)) ?c p"
    by (rule tracked_put_vs) (rule tracked_save [OF assms(1)]; simp)
  have vs0: "has_vs (save ?c w) c p vs"
    using assms(4) by simp
  note vs = has_put_vs(1) [OF vs0 upd_routes_meta]
  have vs': "has_vs (put_vs ?vs (save ?c w)) ?c p ?vs"
    using has_vs_routes [OF vs0] by (simp add: has_vs_def vs_key_def)
  have "reconcileVirtualService inMemory (?c, put_vs ?vs (save ?c w))
      = (Ok None, (canary_rerouted (canary_unqueued ?c), save (canary_rerouted (canary_unqueued ?c)) (put_vs ?vs (save ?c w))))"
    by (rule krane.run_vs_done [OF t _ vs' routed_added [OF assms(5)], where k = "int (length (hr_Route h))"])
       (use assms(2,6) find_canary_added [OF assms(6)] in simp_all)
  moreover have "ph_Status (cst_Canary (cn_Status (canary_rerouted (canary_unqueued ?c)))) = CanaryPhaseStatus_Success"
    using assms(3) by (simp add: canary_rerouted_def canary_unqueued_def)
  ultimately show ?thesis
    using krane.run_vs_add [OF assms(1,2,4,5,6)] vs by (auto simp: Let_def simp del: put_vs_simps)
qed

theorem rerouting_is_idempotent_witness:
  "\<exists>vs' c' w' c''. reconcileVirtualService inMemory (demo_rerouting, save demo_rerouting demo_running) = (Ok (Some vs'), (c', w')) \<and>
    find_key vs_Meta (cl_virtualservices w') (vs_key demo_rerouting demo_policy) = Some vs' \<and>
    reconcileVirtualService inMemory (c', w') = (Ok None, (c'', save c'' w'))"
  using rerouting_is_idempotent [OF demo_rerouting_tracked _ _ demo_rerouting_vs demo_rerouting_routed demo_rerouting_fresh]
  by (auto simp: demo_rerouting_phase)

text \<open>
  C16. Outside the range Istio asks for, the split goes wrong silently: an unset base weight is 100
  after the cleanup instead of unset, and a base of less than ten percent gets a negative weight.
\<close>

theorem rerouting_edge_weights:
  assumes "j < length rs" "rs ! j = Some d" "sint (rd_Weight d) < 10" "0 \<le> sint (rd_Weight d)"
  shows "if rd_Weight d = 0
    then route_weight (remove_canary_route j (length rs) (add_canary_route name j rs) ! j) = 100
    else sint (route_weight (add_canary_route name j rs ! j)) < 0"
proof (cases "rd_Weight d = 0")
  case True
  then show ?thesis
    using assms remove_added [OF assms(1), of name] by (simp add: map_weight_def restored_weight_def route_weight_def)
next
  case False
  then have "0 < sint (rd_Weight d)"
    using assms(4) by (metis order_le_less signed_0 signed_word_eqI)
  then show ?thesis
    using assms False negative_split [of "rd_Weight d"] by (simp add: added_routes(2) route_weight_def)
qed

theorem rerouting_edge_weights_witness:
  "sint (route_weight (add_canary_route ''c'' 0 [Some (mkRoute ''a'' 5)] ! 0)) < 0"
  using rerouting_edge_weights [of 0 "[Some (mkRoute ''a'' 5)]" "mkRoute ''a'' 5" "''c''"] by simp

subsection \<open>Retries and failures\<close>

text \<open>
  For every client: a request for a canary that is read is tried again five seconds later,
  with an error only if the error is not a conflict of versions; a request for a canary that is
  not found is dropped, and any other error of the read is returned as it is. A run ends in no
  other way, except by a panic.
\<close>

theorem canary_requests_are_retried:
  "case fst (ReconcileCanary_Reconcile jf R nn w) of
     Ok (res, err) \<Rightarrow>
       (case fst (api_get (canaries (client R)) nn w) of
          Inr c \<Rightarrow> rs_RequeueAfter res = 5 * Second \<and>
            (case err of None \<Rightarrow> True | Some e \<Rightarrow> rs_Requeue res \<and> \<not> strings_Contains (Error e) modified_message)
        | Inl e \<Rightarrow> res = noResult \<and> err = (if IsNotFound e then None else Some e))
   | Err e \<Rightarrow> False
   | Panic q \<Rightarrow> True"
proof (cases "api_get (canaries (client R)) nn w")
  case (Pair g w0)
  show ?thesis
  proof (cases g)
    case (Inl e)
    with Pair show ?thesis
      by (simp add: ReconcileCanary_Reconcile_def run_simps)
  next
    case (Inr c)
    have "retried (fst (canarySteps jf R (c, w0)))" by (rule retried_run)
    moreover have "fst (ReconcileCanary_Reconcile jf R nn w) = fst (canarySteps jf R (c, w0))"
      using Pair Inr by (simp add: ReconcileCanary_Reconcile_def run_simps split: prod.splits)
    ultimately show ?thesis
      using Pair Inr by (auto simp: retried_def requeue_after_5s_def)
  qed
qed

text \<open>
  A canary deployment whose policy does not exist (yet) is given up: the run ends without
  error and without a retry, although the deployment was found, and nothing is written. Creating
  the policy later does not bring it back; only another event of the deployment does.
\<close>

theorem missing_policy_is_dropped:
  assumes "api_get (deployments (client R)) nn w = (Inr d, w1)"
    and "api_get (policies (client R)) \<lparr>nn_Namespace = deployment_namespace d, nn_Name = GetCanaryPolicyName d\<rparr> w1 = (Inl e, w2)"
    and "IsNotFound e"
  shows "ReconcileDeployment_Reconcile R nn w = (Ok (noResult, None), w2)"
  by (rule missing_policy_run [OF assms])

theorem missing_policy_is_dropped_witness:
  "ReconcileDeployment_Reconcile inMemory \<lparr>nn_Namespace = ''ns'', nn_Name = ''app-canary''\<rparr> (demo_cluster\<lparr>cl_policies := []\<rparr>)
     = (Ok (noResult, None), demo_cluster\<lparr>cl_policies := []\<rparr>)"
  by (rule missing_policy_is_dropped [where d = demo_deployment and ?w1.0 = "demo_cluster\<lparr>cl_policies := []\<rparr>"
        and e = "NewNotFound ''canarypolicies.krane.sh'' ''pol''"])
     (simp_all add: fake_api_def tracker_Get_def filterByNamespaceAndName_def demo_cluster_def demo_base_def demo_meta
        GetCanaryPolicyName_def)

text \<open>
  A policy with a baseline mode other than the two known ones and the empty one makes the
  controller panic when it builds the baseline: the specification stays empty, and its selector
  is a nil pointer.
\<close>

theorem unknown_mode_panics:
  assumes "cps_BaselineMode (cpo_Spec (me_policy m)) = BaselineModeOther s"
    and "api_get (deployments (client R)) \<lparr>nn_Namespace = deployment_namespace (me_instance m),
       nn_Name = MakeBaselineName (me_instance m)\<rparr> w = (Inl e, w1)" "IsNotFound e"
    and "api_get (deployments (client R)) \<lparr>nn_Namespace = deployment_namespace (me_instance m),
       nn_Name = cps_Base (cpo_Spec (me_policy m))\<rparr> w1 = (Inr base, w2)"
  shows "reconcileBaseline R (m, w) = (Panic NilDereference, (m, w2))"
  by (rule unknown_mode_run [OF assms])

theorem unknown_mode_panics_witness:
  "reconcileBaseline inMemory (\<lparr>me_instance = demo_deployment, me_policy = demo_policy
       \<lparr>cpo_Spec := (cpo_Spec demo_policy)\<lparr>cps_BaselineMode := BaselineModeOther ''new''\<rparr>\<rparr>\<rparr>, demo_cluster)
    = (Panic NilDereference, (\<lparr>me_instance = demo_deployment, me_policy = demo_policy
       \<lparr>cpo_Spec := (cpo_Spec demo_policy)\<lparr>cps_BaselineMode := BaselineModeOther ''new''\<rparr>\<rparr>\<rparr>, demo_cluster))"
  by (rule unknown_mode_panics [where s = "''new''" and ?w1.0 = demo_cluster and base = demo_base
        and e = "NewNotFound ''deployments.apps'' ''app-baseline''"])
     (simp_all add: fake_api_def tracker_Get_def filterByNamespaceAndName_def demo_cluster_def demo_base_def demo_meta
        demo_names demo_policy_def)

text \<open>
  The step that builds a baseline from a source specification succeeds exactly for sources
  that have a selector with labels and a labelled template; it never fails with an error, so for
  all others it panics.
\<close>

theorem baseline_needs_labels:
  "(\<exists>sp. connect_selectors cfg pol src = Ok sp) = selectable src \<and>
   (\<exists>q. connect_selectors cfg pol src = Panic q) = (\<not> selectable src)"
  using connect_selectors_Ok_iff [of cfg pol src] connect_selectors_panics [of cfg pol src] by blast

text \<open>
  C21. Canary and baseline never share pods: the selector of a built baseline does not match a
  template of the canary tier, and a selector that asks for the canary tier does not match the
  template of the baseline, whatever else they select by.
\<close>

theorem baseline_and_canary_are_disjoint:
  assumes "connect_selectors cfg pol src = Ok sp" "ds_Selector sp = Some bsel"
    and "map_get (template_labels csp) KraneTierLabel = ''canary''"
    and "map_get csel KraneTierLabel = ''canary''"
  shows "\<not> selects (ls_MatchLabels bsel) (template_labels csp) \<and> \<not> selects csel (template_labels sp)"
  using baseline_canary_disjoint [OF assms] by blast

theorem baseline_and_canary_are_disjoint_witness:
  "\<exists>sp bsel. connect_selectors ''cfg'' ''pol'' (dp_Spec demo_base) = Ok sp \<and> ds_Selector sp = Some bsel \<and>
     \<not> selects (ls_MatchLabels bsel) (template_labels (dp_Spec demo_deployment))"
proof -
  have "ds_Selector (dp_Spec demo_base) = Some \<lparr>ls_MatchLabels = Some [''app'' \<mapsto> ''app''], ls_rest = []\<rparr>"
    "template_labels (dp_Spec demo_base) = Some [''app'' \<mapsto> ''app'']"
    by (simp_all add: demo_base_def demo_template_def)
  note b = connect_selectors_Ok [OF this(1) _ this(2), of "[''app'' \<mapsto> ''app'']" "''cfg''" "''pol''", simplified]
  have c: "map_get (template_labels (dp_Spec demo_deployment)) KraneTierLabel = ''canary''"
    by (simp add: demo_deployment_def demo_template_def)
  from baseline_and_canary_are_disjoint [OF b _ c c] b show ?thesis by auto
qed

text \<open>
  Names tie the objects of a canary together without clashes: the service has the name of the
  \<open>Canary\<close>, which is the target both jobs get; the baseline recorded in it is the one that is
  created and is not the canary itself; the two job pods have different names.
\<close>

theorem names_are_consistent:
  "MakeCanaryServiceName p d = canary_name (createCanaryConfig p d) \<and>
   csd_Baseline (csp_Deployments (cn_Spec (createCanaryConfig p d))) = MakeBaselineName d \<and>
   csd_Canary (csp_Deployments (cn_Spec (createCanaryConfig p d))) = deployment_name d \<and>
   MakeBaselineName d \<noteq> deployment_name d \<and> GetTestJobname c \<noteq> GetJudgeJobName c"
  using service_name_is_config_name [of p d] baseline_name_fresh [of d] job_names_differ [of c]
  by (simp add: createCanaryConfig_def)

text \<open>
  An event reaches the deployment controller exactly when the object is still there after it
  and carries a policy label (of any value) and the tier \<open>canary\<close>; deletions never do.
\<close>

theorem event_filter_exact:
  "CanaryObjectPredicate ev = (\<exists>m. event_current ev = Some m \<and>
     map_has (om_Labels m) CanaryPolicyLabel \<and> map_get (om_Labels m) KraneTierLabel = ''canary'')"
  by (simp add: predicate_iff hasCanaryPolicyLabel_def isCanaryTier_def)

text \<open>
  An object has one controller: setting the reference on a fresh object records the owner,
  setting it again changes nothing, and an owner of another name is refused with an error that
  names the present one.
\<close>

theorem one_controller_per_object:
  assumes "om_OwnerReferences obj = []" and "om_Name other \<noteq> om_Name owner"
  shows "\<exists>obj' r. SetControllerReference kraneScheme kind owner obj = Ok obj' \<and>
    om_OwnerReferences obj' = [r] \<and> or_Name r = om_Name owner \<and> or_Controller r = Some True \<and>
    SetControllerReference kraneScheme kind owner obj' = Ok obj' \<and>
    SetControllerReference kraneScheme kind other obj' = Err (AlreadyOwnedError obj' r)"
proof -
  obtain g where g: "kraneScheme kind = Inr g" by (cases kind) auto
  let ?r = "NewControllerRef owner g" and ?o = "obj\<lparr>om_OwnerReferences := [NewControllerRef owner g]\<rparr>"
  have "\<not> referSameObject (NewControllerRef other g) ?r"
    using assms(2) by (auto simp: referSameObject_def NewControllerRef_def split: sum.splits)
  then have "SetControllerReference kraneScheme kind other ?o = Err (AlreadyOwnedError ?o ?r)"
    using g by (simp add: SetControllerReference_def) (simp add: NewControllerRef_def)
  then show ?thesis
    using SetControllerReference_fresh [of kraneScheme kind g obj owner, OF g assms(1)]
      SetControllerReference_again [of kind g ?o owner]
    by (intro exI [of _ ?o] exI [of _ ?r]) (simp add: g NewControllerRef_def)
qed

theorem one_controller_per_object_witness:
  "\<exists>obj'. SetControllerReference kraneScheme OwnerCanary (mkMeta ''a'' ''ns'' None) (mkMeta ''pod'' ''ns'' None) = Ok obj' \<and>
     (\<exists>r. SetControllerReference kraneScheme OwnerCanary (mkMeta ''b'' ''ns'' None) obj' = Err (AlreadyOwnedError obj' r))"
  using one_controller_per_object [of "mkMeta ''pod'' ''ns'' None" "mkMeta ''b'' ''ns'' None" "mkMeta ''a'' ''ns'' None" OwnerCanary]
  by auto

text \<open>
  The reporting phase cannot fail: whatever the server answers, the step succeeds, because
  the error of its status update is dropped. Outside its phase, or once it has reported, it
  makes no call at all.
\<close>

theorem reporting_never_fails:
  "(\<exists>s'. reconcileReporting R s = (Ok (), s')) \<and>
   (\<not> (progress (fst s) = CanaryProgress_Reporting \<and>
       ph_Status (cst_Reporting (cn_Status (fst s))) \<noteq> CanaryPhaseStatus_Success) \<longrightarrow>
    reconcileReporting R s = (Ok (), s))"
proof (cases s)
  case (Pair c w)
  then show ?thesis
    by (simp add: reconcileReporting_def ignoreError_def run_simps split: prod.splits sum.splits)
qed

theorem reporting_never_fails_witness:
  "\<exists>c. reconcileReporting inMemory (c, demo_running) = (Ok (), c, demo_running) \<and> progress c \<noteq> CanaryProgress_Reporting"
proof (intro exI conjI)
  let ?c = "demo_canary\<lparr>cn_Status := (cn_Status demo_canary)\<lparr>cst_Progress := CanaryProgress_Testing\<rparr>\<rparr>"
  show "progress ?c \<noteq> CanaryProgress_Reporting" by simp
  then show "reconcileReporting inMemory (?c, demo_running) = (Ok (), ?c, demo_running)"
    using reporting_never_fails [of inMemory "(?c, demo_running)"] by simp
qed

text \<open>
  \<open>reconcileDestinationRules\<close> is idempotent: when the canary has no destination rule yet, the
  first run adds one, named after the canary and owned by it, whose only subset selects by the
  two labels of the canary; the second run returns the same rule and changes nothing.
\<close>

theorem destination_rule_is_idempotent:
  assumes "tracked w c p" and "find_key dr_Meta (cl_destinationrules w) (metaKey (cn_Meta c)) = None"
  shows "\<exists>dr w'. reconcileDestinationRules inMemory (c, w) = (Ok dr, (c, w')) \<and>
    w' = w\<lparr>cl_destinationrules := cl_destinationrules w @ [dr]\<rparr> \<and> om_Name (dr_Meta dr) = canary_name c \<and>
    map or_Name (om_OwnerReferences (dr_Meta dr)) = [canary_name c] \<and>
    drs_Subsets (dr_Spec dr) = [Some \<lparr>su_Name = canary_name c, su_Labels = canary_labels c\<rparr>] \<and>
    reconcileDestinationRules inMemory (c, w') = (Ok dr, (c, w'))"
proof -
  let ?k = "\<lparr>nn_Namespace = canary_namespace c, nn_Name = canary_name c\<rparr>"
  have k: "metaKey (cn_Meta c) = ?k" by (simp add: metaKey_def)
  obtain dr where dr: "createBaselineDestinationRule inMemory c p = Ok dr" "metaKey (dr_Meta dr) = ?k"
    "map or_Name (om_OwnerReferences (dr_Meta dr)) = [canary_name c]"
    "drs_Subsets (dr_Spec dr) = [Some \<lparr>su_Name = canary_name c, su_Labels = canary_labels c\<rparr>]"
    by (simp add: createBaselineDestinationRule_def SetControllerReference_fresh metaKey_def MakeDestinationRuleName_def
        NewControllerRef_def)
  then show ?thesis
    using assms unfolding k
    by (intro exI [of _ dr] exI [of _ "w\<lparr>cl_destinationrules := cl_destinationrules w @ [dr]\<rparr>"])
       (auto simp: tracked_def reconcileDestinationRules_def ReconcileCanary_GetCanaryPolicy_def
         get_or_create_def run_simps fake_calls tracker_simps MakeDestinationRuleName_def metaKey_def)
qed

theorem destination_rule_is_idempotent_witness:
  "\<exists>dr w'. reconcileDestinationRules inMemory (demo_canary, demo_running) = (Ok dr, (demo_canary, w')) \<and>
    reconcileDestinationRules inMemory (demo_canary, w') = (Ok dr, (demo_canary, w'))"
proof -
  have "tracked demo_running demo_canary demo_policy" using demo_startable by (simp add: startable_def)
  from destination_rule_is_idempotent [OF this] show ?thesis by (auto simp: demo_running_def demo_cluster_def)
qed

subsection \<open>The job images\<close>

text \<open>
  C27. The judge fails a metric exactly when its samples, taken over all series one after the
  other, hold eleven violations in a row; a violation before the end of one series and the
  samples at the beginning of the next count together.
\<close>

theorem judge_fails_on_eleven_violations:
  "judge_reconcile margin (PromMatrix m) = MetricFailed \<longleftrightarrow>
     (\<exists>xs ys zs. concat m = xs @ ys @ zs \<and> length ys = 11 \<and> list_all (\<lambda>v. float_greater v margin) ys)"
  by (simp add: judge_reconcile_fails violated_def list_all_iff)

text \<open>The judge with readers that can read what the controller writes.\<close>

lemma started_judge_ends:
  assumes "environment (judge_envs jf c js) getenv" "decodes jf js decodeDiffs decodeThresholds"
    and "newClient ''http://prometheus.istio-system.svc.cluster.local:9090'' = Inr prom"
    and "parseDuration (js_Boundary_Time js) > 0" "elapsed n \<ge> parseDuration (js_Boundary_Time js)"
  shows "\<exists>r k. judge_main parseDuration decodeDiffs decodeThresholds newClient elapsed getenv = Some r \<and> k \<le> n \<and>
    (r = 0 \<longleftrightarrow> list_all (\<lambda>i. list_all (metric_passes (prom i) (csd_Baseline (csp_Deployments (cn_Spec c)))
        (csd_Canary (csp_Deployments (cn_Spec c)))) (diff_metrics js)) [0..<Suc k]) \<and>
    (r \<noteq> 0 \<or> elapsed k \<ge> parseDuration (js_Boundary_Time js))"
proof -
  let ?T = "parseDuration (js_Boundary_Time js)" and ?b = "csd_Baseline (csp_Deployments (cn_Spec c))"
    and ?k = "csd_Canary (csp_Deployments (cn_Spec c))" and ?ms = "diff_metrics js"
  obtain r where r: "judge_loop prom elapsed ?T ?b ?k ?ms 0 = Some r"
    using judge_loop_ends [of ?T elapsed 0 n prom ?b ?k ?ms] assms(4,5) by auto
  from judge_loop_code [OF r] obtain k where k: "judge_stops prom elapsed ?T ?b ?k ?ms k"
    "\<forall>i<k. \<not> judge_stops prom elapsed ?T ?b ?k ?ms i" "r = judge_code (judge_round (prom k) ?b ?k ?ms)" by auto
  have "k \<le> n" using k(2) assms(4,5) by (meson judge_stops_def not_less)
  moreover have "r = 0 \<longleftrightarrow> judge_round (prom k) ?b ?k ?ms = None"
    using k(3) judge_round_code [of "prom k" ?b ?k ?ms] by (auto simp: judge_code_def split: option.splits)
  moreover have "judge_round (prom i) ?b ?k ?ms = None" if "i < k" for i
    using k(2) that by (auto simp: judge_stops_def)
  ultimately show ?thesis
    using r k(1) judge_main_started [where newClient = newClient and prom = prom, OF assms(1-3), of parseDuration elapsed]
    by (intro exI [of _ r] exI [of _ k]) (auto simp: judge_stops_def list_all_iff judge_round_passes less_Suc_eq)
qed

lemma started_judge_runs_forever:
  assumes "environment (judge_envs jf c js) getenv" "decodes jf js decodeDiffs decodeThresholds"
    and "newClient ''http://prometheus.istio-system.svc.cluster.local:9090'' = Inr prom"
    and "js_Boundary_Time js = []" "parseDuration [] = 0"
    and "\<And>i. list_all (metric_passes (prom i) (csd_Baseline (csp_Deployments (cn_Spec c)))
        (csd_Canary (csp_Deployments (cn_Spec c)))) (diff_metrics js)"
  shows "judge_main parseDuration decodeDiffs decodeThresholds newClient elapsed getenv = None"
  unfolding judge_main_started [where newClient = newClient and prom = prom, OF assms(1-3)] assms(4,5)
  by (rule judge_loop_forever) (simp_all add: judge_round_passes assms(6))

text \<open>
  C28. The judge that the controller starts, with a boundary, ends: at the latest in the first
  iteration \<open>n\<close> past the boundary. It exits with 0 exactly when every metric has passed in every
  iteration it made, and then it ran for the whole time. A metric whose query fails passes.
\<close>

theorem judge_ends_with_verdict:
  assumes "environment (judge_envs jf c js) getenv" "number_text jf pf" "JudgeSpec_writable jf js"
    and "newClient ''http://prometheus.istio-system.svc.cluster.local:9090'' = Inr prom"
    and "parseDuration (js_Boundary_Time js) > 0" "elapsed n \<ge> parseDuration (js_Boundary_Time js)"
  shows "\<exists>r k. judge_main parseDuration (unmarshal_diffs pf) unmarshal_thresholds newClient elapsed getenv = Some r \<and> k \<le> n \<and>
    (r = 0 \<longleftrightarrow> list_all (\<lambda>i. list_all (metric_passes (prom i) (csd_Baseline (csp_Deployments (cn_Spec c)))
        (csd_Canary (csp_Deployments (cn_Spec c)))) (diff_metrics js)) [0..<Suc k]) \<and>
    (r \<noteq> 0 \<or> elapsed k \<ge> parseDuration (js_Boundary_Time js))"
  using started_judge_ends [where newClient = newClient and prom = prom and parseDuration = parseDuration and elapsed = elapsed,
      OF assms(1) judge_decodes [OF assms(2,3)] assms(4-)] .

theorem judge_ends_with_verdict_witness:
  "\<exists>r. judge_main (\<lambda>_. 600) (unmarshal_diffs example_float) unmarshal_thresholds (\<lambda>_. Inr (\<lambda>_ _. PromError ''down''))
      (\<lambda>k. 20 * int k) (env_value (judge_envs example_text demo_canary demo_judge)) = Some r \<and> r = 0"
  using judge_ends_with_verdict [OF job_environments_exist(2) demo_judge_texts,
      where newClient = "\<lambda>_. Inr (\<lambda>_ _. PromError ''down'')" and parseDuration = "\<lambda>_. 600"
        and elapsed = "\<lambda>k. 20 * int k" and n = 30 and c = demo_canary]
  by (auto simp: metric_passes_def list_all_iff)

text \<open>
  C29. A judge without a boundary never ends while its metrics pass: a policy that leaves it out
  keeps its canaries in the judging phase.
\<close>

theorem judge_without_boundary_runs_forever:
  assumes "environment (judge_envs jf c js) getenv" "number_text jf pf" "JudgeSpec_writable jf js"
    and "newClient ''http://prometheus.istio-system.svc.cluster.local:9090'' = Inr prom"
    and "js_Boundary_Time js = []" "parseDuration [] = 0"
    and "\<And>i. list_all (metric_passes (prom i) (csd_Baseline (csp_Deployments (cn_Spec c)))
        (csd_Canary (csp_Deployments (cn_Spec c)))) (diff_metrics js)"
  shows "judge_main parseDuration (unmarshal_diffs pf) unmarshal_thresholds newClient elapsed getenv = None"
  using started_judge_runs_forever [where newClient = newClient and prom = prom and parseDuration = parseDuration,
      OF assms(1) judge_decodes [OF assms(2,3)] assms(4-)] .

theorem judge_without_boundary_runs_forever_witness:
  "judge_main (\<lambda>_. 0) (unmarshal_diffs example_float) unmarshal_thresholds (\<lambda>_. Inr (\<lambda>_ _. PromMatrix [])) (\<lambda>k. 20 * int k)
     (env_value (judge_envs example_text demo_canary (demo_judge\<lparr>js_Boundary_Time := []\<rparr>))) = None"
  by (rule judge_without_boundary_runs_forever [OF job_environments_exist(2) demo_judge_texts(1), where prom = "\<lambda>_ _. PromMatrix []"])
     (use demo_judge_texts(2) in \<open>simp_all add: JudgeSpec_writable_def metric_passes_def violated_def list_all_iff\<close>)

text \<open>
  C30. The test job that the controller starts keeps the bound on requests of its policy: without
  a time limit and with every request to the canary's service answered, it sends exactly that
  many and exits with success.
\<close>

theorem test_job_sends_its_requests:
  assumes "CreateTestJob inMemory c p = Ok pod" "ps_Containers (pod_Spec pod) = [ct]"
    and "environment (ct_Env ct) getenv" "0 < sint (tsb_Requests (ts_Boundary (cps_TestSpec (cpo_Spec p))))"
    and "tsb_Time (ts_Boundary (cps_TestSpec (cpo_Spec p))) = []" "parseDuration [] = 0"
    and "\<And>k. posts (canary_name c) k"
  shows "testjob_main parseDuration posts elapsed getenv
    = Some (Inr (nat (sint (tsb_Requests (ts_Boundary (cps_TestSpec (cpo_Spec p)))))))"
proof -
  have "ct_Env ct = test_envs c (cps_TestSpec (cpo_Spec p))"
    using assms(2) unfolding test_job_built [OF assms(1)] by (auto simp: job_pod_def)
  with assms(3) have e: "environment (test_envs c (cps_TestSpec (cpo_Spec p))) getenv" by simp
  show ?thesis
    using testjob_requests [of "posts (canary_name c)" 0, OF assms(7)] assms(4-6)
    by (simp add: testjob_main_def Let_def test_environment [OF e])
qed

theorem test_job_sends_its_requests_witness:
  "testjob_main (\<lambda>_. 0) (\<lambda>_ _. True) int (env_value (test_envs demo_canary (cps_TestSpec (cpo_Spec demo_policy)))) = Some (Inr 100)"
proof -
  obtain pod where pod: "CreateTestJob inMemory demo_canary demo_policy = Ok pod" using krane.created_jobs by blast
  then obtain ct where "ps_Containers (pod_Spec pod) = [ct]" "ct_Env ct = test_envs demo_canary (cps_TestSpec (cpo_Spec demo_policy))"
    using test_job_built [OF pod] by (auto simp: job_pod_def)
  from test_job_sends_its_requests [OF pod this(1), of "env_value (ct_Env ct)" "\<lambda>_. 0" "\<lambda>_ _. True" int] this(2)
  show ?thesis by (simp add: job_environments_exist demo_policy_def)
qed

text \<open>
  C33. The time limit of a test is compared the wrong way round. If the first request takes no longer
  than the limit, the job that the controller starts ends with success right after it, even if
  the request was not answered and whatever the bound on requests; otherwise, time going on, the limit
  never ends it: the job does what it would do without one.
\<close>

theorem test_time_limit_is_inverted:
  assumes "environment (test_envs c ts) getenv"
    and "parseDuration (tsb_Time (ts_Boundary ts)) = limit" "limit \<noteq> 0" "mono elapsed"
  shows "testjob_main parseDuration posts elapsed getenv =
    (if elapsed 0 \<le> limit then Some (Inr 1) else testjob_main (\<lambda>_. 0) posts elapsed getenv)"
proof -
  have "\<forall>k. limit < elapsed k" if "\<not> elapsed 0 \<le> limit"
    using that monoD [OF assms(4), of 0] by (meson le0 less_le_trans not_le)
  then show ?thesis
    using assms(2,3) testjob_time [of limit elapsed 20] testjob_late [of 0 limit elapsed]
    by (simp add: testjob_main_def Let_def test_environment [OF assms(1)])
qed

theorem test_time_limit_is_inverted_witness:
  "let env = env_value (test_envs demo_canary
       \<lparr>ts_Image = ''t'', ts_Cmd = [], ts_Boundary = \<lparr>tsb_Time = ''10m'', tsb_Requests = 100\<rparr>\<rparr>) in
    testjob_main (\<lambda>_. 600) (\<lambda>_ _. False) int env = Some (Inr 1) \<and>
    testjob_main (\<lambda>_. 600) (\<lambda>_ _. True) (\<lambda>k. 601 + int k) env = testjob_main (\<lambda>_. 0) (\<lambda>_ _. True) (\<lambda>k. 601 + int k) env"
proof -
  have "mono int" "mono (\<lambda>k. 601 + int k)" by (simp_all add: mono_def)
  then show ?thesis
    unfolding Let_def
    using test_time_limit_is_inverted [OF job_environments_exist(1), where parseDuration = "\<lambda>_. 600" and limit = 600] by simp
qed

text \<open>
  C32. With a bound on requests the test job always ends, whatever the service answers, and never
  sends more requests than the bound.
\<close>

theorem test_job_ends_within_bound:
  assumes "environment (test_envs c ts) getenv" "0 < sint (tsb_Requests (ts_Boundary ts))"
  shows "\<exists>r. testjob_main parseDuration posts elapsed getenv = Some r \<and>
    (case r of Inl code \<Rightarrow> code = 1 | Inr n \<Rightarrow> int n \<le> sint (tsb_Requests (ts_Boundary ts)))"
proof -
  obtain r where "testjob_main parseDuration posts elapsed getenv = Some r"
    "\<forall>n. r = Inr n \<longrightarrow> n \<le> max (Suc 0) (nat (sint (tsb_Requests (ts_Boundary ts))))"
    "\<forall>code. r = Inl code \<longrightarrow> code = 1"
    using testjob_ends [OF assms(2), of "posts (canary_name c)" elapsed "parseDuration (tsb_Time (ts_Boundary ts))" 0 20]
    by (auto simp: testjob_main_def Let_def test_environment [OF assms(1)])
  with assms(2) show ?thesis by (intro exI [of _ r]) (auto split: sum.splits)
qed

theorem test_job_ends_within_bound_witness:
  "\<exists>r. testjob_main (\<lambda>_. 0) (\<lambda>_ _. False) int (env_value (test_envs demo_canary (cps_TestSpec (cpo_Spec demo_policy)))) = Some r"
  using test_job_ends_within_bound [OF job_environments_exist(1), where c = demo_canary and ts = "cps_TestSpec (cpo_Spec demo_policy)"
      and parseDuration = "\<lambda>_. 0" and posts = "\<lambda>_ _. False" and elapsed = int]
  by (auto simp: demo_policy_def)

subsection \<open>The controllers among others\<close>

text \<open>
  C34. No run of either controller ever makes two objects of a kind with the same namespace and
  name, whatever the others do between its calls, if they do not.
\<close>

theorem names_stay_unique:
  assumes "consistent w" "\<And>i v. consistent v \<Longrightarrow> consistent (env i v)"
  shows "consistent (fst (snd (ReconcileCanary_Reconcile jf \<lparr>client = interfering env fakeClient, scheme = sc\<rparr> nn (w, n)))) \<and>
    consistent (fst (snd (ReconcileDeployment_Reconcile \<lparr>client = interfering env fakeClient, scheme = sc\<rparr> nn (w, n))))"
proof
  show "consistent (fst (snd (ReconcileCanary_Reconcile jf \<lparr>client = interfering env fakeClient, scheme = sc\<rparr> nn (w, n))))"
    using canary_run_consistent [of "(w, n)" env jf sc nn] assms by (metis fst_conv prod.collapse)
  show "consistent (fst (snd (ReconcileDeployment_Reconcile \<lparr>client = interfering env fakeClient, scheme = sc\<rparr> nn (w, n))))"
    using deployment_run_consistent [of "(w, n)" env sc nn] assms by (metis fst_conv prod.collapse)
qed

theorem names_stay_unique_witness:
  "consistent (fst (snd (ReconcileDeployment_Reconcile
     \<lparr>client = interfering (\<lambda>_ v. v\<lparr>cl_pods := []\<rparr>) fakeClient, scheme = kraneScheme\<rparr>
     (metaKey (dp_Meta demo_deployment)) (demo_cluster, 0))))"
  using names_stay_unique [of demo_cluster "\<lambda>_ v. v\<lparr>cl_pods := []\<rparr>"] demo_provisionable
  by (simp add: provisionable_def consistent_def)

lemma demo_concludes:
  "\<exists>w c. krane_reaches (\<lambda>_. None) demo_running w \<and> c \<in> set (cl_canaries w) \<and> progress c = CanaryProgress_Cleanup"
proof -
  obtain d where d: "krane_reaches (\<lambda>_. None) demo_running (concluded demo_canary demo_vs 0 0 d demo_running)"
    "sameness demo_canary d" "progress d = CanaryProgress_Cleanup"
    by (rule canary_concludes [OF demo_startable])
  have "d \<in> set (cl_canaries (concluded demo_canary demo_vs 0 0 d demo_running))"
    using d(2) by (simp add: concluded_def put_vs_def drop_deployment_def put_at_def sameness_def demo_running_def demo_cluster_def)
  with d show ?thesis by blast
qed

text \<open>
  C35. In every cluster that the two controllers and the others can bring about, starting without
  any progress, the phases of a canary are gated: past Testing the test has succeeded, past the
  phase Canary the traffic was split and the judge has spoken, in Cleanup the verdict has been
  reported. The others may do anything between two calls except writing the status of a canary.
\<close>

theorem phases_are_gated:
  assumes "krane_reaches jf w0 w" "list_all (\<lambda>c. cn_Status c = zeroStatus) (cl_canaries w0)" "c \<in> set (cl_canaries w)"
  shows "(progress c \<in> {CanaryProgress_Canary, CanaryProgress_Reporting, CanaryProgress_Cleanup} \<longrightarrow>
      ph_Status (cst_Testing (cn_Status c)) = CanaryPhaseStatus_Success) \<and>
    (progress c \<in> {CanaryProgress_Reporting, CanaryProgress_Cleanup} \<longrightarrow>
      ph_Status (cst_Canary (cn_Status c)) = CanaryPhaseStatus_Success \<and>
      ph_Status (cst_Judging (cn_Status c)) \<in> {CanaryPhaseStatus_Success, CanaryPhaseStatus_Failure}) \<and>
    (progress c = CanaryProgress_Cleanup \<longrightarrow> ph_Status (cst_Reporting (cn_Status c)) = CanaryPhaseStatus_Success)"
proof -
  have "gated_cluster w0" using assms(2) by (auto simp: gated_cluster_def list_all_iff)
  from reaches_gated [OF assms(1) this] assms(3) show ?thesis
    by (auto simp: gated_cluster_def gated_def)
qed

theorem phases_are_gated_witness:
  "\<exists>w c. krane_reaches (\<lambda>_. None) demo_running w \<and> c \<in> set (cl_canaries w) \<and> progress c = CanaryProgress_Cleanup \<and>
     ph_Status (cst_Testing (cn_Status c)) = CanaryPhaseStatus_Success"
proof -
  obtain w c where w: "krane_reaches (\<lambda>_. None) demo_running w" "c \<in> set (cl_canaries w)" "progress c = CanaryProgress_Cleanup"
    using demo_concludes by blast
  moreover have "list_all (\<lambda>c. cn_Status c = zeroStatus) (cl_canaries demo_running)"
    by (simp add: demo_running_def demo_cluster_def demo_canary_def createCanaryConfig_def)
  ultimately show ?thesis using phases_are_gated [OF w(1) _ w(2)] by auto
qed

text \<open>
  C36. Irreversible steps are earned: in every such cluster, a run of the canary controller that
  updates a virtual service does so for a canary that has passed its test, and a run that deletes
  a deployment deletes the one of a canary that has passed its test, was judged and reported.
\<close>

theorem destructive_steps_are_earned:
  assumes "krane_reaches jf w0 w" "list_all (\<lambda>c. cn_Status c = zeroStatus) (cl_canaries w0)"
    and "\<And>i v. respects_status v (env i v)" "nonempty_key nn"
    and "ReconcileCanary_Reconcile jf \<lparr>client = logging (interfering env fakeClient), scheme = sc\<rparr> nn ((w, n), []) = (r, (s, k))"
  shows "((VUpdate, KVirtualService vs) \<in> set k \<longrightarrow> (\<exists>c\<in>set (cl_canaries (env n w)). metaKey (cn_Meta c) = nn \<and>
      ph_Status (cst_Testing (cn_Status c)) = CanaryPhaseStatus_Success)) \<and>
    ((VDelete, KDeployment d) \<in> set k \<longrightarrow> (\<exists>c\<in>set (cl_canaries (env n w)). metaKey (cn_Meta c) = nn \<and>
      (nonempty_key (canary_deployment_key c) \<longrightarrow> metaKey (dp_Meta d) = canary_deployment_key c) \<and>
      ph_Status (cst_Testing (cn_Status c)) = CanaryPhaseStatus_Success \<and>
      ph_Status (cst_Judging (cn_Status c)) \<in> {CanaryPhaseStatus_Success, CanaryPhaseStatus_Failure} \<and>
      ph_Status (cst_Reporting (cn_Status c)) = CanaryPhaseStatus_Success))"
proof -
  let ?C = "interfering env fakeClient"
  obtain g where g: "api_get (canaries fakeClient) nn (env n w) = (g, env n w)"
    by (simp add: fake_api_def)
  then have get: "api_get (canaries ?C) nn (w, n) = (g, (env n w, Suc n))"
    by (simp add: interfering_def interfere_api_def interfere_def)
  show ?thesis
  proof (cases g)
    case (Inl e)
    then show ?thesis using canary_run_idle [of ?C nn "(w, n)" e "(env n w, Suc n)" jf sc] get assms(5) by auto
  next
    case (Inr c)
    have c: "c \<in> set (cl_canaries (env n w))" "metaKey (cn_Meta c) = nn"
      using g Inr fake_get_member fakeClient_keyed assms(4) unfolding keyed_gets_def by blast+
    have "gated_cluster w0" using assms(2) by (auto simp: gated_cluster_def list_all_iff)
    then have "gated (cn_Status c)"
      using respects_gated [OF assms(3) reaches_gated [OF assms(1)]] c(1) by (auto simp: gated_cluster_def)
    moreover obtain k1 t where "k = k1 @ t" "list_all (phase_write c) k1"
      "t = [] \<or> (\<exists>d. in_phase c d \<and> phase_done (cn_Status d) \<and> t = [(VUpdateStatus, KCanary (advance d))])"
      using canary_run_log [of ?C nn "(w, n)" c "(env n w, Suc n)" jf sc] get Inr assms(4,5)
        interfering_keyed [OF fakeClient_keyed, of env] interfering_echo [OF fakeClient_echo, of env] by auto
    moreover from this have "progress c \<in> {CanaryProgress_Canary, CanaryProgress_Cleanup}" if "(VUpdate, KVirtualService vs) \<in> set k"
      using that by (auto simp: list_all_iff)
    moreover from calculation have "progress c = CanaryProgress_Cleanup \<and>
        (nonempty_key (canary_deployment_key c) \<longrightarrow> metaKey (dp_Meta d) = canary_deployment_key c)"
      if "(VDelete, KDeployment d) \<in> set k"
      using that by (auto simp: list_all_iff)
    ultimately show ?thesis using c unfolding gated_def by blast
  qed
qed

text \<open>
  In the life of the demo canary there is a run that reroutes, since the virtual service changes,
  and one that deletes the deployment.
\<close>

lemma first_change:
  assumes "f ((g ^^ n) y) \<noteq> f y"
  shows "\<exists>i. f (g ((g ^^ i) y)) \<noteq> f ((g ^^ i) y)"
  using assms
proof (induction n)
  case (Suc n)
  then show ?case by (cases "f ((g ^^ n) y) = f y") (auto intro: exI [of _ n])
qed simp

lemma demo_life_changes:
  fixes f :: "Cluster \<Rightarrow> 'a"
  assumes "\<And>v. f (jobs_exit demo_canary 0 0 v) = f v"
    and "\<And>d. f (concluded demo_canary demo_vs 0 0 d demo_running) \<noteq> f demo_running"
  obtains w where "krane_reaches (\<lambda>_. None) demo_running w"
    "f (round (\<lambda>_. None) inMemory (metaKey (cn_Meta demo_canary)) w) \<noteq> f w"
proof -
  let ?nn = "metaKey (cn_Meta demo_canary)"
  let ?round = "round (\<lambda>_. None) inMemory ?nn"
  let ?y = "jobs_exit demo_canary 0 0 ((?round ^^ 3) demo_running)"
  have nn: "nonempty_key ?nn" by (simp add: nonempty_key_def demo_meta)
  obtain d where d: "(?round ^^ 5) ?y = concluded demo_canary demo_vs 0 0 d demo_running"
    by (rule canary_concludes [OF demo_startable])
  note reach = rounds_reach [OF nn, of "\<lambda>_. None"]
  have y: "krane_reaches (\<lambda>_. None) demo_running ?y"
    by (rule reaches_trans [OF reach exit_reaches])
  have "f ((?round ^^ 5) ?y) \<noteq> f demo_running" unfolding d by (rule assms(2))
  then consider "f ((?round ^^ 5) ?y) \<noteq> f ?y" | "f ((?round ^^ 3) demo_running) \<noteq> f demo_running"
    using assms(1) by metis
  then show ?thesis
  proof cases
    case 1
    from first_change [OF this] obtain i where "f (?round ((?round ^^ i) ?y)) \<noteq> f ((?round ^^ i) ?y)" ..
    with that reaches_trans [OF y reach] show ?thesis by blast
  next
    case 2
    from first_change [OF this] obtain i where "f (?round ((?round ^^ i) demo_running)) \<noteq> f ((?round ^^ i) demo_running)" ..
    with that reach show ?thesis by blast
  qed
qed

theorem destructive_steps_are_earned_witness:
  "(\<exists>w r s k vs. krane_reaches (\<lambda>_. None) demo_running w \<and>
     ReconcileCanary_Reconcile (\<lambda>_. None) \<lparr>client = logging (interfering idle fakeClient), scheme = kraneScheme\<rparr>
       (metaKey (cn_Meta demo_canary)) ((w, 0), []) = (r, (s, k)) \<and> (VUpdate, KVirtualService vs) \<in> set k \<and>
     (\<exists>c\<in>set (cl_canaries w). ph_Status (cst_Testing (cn_Status c)) = CanaryPhaseStatus_Success)) \<and>
   (\<exists>w r s k d. krane_reaches (\<lambda>_. None) demo_running w \<and>
     ReconcileCanary_Reconcile (\<lambda>_. None) \<lparr>client = logging (interfering idle fakeClient), scheme = kraneScheme\<rparr>
       (metaKey (cn_Meta demo_canary)) ((w, 0), []) = (r, (s, k)) \<and> (VDelete, KDeployment d) \<in> set k \<and>
     (\<exists>c\<in>set (cl_canaries w). ph_Status (cst_Testing (cn_Status c)) = CanaryPhaseStatus_Success \<and>
       ph_Status (cst_Judging (cn_Status c)) \<in> {CanaryPhaseStatus_Success, CanaryPhaseStatus_Failure} \<and>
       ph_Status (cst_Reporting (cn_Status c)) = CanaryPhaseStatus_Success))"
proof
  let ?nn = "metaKey (cn_Meta demo_canary)"
  let ?round = "round (\<lambda>_. None) inMemory ?nn"
  let ?logged = "\<lambda>w. ReconcileCanary_Reconcile (\<lambda>_. None) \<lparr>client = logging (interfering idle fakeClient), scheme = kraneScheme\<rparr> ?nn ((w, 0), [])"
  have nn: "nonempty_key ?nn" by (simp add: nonempty_key_def demo_meta)
  have zero: "list_all (\<lambda>c. cn_Status c = zeroStatus) (cl_canaries demo_running)"
    by (simp add: demo_running_def demo_cluster_def demo_meta)
  note earned = destructive_steps_are_earned [OF _ zero, where env = idle, OF _ respects_refl nn]
  have log: "\<exists>r s k. ?logged w = (r, (s, k)) \<and>
      (cl_virtualservices (?round w) \<noteq> cl_virtualservices w \<longrightarrow> (\<exists>vs. (VUpdate, KVirtualService vs) \<in> set k)) \<and>
      (cl_deployments (?round w) \<noteq> cl_deployments w \<longrightarrow> (\<exists>d. (VDelete, KDeployment d) \<in> set k))" for w
  proof -
    obtain r u where run: "ReconcileCanary_Reconcile (\<lambda>_. None) inMemory ?nn w = (r, u)" by fastforce
    then have "u = ?round w" by (simp add: round_def)
    with run_changes [OF nn run] show ?thesis by metis
  qed
  have end_vs: "cl_virtualservices (concluded demo_canary demo_vs 0 0 d demo_running) \<noteq> cl_virtualservices demo_running" for d
  proof -
    have "route_weight (hr_Route demo_http ! 0) \<noteq> 0" by (simp add: demo_weight)
    from concluded_weighted [OF demo_startable this] show ?thesis
      using demo_vs_read(2) by (simp add: put_at_def demo_running_def demo_cluster_def demo_vs_def)
  qed
  have end_dp: "cl_deployments (concluded demo_canary demo_vs 0 0 d demo_running) \<noteq> cl_deployments demo_running" for d
  proof -
    have "demo_deployment \<notin> set (cl_deployments (concluded demo_canary demo_vs 0 0 d demo_running))"
      by (simp add: concluded_def remove_key_def demo_meta)
    moreover have "demo_deployment \<in> set (cl_deployments demo_running)" by (simp add: demo_running_def)
    ultimately show ?thesis by metis
  qed
  obtain w where w: "krane_reaches (\<lambda>_. None) demo_running w" "cl_virtualservices (?round w) \<noteq> cl_virtualservices w"
    by (rule demo_life_changes [where f = cl_virtualservices]) (simp_all add: jobs_exit_def end_vs)
  obtain r s k where k: "?logged w = (r, (s, k))" "\<exists>vs. (VUpdate, KVirtualService vs) \<in> set k"
    using log [of w] w(2) by blast
  show "\<exists>w r s k vs. krane_reaches (\<lambda>_. None) demo_running w \<and> ?logged w = (r, (s, k)) \<and> (VUpdate, KVirtualService vs) \<in> set k \<and>
     (\<exists>c\<in>set (cl_canaries w). ph_Status (cst_Testing (cn_Status c)) = CanaryPhaseStatus_Success)"
    using w(1) k earned [OF w(1) k(1)] by blast
  obtain w where w: "krane_reaches (\<lambda>_. None) demo_running w" "cl_deployments (?round w) \<noteq> cl_deployments w"
    by (rule demo_life_changes [where f = cl_deployments]) (simp_all add: jobs_exit_def end_dp)
  obtain r s k where k: "?logged w = (r, (s, k))" "\<exists>d. (VDelete, KDeployment d) \<in> set k"
    using log [of w] w(2) by blast
  show "\<exists>w r s k d. krane_reaches (\<lambda>_. None) demo_running w \<and> ?logged w = (r, (s, k)) \<and> (VDelete, KDeployment d) \<in> set k \<and>
     (\<exists>c\<in>set (cl_canaries w). ph_Status (cst_Testing (cn_Status c)) = CanaryPhaseStatus_Success \<and>
       ph_Status (cst_Judging (cn_Status c)) \<in> {CanaryPhaseStatus_Success, CanaryPhaseStatus_Failure} \<and>
       ph_Status (cst_Reporting (cn_Status c)) = CanaryPhaseStatus_Success)"
    using w(1) k earned [OF w(1) k(1)] by blast
qed

text \<open>
  C37. A run of the canary controller moves no canary but the one it was asked for, and that one by
  at most one phase and never back, whatever the others do between its calls as long as they
  leave the progress of canaries alone.
\<close>

theorem one_phase_per_run:
  assumes "consistent w" "nonempty_key nn" "\<And>i v. consistent v \<Longrightarrow> keeps_progress v (env i v)"
    and "canary_at w k = Some c"
  shows "\<exists>c'. canary_at (fst (snd (ReconcileCanary_Reconcile jf \<lparr>client = interfering env fakeClient, scheme = sc\<rparr> nn (w, n)))) k = Some c' \<and>
    (progress c' = progress c \<or> k = nn \<and> progress c' = next_progress (progress c))"
proof -
  obtain r s where "ReconcileCanary_Reconcile jf \<lparr>client = interfering env fakeClient, scheme = sc\<rparr> nn (w, n) = (r, s)"
    by (metis prod.collapse)
  with canary_run_moves [OF assms(1-3) this] assms(4) show ?thesis by (simp add: moves_on_def)
qed

theorem one_phase_per_run_witness:
  "\<exists>c'. canary_at (fst (snd (ReconcileCanary_Reconcile (\<lambda>_. None)
      \<lparr>client = interfering (\<lambda>_ v. v\<lparr>cl_pods := []\<rparr>) fakeClient, scheme = kraneScheme\<rparr>
      (metaKey (cn_Meta demo_canary)) (demo_running, 0)))) (metaKey (cn_Meta demo_canary)) = Some c' \<and>
    progress c' \<in> {CanaryProgress_Unset, CanaryProgress_Initializing}"
proof -
  let ?nn = "metaKey (cn_Meta demo_canary)"
  have "consistent demo_running" "canary_at demo_running (metaKey (cn_Meta demo_canary)) = Some demo_canary"
    using demo_tracked by (simp_all add: tracked_def)
  moreover have keeps: "keeps_progress v (v\<lparr>cl_pods := []\<rparr>)" if "consistent v" for v
    using that by (simp add: keeps_progress_def consistent_def)
  moreover have "nonempty_key ?nn" by (simp add: nonempty_key_def demo_meta)
  moreover have "progress demo_canary = CanaryProgress_Unset"
    by (simp add: demo_canary_def createCanaryConfig_def zeroStatus_def)
  ultimately show ?thesis
    using one_phase_per_run [of demo_running ?nn "\<lambda>_ v. v\<lparr>cl_pods := []\<rparr>" ?nn demo_canary "\<lambda>_. None" kraneScheme 0]
    by (simp add: keeps)
qed

subsection \<open>Events and start-up\<close>

text \<open>
  C38. Creation, change and deletion of a test or judge pod become requests for its canary and for
  nothing else; the deployment controller does not see them.
\<close>

theorem job_pods_wake_their_canary:
  assumes "CreateTestJob inMemory c p = Ok pod \<or> CreateJudgeJob jf inMemory c p = Ok pod"
    and "om_Namespace new = om_Namespace (pod_Meta pod)" "om_OwnerReferences new = om_OwnerReferences (pod_Meta pod)"
  shows "controller_requests kraneScheme canary_watches WatchPod (CreateEvent new) = [metaKey (cn_Meta c)] \<and>
    controller_requests kraneScheme canary_watches WatchPod (UpdateEvent (pod_Meta pod) new) = [metaKey (cn_Meta c), metaKey (cn_Meta c)] \<and>
    controller_requests kraneScheme canary_watches WatchPod (DeleteEvent new) = [metaKey (cn_Meta c)] \<and>
    controller_requests kraneScheme deployment_watches WatchPod ev = []"
proof -
  note pod = job_pod_requests [OF assms(1)]
  then have "getOwnerReconcileRequest \<lparr>gvk_Group = ''krane.sh'', gvk_Version = ''v1'', gvk_Kind = ''Canary''\<rparr> True new = [metaKey (cn_Meta c)]"
    using assms(2,3) by (simp add: getOwnerReconcileRequest_def getOwnersReferences_def)
  with pod show ?thesis by (simp add: canary_watches_def deployment_watches_def)
qed

theorem job_pods_wake_their_canary_witness:
  "\<exists>pod. CreateTestJob inMemory demo_canary demo_policy = Ok pod \<and>
     controller_requests kraneScheme canary_watches WatchPod (DeleteEvent (pod_Meta pod)) = [metaKey (cn_Meta demo_canary)]"
proof -
  obtain pod where pod: "CreateTestJob inMemory demo_canary demo_policy = Ok pod" using krane.created_jobs by blast
  then show ?thesis using job_pods_wake_their_canary [of demo_canary demo_policy pod "\<lambda>_. None" "pod_Meta pod"] by auto
qed

text \<open>
  C39. \<open>main\<close> makes its steps in order: namespace, configuration, leadership, manager, the two API
  groups, the deployment controller with its watch, the canary controller with its two watches,
  metrics, start. It stops with exit code 1 at the first that fails, except that a missing
  namespace is replaced by \<open>krane\<close> and a failure to expose the metrics is ignored.
\<close>

theorem startup_in_order:
  "manager_main (recording fails ns) l =
     (let steps = startup_order (if fails ReadNamespace = None then ns else ''krane'') in
      (Ok (fst (run_order fails steps)), l @ snd (run_order fails steps)))"
  using manager_main_follows [of fails ns] by (simp add: follows_def Let_def)

subsection \<open>Namespaces\<close>

text \<open>
  C40. Runs stay in the namespace of their request: both controllers leave all objects of other
  namespaces as they are, whatever the others do inside the namespace between two calls.
\<close>

theorem runs_stay_in_their_namespace:
  assumes "nn_Namespace nn = ns" "ns \<noteq> []" "\<And>i v. outside ns (env i v) = outside ns v"
  shows "outside ns (fst (snd (ReconcileCanary_Reconcile jf \<lparr>client = interfering env fakeClient, scheme = sc\<rparr> nn (w, n)))) = outside ns w \<and>
    outside ns (fst (snd (ReconcileDeployment_Reconcile \<lparr>client = interfering env fakeClient, scheme = sc\<rparr> nn (w, n)))) = outside ns w"
proof
  show "outside ns (fst (snd (ReconcileCanary_Reconcile jf \<lparr>client = interfering env fakeClient, scheme = sc\<rparr> nn (w, n)))) = outside ns w"
    using canary_run_outside [OF assms(1,2), where s = "(w, n)" and J = "\<lambda>u. u = outside ns w", of jf env sc] assms(3)
    by (metis fst_conv prod.collapse)
  show "outside ns (fst (snd (ReconcileDeployment_Reconcile \<lparr>client = interfering env fakeClient, scheme = sc\<rparr> nn (w, n)))) = outside ns w"
    using deployment_run_outside [OF assms(1,2), where s = "(w, n)" and J = "\<lambda>u. u = outside ns w", of env sc] assms(3)
    by (metis fst_conv prod.collapse)
qed

theorem runs_stay_in_their_namespace_witness:
  "outside ''ns'' (fst (snd (ReconcileDeployment_Reconcile \<lparr>client = interfering idle fakeClient, scheme = kraneScheme\<rparr>
     (metaKey (dp_Meta demo_deployment)) (demo_cluster, 0)))) = outside ''ns'' demo_cluster"
  using runs_stay_in_their_namespace [of "metaKey (dp_Meta demo_deployment)" "''ns''" idle]
  by (simp add: demo_meta)

end
